(* ===== verification/Hoh_Prelude.thy ===== *)
theory Hoh_Prelude
  imports Main "HOL-Library.Word" "HOL-Library.Monad_Syntax"
begin

text \<open>
  The prelude of the development: how the Go constructs that the components share are
  written in HOL, and the lemmas about them.

  \<^item> A nil pointer or nil interface is \<^const>\<open>None\<close>, a pointer to a value is \<^const>\<open>Some\<close>.
  \<^item> A Go run-time panic (nil dereference, index out of range) ends the goroutine, so a
    function that may panic returns an option: \<^const>\<open>None\<close> is the panic, and the do-notation of
    \<open>Monad_Syntax\<close> threads it. A Go \<open>error\<close> is not a panic; it is a value of a sum type.
  \<^item> \<open>int\<close> and \<open>int64\<close> are \<^typ>\<open>int\<close> with the wrap-around written out by \<open>wrap64\<close>;
    \<open>uint64\<close> is \<open>64 word\<close>.
  \<^item> A Go map is a HOL map. The order in which \<open>range\<close> visits a map (or the golang-set library
    visits a set) is not specified, so it is an argument: a function that turns a finite set into
    a list of its elements, with the hypothesis \<open>enumerates\<close>.
  \<^item> Memory that two goroutines share by pointer is a list of cells addressed by index.
\<close>

named_theorems go_simps \<open>unfoldings of the Go primitives used by the components\<close>
named_theorems panic_free \<open>conditions under which an operation does not panic\<close>

section \<open>Machine integers\<close>

definition wrap64 :: "int \<Rightarrow> int" where
  "wrap64 x = (x + 2 ^ 63) mod 2 ^ 64 - 2 ^ 63"

definition in_int64 :: "int \<Rightarrow> bool" where
  "in_int64 x \<longleftrightarrow> - (2 ^ 63) \<le> x \<and> x < 2 ^ 63"

text \<open>Go's \<open>/\<close> on signed integers rounds the quotient towards zero.\<close>

definition go_quot :: "int \<Rightarrow> int \<Rightarrow> int" where
  "go_quot num den =
     (let q = abs num div abs den in if (num < 0) = (den < 0) then q else - q)"

lemma wrap64_id [simp]: "in_int64 x \<Longrightarrow> wrap64 x = x"
  by (simp add: wrap64_def in_int64_def)

lemma in_int64_wrap64 [simp]: "in_int64 (wrap64 x)"
  using pos_mod_sign [of "2 ^ 64" "x + 2 ^ 63"] pos_mod_bound [of "2 ^ 64" "x + 2 ^ 63"] by (simp add: wrap64_def in_int64_def)

lemma wrap64_succ: "in_int64 x \<Longrightarrow> x \<noteq> 2 ^ 63 - 1 \<Longrightarrow> wrap64 (x + 1) = x + 1"
  by (rule wrap64_id) (auto simp: in_int64_def)

section \<open>Strings\<close>

text \<open>\<open>strings.Split\<close> with a one-character separator: n separators give n + 1 pieces.\<close>

fun split_on :: "char \<Rightarrow> string \<Rightarrow> string list" where
  "split_on c [] = [[]]"
| "split_on c (x # xs) =
     (if x = c then [] # split_on c xs
      else (case split_on c xs of [] \<Rightarrow> [[x]] | w # ws \<Rightarrow> (x # w) # ws))"

text \<open>The single quote, as a string.\<close>

definition squote :: string where "squote = [CHR 0x27]"

text \<open>The line breaks of a raw string literal: a newline and \<open>n\<close> tabs.\<close>

definition newline_tabs :: "nat \<Rightarrow> string" where
  "newline_tabs n = CHR 0x0A # replicate n (CHR 0x09)"

text \<open>\<open>strings.HasPrefix\<close> and \<open>strings.TrimPrefix\<close>.\<close>

fun has_prefix :: "string \<Rightarrow> string \<Rightarrow> bool" where
  "has_prefix s [] = True"
| "has_prefix [] (p # ps) = False"
| "has_prefix (x # xs) (p # ps) = (x = p \<and> has_prefix xs ps)"

definition trim_prefix :: "string \<Rightarrow> string \<Rightarrow> string" where
  "trim_prefix s p = (if has_prefix s p then drop (length p) s else s)"

text \<open>\<open>strings.Replace(s, old, new, 1)\<close>: the first occurrence only.\<close>

fun replace_first :: "string \<Rightarrow> string \<Rightarrow> string \<Rightarrow> string" where
  "replace_first [] old new = (if old = [] then new else [])"
| "replace_first (x # xs) old new =
     (if has_prefix (x # xs) old then new @ drop (length old) (x # xs)
      else x # replace_first xs old new)"

text \<open>\<open>strconv.Itoa\<close> and the verb \<open>%d\<close>: decimal notation.\<close>

fun digits :: "nat \<Rightarrow> string" where
  "digits n = (if n < 10 then [char_of (48 + n)] else digits (n div 10) @ [char_of (48 + n mod 10)])"

declare digits.simps [simp del]

definition itoa :: "int \<Rightarrow> string" where
  "itoa i = (if i < 0 then CHR ''-'' # digits (nat (- i)) else digits (nat i))"

lemma split_on_ne [simp]: "split_on c s \<noteq> []"
  by (induction s) (auto split: list.splits)

lemma split_on_no_sep: "c \<notin> set s \<Longrightarrow> split_on c s = [s]"
  by (induction s) auto

lemma split_on_append: "c \<notin> set s \<Longrightarrow> split_on c (s @ c # t) = s # split_on c t"
  by (induction s) auto

lemma set_last_split_on: "w \<in> set (split_on c s) \<Longrightarrow> c \<notin> set w"
proof (induction s arbitrary: w)
  case (Cons x xs)
  then show ?case by (cases "split_on c xs") (auto split: if_splits)
qed simp

lemma has_prefix_iff: "has_prefix s p \<longleftrightarrow> (\<exists>t. s = p @ t)"
  by (induction s p rule: has_prefix.induct) auto

lemma trim_prefix_append [simp]: "trim_prefix (p @ s) p = s"
  by (simp add: trim_prefix_def has_prefix_iff)

lemma digits_ne [simp]: "digits n \<noteq> []"
  by (subst digits.simps) simp

definition digit_value :: "string \<Rightarrow> nat" where
  "digit_value s = foldl (\<lambda>a c. 10 * a + (of_char c - 48)) 0 s"

lemma of_char_digit: "n < 10 \<Longrightarrow> of_char (char_of (48 + n) :: char) = (48 + n :: nat)"
  by simp

lemma digit_value_snoc: "digit_value (s @ [c]) = 10 * digit_value s + (of_char c - 48)"
  by (simp add: digit_value_def)

lemma digit_value_digits [simp]: "digit_value (digits n) = n"
proof (induction n rule: digits.induct)
  case (1 n)
  then show ?case
    by (subst digits.simps) (auto simp: digit_value_snoc, simp add: digit_value_def)
qed

lemma digits_inject [simp]: "digits m = digits n \<longleftrightarrow> m = n"
  by (metis digit_value_digits)

lemma digits_range: "c \<in> set (digits n) \<Longrightarrow> 48 \<le> (of_char c :: nat) \<and> of_char c < (58 :: nat)"
proof (induction n rule: digits.induct)
  case (1 n)
  show ?case
  proof (cases "n < 10")
    case True
    then show ?thesis using "1.prems" by (subst (asm) digits.simps) auto
  next
    case False
    then show ?thesis using "1" by (subst (asm) (2) digits.simps) auto
  qed
qed

lemma digits_no_dot: "CHR ''.'' \<notin> set (digits n)" and digits_no_minus: "CHR ''-'' \<notin> set (digits n)"
  using digits_range [of "CHR ''.''" n] digits_range [of "CHR ''-''" n] by auto

lemma itoa_inject [simp]: "itoa i = itoa j \<longleftrightarrow> i = j"
proof -
  have "digits m \<noteq> CHR ''-'' # s" for m s
    using digits_no_minus [of m] by auto
  then show ?thesis by (auto simp: itoa_def dest: sym)
qed

section \<open>Unspecified iteration order\<close>

definition enumerates :: "('a set \<Rightarrow> 'a list) \<Rightarrow> bool" where
  "enumerates enum \<longleftrightarrow> (\<forall>S. finite S \<longrightarrow> set (enum S) = S \<and> distinct (enum S))"

lemma enumerates_set [simp]: "enumerates enum \<Longrightarrow> finite S \<Longrightarrow> set (enum S) = S"
  by (simp add: enumerates_def)

lemma enumerates_distinct [simp]: "enumerates enum \<Longrightarrow> finite S \<Longrightarrow> distinct (enum S)"
  by (simp add: enumerates_def)

lemma enumerates_sorted: "enumerates (sorted_list_of_set :: 'a::linorder set \<Rightarrow> 'a list)"
  by (simp add: enumerates_def)

section \<open>Shared memory cells\<close>

text \<open>A cell is addressed by its index; allocation appends, so an address once handed out stays
  valid. Reading or writing an address that was never handed out would be a nil dereference.\<close>

type_synonym addr = nat

definition deref :: "'a list \<Rightarrow> addr \<Rightarrow> 'a option" where
  "deref h a = (if a < length h then Some (h ! a) else None)"

definition set_cell :: "'a list \<Rightarrow> addr \<Rightarrow> 'a \<Rightarrow> 'a list option" where
  "set_cell h a x = (if a < length h then Some (h[a := x]) else None)"

lemma deref_Some [simp]: "deref h a = Some x \<longleftrightarrow> a < length h \<and> h ! a = x"
  by (simp add: deref_def)

lemma deref_None [simp]: "deref h a = None \<longleftrightarrow> length h \<le> a"
  by (auto simp: deref_def)

lemma set_cell_Some [simp]: "set_cell h a x = Some h' \<longleftrightarrow> a < length h \<and> h' = h[a := x]"
  by (auto simp: set_cell_def)

lemma set_cell_None [simp]: "set_cell h a x = None \<longleftrightarrow> length h \<le> a"
  by (auto simp: set_cell_def)

lemma deref_lt: "a < length h \<Longrightarrow> deref h a = Some (h ! a)"
  by simp

lemma set_cell_lt: "a < length h \<Longrightarrow> set_cell h a x = Some (h[a := x])"
  by simp

lemmas cells [go_simps] = deref_lt set_cell_lt

lemma bind_Some_iff: "(m \<bind> f) = Some y \<longleftrightarrow> (\<exists>x. m = Some x \<and> f x = Some y)"
  by (cases m) auto

lemma map_sum_eq_Inr [simp]: "map_sum f g x = Inr y \<longleftrightarrow> (\<exists>z. x = Inr z \<and> y = g z)"
  by (cases x) auto

end
