(* ===== verification/Bundle_Version.thy ===== *)
theory Bundle_Version
  imports Hoh_Prelude
begin

text \<open>
  \<open>pkg/bundle/status/bundle_version.go\<close>: the version a leaf hub stamps on every status bundle.
  A \<open>*BundleVersion\<close> is an option; the methods panic where Go dereferences nil. The comparison of
  the code is shown to be the strict part of a linear order (incarnation first), which is what every
  consumer of versions relies on.
\<close>

datatype bundle_version = BundleVersion (Incarnation: "64 word") (Generation: "64 word")

definition NewBundleVersion :: "64 word \<Rightarrow> 64 word \<Rightarrow> bundle_version option" where
  "NewBundleVersion incarnation generation = Some (BundleVersion incarnation generation)"

definition NewerThan :: "bundle_version option \<Rightarrow> bundle_version option \<Rightarrow> bool option" where
  "NewerThan version other_ptr =
     (case other_ptr of
        None \<Rightarrow> Some True
      | Some other \<Rightarrow> do {
          v \<leftarrow> version;
          Some (if Incarnation v = Incarnation other then Generation other < Generation v
                else Incarnation other < Incarnation v) })"

definition Equals :: "bundle_version option \<Rightarrow> bundle_version option \<Rightarrow> bool option" where
  "Equals version other_ptr = do {
     v \<leftarrow> version;
     w \<leftarrow> other_ptr;
     Some (Incarnation v = Incarnation w \<and> Generation v = Generation w) }"

definition version_String :: "bundle_version option \<Rightarrow> string option" where
  "version_String version = do {
     v \<leftarrow> version;
     Some (digits (unat (Incarnation v)) @ ''.'' @ digits (unat (Generation v))) }"

section \<open>Versions are linearly ordered\<close>

instantiation bundle_version :: linorder
begin

definition less_bundle_version :: "bundle_version \<Rightarrow> bundle_version \<Rightarrow> bool" where
  "v < w \<longleftrightarrow> Incarnation v < Incarnation w \<or>
     Incarnation v = Incarnation w \<and> Generation v < Generation w"

definition less_eq_bundle_version :: "bundle_version \<Rightarrow> bundle_version \<Rightarrow> bool" where
  "v \<le> w \<longleftrightarrow> v < w \<or> v = (w :: bundle_version)"

instance
proof
  fix v w x :: bundle_version
  show "v < w \<longleftrightarrow> v \<le> w \<and> \<not> w \<le> v"
    by (cases v; cases w) (auto simp: less_bundle_version_def less_eq_bundle_version_def)
  show "v \<le> v" by (simp add: less_eq_bundle_version_def)
  show "v \<le> w \<Longrightarrow> w \<le> x \<Longrightarrow> v \<le> x"
    by (cases v; cases w; cases x) (auto simp: less_bundle_version_def less_eq_bundle_version_def)
  show "v \<le> w \<Longrightarrow> w \<le> v \<Longrightarrow> v = w"
    by (cases v; cases w) (auto simp: less_bundle_version_def less_eq_bundle_version_def)
  show "v \<le> w \<or> w \<le> v"
    by (cases v; cases w) (auto simp: less_bundle_version_def less_eq_bundle_version_def)
qed

end

lemma NewerThan_nil [simp]: "NewerThan v None = Some True"
  by (simp add: NewerThan_def)

lemma NewerThan_Some [simp]: "NewerThan (Some v) (Some w) = Some (w < v)"
  by (cases v; cases w) (auto simp: NewerThan_def less_bundle_version_def)

lemma NewerThan_panic [simp]: "NewerThan None (Some w) = None"
  by (simp add: NewerThan_def)

lemma Equals_Some [simp]: "Equals (Some v) (Some w) = Some (v = w)"
  by (cases v; cases w) (auto simp: Equals_def)

lemma Equals_panic [simp]: "Equals None w = None" "Equals v None = None"
  by (cases v; simp add: Equals_def)+

lemma NewerThan_eq_Some:
  "NewerThan v w = Some r \<longleftrightarrow>
     (case w of None \<Rightarrow> r | Some w' \<Rightarrow> (\<exists>v'. v = Some v' \<and> r = (w' < v')))"
  by (cases v; cases w) auto

lemma Equals_eq_Some:
  "Equals v w = Some r \<longleftrightarrow> (\<exists>v' w'. v = Some v' \<and> w = Some w' \<and> r = (v' = w'))"
  by (cases v; cases w) auto

lemma zero_version_least: "BundleVersion 0 0 \<le> v"
  by (cases v) (auto simp: less_eq_bundle_version_def less_bundle_version_def word_gt_0)

lemma version_String_inject:
  "version_String (Some v) = version_String (Some w) \<longleftrightarrow> v = w"
proof
  assume "version_String (Some v) = version_String (Some w)"
  then have "split_on CHR ''.'' (the (version_String (Some v))) =
      split_on CHR ''.'' (the (version_String (Some w)))" by simp
  then show "v = w"
    by (cases v; cases w)
       (simp add: version_String_def split_on_append digits_no_dot split_on_no_sep word_unat_eq_iff)
qed simp

end
