(* ===== verification/Bundles.thy ===== *)
theory Bundles
  imports Bundle_Version
begin

text \<open>
  \<open>pkg/bundle/status\<close> and \<open>pkg/statussyncer/transport2db/bundle\<close>: the status bundles that leaf hubs
  send, the Go interfaces \<open>Bundle\<close> and \<open>DependantBundle\<close> over them, and the name of a bundle's
  concrete type (\<open>helpers.GetBundleType\<close>). A Go interface value is a value of the datatype
  \<open>status_bundle\<close>, one constructor per concrete struct; a type assertion is a case distinction. Kubernetes
  objects come from packages outside the repository: of them only the metadata the code reads is
  kept, and the rest of the object is an uninterpreted string.
\<close>

section \<open>Kubernetes objects\<close>

record k8s_object =
  obj_Name :: string
  obj_Namespace :: string
  obj_UID :: string
  obj_ResourceVersion :: string
  obj_Annotations :: "(string \<times> string) list"
  obj_content :: string

text \<open>The annotation that carries the UID of an object on the hub of hubs.\<close>

definition OriginOwnerReferenceAnnotation :: string where
  "OriginOwnerReferenceAnnotation = ''hub-of-hubs.open-cluster-management.io/originOwnerReferenceUid''"

section \<open>The objects inside bundles\<close>

record policy_generic_status =
  gs_PolicyID :: string
  gs_CompliantClusters :: "string list"
  gs_NonCompliantClusters :: "string list"
  gs_UnknownComplianceClusters :: "string list"

record policy_complete_status =
  cs_PolicyID :: string
  cs_NonCompliantClusters :: "string list"
  cs_UnknownComplianceClusters :: "string list"

record minimal_policy_status =
  ms_PolicyID :: string
  ms_RemediationAction :: string
  ms_NonCompliantClusters :: int
  ms_AppliedClusters :: int

datatype bundle_object =
    GenericStatusObject policy_generic_status
  | CompleteStatusObject policy_complete_status
  | MinimalStatusObject minimal_policy_status
  | ManagedClusterObject k8s_object
  | ResourceObject k8s_object

section \<open>The bundles\<close>

record base_bundle =
  bb_LeafHubName :: string
  bb_BundleVersion :: "bundle_version option"

record base_compliance_bundle = base_bundle +
  bb_BaseBundleVersion :: "bundle_version option"

record delta_bundle =
  db_Objects :: "policy_generic_status list"
  db_LeafHubName :: string
  db_BaseBundleVersion :: "bundle_version option"
  db_BundleVersion :: "bundle_version option"

datatype status_bundle =
    ManagedClustersStatusBundle base_bundle "k8s_object list"
  | ClustersPerPolicyBundle base_bundle "policy_generic_status list"
  | CompleteComplianceStatusBundle base_compliance_bundle "policy_complete_status list"
  | DeltaComplianceStatusBundle delta_bundle
  | MinimalComplianceStatusBundle base_bundle "minimal_policy_status list"
  | PlacementRulesBundle base_bundle "k8s_object list"
  | PlacementsBundle base_bundle "k8s_object list"
  | PlacementDecisionsBundle base_bundle "k8s_object list"
  | SubscriptionStatusesBundle base_bundle "k8s_object list"
  | SubscriptionReportsBundle base_bundle "k8s_object list"
  | ControlInfoBundle base_bundle
  | LocalPolicySpecBundle base_bundle "k8s_object list"
  | LocalClustersPerPolicyBundle base_bundle "policy_generic_status list"
  | LocalCompleteComplianceStatusBundle base_compliance_bundle "policy_complete_status list"
  | LocalPlacementRulesBundle base_bundle "k8s_object list"

definition empty_base :: base_bundle where
  "empty_base = \<lparr> bb_LeafHubName = '''', bb_BundleVersion = None \<rparr>"

definition empty_compliance_base :: base_compliance_bundle where
  "empty_compliance_base =
     \<lparr> bb_LeafHubName = '''', bb_BundleVersion = None, bb_BaseBundleVersion = None \<rparr>"

text \<open>The constructors that the db syncers register, each an empty struct for the JSON decoder.\<close>

definition NewManagedClustersStatusBundle :: status_bundle where
  "NewManagedClustersStatusBundle = ManagedClustersStatusBundle empty_base []"

definition NewClustersPerPolicyBundle :: status_bundle where
  "NewClustersPerPolicyBundle = ClustersPerPolicyBundle empty_base []"

definition NewCompleteComplianceStatusBundle :: status_bundle where
  "NewCompleteComplianceStatusBundle = CompleteComplianceStatusBundle empty_compliance_base []"

definition NewDeltaComplianceStatusBundle :: status_bundle where
  "NewDeltaComplianceStatusBundle = DeltaComplianceStatusBundle
     \<lparr> db_Objects = [], db_LeafHubName = '''', db_BaseBundleVersion = None, db_BundleVersion = None \<rparr>"

definition NewMinimalComplianceStatusBundle :: status_bundle where
  "NewMinimalComplianceStatusBundle = MinimalComplianceStatusBundle empty_base []"

definition NewPlacementRulesBundle :: status_bundle where
  "NewPlacementRulesBundle = PlacementRulesBundle empty_base []"

definition NewPlacementsBundle :: status_bundle where
  "NewPlacementsBundle = PlacementsBundle empty_base []"

definition NewPlacementDecisionsBundle :: status_bundle where
  "NewPlacementDecisionsBundle = PlacementDecisionsBundle empty_base []"

definition NewSubscriptionStatusesBundle :: status_bundle where
  "NewSubscriptionStatusesBundle = SubscriptionStatusesBundle empty_base []"

definition NewSubscriptionReportsBundle :: status_bundle where
  "NewSubscriptionReportsBundle = SubscriptionReportsBundle empty_base []"

definition NewControlInfoBundle :: status_bundle where
  "NewControlInfoBundle = ControlInfoBundle empty_base"

definition NewLocalPolicySpecBundle :: status_bundle where
  "NewLocalPolicySpecBundle = LocalPolicySpecBundle empty_base []"

definition NewLocalClustersPerPolicyBundle :: status_bundle where
  "NewLocalClustersPerPolicyBundle = LocalClustersPerPolicyBundle empty_base []"

definition NewLocalCompleteComplianceStatusBundle :: status_bundle where
  "NewLocalCompleteComplianceStatusBundle =
     LocalCompleteComplianceStatusBundle empty_compliance_base []"

definition NewLocalPlacementRulesBundle :: status_bundle where
  "NewLocalPlacementRulesBundle = LocalPlacementRulesBundle empty_base []"

section \<open>The interfaces Bundle and DependantBundle\<close>

text \<open>\<open>LocalClustersPerPolicyBundle\<close> and \<open>LocalCompleteComplianceStatusBundle\<close> embed the struct of
  the non-local bundle and inherit its methods, so their equations are the embedded struct's.\<close>

fun GetLeafHubName :: "status_bundle \<Rightarrow> string" where
  "GetLeafHubName (ManagedClustersStatusBundle b _) = bb_LeafHubName b"
| "GetLeafHubName (ClustersPerPolicyBundle b _) = bb_LeafHubName b"
| "GetLeafHubName (CompleteComplianceStatusBundle b _) = bb_LeafHubName b"
| "GetLeafHubName (DeltaComplianceStatusBundle d) = db_LeafHubName d"
| "GetLeafHubName (MinimalComplianceStatusBundle b _) = bb_LeafHubName b"
| "GetLeafHubName (PlacementRulesBundle b _) = bb_LeafHubName b"
| "GetLeafHubName (PlacementsBundle b _) = bb_LeafHubName b"
| "GetLeafHubName (PlacementDecisionsBundle b _) = bb_LeafHubName b"
| "GetLeafHubName (SubscriptionStatusesBundle b _) = bb_LeafHubName b"
| "GetLeafHubName (SubscriptionReportsBundle b _) = bb_LeafHubName b"
| "GetLeafHubName (ControlInfoBundle b) = bb_LeafHubName b"
| "GetLeafHubName (LocalPolicySpecBundle b _) = bb_LeafHubName b"
| "GetLeafHubName (LocalClustersPerPolicyBundle b _) = bb_LeafHubName b"
| "GetLeafHubName (LocalCompleteComplianceStatusBundle b _) = bb_LeafHubName b"
| "GetLeafHubName (LocalPlacementRulesBundle b _) = bb_LeafHubName b"

fun GetVersion :: "status_bundle \<Rightarrow> bundle_version option" where
  "GetVersion (ManagedClustersStatusBundle b _) = bb_BundleVersion b"
| "GetVersion (ClustersPerPolicyBundle b _) = bb_BundleVersion b"
| "GetVersion (CompleteComplianceStatusBundle b _) = bb_BundleVersion b"
| "GetVersion (DeltaComplianceStatusBundle d) = db_BundleVersion d"
| "GetVersion (MinimalComplianceStatusBundle b _) = bb_BundleVersion b"
| "GetVersion (PlacementRulesBundle b _) = bb_BundleVersion b"
| "GetVersion (PlacementsBundle b _) = bb_BundleVersion b"
| "GetVersion (PlacementDecisionsBundle b _) = bb_BundleVersion b"
| "GetVersion (SubscriptionStatusesBundle b _) = bb_BundleVersion b"
| "GetVersion (SubscriptionReportsBundle b _) = bb_BundleVersion b"
| "GetVersion (ControlInfoBundle b) = bb_BundleVersion b"
| "GetVersion (LocalPolicySpecBundle b _) = bb_BundleVersion b"
| "GetVersion (LocalClustersPerPolicyBundle b _) = bb_BundleVersion b"
| "GetVersion (LocalCompleteComplianceStatusBundle b _) = bb_BundleVersion b"
| "GetVersion (LocalPlacementRulesBundle b _) = bb_BundleVersion b"

text \<open>\<open>GetObjects\<close> of each struct copies the typed slice into a slice of interfaces, element by element.\<close>

definition ManagedClustersStatus_GetObjects :: "k8s_object list \<Rightarrow> bundle_object list" where
  "ManagedClustersStatus_GetObjects objects = map ManagedClusterObject objects"

definition ClustersPerPolicy_GetObjects :: "policy_generic_status list \<Rightarrow> bundle_object list" where
  "ClustersPerPolicy_GetObjects objects = map GenericStatusObject objects"

definition CompleteComplianceStatus_GetObjects :: "policy_complete_status list \<Rightarrow> bundle_object list" where
  "CompleteComplianceStatus_GetObjects objects = map CompleteStatusObject objects"

definition DeltaComplianceStatus_GetObjects :: "policy_generic_status list \<Rightarrow> bundle_object list" where
  "DeltaComplianceStatus_GetObjects objects = map GenericStatusObject objects"

definition MinimalComplianceStatus_GetObjects :: "minimal_policy_status list \<Rightarrow> bundle_object list" where
  "MinimalComplianceStatus_GetObjects objects = map MinimalStatusObject objects"

definition PlacementRules_GetObjects :: "k8s_object list \<Rightarrow> bundle_object list" where
  "PlacementRules_GetObjects objects = map ResourceObject objects"

definition Placements_GetObjects :: "k8s_object list \<Rightarrow> bundle_object list" where
  "Placements_GetObjects objects = map ResourceObject objects"

definition PlacementDecisions_GetObjects :: "k8s_object list \<Rightarrow> bundle_object list" where
  "PlacementDecisions_GetObjects objects = map ResourceObject objects"

definition SubscriptionStatuses_GetObjects :: "k8s_object list \<Rightarrow> bundle_object list" where
  "SubscriptionStatuses_GetObjects objects = map ResourceObject objects"

definition SubscriptionReports_GetObjects :: "k8s_object list \<Rightarrow> bundle_object list" where
  "SubscriptionReports_GetObjects objects = map ResourceObject objects"

definition LocalPolicySpec_GetObjects :: "k8s_object list \<Rightarrow> bundle_object list" where
  "LocalPolicySpec_GetObjects objects = map ResourceObject objects"

definition LocalPlacementRules_GetObjects :: "k8s_object list \<Rightarrow> bundle_object list" where
  "LocalPlacementRules_GetObjects objects = map ResourceObject objects"

definition ControlInfo_GetObjects :: "bundle_object list" where
  "ControlInfo_GetObjects = []"

fun GetObjects :: "status_bundle \<Rightarrow> bundle_object list" where
  "GetObjects (ManagedClustersStatusBundle _ os) = ManagedClustersStatus_GetObjects os"
| "GetObjects (ClustersPerPolicyBundle _ os) = ClustersPerPolicy_GetObjects os"
| "GetObjects (CompleteComplianceStatusBundle _ os) = CompleteComplianceStatus_GetObjects os"
| "GetObjects (DeltaComplianceStatusBundle d) = DeltaComplianceStatus_GetObjects (db_Objects d)"
| "GetObjects (MinimalComplianceStatusBundle _ os) = MinimalComplianceStatus_GetObjects os"
| "GetObjects (PlacementRulesBundle _ os) = PlacementRules_GetObjects os"
| "GetObjects (PlacementsBundle _ os) = Placements_GetObjects os"
| "GetObjects (PlacementDecisionsBundle _ os) = PlacementDecisions_GetObjects os"
| "GetObjects (SubscriptionStatusesBundle _ os) = SubscriptionStatuses_GetObjects os"
| "GetObjects (SubscriptionReportsBundle _ os) = SubscriptionReports_GetObjects os"
| "GetObjects (ControlInfoBundle _) = ControlInfo_GetObjects"
| "GetObjects (LocalPolicySpecBundle _ os) = LocalPolicySpec_GetObjects os"
| "GetObjects (LocalClustersPerPolicyBundle _ os) = ClustersPerPolicy_GetObjects os"
| "GetObjects (LocalCompleteComplianceStatusBundle _ os) = CompleteComplianceStatus_GetObjects os"
| "GetObjects (LocalPlacementRulesBundle _ os) = LocalPlacementRules_GetObjects os"

lemmas GetObjects_defs [go_simps] =
  ManagedClustersStatus_GetObjects_def ClustersPerPolicy_GetObjects_def
  CompleteComplianceStatus_GetObjects_def DeltaComplianceStatus_GetObjects_def
  MinimalComplianceStatus_GetObjects_def PlacementRules_GetObjects_def
  Placements_GetObjects_def PlacementDecisions_GetObjects_def
  SubscriptionStatuses_GetObjects_def SubscriptionReports_GetObjects_def
  LocalPolicySpec_GetObjects_def LocalPlacementRules_GetObjects_def ControlInfo_GetObjects_def

text \<open>The type assertion \<open>b.(bundle.DependantBundle)\<close> and then \<open>GetDependencyVersion\<close>: \<^const>\<open>None\<close> when
  the assertion fails, else the (possibly nil) version.\<close>

fun dependant_bundle :: "status_bundle \<Rightarrow> bundle_version option option" where
  "dependant_bundle (CompleteComplianceStatusBundle b _) = Some (bb_BaseBundleVersion b)"
| "dependant_bundle (LocalCompleteComplianceStatusBundle b _) = Some (bb_BaseBundleVersion b)"
| "dependant_bundle (DeltaComplianceStatusBundle d) = Some (db_BaseBundleVersion d)"
| "dependant_bundle _ = None"

section \<open>The name of a bundle's type\<close>

text \<open>What \<open>fmt.Sprintf("%T", b)\<close> prints for each struct of package \<open>bundle\<close>.\<close>

fun bundle_struct :: "status_bundle \<Rightarrow> string" where
  "bundle_struct (ManagedClustersStatusBundle _ _) = ''ManagedClustersStatusBundle''"
| "bundle_struct (ClustersPerPolicyBundle _ _) = ''ClustersPerPolicyBundle''"
| "bundle_struct (CompleteComplianceStatusBundle _ _) = ''CompleteComplianceStatusBundle''"
| "bundle_struct (DeltaComplianceStatusBundle _) = ''DeltaComplianceStatusBundle''"
| "bundle_struct (MinimalComplianceStatusBundle _ _) = ''MinimalComplianceStatusBundle''"
| "bundle_struct (PlacementRulesBundle _ _) = ''PlacementRulesBundle''"
| "bundle_struct (PlacementsBundle _ _) = ''PlacementsBundle''"
| "bundle_struct (PlacementDecisionsBundle _ _) = ''PlacementDecisionsBundle''"
| "bundle_struct (SubscriptionStatusesBundle _ _) = ''SubscriptionStatusesBundle''"
| "bundle_struct (SubscriptionReportsBundle _ _) = ''SubscriptionReportsBundle''"
| "bundle_struct (ControlInfoBundle _) = ''ControlInfoBundle''"
| "bundle_struct (LocalPolicySpecBundle _ _) = ''LocalPolicySpecBundle''"
| "bundle_struct (LocalClustersPerPolicyBundle _ _) = ''LocalClustersPerPolicyBundle''"
| "bundle_struct (LocalCompleteComplianceStatusBundle _ _) = ''LocalCompleteComplianceStatusBundle''"
| "bundle_struct (LocalPlacementRulesBundle _ _) = ''LocalPlacementRulesBundle''"

definition GetBundleType :: "status_bundle \<Rightarrow> string" where
  "GetBundleType b = last (split_on CHR ''.'' (''*bundle.'' @ bundle_struct b))"

lemma GetBundleType_struct [simp]: "GetBundleType b = bundle_struct b"
  by (cases b) (simp_all add: GetBundleType_def)

end
