(* ===== verification/Db_Consts.thy ===== *)
theory Db_Consts
  imports Bundles
begin

text \<open>
  \<open>pkg/statussyncer/transport2db/db/db_consts.go\<close> and \<open>policy_cluster_sets.go\<close>: the names of the
  schemas and tables, the compliance states, and the three cluster sets the database keeps for a
  policy. The sets are those of the golang-set library, modelled as HOL sets.
\<close>

definition StatusSchema :: string where "StatusSchema = ''status''"
definition LocalStatusSchema :: string where "LocalStatusSchema = ''local_status''"
definition LocalSpecSchema :: string where "LocalSpecSchema = ''local_spec''"

definition ManagedClustersTableName :: string where "ManagedClustersTableName = ''managed_clusters''"
definition ComplianceTableName :: string where "ComplianceTableName = ''compliance''"
definition MinimalComplianceTable :: string where "MinimalComplianceTable = ''aggregated_compliance''"
definition LocalPolicySpecTableName :: string where "LocalPolicySpecTableName = ''policies''"
definition SubscriptionStatusesTableName :: string where
  "SubscriptionStatusesTableName = ''subscription_statuses''"
definition SubscriptionReportsTableName :: string where
  "SubscriptionReportsTableName = ''subscription_reports''"
definition PlacementRulesTableName :: string where "PlacementRulesTableName = ''placementrules''"
definition PlacementsTableName :: string where "PlacementsTableName = ''placements''"
definition PlacementDecisionsTableName :: string where
  "PlacementDecisionsTableName = ''placementdecisions''"
definition LeafHubHeartbeatsTableName :: string where
  "LeafHubHeartbeatsTableName = ''leaf_hub_heartbeats''"

definition ErrorNone :: string where "ErrorNone = ''none''"

definition db_UUID :: string where "db_UUID = ''uuid''"
definition db_Jsonb :: string where "db_Jsonb = ''jsonb''"
definition db_ComplianceType :: string where "db_ComplianceType = ''compliance_type''"

datatype compliance_status = NonCompliant | Compliant | Unknown

fun compliance_string :: "compliance_status \<Rightarrow> string" where
  "compliance_string NonCompliant = ''non_compliant''"
| "compliance_string Compliant = ''compliant''"
| "compliance_string Unknown = ''unknown''"

lemma compliance_string_inject [simp]: "compliance_string s = compliance_string t \<longleftrightarrow> s = t"
  by (cases s; cases t) simp_all

lemma all_compliance_status: "(\<forall>s. P s) \<longleftrightarrow> P NonCompliant \<and> P Compliant \<and> P Unknown"
  by (metis compliance_status.exhaust)

lemma ex_compliance_status: "(\<exists>s. P s) \<longleftrightarrow> P NonCompliant \<or> P Compliant \<or> P Unknown"
  by (metis compliance_status.exhaust)

section \<open>The cluster sets of a policy\<close>

type_synonym policy_clusters_sets = "compliance_status \<Rightarrow> string set"

definition NewPolicyClusterSets :: policy_clusters_sets where
  "NewPolicyClusterSets = (\<lambda>_. {})"

definition AddCluster :: "policy_clusters_sets \<Rightarrow> string \<Rightarrow> compliance_status \<Rightarrow> policy_clusters_sets" where
  "AddCluster sets clusterName complianceStatus =
     sets(complianceStatus := insert clusterName (sets complianceStatus))"

definition GetAllClusters :: "policy_clusters_sets \<Rightarrow> string set" where
  "GetAllClusters sets = sets Compliant \<union> (sets NonCompliant \<union> sets Unknown)"

definition GetClusters :: "policy_clusters_sets \<Rightarrow> compliance_status \<Rightarrow> string set" where
  "GetClusters sets complianceStatus = sets complianceStatus"

lemma GetAllClusters_iff: "c \<in> GetAllClusters sets \<longleftrightarrow> (\<exists>s. c \<in> GetClusters sets s)"
  by (auto simp: GetAllClusters_def GetClusters_def ex_compliance_status)

lemma GetClusters_AddCluster [simp]:
  "GetClusters (AddCluster sets c s) t = (if s = t then insert c (GetClusters sets t) else GetClusters sets t)"
  by (simp add: AddCluster_def GetClusters_def)

lemma GetClusters_New [simp]: "GetClusters NewPolicyClusterSets s = {}"
  by (simp add: GetClusters_def NewPolicyClusterSets_def)

section \<open>What a list of policy statuses reports\<close>

text \<open>The specification-level reading of a bundle's content, used to state what the code computes:
  the clusters a status lists under a compliance state, and the triples a list of statuses reports.\<close>

fun clusters_of :: "compliance_status \<Rightarrow> policy_generic_status \<Rightarrow> string list" where
  "clusters_of Compliant g = gs_CompliantClusters g"
| "clusters_of NonCompliant g = gs_NonCompliantClusters g"
| "clusters_of Unknown g = gs_UnknownComplianceClusters g"

definition reports :: "policy_generic_status list \<Rightarrow> string \<Rightarrow> string \<Rightarrow> compliance_status \<Rightarrow> bool" where
  "reports gs p c s \<longleftrightarrow> (\<exists>g \<in> set gs. gs_PolicyID g = p \<and> c \<in> set (clusters_of s g))"

definition unambiguous :: "policy_generic_status list \<Rightarrow> bool" where
  "unambiguous gs \<longleftrightarrow> (\<forall>p c s t. reports gs p c s \<longrightarrow> reports gs p c t \<longrightarrow> s = t)"

definition well_formed_statuses :: "policy_generic_status list \<Rightarrow> bool" where
  "well_formed_statuses gs \<longleftrightarrow> distinct (map gs_PolicyID gs) \<and> unambiguous gs"

lemma reports_append [simp]: "reports (gs @ hs) p c s \<longleftrightarrow> reports gs p c s \<or> reports hs p c s"
  by (auto simp: reports_def)

lemma reports_filter: "reports (filter P gs) p c s \<longleftrightarrow>
    (\<exists>g \<in> set gs. P g \<and> gs_PolicyID g = p \<and> c \<in> set (clusters_of s g))"
  by (auto simp: reports_def)

lemma unambiguousD: "unambiguous gs \<Longrightarrow> reports gs p c s \<Longrightarrow> reports gs p c t \<Longrightarrow> s = t"
  by (auto simp: unambiguous_def)

end
