(* ===== verification/Delta_Bundle.thy ===== *)
theory Delta_Bundle
  imports Db_Consts
begin

text \<open>
  \<open>pkg/statussyncer/transport2db/bundle/delta_compliance_status_bundle.go\<close> and \<open>helpers.go\<close>: a delta
  bundle inherits the events of an older delta bundle with the same base version. The receiver is
  the source of truth: where both mention a cluster of a policy, the receiver's status stays.
  \<open>enum\<close> is the unspecified iteration order of the golang-set library.
\<close>

datatype bundle_error = ErrWrongType | ErrWrongBundleType

definition createSetFromSlice :: "string list \<Rightarrow> string set" where
  "createSetFromSlice items = fold insert items {}"

definition createSliceFromSet :: "(string set \<Rightarrow> string list) \<Rightarrow> string set \<Rightarrow> string list" where
  "createSliceFromSet enum s = foldl (\<lambda>result elem. result @ [elem]) [] (enum s)"

record policy_status_sets =
  ps_compliantClusters :: "string set"
  ps_nonCompliantClusters :: "string set"
  ps_unknownClusters :: "string set"

definition newPolicyStatus :: "policy_generic_status \<Rightarrow> policy_status_sets" where
  "newPolicyStatus policyGenericStatus =
     \<lparr> ps_compliantClusters = createSetFromSlice (gs_CompliantClusters policyGenericStatus),
       ps_nonCompliantClusters = createSetFromSlice (gs_NonCompliantClusters policyGenericStatus),
       ps_unknownClusters = createSetFromSlice (gs_UnknownComplianceClusters policyGenericStatus) \<rparr>"

definition ps_contains :: "policy_status_sets \<Rightarrow> string \<Rightarrow> bool" where
  "ps_contains ps cluster =
     (cluster \<in> ps_unknownClusters ps \<or> cluster \<in> ps_nonCompliantClusters ps \<or>
      cluster \<in> ps_compliantClusters ps)"

definition add_compliant :: "string \<Rightarrow> policy_status_sets \<Rightarrow> policy_status_sets" where
  "add_compliant cluster ps = ps\<lparr>ps_compliantClusters := insert cluster (ps_compliantClusters ps)\<rparr>"

definition add_nonCompliant :: "string \<Rightarrow> policy_status_sets \<Rightarrow> policy_status_sets" where
  "add_nonCompliant cluster ps =
     ps\<lparr>ps_nonCompliantClusters := insert cluster (ps_nonCompliantClusters ps)\<rparr>"

definition add_unknown :: "string \<Rightarrow> policy_status_sets \<Rightarrow> policy_status_sets" where
  "add_unknown cluster ps = ps\<lparr>ps_unknownClusters := insert cluster (ps_unknownClusters ps)\<rparr>"

text \<open>One of the three loops of \<open>appendNewClusters\<close>: add the clusters that no set contains yet.\<close>

definition add_missing ::
    "(string \<Rightarrow> policy_status_sets \<Rightarrow> policy_status_sets) \<Rightarrow> policy_status_sets \<Rightarrow> string list \<Rightarrow> policy_status_sets" where
  "add_missing add ps0 clusters =
     foldl (\<lambda>ps cluster. if \<not> ps_contains ps cluster then add cluster ps else ps) ps0 clusters"

definition appendNewClusters :: "policy_status_sets \<Rightarrow> policy_generic_status \<Rightarrow> policy_status_sets" where
  "appendNewClusters ps g =
     (let ps1 = add_missing add_compliant ps (gs_CompliantClusters g);
          ps2 = add_missing add_nonCompliant ps1 (gs_NonCompliantClusters g)
      in add_missing add_unknown ps2 (gs_UnknownComplianceClusters g))"

definition updatePolicyStatusInBundle ::
    "(string set \<Rightarrow> string list) \<Rightarrow> policy_generic_status \<Rightarrow> policy_status_sets \<Rightarrow> policy_generic_status" where
  "updatePolicyStatusInBundle enum policyGenericStatus policyStatus =
     policyGenericStatus\<lparr>
       gs_CompliantClusters := createSliceFromSet enum (ps_compliantClusters policyStatus),
       gs_NonCompliantClusters := createSliceFromSet enum (ps_nonCompliantClusters policyStatus),
       gs_UnknownComplianceClusters := createSliceFromSet enum (ps_unknownClusters policyStatus) \<rparr>"

text \<open>The loop over the old bundle's objects: the old policies the new bundle does not know survive
  whole, the others add their missing clusters to the new policy's sets.\<close>

fun inherit_old_objects ::
    "policy_generic_status list \<Rightarrow> policy_generic_status list \<Rightarrow> (string \<rightharpoonup> policy_status_sets) \<Rightarrow>
     policy_generic_status list \<times> (string \<rightharpoonup> policy_status_sets)" where
  "inherit_old_objects [] surviving policiesMap = (surviving, policiesMap)"
| "inherit_old_objects (g # oldObjects) surviving policiesMap =
     (case policiesMap (gs_PolicyID g) of
        None \<Rightarrow> inherit_old_objects oldObjects (surviving @ [g]) policiesMap
      | Some policyInfo \<Rightarrow> inherit_old_objects oldObjects surviving
          (policiesMap(gs_PolicyID g \<mapsto> appendNewClusters policyInfo g)))"

definition add_policy ::
    "(string \<rightharpoonup> policy_status_sets) \<Rightarrow> policy_generic_status \<Rightarrow> (string \<rightharpoonup> policy_status_sets)" where
  "add_policy policiesMap g = policiesMap(gs_PolicyID g \<mapsto> newPolicyStatus g)"

definition inheritObjects ::
    "(string set \<Rightarrow> string list) \<Rightarrow> policy_generic_status list \<Rightarrow> policy_generic_status list \<Rightarrow>
     policy_generic_status list" where
  "inheritObjects enum objects oldObjects =
     (let policiesMap = foldl add_policy Map.empty objects;
          (survivingOldPolicies, policiesMap') = inherit_old_objects oldObjects [] policiesMap
      in survivingOldPolicies @
         map (\<lambda>g. case policiesMap' (gs_PolicyID g) of
                    Some policyStatus \<Rightarrow> updatePolicyStatusInBundle enum g policyStatus
                  | None \<Rightarrow> g) objects)"

definition InheritEvents ::
    "(string set \<Rightarrow> string list) \<Rightarrow> delta_bundle \<Rightarrow> status_bundle option \<Rightarrow>
     (bundle_error + delta_bundle) option" where
  "InheritEvents enum b olderBundle =
     (case olderBundle of
        None \<Rightarrow> Some (Inr b)
      | Some older \<Rightarrow>
          (case older of
             DeltaComplianceStatusBundle old \<Rightarrow> do {
               same \<leftarrow> Equals (db_BaseBundleVersion old) (db_BaseBundleVersion b);
               Some (Inr (if \<not> same then b
                          else b\<lparr>db_Objects := inheritObjects enum (db_Objects b) (db_Objects old)\<rparr>)) }
           | _ \<Rightarrow> Some (Inl ErrWrongType)))"

section \<open>The cluster sets\<close>

lemma createSetFromSlice_set [simp]: "createSetFromSlice xs = set xs"
  by (simp add: createSetFromSlice_def union_set_fold [symmetric])

lemma foldl_snoc: "foldl (\<lambda>r e. r @ [e]) acc xs = acc @ xs"
  by (induction xs arbitrary: acc) auto

lemma createSliceFromSet_enum [simp]: "createSliceFromSet enum s = enum s"
  by (simp add: createSliceFromSet_def foldl_snoc)

text \<open>The three sets of a policy status, indexed by the compliance state.\<close>

fun ps_clusters :: "compliance_status \<Rightarrow> policy_status_sets \<Rightarrow> string set" where
  "ps_clusters Compliant ps = ps_compliantClusters ps"
| "ps_clusters NonCompliant ps = ps_nonCompliantClusters ps"
| "ps_clusters Unknown ps = ps_unknownClusters ps"

lemma ps_contains_iff: "ps_contains ps c \<longleftrightarrow> (\<exists>s. c \<in> ps_clusters s ps)"
  by (auto simp: ps_contains_def ex_compliance_status)

lemma ps_clusters_new [simp]: "ps_clusters s (newPolicyStatus g) = set (clusters_of s g)"
  by (cases s) (simp_all add: newPolicyStatus_def)

text \<open>The first of the three lists of a status that names the cluster.\<close>

definition first_status :: "policy_generic_status \<Rightarrow> string \<Rightarrow> compliance_status option" where
  "first_status g c =
     (if c \<in> set (gs_CompliantClusters g) then Some Compliant
      else if c \<in> set (gs_NonCompliantClusters g) then Some NonCompliant
      else if c \<in> set (gs_UnknownComplianceClusters g) then Some Unknown else None)"

lemma ps_clusters_add [simp]:
  "ps_clusters t (add_compliant c ps) = (if t = Compliant then insert c (ps_clusters t ps) else ps_clusters t ps)"
  "ps_clusters t (add_nonCompliant c ps) = (if t = NonCompliant then insert c (ps_clusters t ps) else ps_clusters t ps)"
  "ps_clusters t (add_unknown c ps) = (if t = Unknown then insert c (ps_clusters t ps) else ps_clusters t ps)"
  by (cases t; simp add: add_compliant_def add_nonCompliant_def add_unknown_def)+

lemma ps_clusters_add_missing:
  assumes add: "\<And>c ps t. ps_clusters t (add c ps) =
    (if t = s then insert c (ps_clusters t ps) else ps_clusters t ps)"
  shows "ps_clusters t (add_missing add ps cs) =
    (if t = s then ps_clusters t ps \<union> {c \<in> set cs. \<not> ps_contains ps c} else ps_clusters t ps)"
  unfolding add_missing_def
proof (induction cs arbitrary: ps)
  case (Cons c cs)
  have "ps_contains (add c ps) d \<longleftrightarrow> d = c \<or> ps_contains ps d" for d
    by (auto simp: ps_contains_iff add split: if_splits)
  then show ?case using Cons [of "add c ps"] Cons [of ps] by (auto simp: add)
qed simp

lemmas ps_clusters_missing [simp] =
  ps_clusters_add_missing [OF ps_clusters_add(1)] ps_clusters_add_missing [OF ps_clusters_add(2)]
  ps_clusters_add_missing [OF ps_clusters_add(3)]

lemma ps_clusters_append:
  "c \<in> ps_clusters s (appendNewClusters ps g) \<longleftrightarrow>
     c \<in> ps_clusters s ps \<or> \<not> ps_contains ps c \<and> first_status g c = Some s"
  unfolding appendNewClusters_def Let_def
  by (auto simp del: ps_clusters.simps simp: ps_contains_iff first_status_def split: if_splits)

lemma first_status_clusters: "first_status g c = Some s \<Longrightarrow> c \<in> set (clusters_of s g)"
  by (auto simp: first_status_def split: if_splits)

section \<open>The merge\<close>

lemma inherit_old_surviving:
  "fst (inherit_old_objects old sv m) = sv @ filter (\<lambda>g. gs_PolicyID g \<notin> dom m) old"
proof (induction old sv m rule: inherit_old_objects.induct)
  case (2 g old sv m)
  then show ?case by (cases "m (gs_PolicyID g)") (auto simp: fun_upd_def domIff intro!: filter_cong)
qed simp

lemma inherit_old_map:
  "snd (inherit_old_objects old sv m) p =
     map_option (\<lambda>ps. foldl appendNewClusters ps (filter (\<lambda>g. gs_PolicyID g = p) old)) (m p)"
proof (induction old sv m rule: inherit_old_objects.induct)
  case (2 g old sv m)
  then show ?case by (cases "m (gs_PolicyID g)") (auto simp: fun_upd_def)
qed (simp add: option.map_ident)

lemma policies_map_other: "gs_PolicyID g \<notin> gs_PolicyID ` set gs \<Longrightarrow>
    foldl add_policy m gs (gs_PolicyID g) = m (gs_PolicyID g)"
  by (induction gs arbitrary: m) (auto simp: add_policy_def)

lemma policies_map_distinct:
  "distinct (map gs_PolicyID gs) \<Longrightarrow> g \<in> set gs \<Longrightarrow>
    foldl add_policy m gs (gs_PolicyID g) = Some (newPolicyStatus g)"
proof (induction gs arbitrary: m)
  case (Cons h gs)
  have "add_policy m h (gs_PolicyID h) = Some (newPolicyStatus h)" by (simp add: add_policy_def)
  with Cons show ?case using policies_map_other [of g gs "add_policy m h"] by auto
qed simp

lemma dom_policies_map: "dom (foldl add_policy m gs) = dom m \<union> gs_PolicyID ` set gs"
  by (induction gs arbitrary: m) (auto simp: add_policy_def)

lemma filter_distinct_ids:
  "distinct (map gs_PolicyID gs) \<Longrightarrow> g \<in> set gs \<Longrightarrow> filter (\<lambda>h. gs_PolicyID h = gs_PolicyID g) gs = [g]"
proof (induction gs)
  case (Cons a gs)
  show ?case
  proof (cases "g = a")
    case True
    with Cons.prems have "filter (\<lambda>h. gs_PolicyID h = gs_PolicyID g) gs = []"
      by (auto simp: filter_empty_conv image_iff)
    with True show ?thesis by simp
  next
    case False
    with Cons show ?thesis by (auto simp: image_iff)
  qed
qed simp

text \<open>The object that the merge leaves for a policy of the receiver.\<close>

definition merged_object ::
    "(string set \<Rightarrow> string list) \<Rightarrow> policy_generic_status list \<Rightarrow> policy_generic_status \<Rightarrow> policy_generic_status" where
  "merged_object enum old g =
     updatePolicyStatusInBundle enum g
       (foldl appendNewClusters (newPolicyStatus g) (filter (\<lambda>h. gs_PolicyID h = gs_PolicyID g) old))"

lemma inheritObjects_eq:
  assumes "distinct (map gs_PolicyID objects)"
  shows "inheritObjects enum objects old =
    filter (\<lambda>g. gs_PolicyID g \<notin> gs_PolicyID ` set objects) old @ map (merged_object enum old) objects"
proof -
  have "(case snd (inherit_old_objects old []
            (foldl add_policy Map.empty objects)) (gs_PolicyID g) of
          Some ps \<Rightarrow> updatePolicyStatusInBundle enum g ps | None \<Rightarrow> g) = merged_object enum old g"
    if "g \<in> set objects" for g
    using policies_map_distinct [OF assms that] by (simp add: inherit_old_map merged_object_def)
  then show ?thesis
    by (simp add: inheritObjects_def case_prod_beta inherit_old_surviving dom_policies_map)
qed

lemma merged_object_PolicyID [simp]: "gs_PolicyID (merged_object enum old g) = gs_PolicyID g"
  by (simp add: merged_object_def updatePolicyStatusInBundle_def)

lemma finite_ps_clusters_append: "\<forall>s. finite (ps_clusters s ps) \<Longrightarrow>
    finite (ps_clusters s (appendNewClusters ps g))"
proof (rule finite_subset)
  show "ps_clusters s (appendNewClusters ps g) \<subseteq> ps_clusters s ps \<union> set (clusters_of s g)"
    by (auto simp: ps_clusters_append dest: first_status_clusters)
qed simp

lemma finite_ps_clusters_foldl: "\<forall>s. finite (ps_clusters s ps) \<Longrightarrow>
    finite (ps_clusters s (foldl appendNewClusters ps gs))"
  by (induction gs arbitrary: ps) (simp_all add: finite_ps_clusters_append)

lemma clusters_of_updated:
  assumes "enumerates enum" and "\<forall>s. finite (ps_clusters s ps)"
  shows "set (clusters_of s (updatePolicyStatusInBundle enum g ps)) = ps_clusters s ps"
  using assms(2) [rule_format, of s] assms(1)
  by (cases s) (simp_all add: updatePolicyStatusInBundle_def)

lemma clusters_of_merged:
  assumes "enumerates enum" and "distinct (map gs_PolicyID old)"
  shows "c \<in> set (clusters_of s (merged_object enum old g)) \<longleftrightarrow>
    c \<in> set (clusters_of s g) \<or>
    (\<forall>t. c \<notin> set (clusters_of t g)) \<and>
    (\<exists>h \<in> set old. gs_PolicyID h = gs_PolicyID g \<and> first_status h c = Some s)"
proof -
  let ?same = "filter (\<lambda>h. gs_PolicyID h = gs_PolicyID g) old"
  have set: "set (clusters_of s (merged_object enum old g)) =
      ps_clusters s (foldl appendNewClusters (newPolicyStatus g) ?same)"
    unfolding merged_object_def
    by (rule clusters_of_updated [OF assms(1)]) (simp add: finite_ps_clusters_foldl)
  show ?thesis
  proof (cases "\<exists>h \<in> set old. gs_PolicyID h = gs_PolicyID g")
    case True
    then obtain h where h: "h \<in> set old" "gs_PolicyID h = gs_PolicyID g" by blast
    then have same: "?same = [h]" using filter_distinct_ids [OF assms(2) h(1)] by simp
    have "h' = h" if "h' \<in> set old" "gs_PolicyID h' = gs_PolicyID g" for h'
      using assms(2) h that by (auto simp: distinct_map inj_on_def)
    then have "(\<exists>h' \<in> set old. gs_PolicyID h' = gs_PolicyID g \<and> first_status h' c = Some s) \<longleftrightarrow>
        first_status h c = Some s" using h by blast
    then show ?thesis by (simp add: set same ps_clusters_append ps_contains_iff)
  next
    case False
    then have "?same = []" by (auto simp: filter_empty_conv)
    then show ?thesis using False by (auto simp: set)
  qed
qed

lemma reports_map:
  "(\<And>g. gs_PolicyID (f g) = gs_PolicyID g) \<Longrightarrow>
    reports (map f gs) p c s \<longleftrightarrow> (\<exists>g \<in> set gs. gs_PolicyID g = p \<and> c \<in> set (clusters_of s (f g)))"
  by (auto simp: reports_def)

lemma first_status_unambiguous:
  assumes "unambiguous gs" and "h \<in> set gs"
  shows "first_status h c = Some s \<longleftrightarrow> c \<in> set (clusters_of s h)"
proof -
  have "t = s" if "c \<in> set (clusters_of t h)" "c \<in> set (clusters_of s h)" for t s
    using assms that unambiguousD [of gs "gs_PolicyID h" c t s] by (auto simp: reports_def)
  from this [of Compliant s] this [of NonCompliant s] this [of Unknown s]
  show ?thesis by (cases s) (auto simp: first_status_def)
qed

lemma reports_inheritObjects:
  assumes enum: "enumerates enum"
    and new: "distinct (map gs_PolicyID new)" and old: "well_formed_statuses old"
  shows "reports (inheritObjects enum new old) p c s \<longleftrightarrow>
    (if \<exists>t. reports new p c t then reports new p c s else reports old p c s)"
proof -
  have dold: "distinct (map gs_PolicyID old)" and uold: "unambiguous old"
    using old by (auto simp: well_formed_statuses_def)
  have same: "g = h" if "g \<in> set new" "h \<in> set new" "gs_PolicyID g = gs_PolicyID h" for g h
    using new that by (auto simp: distinct_map inj_on_def)
  show ?thesis
  proof (cases "\<exists>g \<in> set new. gs_PolicyID g = p")
    case True
    then obtain g where g: "g \<in> set new" "gs_PolicyID g = p" by blast
    have rnew: "reports new p c t \<longleftrightarrow> c \<in> set (clusters_of t g)" for t
      using g same by (auto simp: reports_def)
    have "reports (inheritObjects enum new old) p c s \<longleftrightarrow>
        (\<exists>h \<in> set new. gs_PolicyID h = p \<and> c \<in> set (clusters_of s (merged_object enum old h)))"
      using g by (auto simp: inheritObjects_eq [OF new] reports_filter reports_map)
    also have "\<dots> \<longleftrightarrow> c \<in> set (clusters_of s (merged_object enum old g))"
      using g same by blast
    also have "\<dots> \<longleftrightarrow> reports new p c s \<or> (\<forall>t. \<not> reports new p c t) \<and> reports old p c s"
      using g first_status_unambiguous [OF uold]
      by (auto simp: clusters_of_merged [OF enum dold] rnew reports_def [of old])
    finally show ?thesis by auto
  next
    case False
    then have "\<not> reports new p c t" for t by (auto simp: reports_def)
    moreover have "p \<notin> gs_PolicyID ` set new" using False by auto
    then have "reports (inheritObjects enum new old) p c s \<longleftrightarrow> reports old p c s"
      by (auto simp: inheritObjects_eq [OF new] reports_filter reports_map reports_def [of old])
    ultimately show ?thesis by simp
  qed
qed

lemma well_formed_inheritObjects:
  assumes "enumerates enum" and "well_formed_statuses new" and "well_formed_statuses old"
  shows "well_formed_statuses (inheritObjects enum new old)"
proof -
  have new: "distinct (map gs_PolicyID new)" using assms(2) by (simp add: well_formed_statuses_def)
  have "distinct (map gs_PolicyID (inheritObjects enum new old))"
    using assms(2,3) by (auto simp: inheritObjects_eq [OF new] well_formed_statuses_def comp_def distinct_map_filter)
  moreover have "unambiguous (inheritObjects enum new old)"
    using assms(2,3) unfolding unambiguous_def well_formed_statuses_def
    by (simp add: reports_inheritObjects [OF assms(1) new assms(3)])
  ultimately show ?thesis by (simp add: well_formed_statuses_def)
qed

end
