(* ===== verification/Transport_Metadata.thy ===== *)
theory Transport_Metadata
  imports Hoh_Prelude
begin

text \<open>
  \<open>transport/bundle_metadata.go\<close> and the two implementations of the interface: the metadata a
  transport attaches to a received bundle, with the flag that says whether the bundle was processed.
  The conflation units, the db workers and the committers share these objects by pointer, so they
  live in a list of cells (\<open>Hoh_Prelude\<close>) and are named by address.
\<close>

record object_metadata =
  om_ObjectID :: string
  om_ObjectType :: string
  om_Version :: string
  om_Description :: string

datatype transport_metadata =
    KafkaMetadata (tm_processed: bool) (km_partition: int) (km_offset: int)
  | SyncServiceMetadata (tm_processed: bool) (sm_objectMetadata: object_metadata)

definition kafka_newBundleMetadata :: "int \<Rightarrow> int \<Rightarrow> transport_metadata" where
  "kafka_newBundleMetadata part offset = KafkaMetadata False part offset"

definition syncservice_newBundleMetadata :: "object_metadata \<Rightarrow> transport_metadata" where
  "syncservice_newBundleMetadata objectMetadata = SyncServiceMetadata False objectMetadata"

fun MarkAsProcessed :: "transport_metadata \<Rightarrow> transport_metadata" where
  "MarkAsProcessed (KafkaMetadata _ part offset) = KafkaMetadata True part offset"
| "MarkAsProcessed (SyncServiceMetadata _ objectMetadata) = SyncServiceMetadata True objectMetadata"

definition Processed :: "transport_metadata \<Rightarrow> bool" where
  "Processed m = tm_processed m"

lemma Processed_Mark [simp]: "Processed (MarkAsProcessed m)"
  by (cases m) (simp_all add: Processed_def)

lemma Mark_idem [simp]: "MarkAsProcessed (MarkAsProcessed m) = MarkAsProcessed m"
  by (cases m) simp_all

lemma Processed_new [simp]:
  "\<not> Processed (kafka_newBundleMetadata p off)" "\<not> Processed (syncservice_newBundleMetadata om)"
  by (simp_all add: Processed_def kafka_newBundleMetadata_def syncservice_newBundleMetadata_def)

end
