(* ===== verification/Bundle_Info.thy ===== *)
theory Bundle_Info
  imports Delta_Bundle Transport_Metadata
begin

text \<open>
  \<open>pkg/statussyncer/transport2db/conflator\<close>, the files \<open>bundle_metadata.go\<close>, \<open>bundle_info.go\<close>,
  \<open>complete_state_bundle_info.go\<close> and \<open>delta_state_bundle_info.go\<close>: what a conflation element holds
  for its bundle type.

  A \<open>*BundleMetadata\<close> is shared between the element and the db worker that processes the bundle, so
  it is an address into \<open>metas\<close>, the metadata objects this element has allocated; the transport
  metadata it points to is an address into \<open>tmetas\<close>. A method that only reads the metadata a worker
  hands back takes the object's value at the time of the call.
  The Go interface \<open>bundleInfo\<close> is the locale \<open>bundle_info\<close>, interpreted for both
  implementations. Its central law is the one the code comments on: an update that must not
  overwrite leaves every metadata object that already exists as it is.
\<close>

record bundle_metadata =
  md_bundleType :: string
  md_bundleVersion :: "bundle_version option"
  md_transport :: "addr option"

type_synonym metas = "bundle_metadata list"
type_synonym tmetas = "transport_metadata list"

text \<open>\<open>metadata.transportBundleMetadata.MarkAsProcessed()\<close>.\<close>

definition mark_transport :: "tmetas \<Rightarrow> addr option \<Rightarrow> tmetas option" where
  "mark_transport ts ptr = do { a \<leftarrow> ptr; t \<leftarrow> deref ts a; set_cell ts a (MarkAsProcessed t) }"

section \<open>Complete-state bundles\<close>

record complete_info =
  ci_bundle :: "status_bundle option"
  ci_metadata :: "addr option"

definition newCompleteStateBundleInfo :: complete_info where
  "newCompleteStateBundleInfo = \<lparr> ci_bundle = None, ci_metadata = None \<rparr>"

definition complete_getBundle :: "complete_info \<Rightarrow> status_bundle option" where
  "complete_getBundle bi = ci_bundle bi"

definition complete_getMetadata :: "complete_info \<Rightarrow> metas \<Rightarrow> (addr option \<times> complete_info \<times> metas) option" where
  "complete_getMetadata bi ms = Some (ci_metadata bi, bi, ms)"

definition complete_update ::
    "complete_info \<Rightarrow> status_bundle \<Rightarrow> addr \<Rightarrow> bool \<Rightarrow> metas \<Rightarrow> (bundle_error + complete_info \<times> metas) option" where
  "complete_update bi b t overwriteMetadataObject ms =
     (let bi = bi\<lparr>ci_bundle := Some b\<rparr> in
      case (if overwriteMetadataObject then ci_metadata bi else None) of
        None \<Rightarrow>
          Some (Inr (bi\<lparr>ci_metadata := Some (length ms)\<rparr>,
            ms @ [\<lparr> md_bundleType = GetBundleType b, md_bundleVersion = GetVersion b, md_transport = Some t \<rparr>]))
      | Some a \<Rightarrow> do {
          md \<leftarrow> deref ms a;
          ms' \<leftarrow> set_cell ms a (md\<lparr>md_bundleVersion := GetVersion b, md_transport := Some t\<rparr>);
          Some (Inr (bi, ms')) })"

definition complete_getTransportMetadataToCommit :: "complete_info \<Rightarrow> metas \<Rightarrow> addr option option" where
  "complete_getTransportMetadataToCommit bi ms =
     (case ci_metadata bi of
        None \<Rightarrow> Some None
      | Some a \<Rightarrow> do { md \<leftarrow> deref ms a; Some (md_transport md) })"

definition complete_markAsProcessed ::
    "complete_info \<Rightarrow> bundle_metadata \<Rightarrow> metas \<Rightarrow> tmetas \<Rightarrow> (complete_info \<times> tmetas) option" where
  "complete_markAsProcessed bi md ms ts = do {
     ts' \<leftarrow> mark_transport ts (md_transport md);
     cur \<leftarrow> ci_metadata bi;
     curmd \<leftarrow> deref ms cur;
     same \<leftarrow> Equals (md_bundleVersion md) (md_bundleVersion curmd);
     Some (if \<not> same then bi else bi\<lparr>ci_bundle := None\<rparr>, ts') }"

section \<open>Delta-state bundles\<close>

record delta_info =
  di_bundle :: "delta_bundle option"
  di_metadata :: "addr option"
  di_lastDispatched_bundle :: "delta_bundle option"
  di_lastDispatched_lowest :: "addr option"
  di_lastReceivedTransport :: "addr option"
  di_deltaLineHead :: "bundle_version option"

definition newDeltaStateBundleInfo :: delta_info where
  "newDeltaStateBundleInfo =
     \<lparr> di_bundle = None, di_metadata = None, di_lastDispatched_bundle = None,
       di_lastDispatched_lowest = None, di_lastReceivedTransport = None, di_deltaLineHead = None \<rparr>"

definition delta_getBundle :: "delta_info \<Rightarrow> status_bundle option" where
  "delta_getBundle bi = map_option DeltaComplianceStatusBundle (di_bundle bi)"

definition delta_getMetadata :: "delta_info \<Rightarrow> metas \<Rightarrow> (addr option \<times> delta_info \<times> metas) option" where
  "delta_getMetadata bi ms = do {
     a \<leftarrow> di_metadata bi;
     md \<leftarrow> deref ms a;
     ms' \<leftarrow> set_cell ms a (md\<lparr>md_transport := di_lastReceivedTransport bi\<rparr>);
     Some (Some a,
           bi\<lparr>di_lastDispatched_bundle := di_bundle bi, di_lastDispatched_lowest := md_transport md,
              di_bundle := None\<rparr>, ms') }"

definition delta_updateBundle ::
    "(string set \<Rightarrow> string list) \<Rightarrow> delta_info \<Rightarrow> delta_bundle \<Rightarrow> (bundle_error + delta_info) option" where
  "delta_updateBundle enum bi newDeltaBundle = do {
     r \<leftarrow> InheritEvents enum newDeltaBundle (delta_getBundle bi);
     Some (case r of Inl e \<Rightarrow> Inl e | Inr b \<Rightarrow> Inr (bi\<lparr>di_bundle := Some b\<rparr>)) }"

definition delta_updateMetadata ::
    "delta_info \<Rightarrow> string \<Rightarrow> bundle_version option \<Rightarrow> addr \<Rightarrow> bool \<Rightarrow> metas \<Rightarrow> (delta_info \<times> metas) option" where
  "delta_updateMetadata bi bundleType version t overwriteObject ms = do {
     (bi, ms) \<leftarrow>
       (case di_metadata bi of
          None \<Rightarrow> Some (bi\<lparr>di_metadata := Some (length ms)\<rparr>,
            ms @ [\<lparr> md_bundleType = bundleType, md_bundleVersion = None, md_transport = Some t \<rparr>])
        | Some a \<Rightarrow>
            (if \<not> overwriteObject then do {
               md \<leftarrow> deref ms a;
               Some (bi\<lparr>di_metadata := Some (length ms)\<rparr>,
                 ms @ [\<lparr> md_bundleType = bundleType, md_bundleVersion = None,
                         md_transport = md_transport md \<rparr>]) }
             else Some (bi, ms)));
     a \<leftarrow> di_metadata bi;
     md \<leftarrow> deref ms a;
     ms' \<leftarrow> set_cell ms a (md\<lparr>md_bundleVersion := version\<rparr>);
     Some (bi\<lparr>di_lastReceivedTransport := Some t\<rparr>, ms') }"

definition delta_starts_new_line :: "delta_info \<Rightarrow> delta_bundle \<Rightarrow> bool option" where
  "delta_starts_new_line bi newDeltaBundle =
     (case di_bundle bi of
        None \<Rightarrow> Some True
      | Some cur \<Rightarrow> NewerThan (db_BaseBundleVersion newDeltaBundle) (db_BaseBundleVersion cur))"

definition delta_update ::
    "(string set \<Rightarrow> string list) \<Rightarrow> delta_info \<Rightarrow> status_bundle \<Rightarrow> addr \<Rightarrow> bool \<Rightarrow> metas \<Rightarrow>
     (bundle_error + delta_info \<times> metas) option" where
  "delta_update enum bi newBundle t overwriteMetadataObject ms =
     (case newBundle of
        DeltaComplianceStatusBundle d \<Rightarrow> do {
          startsNewLine \<leftarrow> delta_starts_new_line bi d;
          r \<leftarrow> delta_updateBundle enum bi d;
          (case r of
             Inl e \<Rightarrow> Some (Inl e)
           | Inr bi1 \<Rightarrow> do {
               (bi2, ms2) \<leftarrow> delta_updateMetadata bi1 (GetBundleType newBundle) (GetVersion newBundle) t
                                overwriteMetadataObject ms;
               (if startsNewLine then do {
                  a \<leftarrow> di_metadata bi2;
                  md \<leftarrow> deref ms2 a;
                  ms3 \<leftarrow> set_cell ms2 a (md\<lparr>md_transport := Some t\<rparr>);
                  Some (Inr (bi2\<lparr>di_deltaLineHead := md_bundleVersion md\<rparr>, ms3)) }
                else Some (Inr (bi2, ms2))) }) }
      | _ \<Rightarrow> Some (Inl ErrWrongBundleType))"

definition delta_handleFailure ::
    "(string set \<Rightarrow> string list) \<Rightarrow> delta_info \<Rightarrow> bundle_metadata \<Rightarrow> metas \<Rightarrow> (delta_info \<times> metas) option" where
  "delta_handleFailure enum bi failedmd ms = do {
     let lastBundle = di_lastDispatched_bundle bi;
     let lastTransport = di_lastDispatched_lowest bi;
     let bi = bi\<lparr>di_lastDispatched_bundle := None, di_lastDispatched_lowest := None\<rparr>;
     covered \<leftarrow> NewerThan (di_deltaLineHead bi) (md_bundleVersion failedmd);
     if covered then Some (bi, ms)
     else do {
       restored \<leftarrow>
         (case di_bundle bi of
            None \<Rightarrow> Some (Inr (bi\<lparr>di_bundle := lastBundle\<rparr>))
          | Some cur \<Rightarrow> do {
              r \<leftarrow> InheritEvents enum cur (map_option DeltaComplianceStatusBundle lastBundle);
              Some (case r of Inl e \<Rightarrow> Inl e | Inr b \<Rightarrow> Inr (bi\<lparr>di_bundle := Some b\<rparr>)) });
       (case restored of
          Inl e \<Rightarrow> Some (bi, ms)
        | Inr bi' \<Rightarrow> do {
            a \<leftarrow> di_metadata bi';
            md \<leftarrow> deref ms a;
            ms' \<leftarrow> set_cell ms a (md\<lparr>md_transport := lastTransport\<rparr>);
            Some (bi', ms') }) } }"

definition delta_getTransportMetadataToCommit :: "delta_info \<Rightarrow> metas \<Rightarrow> addr option option" where
  "delta_getTransportMetadataToCommit bi ms =
     (case di_metadata bi of
        None \<Rightarrow> Some None
      | Some a \<Rightarrow> do { md \<leftarrow> deref ms a; Some (md_transport md) })"

definition delta_markAsProcessed ::
    "delta_info \<Rightarrow> bundle_metadata \<Rightarrow> metas \<Rightarrow> tmetas \<Rightarrow> (delta_info \<times> tmetas) option" where
  "delta_markAsProcessed bi md ms ts = do {
     ts' \<leftarrow> mark_transport ts (md_transport md);
     Some (bi\<lparr>di_lastDispatched_bundle := None, di_lastDispatched_lowest := None\<rparr>, ts') }"

section \<open>The interface bundleInfo as a sum of its implementations\<close>

datatype bundle_info = CompleteInfo complete_info | DeltaInfo delta_info

fun bi_getBundle :: "bundle_info \<Rightarrow> status_bundle option" where
  "bi_getBundle (CompleteInfo ci) = complete_getBundle ci"
| "bi_getBundle (DeltaInfo di) = delta_getBundle di"

fun bi_getMetadata :: "bundle_info \<Rightarrow> metas \<Rightarrow> (addr option \<times> bundle_info \<times> metas) option" where
  "bi_getMetadata (CompleteInfo ci) ms = do {
     (a, ci', ms') \<leftarrow> complete_getMetadata ci ms; Some (a, CompleteInfo ci', ms') }"
| "bi_getMetadata (DeltaInfo di) ms = do {
     (a, di', ms') \<leftarrow> delta_getMetadata di ms; Some (a, DeltaInfo di', ms') }"

fun bi_update ::
    "(string set \<Rightarrow> string list) \<Rightarrow> bundle_info \<Rightarrow> status_bundle \<Rightarrow> addr \<Rightarrow> bool \<Rightarrow> metas \<Rightarrow>
     (bundle_error + bundle_info \<times> metas) option" where
  "bi_update enum (CompleteInfo ci) b t overwrite ms =
     map_option (map_sum id (map_prod CompleteInfo id)) (complete_update ci b t overwrite ms)"
| "bi_update enum (DeltaInfo di) b t overwrite ms =
     map_option (map_sum id (map_prod DeltaInfo id)) (delta_update enum di b t overwrite ms)"

fun bi_getTransportMetadataToCommit :: "bundle_info \<Rightarrow> metas \<Rightarrow> addr option option" where
  "bi_getTransportMetadataToCommit (CompleteInfo ci) ms = complete_getTransportMetadataToCommit ci ms"
| "bi_getTransportMetadataToCommit (DeltaInfo di) ms = delta_getTransportMetadataToCommit di ms"

fun bi_markAsProcessed :: "bundle_info \<Rightarrow> bundle_metadata \<Rightarrow> metas \<Rightarrow> tmetas \<Rightarrow> (bundle_info \<times> tmetas) option" where
  "bi_markAsProcessed (CompleteInfo ci) md ms ts =
     map_option (map_prod CompleteInfo id) (complete_markAsProcessed ci md ms ts)"
| "bi_markAsProcessed (DeltaInfo di) md ms ts =
     map_option (map_prod DeltaInfo id) (delta_markAsProcessed di md ms ts)"

text \<open>The type assertion to \<open>deltaBundleInfo\<close> and the recovery: complete-state elements have none.\<close>

fun bi_handleFailure ::
    "(string set \<Rightarrow> string list) \<Rightarrow> bundle_info \<Rightarrow> bundle_metadata \<Rightarrow> metas \<Rightarrow> (bundle_info \<times> metas) option" where
  "bi_handleFailure enum (CompleteInfo ci) failed ms = Some (CompleteInfo ci, ms)"
| "bi_handleFailure enum (DeltaInfo di) failed ms =
     map_option (map_prod DeltaInfo id) (delta_handleFailure enum di failed ms)"

section \<open>Well-formed bundles and metadata\<close>

text \<open>The bundles the code can handle without a nil dereference: the leaf hub set the version and,
  for a dependant bundle, the version of the base.\<close>

definition wf_bundle :: "status_bundle \<Rightarrow> bool" where
  "wf_bundle b \<longleftrightarrow> GetVersion b \<noteq> None \<and> dependant_bundle b \<noteq> Some None"

definition transport_ok :: "addr option \<Rightarrow> tmetas \<Rightarrow> bool" where
  "transport_ok p ts \<longleftrightarrow> (\<exists>t. p = Some t \<and> t < length ts)"

definition metas_ok :: "metas \<Rightarrow> tmetas \<Rightarrow> bool" where
  "metas_ok ms ts \<longleftrightarrow>
     (\<forall>md \<in> set ms. md_bundleVersion md \<noteq> None \<and> transport_ok (md_transport md) ts)"

text \<open>The invariants of the two implementations. \<open>ty\<close> is the bundle type of the element, \<open>ip\<close> says
  whether a bundle of the element is with a db worker.\<close>

definition complete_inv :: "string \<Rightarrow> bool \<Rightarrow> complete_info \<Rightarrow> metas \<Rightarrow> tmetas \<Rightarrow> bool" where
  "complete_inv ty ip bi ms ts \<longleftrightarrow> metas_ok ms ts \<and>
     (ci_metadata bi = None \<longrightarrow> ci_bundle bi = None \<and> \<not> ip) \<and>
     (\<forall>a. ci_metadata bi = Some a \<longrightarrow> a < length ms \<and> md_bundleType (ms ! a) = ty \<and>
        (\<forall>b. ci_bundle bi = Some b \<longrightarrow> wf_bundle b \<and> GetBundleType b = ty \<and>
           GetVersion b = md_bundleVersion (ms ! a)))"

definition delta_wf :: "delta_bundle \<Rightarrow> bool" where
  "delta_wf d \<longleftrightarrow> db_BaseBundleVersion d \<noteq> None \<and> db_BundleVersion d \<noteq> None"

definition delta_inv :: "string \<Rightarrow> bool \<Rightarrow> delta_info \<Rightarrow> metas \<Rightarrow> tmetas \<Rightarrow> bool" where
  "delta_inv ty ip bi ms ts \<longleftrightarrow> metas_ok ms ts \<and>
     ty = bundle_struct NewDeltaComplianceStatusBundle \<and>
     (di_metadata bi = None \<longrightarrow> di_bundle bi = None \<and> \<not> ip) \<and>
     (\<forall>a. di_metadata bi = Some a \<longrightarrow> a < length ms \<and> md_bundleType (ms ! a) = ty \<and>
        transport_ok (di_lastReceivedTransport bi) ts \<and> di_deltaLineHead bi \<noteq> None \<and>
        (\<forall>d. di_bundle bi = Some d \<longrightarrow> delta_wf d \<and> db_BundleVersion d = md_bundleVersion (ms ! a)) \<and>
        (ip \<longrightarrow> transport_ok (di_lastDispatched_lowest bi) ts \<and>
           (\<exists>d. di_lastDispatched_bundle bi = Some d \<and> delta_wf d \<and>
              (di_bundle bi = None \<longrightarrow> db_BundleVersion d = md_bundleVersion (ms ! a)))))"

fun bi_inv :: "string \<Rightarrow> bool \<Rightarrow> bundle_info \<Rightarrow> metas \<Rightarrow> tmetas \<Rightarrow> bool" where
  "bi_inv ty ip (CompleteInfo ci) ms ts = complete_inv ty ip ci ms ts"
| "bi_inv ty ip (DeltaInfo di) ms ts = delta_inv ty ip di ms ts"

lemma metas_ok_append [simp]: "metas_ok (ms @ ns) ts \<longleftrightarrow> metas_ok ms ts \<and> metas_ok ns ts"
  by (auto simp: metas_ok_def)

lemma metas_ok_update:
  "metas_ok ms ts \<Longrightarrow> md_bundleVersion md \<noteq> None \<Longrightarrow> transport_ok (md_transport md) ts \<Longrightarrow>
    metas_ok (ms[a := md]) ts"
  using set_update_subset_insert [of ms a md] by (auto simp: metas_ok_def)

lemma metas_okD: "metas_ok ms ts \<Longrightarrow> a < length ms \<Longrightarrow>
    md_bundleVersion (ms ! a) \<noteq> None \<and> transport_ok (md_transport (ms ! a)) ts"
  by (simp add: metas_ok_def)

lemma transport_ok_Some [simp]: "transport_ok (Some t) ts \<longleftrightarrow> t < length ts"
  by (simp add: transport_ok_def)

lemma transport_ok_mono: "transport_ok p ts \<Longrightarrow> length ts \<le> length ts' \<Longrightarrow> transport_ok p ts'"
  by (auto simp: transport_ok_def)

lemma metas_ok_mono: "metas_ok ms ts \<Longrightarrow> length ts \<le> length ts' \<Longrightarrow> metas_ok ms ts'"
  by (auto simp: metas_ok_def intro: transport_ok_mono)

lemma bi_inv_mono: "bi_inv ty ip bi ms ts \<Longrightarrow> length ts \<le> length ts' \<Longrightarrow> bi_inv ty ip bi ms ts'"
  by (cases bi) (auto simp: complete_inv_def delta_inv_def intro: metas_ok_mono transport_ok_mono)

lemma mark_transport_ok:
  "transport_ok p ts \<Longrightarrow> \<exists>ts'. mark_transport ts p = Some ts' \<and> length ts' = length ts"
  by (auto simp: transport_ok_def mark_transport_def go_simps)

section \<open>The contract of bundleInfo\<close>

locale bundle_info =
  fixes getBundle :: "'i \<Rightarrow> status_bundle option"
    and getMetadata :: "'i \<Rightarrow> metas \<Rightarrow> (addr option \<times> 'i \<times> metas) option"
    and update :: "'i \<Rightarrow> status_bundle \<Rightarrow> addr \<Rightarrow> bool \<Rightarrow> metas \<Rightarrow> (bundle_error + 'i \<times> metas) option"
    and toCommit :: "'i \<Rightarrow> metas \<Rightarrow> addr option option"
    and markAsProcessed :: "'i \<Rightarrow> bundle_metadata \<Rightarrow> metas \<Rightarrow> tmetas \<Rightarrow> ('i \<times> tmetas) option"
    and invar :: "string \<Rightarrow> bool \<Rightarrow> 'i \<Rightarrow> metas \<Rightarrow> tmetas \<Rightarrow> bool"
  assumes update_ok: "invar ty ip bi ms ts \<Longrightarrow> wf_bundle b \<Longrightarrow> GetBundleType b = ty \<Longrightarrow> t < length ts \<Longrightarrow>
      \<exists>bi' ms' b'. update bi b t (\<not> ip) ms = Some (Inr (bi', ms')) \<and> invar ty ip bi' ms' ts \<and>
        getBundle bi' = Some b' \<and> GetVersion b' = GetVersion b \<and> wf_bundle b'"
    and update_keeps: "update bi b t False ms = Some (Inr (bi', ms')) \<Longrightarrow> \<exists>ns. ms' = ms @ ns"
    and getMetadata_ok: "invar ty False bi ms ts \<Longrightarrow> getBundle bi = Some b \<Longrightarrow>
      \<exists>a bi' ms'. getMetadata bi ms = Some (Some a, bi', ms') \<and> invar ty True bi' ms' ts \<and>
        length ms' = length ms \<and> a < length ms \<and> md_bundleType (ms' ! a) = ty \<and>
        md_bundleVersion (ms' ! a) = GetVersion b"
    and mark_ok: "invar ty True bi ms ts \<Longrightarrow> a < length ms \<Longrightarrow>
      \<exists>bi' ts'. markAsProcessed bi (ms ! a) ms ts = Some (bi', ts') \<and> invar ty False bi' ms ts' \<and>
        length ts' = length ts"
    and toCommit_ok: "invar ty ip bi ms ts \<Longrightarrow>
      \<exists>p. toCommit bi ms = Some p \<and> (p = None \<or> transport_ok p ts)"
    and getBundle_wf: "invar ty ip bi ms ts \<Longrightarrow> getBundle bi = Some b \<Longrightarrow> wf_bundle b \<and> GetBundleType b = ty"
begin

text \<open>A run of updates, as the element makes them while a worker processes an earlier bundle.\<close>

fun updates :: "'i \<Rightarrow> metas \<Rightarrow> (status_bundle \<times> addr) list \<Rightarrow> ('i \<times> metas) option" where
  "updates bi ms [] = Some (bi, ms)"
| "updates bi ms ((b, t) # us) =
     (case update bi b t False ms of Some (Inr (bi', ms')) \<Rightarrow> updates bi' ms' us | _ \<Rightarrow> None)"

lemma updates_keep: "updates bi ms us = Some (bi', ms') \<Longrightarrow> \<exists>ns. ms' = ms @ ns"
proof (induction us arbitrary: bi ms)
  case (Cons u us)
  then obtain b t bi1 ms1 where u: "u = (b, t)" and up: "update bi b t False ms = Some (Inr (bi1, ms1))"
    and rest: "updates bi1 ms1 us = Some (bi', ms')"
    by (cases u) (auto split: option.splits sum.splits)
  from Cons.IH [OF rest] update_keeps [OF up] show ?case by auto
qed simp

lemma updates_total:
  "invar ty True bi ms ts \<Longrightarrow> \<forall>(b, t) \<in> set us. wf_bundle b \<and> GetBundleType b = ty \<and> t < length ts \<Longrightarrow>
    \<exists>bi' ms'. updates bi ms us = Some (bi', ms') \<and> invar ty True bi' ms' ts"
proof (induction us arbitrary: bi ms)
  case (Cons u us)
  obtain b t where u: "u = (b, t)" by (cases u)
  with Cons.prems update_ok [of ty True bi ms ts b t] obtain bi1 ms1
    where "update bi b t False ms = Some (Inr (bi1, ms1))" and "invar ty True bi1 ms1 ts" by auto
  with Cons.IH [of bi1 ms1] Cons.prems u show ?case by simp
qed simp

text \<open>The metadata a worker holds does not change however many newer bundles arrive, and reading it
  when the worker reports still gives what it was given.\<close>

lemma dispatched_metadata_stable:
  assumes "updates bi ms us = Some (bi', ms')" and "a < length ms"
  shows "deref ms' a = deref ms a"
  using updates_keep [OF assms(1)] assms(2) by (auto simp: deref_def nth_append)

end

section \<open>Both implementations keep the contract\<close>

lemma wf_bundle_delta [simp]: "wf_bundle (DeltaComplianceStatusBundle d) \<longleftrightarrow> delta_wf d"
  by (auto simp: wf_bundle_def delta_wf_def)

lemma delta_struct_iff:
  "bundle_struct b = bundle_struct NewDeltaComplianceStatusBundle \<longleftrightarrow> (\<exists>d. b = DeltaComplianceStatusBundle d)"
  by (cases b) (auto simp: NewDeltaComplianceStatusBundle_def)

lemma InheritEvents_wf:
  assumes "delta_wf d" and "old = None \<or> (\<exists>e. old = Some (DeltaComplianceStatusBundle e) \<and> delta_wf e)"
  obtains d' where "InheritEvents enum d old = Some (Inr d')" and "delta_wf d'"
    and "db_BundleVersion d' = db_BundleVersion d"
    and "db_BaseBundleVersion d' = db_BaseBundleVersion d"
  using assms by (fastforce simp: InheritEvents_def delta_wf_def)

lemma complete_update_ok:
  assumes "complete_inv ty ip bi ms ts" "wf_bundle b" "GetBundleType b = ty" "t < length ts"
  shows "\<exists>bi' ms' b'. complete_update bi b t (\<not> ip) ms = Some (Inr (bi', ms')) \<and> complete_inv ty ip bi' ms' ts \<and>
    complete_getBundle bi' = Some b' \<and> GetVersion b' = GetVersion b \<and> wf_bundle b'"
proof -
  have v: "GetVersion b \<noteq> None" using assms(2) by (simp add: wf_bundle_def)
  have ms: "metas_ok ms ts" using assms(1) by (simp add: complete_inv_def)
  show ?thesis
  proof (cases "if \<not> ip then ci_metadata bi else None")
    case None
    with assms v ms show ?thesis
      by (auto simp: complete_update_def Let_def complete_inv_def complete_getBundle_def metas_ok_def
            split: if_splits)
  next
    case (Some a)
    with assms have "a < length ms" "ci_metadata bi = Some a" "\<not> ip"
      by (auto simp: complete_inv_def split: if_splits)
    with assms v ms show ?thesis
      by (auto simp: complete_update_def Let_def complete_inv_def complete_getBundle_def go_simps
            intro!: metas_ok_update)
  qed
qed

interpretation complete: bundle_info complete_getBundle complete_getMetadata complete_update
  complete_getTransportMetadataToCommit complete_markAsProcessed complete_inv
proof
  fix ty ip bi ms ts b t
  show "\<exists>bi' ms' b'. complete_update bi b t (\<not> ip) ms = Some (Inr (bi', ms')) \<and>
      complete_inv ty ip bi' ms' ts \<and>
      complete_getBundle bi' = Some b' \<and> GetVersion b' = GetVersion b \<and> wf_bundle b'"
    if "complete_inv ty ip bi ms ts" "wf_bundle b" "GetBundleType b = ty" "t < length ts"
    using that by (rule complete_update_ok)
next
  fix bi b t ms bi' ms'
  show "complete_update bi b t False ms = Some (Inr (bi', ms')) \<Longrightarrow> \<exists>ns. ms' = ms @ ns"
    by (auto simp: complete_update_def Let_def)
next
  fix ty bi ms ts b
  show "complete_inv ty False bi ms ts \<Longrightarrow> complete_getBundle bi = Some b \<Longrightarrow>
      \<exists>a bi' ms'. complete_getMetadata bi ms = Some (Some a, bi', ms') \<and> complete_inv ty True bi' ms' ts \<and>
        length ms' = length ms \<and> a < length ms \<and> md_bundleType (ms' ! a) = ty \<and>
        md_bundleVersion (ms' ! a) = GetVersion b"
    by (cases "ci_metadata bi")
       (auto simp: complete_getMetadata_def complete_getBundle_def complete_inv_def)
next
  fix ty bi ms ts a
  assume inv: "complete_inv ty True bi ms ts" and a: "a < length ms"
  then obtain cur where cur: "ci_metadata bi = Some cur" "cur < length ms"
    by (cases "ci_metadata bi") (auto simp: complete_inv_def)
  from inv have ms: "metas_ok ms ts" by (simp add: complete_inv_def)
  from metas_okD [OF ms a] metas_okD [OF ms cur(2)] mark_transport_ok [of "md_transport (ms ! a)" ts]
  obtain ts' v w where "mark_transport ts (md_transport (ms ! a)) = Some ts'" "length ts' = length ts"
    "md_bundleVersion (ms ! a) = Some v" "md_bundleVersion (ms ! cur) = Some w" by auto
  with inv cur metas_ok_mono [OF ms, of ts']
  show "\<exists>bi' ts'. complete_markAsProcessed bi (ms ! a) ms ts = Some (bi', ts') \<and>
      complete_inv ty False bi' ms ts' \<and> length ts' = length ts"
    by (auto simp: complete_markAsProcessed_def complete_inv_def go_simps)
next
  fix ty ip bi ms ts
  assume inv: "complete_inv ty ip bi ms ts"
  then have ms: "metas_ok ms ts" by (simp add: complete_inv_def)
  show "\<exists>p. complete_getTransportMetadataToCommit bi ms = Some p \<and> (p = None \<or> transport_ok p ts)"
    using inv metas_okD [OF ms]
    by (auto simp: complete_inv_def complete_getTransportMetadataToCommit_def go_simps split: option.splits)
next
  fix ty ip bi ms ts b
  show "complete_inv ty ip bi ms ts \<Longrightarrow> complete_getBundle bi = Some b \<Longrightarrow> wf_bundle b \<and> GetBundleType b = ty"
    by (cases "ci_metadata bi") (auto simp: complete_inv_def complete_getBundle_def)
qed

lemma delta_updateMetadata_ok:
  assumes "metas_ok ms ts" "v \<noteq> None" "t < length ts"
    and "\<forall>a. di_metadata bi = Some a \<longrightarrow> a < length ms \<and> md_bundleType (ms ! a) = ty"
    and "di_metadata bi = None \<longrightarrow> \<not> ip"
  obtains bi' ms' a where "delta_updateMetadata bi ty v t (\<not> ip) ms = Some (bi', ms')"
    and "bi' = bi\<lparr>di_metadata := Some a, di_lastReceivedTransport := Some t\<rparr>"
    and "a < length ms'" "metas_ok ms' ts" "md_bundleType (ms' ! a) = ty" "md_bundleVersion (ms' ! a) = v"
    and "ip \<longrightarrow> (\<exists>ns. ms' = ms @ ns) \<and> a = length ms"
proof (cases "di_metadata bi")
  case None
  with assms that show thesis
    by (auto simp: delta_updateMetadata_def go_simps nth_append metas_ok_def list_update_append)
next
  case (Some a)
  then have a: "a < length ms" "md_bundleType (ms ! a) = ty" using assms(4) by auto
  note ok = metas_okD [OF assms(1) a(1)]
  show thesis
  proof (cases ip)
    case True
    from ok obtain t' where "md_transport (ms ! a) = Some t'" "t' < length ts" by (auto simp: transport_ok_def)
    with True Some a ok assms that show thesis
      by (auto simp: delta_updateMetadata_def go_simps nth_append metas_ok_def list_update_append)
  next
    case False
    then have "delta_updateMetadata bi ty v t (\<not> ip) ms =
        Some (bi\<lparr>di_metadata := Some a, di_lastReceivedTransport := Some t\<rparr>,
              ms[a := (ms ! a)\<lparr>md_bundleVersion := v\<rparr>])"
      using Some a by (simp add: delta_updateMetadata_def go_simps)
    then show thesis by (rule that [OF _ refl]) (use False a ok assms in \<open>auto intro!: metas_ok_update\<close>)
  qed
qed

lemma delta_update_ok:
  assumes inv: "delta_inv ty ip bi ms ts" and b: "wf_bundle b" "GetBundleType b = ty" and t: "t < length ts"
  shows "\<exists>bi' ms' b'. delta_update enum bi b t (\<not> ip) ms = Some (Inr (bi', ms')) \<and> delta_inv ty ip bi' ms' ts \<and>
    delta_getBundle bi' = Some b' \<and> GetVersion b' = GetVersion b \<and> wf_bundle b'"
proof -
  from inv b obtain d where d: "b = DeltaComplianceStatusBundle d" "delta_wf d"
    by (auto simp: delta_inv_def delta_struct_iff)
  have cur: "di_bundle bi = None \<or> (\<exists>e. di_bundle bi = Some e \<and> delta_wf e)"
    using inv by (cases "di_metadata bi"; cases "di_bundle bi") (auto simp: delta_inv_def)
  then obtain sl where sl: "delta_starts_new_line bi d = Some sl" and slN: "di_bundle bi = None \<longrightarrow> sl"
    using d by (auto simp: delta_starts_new_line_def delta_wf_def)
  have "delta_getBundle bi = None \<or> (\<exists>e. delta_getBundle bi = Some (DeltaComplianceStatusBundle e) \<and> delta_wf e)"
    using cur by (auto simp: delta_getBundle_def)
  from InheritEvents_wf [OF d(2) this, of enum] obtain d' where
    d': "InheritEvents enum d (delta_getBundle bi) = Some (Inr d')" "delta_wf d'"
      "db_BundleVersion d' = db_BundleVersion d" by blast
  let ?bi = "bi\<lparr>di_bundle := Some d'\<rparr>"
  have pre: "metas_ok ms ts" "db_BundleVersion d \<noteq> None" "t < length ts"
    "\<forall>a. di_metadata ?bi = Some a \<longrightarrow> a < length ms \<and> md_bundleType (ms ! a) = ty"
    "di_metadata ?bi = None \<longrightarrow> \<not> ip" using inv d t by (auto simp: delta_inv_def delta_wf_def)
  obtain bi2 ms2 a where um: "delta_updateMetadata ?bi ty (db_BundleVersion d) t (\<not> ip) ms = Some (bi2, ms2)"
    and bi2: "bi2 = ?bi\<lparr>di_metadata := Some a, di_lastReceivedTransport := Some t\<rparr>"
    and a: "a < length ms2" "metas_ok ms2 ts" "md_bundleType (ms2 ! a) = ty"
      "md_bundleVersion (ms2 ! a) = db_BundleVersion d"
    by (rule delta_updateMetadata_ok [OF pre]) blast
  have ip: "ip \<longrightarrow> transport_ok (di_lastDispatched_lowest bi) ts \<and>
      (\<exists>d. di_lastDispatched_bundle bi = Some d \<and> delta_wf d)"
    and head: "\<not> sl \<longrightarrow> di_deltaLineHead bi \<noteq> None"
    using inv slN by (cases "di_metadata bi"; force simp: delta_inv_def)+
  have ty: "ty = bundle_struct NewDeltaComplianceStatusBundle" using inv by (simp add: delta_inv_def)
  show ?thesis
  proof (cases sl)
    case True
    let ?ms3 = "ms2[a := (ms2 ! a)\<lparr>md_transport := Some t\<rparr>]"
    have "metas_ok ?ms3 ts" using a t metas_okD [OF a(2,1)] by (intro metas_ok_update) auto
    moreover have "delta_update enum bi b t (\<not> ip) ms =
        Some (Inr (bi2\<lparr>di_deltaLineHead := db_BundleVersion d\<rparr>, ?ms3))"
      using sl d' um a True b(2) d by (simp add: delta_update_def delta_updateBundle_def bi2 go_simps)
    ultimately show ?thesis using a t ip ty d d' pre
      by (auto simp: delta_inv_def bi2 delta_getBundle_def)
  next
    case False
    have "delta_update enum bi b t (\<not> ip) ms = Some (Inr (bi2, ms2))"
      using sl d' um a False b(2) d by (simp add: delta_update_def delta_updateBundle_def go_simps)
    then show ?thesis using a t ip ty d d' pre head False
      by (auto simp: delta_inv_def bi2 delta_getBundle_def)
  qed
qed

lemma delta_update_keeps:
  assumes "delta_update enum bi b t False ms = Some (Inr (bi', ms'))"
  shows "\<exists>ns. ms' = ms @ ns"
  using assms
  by (cases b)
     (auto simp: delta_update_def delta_updateBundle_def delta_updateMetadata_def bind_Some_iff
        list_update_append split: sum.splits option.splits if_splits)

lemma delta_getMetadata_ok:
  assumes "delta_inv ty False bi ms ts" "delta_getBundle bi = Some b"
  shows "\<exists>a bi' ms'. delta_getMetadata bi ms = Some (Some a, bi', ms') \<and> delta_inv ty True bi' ms' ts \<and>
    length ms' = length ms \<and> a < length ms \<and> md_bundleType (ms' ! a) = ty \<and>
    md_bundleVersion (ms' ! a) = GetVersion b"
proof -
  from assms obtain a d where a: "di_metadata bi = Some a" "a < length ms" "di_bundle bi = Some d"
    "b = DeltaComplianceStatusBundle d"
    by (cases "di_metadata bi") (auto simp: delta_inv_def delta_getBundle_def)
  have ms: "metas_ok ms ts" using assms by (simp add: delta_inv_def)
  show ?thesis
    using a assms metas_okD [OF ms a(2)]
    by (auto simp: delta_getMetadata_def delta_inv_def go_simps intro!: metas_ok_update)
qed

lemma delta_mark_ok:
  assumes inv: "delta_inv ty True bi ms ts" and a: "a < length ms"
  shows "\<exists>bi' ts'. delta_markAsProcessed bi (ms ! a) ms ts = Some (bi', ts') \<and> delta_inv ty False bi' ms ts' \<and>
    length ts' = length ts"
proof -
  have ms: "metas_ok ms ts" using inv by (simp add: delta_inv_def)
  from metas_okD [OF ms a] mark_transport_ok [of "md_transport (ms ! a)" ts] obtain ts'
    where "mark_transport ts (md_transport (ms ! a)) = Some ts'" "length ts' = length ts" by auto
  with inv metas_ok_mono [OF ms, of ts'] show ?thesis
    by (auto simp: delta_markAsProcessed_def delta_inv_def intro: transport_ok_mono)
qed

text \<open>Recovery after a failed handler ends the processing and never panics.\<close>

lemma delta_handleFailure_ok:
  assumes inv: "delta_inv ty True bi ms ts" and a: "a < length ms"
  shows "\<exists>bi' ms'. delta_handleFailure enum bi (ms ! a) ms = Some (bi', ms') \<and> delta_inv ty False bi' ms' ts \<and>
    length ms' = length ms"
proof -
  have ms: "metas_ok ms ts" using inv by (simp add: delta_inv_def)
  obtain m v h d where m: "di_metadata bi = Some m" "m < length ms"
    and v: "md_bundleVersion (ms ! a) = Some v" and h: "di_deltaLineHead bi = Some h"
    and d: "di_lastDispatched_bundle bi = Some d" "delta_wf d"
    and low: "transport_ok (di_lastDispatched_lowest bi) ts"
    using inv metas_okD [OF ms a] by (cases "di_metadata bi") (auto simp: delta_inv_def)
  let ?ms = "ms[m := (ms ! m)\<lparr>md_transport := di_lastDispatched_lowest bi\<rparr>]"
  have ms': "metas_ok ?ms ts" using ms low metas_okD [OF ms m(2)] by (intro metas_ok_update) auto
  show ?thesis
  proof (cases "v < h")
    case True
    with inv v h show ?thesis by (auto simp: delta_handleFailure_def delta_inv_def Let_def)
  next
    case False
    show ?thesis
    proof (cases "di_bundle bi")
      case None
      with False inv m v h d ms' show ?thesis
        by (auto simp: delta_handleFailure_def delta_inv_def Let_def go_simps)
    next
      case (Some e)
      then have e: "delta_wf e" using inv m by (simp add: delta_inv_def)
      from d(2) have "Some (DeltaComplianceStatusBundle d) = None \<or>
          (\<exists>e. Some (DeltaComplianceStatusBundle d) = Some (DeltaComplianceStatusBundle e) \<and> delta_wf e)" by simp
      from InheritEvents_wf [OF e this, of enum] obtain d' where
        "InheritEvents enum e (Some (DeltaComplianceStatusBundle d)) = Some (Inr d')" "delta_wf d'"
        "db_BundleVersion d' = db_BundleVersion e" by blast
      with Some False inv m v h d ms' show ?thesis
        by (auto simp: delta_handleFailure_def delta_inv_def Let_def go_simps)
    qed
  qed
qed

interpretation delta: bundle_info delta_getBundle delta_getMetadata "delta_update enum"
  delta_getTransportMetadataToCommit delta_markAsProcessed delta_inv for enum
proof
  fix ty ip bi ms ts
  assume inv: "delta_inv ty ip bi ms ts"
  then have ms: "metas_ok ms ts" by (simp add: delta_inv_def)
  show "\<exists>p. delta_getTransportMetadataToCommit bi ms = Some p \<and> (p = None \<or> transport_ok p ts)"
    using inv metas_okD [OF ms]
    by (auto simp: delta_inv_def delta_getTransportMetadataToCommit_def go_simps split: option.splits)
next
  fix ty ip bi ms ts b
  show "delta_inv ty ip bi ms ts \<Longrightarrow> delta_getBundle bi = Some b \<Longrightarrow> wf_bundle b \<and> GetBundleType b = ty"
    by (cases "di_metadata bi")
       (auto simp: delta_inv_def delta_getBundle_def NewDeltaComplianceStatusBundle_def)
qed (fact delta_update_ok delta_update_keeps delta_getMetadata_ok delta_mark_ok)+

interpretation bi: bundle_info bi_getBundle bi_getMetadata "bi_update enum"
  bi_getTransportMetadataToCommit bi_markAsProcessed bi_inv for enum
proof
  fix ty ip bi ms ts b t
  show "bi_inv ty ip bi ms ts \<Longrightarrow> wf_bundle b \<Longrightarrow> GetBundleType b = ty \<Longrightarrow> t < length ts \<Longrightarrow>
      \<exists>bi' ms' b'. bi_update enum bi b t (\<not> ip) ms = Some (Inr (bi', ms')) \<and> bi_inv ty ip bi' ms' ts \<and>
        bi_getBundle bi' = Some b' \<and> GetVersion b' = GetVersion b \<and> wf_bundle b'"
    using complete.update_ok [of ty ip _ ms ts b t] delta.update_ok [of ty ip _ ms ts b t enum]
    by (cases bi) (fastforce simp del: GetBundleType_struct)+
next
  fix bi b t ms bi' ms'
  show "bi_update enum bi b t False ms = Some (Inr (bi', ms')) \<Longrightarrow> \<exists>ns. ms' = ms @ ns"
    by (cases bi) (auto dest!: complete.update_keeps delta.update_keeps)
next
  fix ty bi ms ts b
  show "bi_inv ty False bi ms ts \<Longrightarrow> bi_getBundle bi = Some b \<Longrightarrow>
      \<exists>a bi' ms'. bi_getMetadata bi ms = Some (Some a, bi', ms') \<and> bi_inv ty True bi' ms' ts \<and>
        length ms' = length ms \<and> a < length ms \<and> md_bundleType (ms' ! a) = ty \<and>
        md_bundleVersion (ms' ! a) = GetVersion b"
    by (cases bi) (fastforce dest!: complete.getMetadata_ok delta.getMetadata_ok)+
next
  fix ty bi ms ts a
  show "bi_inv ty True bi ms ts \<Longrightarrow> a < length ms \<Longrightarrow>
      \<exists>bi' ts'. bi_markAsProcessed bi (ms ! a) ms ts = Some (bi', ts') \<and> bi_inv ty False bi' ms ts' \<and>
        length ts' = length ts"
    by (cases bi) (fastforce dest!: complete.mark_ok delta.mark_ok)+
next
  fix ty ip bi ms ts
  show "bi_inv ty ip bi ms ts \<Longrightarrow>
      \<exists>p. bi_getTransportMetadataToCommit bi ms = Some p \<and> (p = None \<or> transport_ok p ts)"
    by (cases bi) (auto dest: complete.toCommit_ok delta.toCommit_ok)
next
  fix ty ip bi ms ts b
  show "bi_inv ty ip bi ms ts \<Longrightarrow> bi_getBundle bi = Some b \<Longrightarrow> wf_bundle b \<and> GetBundleType b = ty"
    by (cases bi) (auto dest: complete.getBundle_wf delta.getBundle_wf)
qed

lemma bi_handleFailure_ok:
  assumes "bi_inv ty True bi ms ts" and "a < length ms"
  shows "\<exists>bi' ms'. bi_handleFailure enum bi (ms ! a) ms = Some (bi', ms') \<and> bi_inv ty False bi' ms' ts \<and>
    length ms' = length ms"
proof (cases bi)
  case (CompleteInfo ci)
  with assms show ?thesis by (auto simp: complete_inv_def)
next
  case (DeltaInfo di)
  with assms delta_handleFailure_ok [of ty di ms ts a enum] show ?thesis by auto
qed

end
