(* ===== verification/Statistics.thy ===== *)
theory Statistics
  imports Bundles
begin

text \<open>
  \<open>pkg/statistics\<close>: counters per bundle type. Every component of the status path calls into it, and
  looking up a type that was never registered returns a nil pointer which the method then
  dereferences, so each operation is an option. Time is an argument: \<open>now\<close> is the wall clock in
  nanoseconds. The mutexes make each operation atomic.
\<close>

record time_measurement =
  failures :: int
  successes :: int
  totalDuration :: int
  maxDuration :: int

record conflation_unit_measurement = time_measurement +
  numOfConflations :: int
  startTimestamps :: "string \<rightharpoonup> int"

record bundle_metrics =
  bm_conflationUnit :: conflation_unit_measurement
  bm_database :: time_measurement
  bm_totalReceived :: int

record statistics =
  st_numOfAvailableDBWorkers :: int
  st_conflationReadyQueueSize :: int
  st_bundleMetrics :: "string \<rightharpoonup> bundle_metrics"

definition Milliseconds :: "int \<Rightarrow> int" where
  "Milliseconds duration = go_quot duration 1000000"

definition addUnsafe :: "'a time_measurement_scheme \<Rightarrow> int \<Rightarrow> bool \<Rightarrow> 'a time_measurement_scheme" where
  "addUnsafe tm duration failed =
     (if failed then tm\<lparr>failures := wrap64 (failures tm + 1)\<rparr>
      else (let durationMilliseconds = Milliseconds duration;
                tm = tm\<lparr>successes := wrap64 (successes tm + 1)\<rparr>;
                tm = tm\<lparr>totalDuration := wrap64 (totalDuration tm + durationMilliseconds)\<rparr>
            in if maxDuration tm < durationMilliseconds then tm\<lparr>maxDuration := durationMilliseconds\<rparr> else tm))"

definition tm_add :: "time_measurement \<Rightarrow> int \<Rightarrow> bool \<Rightarrow> time_measurement" where
  "tm_add tm duration failed = addUnsafe tm duration failed"

definition unix_seconds :: "int \<Rightarrow> int" where
  "unix_seconds now = now div 1000000000"

text \<open>\<open>time.Since\<close> saturates at the largest and smallest duration.\<close>

definition since :: "int \<Rightarrow> int \<Rightarrow> int" where
  "since now start_ns = max (- (2 ^ 63)) (min (2 ^ 63 - 1) (now - start_ns))"

definition cum_start :: "int \<Rightarrow> conflation_unit_measurement \<Rightarrow> string \<Rightarrow> conflation_unit_measurement" where
  "cum_start now cum name = cum\<lparr>startTimestamps := (startTimestamps cum)(name \<mapsto> unix_seconds now)\<rparr>"

definition cum_stop :: "int \<Rightarrow> conflation_unit_measurement \<Rightarrow> string \<Rightarrow> conflation_unit_measurement" where
  "cum_stop now cum name =
     (let startTime = (case startTimestamps cum name of None \<Rightarrow> 0 | Some t \<Rightarrow> t)
      in addUnsafe cum (since now (startTime * 1000000000)) False)"

definition incrementNumberOfConflations :: "conflation_unit_measurement \<Rightarrow> conflation_unit_measurement" where
  "incrementNumberOfConflations cum = cum\<lparr>numOfConflations := wrap64 (numOfConflations cum + 1)\<rparr>"

definition newBundleMetrics :: bundle_metrics where
  "newBundleMetrics =
     \<lparr> bm_conflationUnit = \<lparr> failures = 0, successes = 0, totalDuration = 0, maxDuration = 0,
         numOfConflations = 0, startTimestamps = Map.empty \<rparr>,
       bm_database = \<lparr> failures = 0, successes = 0, totalDuration = 0, maxDuration = 0 \<rparr>,
       bm_totalReceived = 0 \<rparr>"

text \<open>The bundle types \<open>NewStatistics\<close> registers, in its order.\<close>

definition statistics_types :: "string list" where
  "statistics_types = map GetBundleType
     [NewManagedClustersStatusBundle, NewClustersPerPolicyBundle, NewCompleteComplianceStatusBundle,
      NewDeltaComplianceStatusBundle, NewMinimalComplianceStatusBundle, NewPlacementRulesBundle,
      NewPlacementsBundle, NewPlacementDecisionsBundle, NewSubscriptionStatusesBundle,
      NewSubscriptionReportsBundle, NewControlInfoBundle, NewLocalPolicySpecBundle,
      NewLocalClustersPerPolicyBundle, NewLocalCompleteComplianceStatusBundle,
      NewLocalPlacementRulesBundle]"

definition NewStatistics :: statistics where
  "NewStatistics =
     \<lparr> st_numOfAvailableDBWorkers = 0, st_conflationReadyQueueSize = 0,
       st_bundleMetrics = foldl (\<lambda>m t. m(t \<mapsto> newBundleMetrics)) Map.empty statistics_types \<rparr>"

text \<open>\<open>s.bundleMetrics[GetBundleType(bundle)]\<close> and an update through the pointer it holds.\<close>

definition update_metrics :: "(bundle_metrics \<Rightarrow> bundle_metrics) \<Rightarrow> status_bundle \<Rightarrow> statistics \<Rightarrow> statistics option" where
  "update_metrics f b s = do {
     m \<leftarrow> st_bundleMetrics s (GetBundleType b);
     Some (s\<lparr>st_bundleMetrics := (st_bundleMetrics s)(GetBundleType b \<mapsto> f m)\<rparr>) }"

definition IncrementNumberOfReceivedBundles :: "statistics \<Rightarrow> status_bundle \<Rightarrow> statistics option" where
  "IncrementNumberOfReceivedBundles s b =
     update_metrics (\<lambda>m. m\<lparr>bm_totalReceived := wrap64 (bm_totalReceived m + 1)\<rparr>) b s"

definition SetNumberOfAvailableDBWorkers :: "statistics \<Rightarrow> int \<Rightarrow> statistics" where
  "SetNumberOfAvailableDBWorkers s numOf = s\<lparr>st_numOfAvailableDBWorkers := numOf\<rparr>"

definition SetConflationReadyQueueSize :: "statistics \<Rightarrow> int \<Rightarrow> statistics" where
  "SetConflationReadyQueueSize s n = s\<lparr>st_conflationReadyQueueSize := n\<rparr>"

definition StartConflationUnitMetrics :: "int \<Rightarrow> statistics \<Rightarrow> status_bundle \<Rightarrow> statistics option" where
  "StartConflationUnitMetrics now s b =
     update_metrics (\<lambda>m. m\<lparr>bm_conflationUnit := cum_start now (bm_conflationUnit m) (GetLeafHubName b)\<rparr>) b s"

definition StopConflationUnitMetrics :: "int \<Rightarrow> statistics \<Rightarrow> status_bundle \<Rightarrow> statistics option" where
  "StopConflationUnitMetrics now s b =
     update_metrics (\<lambda>m. m\<lparr>bm_conflationUnit := cum_stop now (bm_conflationUnit m) (GetLeafHubName b)\<rparr>) b s"

definition IncrementNumberOfConflations :: "statistics \<Rightarrow> status_bundle \<Rightarrow> statistics option" where
  "IncrementNumberOfConflations s b =
     update_metrics (\<lambda>m. m\<lparr>bm_conflationUnit := incrementNumberOfConflations (bm_conflationUnit m)\<rparr>) b s"

definition AddDatabaseMetrics :: "statistics \<Rightarrow> status_bundle \<Rightarrow> int \<Rightarrow> bool \<Rightarrow> statistics option" where
  "AddDatabaseMetrics s b duration failed =
     update_metrics (\<lambda>m. m\<lparr>bm_database := tm_add (bm_database m) duration failed\<rparr>) b s"

section \<open>Every bundle type is registered\<close>

definition stats_complete :: "statistics \<Rightarrow> bool" where
  "stats_complete s \<longleftrightarrow> (\<forall>b. GetBundleType b \<in> dom (st_bundleMetrics s))"

lemma stats_complete_New: "stats_complete NewStatistics"
proof -
  have "dom (foldl (\<lambda>m t. m(t \<mapsto> newBundleMetrics)) m ts) = dom m \<union> set ts" for m and ts :: "string list"
    by (induction ts arbitrary: m) auto
  then have "dom (st_bundleMetrics NewStatistics) = set statistics_types"
    by (simp add: NewStatistics_def)
  moreover have "GetBundleType b \<in> set statistics_types" for b
    by (cases b) (simp_all add: statistics_types_def NewManagedClustersStatusBundle_def
      NewClustersPerPolicyBundle_def NewCompleteComplianceStatusBundle_def NewDeltaComplianceStatusBundle_def
      NewMinimalComplianceStatusBundle_def NewPlacementRulesBundle_def NewPlacementsBundle_def
      NewPlacementDecisionsBundle_def NewSubscriptionStatusesBundle_def NewSubscriptionReportsBundle_def
      NewControlInfoBundle_def NewLocalPolicySpecBundle_def NewLocalClustersPerPolicyBundle_def
      NewLocalCompleteComplianceStatusBundle_def NewLocalPlacementRulesBundle_def)
  ultimately show ?thesis by (simp add: stats_complete_def)
qed

lemma update_metrics_complete:
  assumes "stats_complete s"
  obtains s' where "update_metrics f b s = Some s'" and "stats_complete s'"
proof -
  from assms obtain m where "st_bundleMetrics s (GetBundleType b) = Some m"
    by (auto simp: stats_complete_def dom_def)
  then show thesis using assms that by (auto simp: update_metrics_def stats_complete_def)
qed

lemma update_metrics_Some [dest]:
  "update_metrics f b s = Some s' \<Longrightarrow> stats_complete s \<Longrightarrow> stats_complete s'"
  by (auto simp: update_metrics_def stats_complete_def bind_Some_iff domIff)

lemma SetConflationReadyQueueSize_complete [simp]:
  "stats_complete (SetConflationReadyQueueSize s n) = stats_complete s"
  by (simp add: stats_complete_def SetConflationReadyQueueSize_def)

lemma SetNumberOfAvailableDBWorkers_complete [simp]:
  "stats_complete (SetNumberOfAvailableDBWorkers s n) = stats_complete s"
  by (simp add: stats_complete_def SetNumberOfAvailableDBWorkers_def)

lemma addUnsafe_max: "\<not> failed \<Longrightarrow> Milliseconds d \<le> maxDuration (addUnsafe tm d failed)"
  by (simp add: addUnsafe_def Let_def)

lemma addUnsafe_max_mono: "maxDuration tm \<le> maxDuration (addUnsafe tm d failed)"
  by (simp add: addUnsafe_def Let_def)

end
