(* ===== verification/Ready_Queue.thy ===== *)
theory Ready_Queue
  imports Statistics
begin

text \<open>
  \<open>conflator/ready_queue.go\<close>: the queue of conflation units that have a bundle to process. A unit is
  shared by pointer between the manager, the queue and the workers; the pointer is the name of its
  leaf hub, under which the manager keeps it. The queue's lock makes each operation atomic, and
  \<open>BlockingDequeue\<close> has a result exactly when the goroutine does not wait. The queue reports its
  length to the shared statistics, which the operations thread.

  The locale \<open>fifo\<close> is what the dispatcher relies on: units leave in the order they came, so a unit
  with \<open>n\<close> others before it is handed out after \<open>n\<close> dequeues, whatever is enqueued meanwhile.
\<close>

record ready_queue =
  rq_queue :: "string list"
  rq_statistics :: statistics

definition NewConflationReadyQueue :: "statistics \<Rightarrow> ready_queue" where
  "NewConflationReadyQueue stats = \<lparr> rq_queue = [], rq_statistics = stats \<rparr>"

definition rq_isEmpty :: "ready_queue \<Rightarrow> bool" where
  "rq_isEmpty rq \<longleftrightarrow> length (rq_queue rq) = 0"

definition Enqueue :: "ready_queue \<Rightarrow> string \<Rightarrow> ready_queue" where
  "Enqueue rq cu =
     (let queue = rq_queue rq @ [cu] in
      \<lparr> rq_queue = queue,
        rq_statistics = SetConflationReadyQueueSize (rq_statistics rq) (int (length queue)) \<rparr>)"

definition BlockingDequeue :: "ready_queue \<Rightarrow> (string \<times> ready_queue) option" where
  "BlockingDequeue rq =
     (if rq_isEmpty rq then None
      else (let queue = tl (rq_queue rq) in
            Some (hd (rq_queue rq),
              \<lparr> rq_queue = queue,
                rq_statistics = SetConflationReadyQueueSize (rq_statistics rq) (int (length queue)) \<rparr>)))"

locale fifo =
  fixes enq :: "'q \<Rightarrow> 'a \<Rightarrow> 'q"
    and deq :: "'q \<Rightarrow> ('a \<times> 'q) option"
    and elems :: "'q \<Rightarrow> 'a list"
  assumes elems_enq: "elems (enq q x) = elems q @ [x]"
    and deq_nil: "elems q = [] \<Longrightarrow> deq q = None"
    and deq_cons: "elems q = x # xs \<Longrightarrow> \<exists>q'. deq q = Some (x, q') \<and> elems q' = xs"
begin

text \<open>A schedule of the queue: enqueues of other elements and dequeues. \<open>run\<close> collects what the
  dequeues return; a dequeue of the empty queue waits, so the schedule stops there.\<close>

fun run :: "'q \<Rightarrow> 'a option list \<Rightarrow> 'a list" where
  "run q [] = []"
| "run q (Some x # ops) = run (enq q x) ops"
| "run q (None # ops) = (case deq q of None \<Rightarrow> [] | Some (y, q') \<Rightarrow> y # run q' ops)"

lemma deq_Some: "deq q = Some (x, q') \<longleftrightarrow> elems q = x # elems q' \<and> deq q = Some (x, q')"
  using deq_nil [of q] deq_cons [of q] by (cases "elems q") auto

lemma run_served:
  "n < length (elems q) \<Longrightarrow> n < length (filter (\<lambda>x. x = None) ops) \<Longrightarrow>
    n < length (run q ops) \<and> run q ops ! n = elems q ! n"
proof (induction q ops arbitrary: n rule: run.induct)
  case (2 q x ops)
  then show ?case by (auto simp: elems_enq nth_append)
next
  case (3 q ops)
  from "3.prems" obtain x xs where xs: "elems q = x # xs" by (cases "elems q") auto
  with deq_cons obtain q' where q': "deq q = Some (x, q')" "elems q' = xs" by blast
  with xs "3.prems" "3.IH" [OF q'(1) refl, of "n - 1"] show ?case by (cases n) auto
qed simp

end

interpretation rq: fifo Enqueue BlockingDequeue rq_queue
proof
  fix q x xs
  show "rq_queue q = x # xs \<Longrightarrow> \<exists>q'. BlockingDequeue q = Some (x, q') \<and> rq_queue q' = xs"
    by (auto simp: BlockingDequeue_def rq_isEmpty_def Let_def)
qed (simp_all add: Enqueue_def BlockingDequeue_def rq_isEmpty_def Let_def)

lemma Enqueue_queue [simp]: "rq_queue (Enqueue rq cu) = rq_queue rq @ [cu]"
  by (rule rq.elems_enq)

lemma Enqueue_complete [simp]:
  "stats_complete (rq_statistics (Enqueue rq cu)) = stats_complete (rq_statistics rq)"
  by (simp add: Enqueue_def Let_def)

lemma BlockingDequeue_eq_Some:
  "BlockingDequeue rq = Some (cu, rq') \<Longrightarrow> rq_queue rq = cu # rq_queue rq' \<and>
    stats_complete (rq_statistics rq') = stats_complete (rq_statistics rq)"
  by (auto simp: BlockingDequeue_def rq_isEmpty_def Let_def split: if_splits)

end
