(* ===== verification/Conflation_Unit.thy ===== *)
theory Conflation_Unit
  imports Bundle_Info Ready_Queue
begin

text \<open>
  \<open>conflator/conflation_unit.go\<close>, \<open>conflation_element.go\<close>, \<open>conflation_registration.go\<close>,
  \<open>conflation_priority.go\<close> and \<open>dependency/\<close>: the conflation of the bundles of one leaf hub. The type
  variable \<open>'h\<close> is the type of handler functions. The unit's lock makes each method atomic. The state
  the unit shares with others (the transport metadata, the ready queue and its statistics) is the
  record \<open>shared\<close>, which every method threads. \<^const>\<open>None\<close> is a panic, and in
  \<open>isCurrentOrAnyDependencyInProcess\<close> also an endless recursion.
\<close>

section \<open>Registrations\<close>

datatype bundle_sync_mode = DeltaStateMode | CompleteStateMode

datatype dependency_type = ExactMatch | AtLeast

record dependency =
  dep_BundleType :: string
  dep_DependencyType :: dependency_type

definition NewDependency :: "string \<Rightarrow> dependency_type \<Rightarrow> dependency" where
  "NewDependency bundleType dependencyType =
     \<lparr> dep_BundleType = bundleType, dep_DependencyType = dependencyType \<rparr>"

definition ManagedClustersPriority :: nat where "ManagedClustersPriority = 0"
definition ClustersPerPolicyPriority :: nat where "ClustersPerPolicyPriority = 1"
definition CompleteComplianceStatusPriority :: nat where "CompleteComplianceStatusPriority = 2"
definition DeltaComplianceStatusPriority :: nat where "DeltaComplianceStatusPriority = 3"
definition MinimalComplianceStatusPriority :: nat where "MinimalComplianceStatusPriority = 4"
definition PlacementRulePriority :: nat where "PlacementRulePriority = 5"
definition PlacementPriority :: nat where "PlacementPriority = 6"
definition PlacementDecisionPriority :: nat where "PlacementDecisionPriority = 7"
definition SubscriptionStatusPriority :: nat where "SubscriptionStatusPriority = 8"
definition SubscriptionReportPriority :: nat where "SubscriptionReportPriority = 9"
definition ControlInfoPriority :: nat where "ControlInfoPriority = 10"
definition LocalPolicySpecPriority :: nat where "LocalPolicySpecPriority = 11"
definition LocalClustersPerPolicyPriority :: nat where "LocalClustersPerPolicyPriority = 12"
definition LocalCompleteComplianceStatusPriority :: nat where "LocalCompleteComplianceStatusPriority = 13"
definition LocalPlacementRulesSpecPriority :: nat where "LocalPlacementRulesSpecPriority = 14"

record 'h conflation_registration =
  reg_priority :: nat
  reg_syncMode :: bundle_sync_mode
  reg_bundleType :: string
  reg_handlerFunction :: 'h
  reg_dependency :: "dependency option"

definition NewConflationRegistration ::
    "nat \<Rightarrow> bundle_sync_mode \<Rightarrow> string \<Rightarrow> 'h \<Rightarrow> 'h conflation_registration" where
  "NewConflationRegistration priority syncMode bundleType handlerFunction =
     \<lparr> reg_priority = priority, reg_syncMode = syncMode, reg_bundleType = bundleType,
       reg_handlerFunction = handlerFunction, reg_dependency = None \<rparr>"

definition WithDependency :: "'h conflation_registration \<Rightarrow> dependency \<Rightarrow> 'h conflation_registration" where
  "WithDependency registration d = registration\<lparr>reg_dependency := Some d\<rparr>"

section \<open>Elements\<close>

text \<open>\<open>ce_metas\<close> holds the metadata objects the element has allocated so far.\<close>

record 'h conflation_element =
  ce_bundleInfo :: bundle_info
  ce_metas :: metas
  ce_handlerFunction :: 'h
  ce_dependency :: "dependency option"
  ce_isInProcess :: bool
  ce_lastProcessedBundleVersion :: "bundle_version option"

definition element_update ::
    "(string set \<Rightarrow> string list) \<Rightarrow> 'h conflation_element \<Rightarrow> status_bundle \<Rightarrow> addr \<Rightarrow>
     (bundle_error + 'h conflation_element) option" where
  "element_update enum e b t = do {
     r \<leftarrow> bi_update enum (ce_bundleInfo e) b t (\<not> ce_isInProcess e) (ce_metas e);
     Some (case r of Inl err \<Rightarrow> Inl err
           | Inr (bi, ms) \<Rightarrow> Inr (e\<lparr>ce_bundleInfo := bi, ce_metas := ms\<rparr>)) }"

definition getBundleForProcessing ::
    "'h conflation_element \<Rightarrow> (status_bundle option \<times> addr option \<times> 'h conflation_element) option" where
  "getBundleForProcessing e = do {
     let b = bi_getBundle (ce_bundleInfo e);
     (a, bi, ms) \<leftarrow> bi_getMetadata (ce_bundleInfo e) (ce_metas e);
     Some (b, a, e\<lparr>ce_bundleInfo := bi, ce_metas := ms\<rparr>) }"

section \<open>The unit\<close>

record shared =
  sh_tmetas :: tmetas
  sh_readyQueue :: ready_queue

abbreviation sh_stats :: "shared \<Rightarrow> statistics" where
  "sh_stats sh \<equiv> rq_statistics (sh_readyQueue sh)"

definition set_stats :: "shared \<Rightarrow> statistics \<Rightarrow> shared" where
  "set_stats sh st = sh\<lparr>sh_readyQueue := (sh_readyQueue sh)\<lparr>rq_statistics := st\<rparr>\<rparr>"

record 'h conflation_unit =
  cu_name :: string
  cu_priorityQueue :: "'h conflation_element option list"
  cu_bundleTypeToPriority :: "string \<rightharpoonup> nat"
  cu_requireInitialDependencyChecks :: bool
  cu_isInReadyQueue :: bool

definition noBundleVersion :: "bundle_version option" where
  "noBundleVersion = NewBundleVersion 0 0"

fun create_bundle_info :: "bundle_sync_mode \<Rightarrow> bundle_info" where
  "create_bundle_info DeltaStateMode = DeltaInfo newDeltaStateBundleInfo"
| "create_bundle_info CompleteStateMode = CompleteInfo newCompleteStateBundleInfo"

definition new_element :: "'h conflation_registration \<Rightarrow> 'h conflation_element" where
  "new_element r =
     \<lparr> ce_bundleInfo = create_bundle_info (reg_syncMode r), ce_metas = [],
       ce_handlerFunction = reg_handlerFunction r, ce_dependency = reg_dependency r,
       ce_isInProcess = False, ce_lastProcessedBundleVersion = noBundleVersion \<rparr>"

text \<open>The loop over the registrations; a priority beyond their number is an index out of range.\<close>

fun register_all ::
    "'h conflation_registration list \<Rightarrow> 'h conflation_element option list \<Rightarrow> (string \<rightharpoonup> nat) \<Rightarrow>
     ('h conflation_element option list \<times> (string \<rightharpoonup> nat)) option" where
  "register_all [] pq btp = Some (pq, btp)"
| "register_all (r # rs) pq btp = do {
     pq' \<leftarrow> set_cell pq (reg_priority r) (Some (new_element r));
     register_all rs pq' (btp(reg_bundleType r \<mapsto> reg_priority r)) }"

definition newConflationUnit ::
    "string \<Rightarrow> 'h conflation_registration list \<Rightarrow> bool \<Rightarrow> 'h conflation_unit option" where
  "newConflationUnit name registrations requireInitialDependencyChecks = do {
     (pq, btp) \<leftarrow> register_all registrations (replicate (length registrations) None) Map.empty;
     Some \<lparr> cu_name = name, cu_priorityQueue = pq, cu_bundleTypeToPriority = btp,
            cu_requireInitialDependencyChecks = requireInitialDependencyChecks,
            cu_isInReadyQueue = False \<rparr> }"

text \<open>\<open>cu.bundleTypeToPriority[t]\<close>: a missing key gives priority 0.\<close>

definition priority_of :: "'h conflation_unit \<Rightarrow> string \<Rightarrow> nat" where
  "priority_of cu bundleType =
     (case cu_bundleTypeToPriority cu bundleType of Some p \<Rightarrow> p | None \<Rightarrow> 0)"

text \<open>\<open>cu.priorityQueue[p]\<close>, dereferenced: out of range and nil both panic.\<close>

definition get_element :: "'h conflation_unit \<Rightarrow> nat \<Rightarrow> 'h conflation_element option" where
  "get_element cu p = do { e \<leftarrow> deref (cu_priorityQueue cu) p; e }"

definition set_element :: "'h conflation_unit \<Rightarrow> nat \<Rightarrow> 'h conflation_element \<Rightarrow> 'h conflation_unit" where
  "set_element cu p e = cu\<lparr>cu_priorityQueue := (cu_priorityQueue cu)[p := Some e]\<rparr>"

fun any_in_process :: "'h conflation_element option list \<Rightarrow> bool option" where
  "any_in_process [] = Some False"
| "any_in_process (slot # slots) = do {
     e \<leftarrow> slot;
     if ce_isInProcess e then Some True else any_in_process slots }"

definition cu_isInProcess :: "'h conflation_unit \<Rightarrow> bool option" where
  "cu_isInProcess cu = any_in_process (cu_priorityQueue cu)"

partial_function (option) isCurrentOrAnyDependencyInProcess ::
    "'h conflation_unit \<Rightarrow> 'h conflation_element \<Rightarrow> bool option" where
  "isCurrentOrAnyDependencyInProcess cu e =
     (if ce_isInProcess e then Some True
      else (case ce_dependency e of
              None \<Rightarrow> Some False
            | Some d \<Rightarrow> Option.bind (get_element cu (priority_of cu (dep_BundleType d)))
                          (\<lambda>e'. isCurrentOrAnyDependencyInProcess cu e')))"

declare isCurrentOrAnyDependencyInProcess.simps [code]

definition checkDependency :: "'h conflation_unit \<Rightarrow> 'h conflation_element \<Rightarrow> bool option" where
  "checkDependency cu e =
     (case ce_dependency e of
        None \<Rightarrow> Some True
      | Some d \<Rightarrow> do {
          b \<leftarrow> bi_getBundle (ce_bundleInfo e);
          (case dependant_bundle b of
             None \<Rightarrow> Some False
           | Some dependencyVersion \<Rightarrow> do {
               dependencyElement \<leftarrow> get_element cu (priority_of cu (dep_BundleType d));
               let lastProcessed = ce_lastProcessedBundleVersion dependencyElement;
               initial \<leftarrow> (if \<not> cu_requireInitialDependencyChecks cu
                          then Equals lastProcessed noBundleVersion else Some False);
               if initial then Some True
               else (case dep_DependencyType d of
                       ExactMatch \<Rightarrow> Equals dependencyVersion lastProcessed
                     | AtLeast \<Rightarrow> map_option Not (NewerThan dependencyVersion lastProcessed)) }) })"

text \<open>The condition of the loop in \<open>getNextReadyBundlePriority\<close>, with Go's short-circuit evaluation.\<close>

definition element_ready :: "'h conflation_unit \<Rightarrow> 'h conflation_element \<Rightarrow> bool option" where
  "element_ready cu e =
     (case bi_getBundle (ce_bundleInfo e) of
        None \<Rightarrow> Some False
      | Some _ \<Rightarrow> do {
          busy \<leftarrow> isCurrentOrAnyDependencyInProcess cu e;
          if busy then Some False else checkDependency cu e })"

fun next_ready :: "'h conflation_unit \<Rightarrow> nat \<Rightarrow> 'h conflation_element option list \<Rightarrow> nat option option" where
  "next_ready cu priority [] = Some None"
| "next_ready cu priority (slot # slots) = do {
     e \<leftarrow> slot;
     ready \<leftarrow> element_ready cu e;
     if ready then Some (Some priority) else next_ready cu (priority + 1) slots }"

text \<open>The result \<open>invalidPriority\<close> (-1) is \<open>Some None\<close>.\<close>

definition getNextReadyBundlePriority :: "'h conflation_unit \<Rightarrow> nat option option" where
  "getNextReadyBundlePriority cu = next_ready cu 0 (cu_priorityQueue cu)"

definition addCUToReadyQueueIfNeeded ::
    "'h conflation_unit \<Rightarrow> shared \<Rightarrow> ('h conflation_unit \<times> shared) option" where
  "addCUToReadyQueueIfNeeded cu sh =
     (if cu_isInReadyQueue cu then Some (cu, sh)
      else do {
        inProcess \<leftarrow> cu_isInProcess cu;
        if inProcess then Some (cu, sh)
        else do {
          nextReady \<leftarrow> getNextReadyBundlePriority cu;
          Some (case nextReady of
            None \<Rightarrow> (cu, sh)
          | Some _ \<Rightarrow> (cu\<lparr>cu_isInReadyQueue := True\<rparr>,
                       sh\<lparr>sh_readyQueue := Enqueue (sh_readyQueue sh) (cu_name cu)\<rparr>)) } })"

definition cu_insert ::
    "(string set \<Rightarrow> string list) \<Rightarrow> int \<Rightarrow> 'h conflation_unit \<Rightarrow> shared \<Rightarrow> status_bundle \<Rightarrow> addr \<Rightarrow>
     ('h conflation_unit \<times> shared) option" where
  "cu_insert enum now cu sh b t = do {
     let priority = priority_of cu (GetBundleType b);
     e \<leftarrow> get_element cu priority;
     newerThanProcessed \<leftarrow> NewerThan (GetVersion b) (ce_lastProcessedBundleVersion e);
     if \<not> newerThanProcessed then Some (cu, sh)
     else do {
       newerThanPending \<leftarrow>
         (case bi_getBundle (ce_bundleInfo e) of
            None \<Rightarrow> Some True
          | Some pending \<Rightarrow> NewerThan (GetVersion b) (GetVersion pending));
       if \<not> newerThanPending then Some (cu, sh)
       else do {
         st \<leftarrow> StartConflationUnitMetrics now (sh_stats sh) b;
         let sh = set_stats sh st;
         r \<leftarrow> element_update enum e b t;
         (case r of
            Inl err \<Rightarrow> Some (cu, sh)
          | Inr e' \<Rightarrow> addCUToReadyQueueIfNeeded (set_element cu priority e') sh) } } }"

text \<open>A pointer to a metadata object: the priority of the element that allocated it and its address there.\<close>

type_synonym metadata_ptr = "nat \<times> addr"

datatype cu_error = ErrNoReadyBundle

definition GetNext ::
    "int \<Rightarrow> 'h conflation_unit \<Rightarrow> shared \<Rightarrow>
     ((cu_error + status_bundle option \<times> metadata_ptr option \<times> 'h) \<times> 'h conflation_unit \<times> shared) option" where
  "GetNext now cu sh = do {
     nextReady \<leftarrow> getNextReadyBundlePriority cu;
     (case nextReady of
        None \<Rightarrow> Some (Inl ErrNoReadyBundle, cu, sh)
      | Some priority \<Rightarrow> do {
          e \<leftarrow> get_element cu priority;
          let cu = cu\<lparr>cu_isInReadyQueue := False\<rparr>;
          let e = e\<lparr>ce_isInProcess := True\<rparr>;
          pending \<leftarrow> bi_getBundle (ce_bundleInfo e);
          st \<leftarrow> StopConflationUnitMetrics now (sh_stats sh) pending;
          (b, a, e') \<leftarrow> getBundleForProcessing e;
          Some (Inr (b, map_option (\<lambda>a. (priority, a)) a, ce_handlerFunction e),
                set_element cu priority e', set_stats sh st) }) }"

definition read_metadata :: "'h conflation_unit \<Rightarrow> metadata_ptr \<Rightarrow> bundle_metadata option" where
  "read_metadata cu ptr = do { e \<leftarrow> get_element cu (fst ptr); deref (ce_metas e) (snd ptr) }"

definition ReportResult ::
    "(string set \<Rightarrow> string list) \<Rightarrow> 'h conflation_unit \<Rightarrow> shared \<Rightarrow> metadata_ptr \<Rightarrow> bool \<Rightarrow>
     ('h conflation_unit \<times> shared) option" where
  "ReportResult enum cu sh metadata failed = do {
     md \<leftarrow> read_metadata cu metadata;
     let priority = priority_of cu (md_bundleType md);
     e \<leftarrow> get_element cu priority;
     let e = e\<lparr>ce_isInProcess := False\<rparr>;
     if failed then do {
       (bi, ms) \<leftarrow> bi_handleFailure enum (ce_bundleInfo e) md (ce_metas e);
       addCUToReadyQueueIfNeeded (set_element cu priority (e\<lparr>ce_bundleInfo := bi, ce_metas := ms\<rparr>)) sh }
     else do {
       newer \<leftarrow> NewerThan (md_bundleVersion md) (ce_lastProcessedBundleVersion e);
       let e = (if newer then e\<lparr>ce_lastProcessedBundleVersion := md_bundleVersion md\<rparr> else e);
       (bi, ts) \<leftarrow> bi_markAsProcessed (ce_bundleInfo e) md (ce_metas e) (sh_tmetas sh);
       addCUToReadyQueueIfNeeded (set_element cu priority (e\<lparr>ce_bundleInfo := bi\<rparr>))
         (sh\<lparr>sh_tmetas := ts\<rparr>) } }"

fun collect_metadata :: "'h conflation_element option list \<Rightarrow> addr list option" where
  "collect_metadata [] = Some []"
| "collect_metadata (slot # slots) = do {
     e \<leftarrow> slot;
     t \<leftarrow> bi_getTransportMetadataToCommit (ce_bundleInfo e) (ce_metas e);
     ts \<leftarrow> collect_metadata slots;
     Some (case t of None \<Rightarrow> ts | Some a \<Rightarrow> a # ts) }"

definition getBundlesMetadata :: "'h conflation_unit \<Rightarrow> addr list option" where
  "getBundlesMetadata cu = collect_metadata (cu_priorityQueue cu)"

end
