(* ===== verification/Conflation_Invariant.thy ===== *)
theory Conflation_Invariant
  imports Conflation_Unit
begin

text \<open>
  The invariant of a conflation unit and that its operations keep it and never panic. The invariant
  carries a ghost \<open>job\<close>: the metadata pointer of the bundle that a db worker is processing, if
  there is one. Its last clause is the liveness half of the design: a unit that is neither in the
  ready queue nor in process has no ready bundle, so no bundle waits unnoticed.
\<close>

section \<open>Shape of a unit\<close>

definition el :: "'h conflation_unit \<Rightarrow> nat \<Rightarrow> 'h conflation_element" where
  "el cu i = the (cu_priorityQueue cu ! i)"

text \<open>\<open>tys\<close> lists the bundle types by priority.\<close>

definition cu_shape :: "string list \<Rightarrow> 'h conflation_unit \<Rightarrow> bool" where
  "cu_shape tys cu \<longleftrightarrow> distinct tys \<and> length (cu_priorityQueue cu) = length tys \<and>
     (\<forall>i < length tys. cu_priorityQueue cu ! i \<noteq> None \<and> cu_bundleTypeToPriority cu (tys ! i) = Some i \<and>
        (\<forall>d. ce_dependency (el cu i) = Some d \<longrightarrow> (\<exists>j < i. dep_BundleType d = tys ! j)))"

lemma get_element_el: "cu_shape tys cu \<Longrightarrow> i < length tys \<Longrightarrow> get_element cu i = Some (el cu i)"
  by (auto simp: cu_shape_def get_element_def el_def go_simps)

lemma priority_of_ty: "cu_shape tys cu \<Longrightarrow> i < length tys \<Longrightarrow> priority_of cu (tys ! i) = i"
  by (simp add: cu_shape_def priority_of_def)

lemma dependency_lower:
  assumes "cu_shape tys cu" "i < length tys" "ce_dependency (el cu i) = Some d"
  obtains j where "j < i" "j < length tys" "get_element cu (priority_of cu (dep_BundleType d)) = Some (el cu j)"
    "dep_BundleType d = tys ! j"
proof -
  from assms obtain j where "j < i" "dep_BundleType d = tys ! j" by (auto simp: cu_shape_def)
  with assms that [of j] show thesis by (simp add: get_element_el priority_of_ty)
qed

lemma el_set_element:
  "cu_shape tys cu \<Longrightarrow> i < length tys \<Longrightarrow> el (set_element cu i e) j = (if i = j then e else el cu j)"
  by (auto simp: el_def set_element_def cu_shape_def)

lemma set_element_fields [simp]:
  "cu_bundleTypeToPriority (set_element cu i e) = cu_bundleTypeToPriority cu"
  "cu_requireInitialDependencyChecks (set_element cu i e) = cu_requireInitialDependencyChecks cu"
  "cu_isInReadyQueue (set_element cu i e) = cu_isInReadyQueue cu"
  "cu_name (set_element cu i e) = cu_name cu"
  by (simp_all add: set_element_def)

lemma el_readyFlag [simp]: "el (cu\<lparr>cu_isInReadyQueue := f\<rparr>) i = el cu i"
  by (simp add: el_def)

lemma cu_shape_readyFlag [simp]: "cu_shape tys (cu\<lparr>cu_isInReadyQueue := f\<rparr>) = cu_shape tys cu"
  by (simp add: cu_shape_def el_def)

lemma cu_shape_set_element:
  assumes "cu_shape tys cu" "i < length tys" "ce_dependency e = ce_dependency (el cu i)"
  shows "cu_shape tys (set_element cu i e)"
  using assms by (auto simp: cu_shape_def set_element_def el_def nth_list_update)

section \<open>Readiness never panics\<close>

lemma isCurrentOrAny_total:
  assumes "cu_shape tys cu" "i < length tys"
  shows "\<exists>r. isCurrentOrAnyDependencyInProcess cu (el cu i) = Some r"
  using assms(2)
proof (induction i rule: less_induct)
  case (less i)
  show ?case
  proof (cases "ce_dependency (el cu i)")
    case None
    then show ?thesis by (subst isCurrentOrAnyDependencyInProcess.simps) auto
  next
    case (Some d)
    from dependency_lower [OF assms(1) less.prems this] obtain j
      where "j < i" "get_element cu (priority_of cu (dep_BundleType d)) = Some (el cu j)" by blast
    with Some less show ?thesis by (subst isCurrentOrAnyDependencyInProcess.simps) auto
  qed
qed

lemma isCurrentOrAny_self:
  "isCurrentOrAnyDependencyInProcess cu e = Some False \<Longrightarrow> \<not> ce_isInProcess e"
  by (subst (asm) isCurrentOrAnyDependencyInProcess.simps) (auto split: if_splits)

text \<open>The chain of dependencies of a ready element is idle, all the way down.\<close>

inductive dependency_chain :: "'h conflation_unit \<Rightarrow> 'h conflation_element \<Rightarrow> 'h conflation_element \<Rightarrow> bool"
  for cu where
  chain_refl: "dependency_chain cu e e"
| chain_step: "ce_dependency e = Some d \<Longrightarrow>
    get_element cu (priority_of cu (dep_BundleType d)) = Some e' \<Longrightarrow>
    dependency_chain cu e' e'' \<Longrightarrow> dependency_chain cu e e''"

lemma isCurrentOrAny_chain:
  "dependency_chain cu e e' \<Longrightarrow> isCurrentOrAnyDependencyInProcess cu e = Some False \<Longrightarrow> \<not> ce_isInProcess e'"
proof (induction rule: dependency_chain.induct)
  case (chain_refl e)
  then show ?case by (rule isCurrentOrAny_self)
next
  case (chain_step e d e' e'')
  then show ?case by (subst (asm) isCurrentOrAnyDependencyInProcess.simps) (auto split: if_splits)
qed

section \<open>The invariant\<close>

fun fresh :: "bundle_info \<Rightarrow> metas \<Rightarrow> bundle_version \<Rightarrow> addr option \<Rightarrow> bool" where
  "fresh (CompleteInfo ci) ms v ja \<longleftrightarrow>
     (\<forall>b. ci_bundle ci = Some b \<longrightarrow> v < the (GetVersion b)) \<and>
     (\<forall>a. ja = Some a \<longrightarrow> v < the (md_bundleVersion (ms ! a)) \<and>
        (\<exists>b. ci_bundle ci = Some b \<and> the (md_bundleVersion (ms ! a)) \<le> the (GetVersion b)))"
| "fresh (DeltaInfo di) ms v ja \<longleftrightarrow> True"

definition element_ok :: "string \<Rightarrow> addr option \<Rightarrow> 'h conflation_element \<Rightarrow> tmetas \<Rightarrow> bool" where
  "element_ok ty ja e ts \<longleftrightarrow>
     ce_isInProcess e = (ja \<noteq> None) \<and>
     bi_inv ty (ja \<noteq> None) (ce_bundleInfo e) (ce_metas e) ts \<and>
     (\<exists>v. ce_lastProcessedBundleVersion e = Some v \<and> fresh (ce_bundleInfo e) (ce_metas e) v ja) \<and>
     (\<forall>a. ja = Some a \<longrightarrow> a < length (ce_metas e) \<and> md_bundleType (ce_metas e ! a) = ty)"

definition job_at :: "metadata_ptr option \<Rightarrow> nat \<Rightarrow> addr option" where
  "job_at job i = (case job of Some (k, a) \<Rightarrow> if k = i then Some a else None | None \<Rightarrow> None)"

definition unit_ok :: "string list \<Rightarrow> 'h conflation_unit \<Rightarrow> tmetas \<Rightarrow> metadata_ptr option \<Rightarrow> bool" where
  "unit_ok tys cu ts job \<longleftrightarrow> cu_shape tys cu \<and>
     (\<forall>i < length tys. element_ok (tys ! i) (job_at job i) (el cu i) ts) \<and>
     (\<forall>k a. job = Some (k, a) \<longrightarrow> k < length tys \<and> \<not> cu_isInReadyQueue cu)"

definition cu_inv :: "string list \<Rightarrow> 'h conflation_unit \<Rightarrow> shared \<Rightarrow> metadata_ptr option \<Rightarrow> bool" where
  "cu_inv tys cu sh job \<longleftrightarrow> unit_ok tys cu (sh_tmetas sh) job \<and> stats_complete (sh_stats sh) \<and>
     (job = None \<longrightarrow> \<not> cu_isInReadyQueue cu \<longrightarrow> getNextReadyBundlePriority cu = Some None)"

lemma job_at_simps [simp]:
  "job_at None i = None" "job_at (Some (k, a)) i = (if k = i then Some a else None)"
  by (simp_all add: job_at_def)

lemma element_ok_mono: "element_ok ty ja e ts \<Longrightarrow> length ts \<le> length ts' \<Longrightarrow> element_ok ty ja e ts'"
  by (auto simp: element_ok_def intro: bi_inv_mono)

lemma unit_ok_mono: "unit_ok tys cu ts job \<Longrightarrow> length ts \<le> length ts' \<Longrightarrow> unit_ok tys cu ts' job"
  by (auto simp: unit_ok_def intro: element_ok_mono)

lemma unit_okD:
  assumes "unit_ok tys cu ts job"
  shows "cu_shape tys cu" "i < length tys \<Longrightarrow> element_ok (tys ! i) (job_at job i) (el cu i) ts"
  using assms by (simp_all add: unit_ok_def)

lemma checkDependency_total:
  assumes ok: "unit_ok tys cu ts job" and i: "i < length tys"
    and b: "bi_getBundle (ce_bundleInfo (el cu i)) = Some b"
  shows "\<exists>r. checkDependency cu (el cu i) = Some r"
proof (cases "ce_dependency (el cu i)")
  case (Some d)
  from dependency_lower [OF unit_okD(1) [OF ok] i Some] obtain j where
    j: "j < length tys" "get_element cu (priority_of cu (dep_BundleType d)) = Some (el cu j)" by blast
  from unit_okD(2) [OF ok j(1)] obtain v where v: "ce_lastProcessedBundleVersion (el cu j) = Some v"
    by (auto simp: element_ok_def)
  have "wf_bundle b" using unit_okD(2) [OF ok i] b bi.getBundle_wf by (fastforce simp: element_ok_def)
  then have "dependant_bundle b = None \<or> (\<exists>w. dependant_bundle b = Some (Some w))"
    by (cases "dependant_bundle b") (auto simp: wf_bundle_def)
  with Some j v b show ?thesis
    by (auto simp: checkDependency_def noBundleVersion_def NewBundleVersion_def Let_def
        split: dependency_type.splits)
qed (auto simp: checkDependency_def)

lemma element_ready_total:
  assumes ok: "unit_ok tys cu ts job" and i: "i < length tys"
  shows "\<exists>r. element_ready cu (el cu i) = Some r"
  using isCurrentOrAny_total [OF unit_okD(1) [OF ok] i] checkDependency_total [OF ok i]
  by (auto simp: element_ready_def split: option.splits)

lemma next_ready_spec:
  assumes "\<And>i. i < length slots \<Longrightarrow> \<exists>e r. slots ! i = Some e \<and> element_ready cu e = Some r"
  shows "\<exists>r. next_ready cu p slots = Some r \<and>
    (case r of
       None \<Rightarrow> \<forall>i < length slots. element_ready cu (the (slots ! i)) = Some False
     | Some q \<Rightarrow> \<exists>i < length slots. q = p + i \<and> element_ready cu (the (slots ! i)) = Some True \<and>
         (\<forall>j < i. element_ready cu (the (slots ! j)) = Some False))"
  using assms
proof (induction slots arbitrary: p)
  case (Cons slot slots)
  from Cons.prems [of 0] obtain e r where e: "slot = Some e" "element_ready cu e = Some r" by auto
  show ?case
  proof (cases r)
    case True
    with e show ?thesis by auto
  next
    case False
    have "\<exists>e r. slots ! i = Some e \<and> element_ready cu e = Some r" if "i < length slots" for i
      using Cons.prems [of "Suc i"] that by simp
    from Cons.IH [OF this] obtain r' where r': "next_ready cu (p + 1) slots = Some r'"
      "case r' of
         None \<Rightarrow> \<forall>i < length slots. element_ready cu (the (slots ! i)) = Some False
       | Some q \<Rightarrow> \<exists>i < length slots. q = p + 1 + i \<and> element_ready cu (the (slots ! i)) = Some True \<and>
           (\<forall>j < i. element_ready cu (the (slots ! j)) = Some False)" by blast
    show ?thesis
    proof (cases r')
      case None
      with e False r' show ?thesis by (auto simp: less_Suc_eq_0_disj)
    next
      case (Some q)
      with r' obtain i where "i < length slots" "q = p + Suc i" "element_ready cu (the (slots ! i)) = Some True"
        "\<forall>j < i. element_ready cu (the (slots ! j)) = Some False" by auto
      with e False r' Some show ?thesis by (auto simp: less_Suc_eq_0_disj intro!: exI [of _ "Suc i"])
    qed
  qed
qed simp

lemma getNextReady_spec:
  assumes ok: "unit_ok tys cu ts job"
  obtains (none) "getNextReadyBundlePriority cu = Some None"
      "\<And>i. i < length tys \<Longrightarrow> element_ready cu (el cu i) = Some False"
    | (ready) p where "getNextReadyBundlePriority cu = Some (Some p)" "p < length tys"
      "element_ready cu (el cu p) = Some True"
      "\<And>i. i < p \<Longrightarrow> element_ready cu (el cu i) = Some False"
proof -
  have len: "length (cu_priorityQueue cu) = length tys" using ok by (simp add: unit_ok_def cu_shape_def)
  have "\<exists>e r. cu_priorityQueue cu ! i = Some e \<and> element_ready cu e = Some r" if "i < length tys" for i
    using element_ready_total [OF ok that] unit_okD(1) [OF ok] that by (auto simp: cu_shape_def el_def)
  then obtain r where "next_ready cu 0 (cu_priorityQueue cu) = Some r"
    "case r of
       None \<Rightarrow> \<forall>i < length tys. element_ready cu (el cu i) = Some False
     | Some q \<Rightarrow> \<exists>i < length tys. q = 0 + i \<and> element_ready cu (el cu i) = Some True \<and>
         (\<forall>j < i. element_ready cu (el cu j) = Some False)"
    using next_ready_spec [of "cu_priorityQueue cu" cu 0] unfolding len el_def by blast
  then show thesis using that by (cases r) (auto simp: getNextReadyBundlePriority_def)
qed

lemma any_in_process_spec:
  "\<forall>s \<in> set slots. s \<noteq> None \<Longrightarrow> any_in_process slots = Some (\<exists>s \<in> set slots. ce_isInProcess (the s))"
  by (induction slots) auto

lemma isInProcess_job:
  assumes ok: "unit_ok tys cu ts job"
  shows "cu_isInProcess cu = Some (job \<noteq> None)"
proof -
  have len: "length (cu_priorityQueue cu) = length tys"
    and ne: "\<forall>s \<in> set (cu_priorityQueue cu). s \<noteq> None"
    using unit_okD(1) [OF ok] by (auto simp: cu_shape_def in_set_conv_nth)
  have "(\<exists>s \<in> set (cu_priorityQueue cu). ce_isInProcess (the s)) \<longleftrightarrow>
      (\<exists>i < length tys. ce_isInProcess (el cu i))"
    unfolding el_def len [symmetric] by (metis in_set_conv_nth)
  also have "\<dots> \<longleftrightarrow> (\<exists>i < length tys. job_at job i \<noteq> None)"
    using unit_okD(2) [OF ok] by (auto simp: element_ok_def)
  also have "\<dots> \<longleftrightarrow> job \<noteq> None"
    using ok by (cases job) (auto simp: unit_ok_def)
  finally show ?thesis using any_in_process_spec [OF ne] by (simp add: cu_isInProcess_def)
qed

text \<open>Whatever a method changed, its final call restores the last clause of the invariant. The
  unit is put in the queue at most once, exactly when its flag goes up.\<close>

lemma addCUToReadyQueue_ok:
  assumes ok: "unit_ok tys cu (sh_tmetas sh) job" and st: "stats_complete (sh_stats sh)"
  obtains cu' sh' where "addCUToReadyQueueIfNeeded cu sh = Some (cu', sh')" "cu_inv tys cu' sh' job"
    "sh_tmetas sh' = sh_tmetas sh" "cu_name cu' = cu_name cu" "\<And>i. el cu' i = el cu i"
    "cu_isInReadyQueue cu \<longrightarrow> cu_isInReadyQueue cu'"
    "rq_queue (sh_readyQueue sh') = rq_queue (sh_readyQueue sh) @
       (if cu_isInReadyQueue cu' \<and> \<not> cu_isInReadyQueue cu then [cu_name cu] else [])"
proof (cases "cu_isInReadyQueue cu \<or> job \<noteq> None")
  case True
  then have "addCUToReadyQueueIfNeeded cu sh = Some (cu, sh)"
    using isInProcess_job [OF ok] by (auto simp: addCUToReadyQueueIfNeeded_def)
  with True assms that [of cu sh] show thesis by (auto simp: cu_inv_def)
next
  case False
  then have idle: "\<not> cu_isInReadyQueue cu" "job = None" "cu_isInProcess cu = Some False"
    using isInProcess_job [OF ok] by (cases job; simp)+
  from ok show thesis
  proof (cases rule: getNextReady_spec)
    case none
    with idle assms that [of cu sh] show thesis by (auto simp: addCUToReadyQueueIfNeeded_def cu_inv_def)
  next
    case (ready p)
    let ?cu = "cu\<lparr>cu_isInReadyQueue := True\<rparr>"
    let ?sh = "sh\<lparr>sh_readyQueue := Enqueue (sh_readyQueue sh) (cu_name cu)\<rparr>"
    have "unit_ok tys ?cu (sh_tmetas sh) None" using ok idle by (simp add: unit_ok_def)
    with ready idle st that [of ?cu ?sh] show thesis by (auto simp: addCUToReadyQueueIfNeeded_def cu_inv_def)
  qed
qed

section \<open>The operations keep the invariant\<close>

lemma unit_ok_set_element:
  assumes ok: "unit_ok tys cu ts job" and i: "i < length tys"
    and dep: "ce_dependency e = ce_dependency (el cu i)"
    and e: "element_ok (tys ! i) (job_at job' i) e ts'"
    and len: "length ts \<le> length ts'"
    and job': "\<And>j. j \<noteq> i \<Longrightarrow> job_at job' j = job_at job j"
      "\<And>k a. job' = Some (k, a) \<Longrightarrow> k = i \<and> \<not> cu_isInReadyQueue cu \<or> job' = job"
  shows "unit_ok tys (set_element cu i e) ts' job'"
proof -
  note shape = unit_okD(1) [OF ok]
  have "element_ok (tys ! j) (job_at job' j) (el (set_element cu i e) j) ts'" if "j < length tys" for j
    using that e unit_okD(2) [OF ok that] element_ok_mono [OF _ len] job'(1) [of j]
    by (auto simp: el_set_element [OF shape i])
  moreover have "k < length tys \<and> \<not> cu_isInReadyQueue cu" if "job' = Some (k, a)" for k a
    using job'(2) [OF that] that ok i by (auto simp: unit_ok_def)
  ultimately show ?thesis
    using cu_shape_set_element [OF shape i dep] by (auto simp: unit_ok_def)
qed

lemma fresh_update:
  assumes "bi_update enum bi b t (ja = None) ms = Some (Inr (bi', ms'))" and "bi_inv ty (ja \<noteq> None) bi ms ts"
    and "fresh bi ms v ja" "wf_bundle b" "v < the (GetVersion b)"
    and "\<forall>p. bi_getBundle bi = Some p \<longrightarrow> the (GetVersion p) < the (GetVersion b)"
    and "\<forall>a. ja = Some a \<longrightarrow> a < length ms"
  shows "fresh bi' ms' v ja"
proof (cases bi)
  case (CompleteInfo ci)
  show ?thesis
  proof (cases ja)
    case None
    with CompleteInfo assms show ?thesis
      by (auto simp: complete_update_def Let_def bind_Some_iff split: option.splits)
  next
    case (Some a)
    with CompleteInfo assms show ?thesis
      by (auto simp: complete_update_def Let_def nth_append complete_getBundle_def)
  qed
next
  case (DeltaInfo di)
  with assms(1) show ?thesis by (auto)
qed

lemma element_update_ok:
  assumes e: "element_ok ty ja e ts" and b: "wf_bundle b" "GetBundleType b = ty" and t: "t < length ts"
    and v: "ce_lastProcessedBundleVersion e = Some v" "v < the (GetVersion b)"
    and p: "\<forall>p. bi_getBundle (ce_bundleInfo e) = Some p \<longrightarrow> the (GetVersion p) < the (GetVersion b)"
  obtains e' where "element_update enum e b t = Some (Inr e')" "element_ok ty ja e' ts"
    "ce_dependency e' = ce_dependency e"
    "ce_lastProcessedBundleVersion e' = ce_lastProcessedBundleVersion e"
    "\<exists>b'. bi_getBundle (ce_bundleInfo e') = Some b' \<and> GetVersion b' = GetVersion b"
    "ja \<noteq> None \<Longrightarrow> \<exists>ns. ce_metas e' = ce_metas e @ ns"
proof -
  have ip: "(\<not> ce_isInProcess e) = (ja = None)" and inv: "bi_inv ty (ja \<noteq> None) (ce_bundleInfo e) (ce_metas e) ts"
    and fr: "fresh (ce_bundleInfo e) (ce_metas e) v ja"
    and ja: "\<forall>a. ja = Some a \<longrightarrow> a < length (ce_metas e) \<and> md_bundleType (ce_metas e ! a) = ty"
    using e v by (auto simp: element_ok_def)
  from bi.update_ok [OF inv b t, of enum] obtain bi' ms' b' where
    up: "bi_update enum (ce_bundleInfo e) b t (ja = None) (ce_metas e) = Some (Inr (bi', ms'))"
    and inv': "bi_inv ty (ja \<noteq> None) bi' ms' ts"
    and b': "bi_getBundle bi' = Some b'" "GetVersion b' = GetVersion b" by auto
  let ?e = "e\<lparr>ce_bundleInfo := bi', ce_metas := ms'\<rparr>"
  have keep: "\<exists>ns. ms' = ce_metas e @ ns" if "ja \<noteq> None" using bi.update_keeps [of enum] up that by auto
  have "fresh bi' ms' v ja" using fresh_update [OF up inv fr b(1) v(2) p] ja by simp
  moreover have "a < length ms' \<and> md_bundleType (ms' ! a) = ty" if "ja = Some a" for a
    using keep ja that by (auto simp: nth_append)
  ultimately have "element_ok ty ja ?e ts" using inv' v ip by (auto simp: element_ok_def)
  moreover have "element_update enum e b t = Some (Inr ?e)" using up ip by (simp add: element_update_def)
  ultimately show thesis using that [of ?e] keep b' by auto
qed

text \<open>What an operation may do to the ready queue: append this unit, when its flag goes up.\<close>

definition enqueued :: "'h conflation_unit \<Rightarrow> 'h conflation_unit \<Rightarrow> string list" where
  "enqueued cu cu' = (if cu_isInReadyQueue cu' \<and> \<not> cu_isInReadyQueue cu then [cu_name cu] else [])"

lemma set_stats_simps [simp]:
  "sh_tmetas (set_stats sh st) = sh_tmetas sh" "sh_stats (set_stats sh st) = st"
  "rq_queue (sh_readyQueue (set_stats sh st)) = rq_queue (sh_readyQueue sh)"
  by (simp_all add: set_stats_def)

lemma StartConflationUnitMetrics_ok:
  assumes "stats_complete s"
  obtains s' where "StartConflationUnitMetrics now s b = Some s'" "stats_complete s'"
  unfolding StartConflationUnitMetrics_def by (rule update_metrics_complete [OF assms])

lemma StopConflationUnitMetrics_ok:
  assumes "stats_complete s"
  obtains s' where "StopConflationUnitMetrics now s b = Some s'" "stats_complete s'"
  unfolding StopConflationUnitMetrics_def by (rule update_metrics_complete [OF assms])

lemma cu_insert_ok:
  assumes inv: "cu_inv tys cu sh job" and b: "wf_bundle b" and i: "i < length tys" "GetBundleType b = tys ! i"
    and t: "t < length (sh_tmetas sh)"
  obtains cu' sh' where "cu_insert enum now cu sh b t = Some (cu', sh')" "cu_inv tys cu' sh' job"
    "sh_tmetas sh' = sh_tmetas sh" "cu_name cu' = cu_name cu"
    "rq_queue (sh_readyQueue sh') = rq_queue (sh_readyQueue sh) @ enqueued cu cu'"
    "cu_isInReadyQueue cu \<longrightarrow> cu_isInReadyQueue cu'"
    "\<forall>ptr. job = Some ptr \<longrightarrow> read_metadata cu' ptr = read_metadata cu ptr"
proof -
  have ok: "unit_ok tys cu (sh_tmetas sh) job" and st: "stats_complete (sh_stats sh)"
    using inv by (auto simp: cu_inv_def)
  note shape = unit_okD(1) [OF ok] and e = unit_okD(2) [OF ok i(1)]
  have pri: "priority_of cu (GetBundleType b) = i" "get_element cu i = Some (el cu i)"
    using shape i by (simp_all add: priority_of_ty get_element_el del: GetBundleType_struct)
  obtain w where w: "GetVersion b = Some w" using b by (auto simp: wf_bundle_def)
  obtain v where v: "ce_lastProcessedBundleVersion (el cu i) = Some v" using e by (auto simp: element_ok_def)
  have pend: "GetVersion p \<noteq> None" if "bi_getBundle (ce_bundleInfo (el cu i)) = Some p" for p
    using e that bi.getBundle_wf by (fastforce simp: element_ok_def wf_bundle_def)
  show thesis
  proof (cases "v < w \<and> (\<forall>p. bi_getBundle (ce_bundleInfo (el cu i)) = Some p \<longrightarrow> the (GetVersion p) < w)")
    case False
    then have "cu_insert enum now cu sh b t = Some (cu, sh)"
      using pri w v pend by (auto simp: cu_insert_def Let_def simp del: GetBundleType_struct split: option.splits)
    with that [of cu sh] inv show thesis by (simp add: enqueued_def)
  next
    case True
    obtain st' where st': "StartConflationUnitMetrics now (sh_stats sh) b = Some st'" "stats_complete st'"
      by (rule StartConflationUnitMetrics_ok [OF st])
    have pend': "\<forall>p. bi_getBundle (ce_bundleInfo (el cu i)) = Some p \<longrightarrow> the (GetVersion p) < the (GetVersion b)"
      and newer: "v < the (GetVersion b)" using True w by auto
    obtain e' where e': "element_update enum (el cu i) b t = Some (Inr e')"
      "element_ok (tys ! i) (job_at job i) e' (sh_tmetas sh)" "ce_dependency e' = ce_dependency (el cu i)"
      "job_at job i \<noteq> None \<Longrightarrow> \<exists>ns. ce_metas e' = ce_metas (el cu i) @ ns"
      by (rule element_update_ok [OF e b i(2) t v newer pend', of enum]) blast
    let ?cu = "set_element cu i e'" and ?sh = "set_stats sh st'"
    have ok': "unit_ok tys ?cu (sh_tmetas ?sh) job"
      using unit_ok_set_element [OF ok i(1) e'(3,2)] by simp
    have st'': "stats_complete (sh_stats ?sh)" using st' by simp
    have ins: "cu_insert enum now cu sh b t = addCUToReadyQueueIfNeeded ?cu ?sh"
      using True pri w v pend st' e'(1)
      by (auto simp: cu_insert_def Let_def simp del: GetBundleType_struct split: option.splits)
    obtain cu' sh' where add: "addCUToReadyQueueIfNeeded ?cu ?sh = Some (cu', sh')" "cu_inv tys cu' sh' job"
      "sh_tmetas sh' = sh_tmetas sh" "cu_name cu' = cu_name cu" "\<And>j. el cu' j = el ?cu j"
      "cu_isInReadyQueue cu \<longrightarrow> cu_isInReadyQueue cu'"
      "rq_queue (sh_readyQueue sh') = rq_queue (sh_readyQueue sh) @ enqueued cu cu'"
      by (rule addCUToReadyQueue_ok [OF ok' st'']) (auto simp: enqueued_def)
    have shape': "cu_shape tys cu'" using add(2) by (simp add: cu_inv_def unit_ok_def)
    have "read_metadata cu' ptr = read_metadata cu ptr" if job: "job = Some ptr" for ptr
    proof -
      obtain k a where ptr: "ptr = (k, a)" by (cases ptr)
      then have k: "k < length tys" "a < length (ce_metas (el cu k))"
        using job ok unit_okD(2) [OF ok, of k] by (auto simp: unit_ok_def element_ok_def)
      then show ?thesis using job ptr e'(4) shape shape' add(5) [of k] i
        by (auto simp: read_metadata_def get_element_el el_set_element deref_def nth_append)
    qed
    with add ins that [of cu' sh'] show thesis by auto
  qed
qed

lemma element_ready_idle: "element_ready cu e = Some True \<Longrightarrow>
    (\<exists>b. bi_getBundle (ce_bundleInfo e) = Some b) \<and>
    isCurrentOrAnyDependencyInProcess cu e = Some False \<and> checkDependency cu e = Some True"
  by (auto simp: element_ready_def bind_Some_iff split: option.splits if_splits)

lemma fresh_dispatch:
  assumes "bi_getMetadata bi ms = Some (Some a, bi', ms')" "bi_inv ty False bi ms ts"
    "bi_getBundle bi = Some b" "fresh bi ms v None"
  shows "fresh bi' ms' v (Some a)"
  using assms
  by (cases bi) (auto simp: complete_getMetadata_def complete_getBundle_def complete_inv_def bind_Some_iff)

lemma dispatch_ok:
  assumes e: "element_ok ty None e ts" and b: "bi_getBundle (ce_bundleInfo e) = Some b"
  obtains a e' where "getBundleForProcessing (e\<lparr>ce_isInProcess := True\<rparr>) = Some (Some b, Some a, e')"
    "element_ok ty (Some a) e' ts" "ce_dependency e' = ce_dependency e"
    "md_bundleType (ce_metas e' ! a) = ty" "md_bundleVersion (ce_metas e' ! a) = GetVersion b"
proof -
  obtain v where inv: "bi_inv ty False (ce_bundleInfo e) (ce_metas e) ts"
    and v: "ce_lastProcessedBundleVersion e = Some v" "fresh (ce_bundleInfo e) (ce_metas e) v None"
    using e by (auto simp: element_ok_def)
  from bi.getMetadata_ok [OF inv b] obtain a bi' ms' where
    gm: "bi_getMetadata (ce_bundleInfo e) (ce_metas e) = Some (Some a, bi', ms')" "bi_inv ty True bi' ms' ts"
      "length ms' = length (ce_metas e)" "a < length (ce_metas e)" "md_bundleType (ms' ! a) = ty"
      "md_bundleVersion (ms' ! a) = GetVersion b" by blast
  show thesis
    by (rule that [of a "e\<lparr>ce_isInProcess := True, ce_bundleInfo := bi', ce_metas := ms'\<rparr>"])
       (use gm b v fresh_dispatch [OF gm(1) inv b v(2)] in
        \<open>simp_all add: getBundleForProcessing_def element_ok_def\<close>)
qed

lemma GetNext_ok:
  assumes inv: "cu_inv tys cu sh None"
  obtains
    (error) "getNextReadyBundlePriority cu = Some None" "GetNext now cu sh = Some (Inl ErrNoReadyBundle, cu, sh)"
  | (dispatched) p b a cu' sh' where "getNextReadyBundlePriority cu = Some (Some p)" "p < length tys"
    "GetNext now cu sh = Some (Inr (Some b, Some (p, a), ce_handlerFunction (el cu p)), cu', sh')"
    "cu_inv tys cu' sh' (Some (p, a))" "bi_getBundle (ce_bundleInfo (el cu p)) = Some b"
    "GetBundleType b = tys ! p"
    "\<exists>md. read_metadata cu' (p, a) = Some md \<and> md_bundleType md = tys ! p \<and> md_bundleVersion md = GetVersion b"
    "sh_tmetas sh' = sh_tmetas sh" "rq_queue (sh_readyQueue sh') = rq_queue (sh_readyQueue sh)"
    "cu_name cu' = cu_name cu" "\<not> cu_isInReadyQueue cu'"
proof -
  have ok: "unit_ok tys cu (sh_tmetas sh) None" and st: "stats_complete (sh_stats sh)"
    using inv by (auto simp: cu_inv_def)
  note shape = unit_okD(1) [OF ok]
  from ok show thesis
  proof (cases rule: getNextReady_spec)
    case none
    then show thesis using error by (simp add: GetNext_def)
  next
    case (ready p)
    from element_ready_idle [OF ready(3)] obtain b where b: "bi_getBundle (ce_bundleInfo (el cu p)) = Some b" by blast
    have e: "element_ok (tys ! p) None (el cu p) (sh_tmetas sh)" using unit_okD(2) [OF ok ready(2)] by simp
    obtain a e' where d: "getBundleForProcessing ((el cu p)\<lparr>ce_isInProcess := True\<rparr>) = Some (Some b, Some a, e')"
      "element_ok (tys ! p) (Some a) e' (sh_tmetas sh)" "ce_dependency e' = ce_dependency (el cu p)"
      "md_bundleType (ce_metas e' ! a) = tys ! p" "md_bundleVersion (ce_metas e' ! a) = GetVersion b"
      by (rule dispatch_ok [OF e b])
    obtain st' where st': "StopConflationUnitMetrics now (sh_stats sh) b = Some st'" "stats_complete st'"
      by (rule StopConflationUnitMetrics_ok [OF st])
    let ?idle = "cu\<lparr>cu_isInReadyQueue := False\<rparr>"
    let ?cu = "set_element ?idle p e'" and ?sh = "set_stats sh st'"
    have ok0: "unit_ok tys ?idle (sh_tmetas sh) None" using ok by (simp add: unit_ok_def)
    have ok': "unit_ok tys ?cu (sh_tmetas sh) (Some (p, a))"
      by (rule unit_ok_set_element [OF ok0 ready(2)]) (use d in auto)
    then have inv': "cu_inv tys ?cu ?sh (Some (p, a))" using st' by (simp add: cu_inv_def)
    have "el ?cu p = e'" using el_set_element [OF unit_okD(1) [OF ok0] ready(2)] by simp
    moreover have "a < length (ce_metas e')" using d(2) by (simp add: element_ok_def)
    ultimately have rd: "read_metadata ?cu (p, a) = Some (ce_metas e' ! a)"
      using get_element_el [OF unit_okD(1) [OF ok'] ready(2)] by (simp add: read_metadata_def)
    have ty: "GetBundleType b = tys ! p"
      using e b bi.getBundle_wf by (fastforce simp: element_ok_def)
    have gn: "GetNext now cu sh = Some (Inr (Some b, Some (p, a), ce_handlerFunction (el cu p)), ?cu, ?sh)"
      using ready get_element_el [OF shape ready(2)] b d(1) st'(1) by (simp add: GetNext_def Let_def)
    show thesis
      by (rule dispatched [OF ready(1,2) gn inv' b ty]) (use rd d in auto)
  qed
qed

lemma fresh_handleFailure:
  assumes "bi_handleFailure enum bi md ms = Some (bi', ms')" "fresh bi ms v ja"
  shows "fresh bi' ms' v None"
  using assms by (cases bi) auto

lemma fresh_mark:
  assumes "bi_markAsProcessed bi (ms ! a) ms ts = Some (bi', ts')" "bi_inv ty True bi ms ts"
    "fresh bi ms v (Some a)" "md_bundleVersion (ms ! a) = Some w"
  shows "fresh bi' ms (if v < w then w else v) None"
proof (cases bi)
  case (CompleteInfo ci)
  with assms obtain cur b where "ci_metadata ci = Some cur" "cur < length ms" "ci_bundle ci = Some b"
    "v < w" "w \<le> the (GetVersion b)" "GetVersion b = md_bundleVersion (ms ! cur)" "GetVersion b \<noteq> None"
    by (cases "ci_metadata ci") (auto simp: complete_inv_def wf_bundle_def)
  with CompleteInfo assms show ?thesis
    by (auto simp: complete_markAsProcessed_def bind_Some_iff)
next
  case (DeltaInfo di)
  with assms(1) show ?thesis by auto
qed

lemma report_failure_ok:
  assumes e: "element_ok ty (Some a) e ts"
  obtains bi ms where "bi_handleFailure enum (ce_bundleInfo e) (ce_metas e ! a) (ce_metas e) = Some (bi, ms)"
    "element_ok ty None (e\<lparr>ce_isInProcess := False, ce_bundleInfo := bi, ce_metas := ms\<rparr>) ts"
proof -
  obtain v where inv: "bi_inv ty True (ce_bundleInfo e) (ce_metas e) ts" and a: "a < length (ce_metas e)"
    and v: "ce_lastProcessedBundleVersion e = Some v" "fresh (ce_bundleInfo e) (ce_metas e) v (Some a)"
    using e by (auto simp: element_ok_def)
  from bi_handleFailure_ok [OF inv a, of enum] obtain bi ms where
    h: "bi_handleFailure enum (ce_bundleInfo e) (ce_metas e ! a) (ce_metas e) = Some (bi, ms)"
      "bi_inv ty False bi ms ts" by blast
  show thesis
    by (rule that [OF h(1)]) (use h v fresh_handleFailure [OF h(1) v(2)] in \<open>simp add: element_ok_def\<close>)
qed

lemma report_success_ok:
  assumes e: "element_ok ty (Some a) e ts" and v: "ce_lastProcessedBundleVersion e = Some v"
    and w: "md_bundleVersion (ce_metas e ! a) = Some w"
  obtains bi ts' where "bi_markAsProcessed (ce_bundleInfo e) (ce_metas e ! a) (ce_metas e) ts = Some (bi, ts')"
    "length ts' = length ts"
    "element_ok ty None (e\<lparr>ce_isInProcess := False,
       ce_lastProcessedBundleVersion := Some (max v w), ce_bundleInfo := bi\<rparr>) ts'"
proof -
  have inv: "bi_inv ty True (ce_bundleInfo e) (ce_metas e) ts" and a: "a < length (ce_metas e)"
    and fr: "fresh (ce_bundleInfo e) (ce_metas e) v (Some a)"
    using e v by (auto simp: element_ok_def)
  from bi.mark_ok [OF inv a] obtain bi ts' where
    m: "bi_markAsProcessed (ce_bundleInfo e) (ce_metas e ! a) (ce_metas e) ts = Some (bi, ts')"
      "bi_inv ty False bi (ce_metas e) ts'" "length ts' = length ts" by blast
  have "(if v < w then w else v) = max v w" by (auto simp: max_def)
  with fresh_mark [OF m(1) inv fr w] show thesis
    using that [OF m(1,3)] m(2) by (simp add: element_ok_def)
qed

lemma ReportResult_ok:
  assumes inv: "cu_inv tys cu sh (Some (p, a))"
  obtains cu' sh' v w where "ReportResult enum cu sh (p, a) failed = Some (cu', sh')" "cu_inv tys cu' sh' None"
    "length (sh_tmetas sh') = length (sh_tmetas sh)" "cu_name cu' = cu_name cu"
    "rq_queue (sh_readyQueue sh') = rq_queue (sh_readyQueue sh) @ enqueued cu cu'"
    "md_bundleVersion (ce_metas (el cu p) ! a) = Some w" "ce_lastProcessedBundleVersion (el cu p) = Some v"
    "ce_lastProcessedBundleVersion (el cu' p) = Some (if failed then v else max v w)"
    "\<And>j. j < length tys \<Longrightarrow> j \<noteq> p \<Longrightarrow> el cu' j = el cu j"
proof -
  have ok: "unit_ok tys cu (sh_tmetas sh) (Some (p, a))" and st: "stats_complete (sh_stats sh)"
    using inv by (auto simp: cu_inv_def)
  note shape = unit_okD(1) [OF ok]
  have p: "p < length tys" "\<not> cu_isInReadyQueue cu" using ok by (auto simp: unit_ok_def)
  have e: "element_ok (tys ! p) (Some a) (el cu p) (sh_tmetas sh)" using unit_okD(2) [OF ok p(1)] by simp
  let ?md = "ce_metas (el cu p) ! a"
  have a: "a < length (ce_metas (el cu p))" "md_bundleType ?md = tys ! p"
    using e by (auto simp: element_ok_def)
  have md: "read_metadata cu (p, a) = Some ?md" "priority_of cu (md_bundleType ?md) = p"
    "get_element cu p = Some (el cu p)"
    using get_element_el [OF shape p(1)] priority_of_ty [OF shape p(1)] a by (simp_all add: read_metadata_def)
  have "bi_inv (tys ! p) True (ce_bundleInfo (el cu p)) (ce_metas (el cu p)) (sh_tmetas sh)"
    using e by (simp add: element_ok_def)
  then have "metas_ok (ce_metas (el cu p)) (sh_tmetas sh)"
    by (cases "ce_bundleInfo (el cu p)") (simp_all add: complete_inv_def delta_inv_def)
  from metas_okD [OF this a(1)] obtain w where w: "md_bundleVersion ?md = Some w" by blast
  obtain v where v: "ce_lastProcessedBundleVersion (el cu p) = Some v" using e by (auto simp: element_ok_def)
  obtain e' ts' where rep: "ReportResult enum cu sh (p, a) failed =
      addCUToReadyQueueIfNeeded (set_element cu p e') (sh\<lparr>sh_tmetas := ts'\<rparr>)"
    and e': "element_ok (tys ! p) None e' ts'" "ce_dependency e' = ce_dependency (el cu p)"
      "ce_lastProcessedBundleVersion e' = Some (if failed then v else max v w)"
    and ts': "length ts' = length (sh_tmetas sh)"
  proof (cases failed)
    case True
    obtain bi ms where f: "bi_handleFailure enum (ce_bundleInfo (el cu p)) ?md (ce_metas (el cu p)) = Some (bi, ms)"
      "element_ok (tys ! p) None ((el cu p)\<lparr>ce_isInProcess := False, ce_bundleInfo := bi, ce_metas := ms\<rparr>) (sh_tmetas sh)"
      by (rule report_failure_ok [OF e])
    show thesis by (rule that [OF _ f(2)]) (use True md f(1) v in \<open>simp_all add: ReportResult_def Let_def\<close>)
  next
    case False
    obtain bi ts' where f: "bi_markAsProcessed (ce_bundleInfo (el cu p)) ?md (ce_metas (el cu p)) (sh_tmetas sh) = Some (bi, ts')"
      "length ts' = length (sh_tmetas sh)"
      "element_ok (tys ! p) None ((el cu p)\<lparr>ce_isInProcess := False,
         ce_lastProcessedBundleVersion := Some (max v w), ce_bundleInfo := bi\<rparr>) ts'"
      by (rule report_success_ok [OF e v w])
    have max: "max v w = (if v < w then w else v)" by (auto simp: max_def)
    have same: "(el cu p)\<lparr>ce_isInProcess := False, ce_lastProcessedBundleVersion := Some v\<rparr> =
        (el cu p)\<lparr>ce_isInProcess := False\<rparr>" using v by (cases "el cu p") simp
    show thesis
      by (rule that [OF _ f(3)]) (use False md f(1,2) v w in \<open>auto simp: ReportResult_def Let_def max same\<close>)
  qed
  have ok': "unit_ok tys (set_element cu p e') (sh_tmetas (sh\<lparr>sh_tmetas := ts'\<rparr>)) None"
    using unit_ok_set_element [OF ok p(1) e'(2), of None ts'] e' ts' by simp
  have st': "stats_complete (sh_stats (sh\<lparr>sh_tmetas := ts'\<rparr>))" using st by simp
  obtain cu' sh' where add: "addCUToReadyQueueIfNeeded (set_element cu p e') (sh\<lparr>sh_tmetas := ts'\<rparr>) = Some (cu', sh')"
    "cu_inv tys cu' sh' None" "sh_tmetas sh' = ts'" "cu_name cu' = cu_name cu"
    "\<And>j. el cu' j = el (set_element cu p e') j"
    "rq_queue (sh_readyQueue sh') = rq_queue (sh_readyQueue sh) @ enqueued cu cu'"
    by (rule addCUToReadyQueue_ok [OF ok' st']) (auto simp: enqueued_def)
  show thesis
    by (rule that [of cu' sh' w v]) (use rep add ts' w v e' el_set_element [OF shape p(1)] in auto)
qed

section \<open>A new unit\<close>

text \<open>What the registrations must satisfy: the priorities are 0 to n - 1, the types are distinct, and
  a bundle only depends on a type of lower priority.\<close>

definition reg_at :: "'h conflation_registration list \<Rightarrow> nat \<Rightarrow> 'h conflation_registration" where
  "reg_at rs i = the (find (\<lambda>r. reg_priority r = i) rs)"

definition registered_types :: "'h conflation_registration list \<Rightarrow> string list" where
  "registered_types rs = map (\<lambda>i. reg_bundleType (reg_at rs i)) [0..<length rs]"

definition valid_registrations :: "'h conflation_registration list \<Rightarrow> bool" where
  "valid_registrations rs \<longleftrightarrow>
     set (map reg_priority rs) = {0..<length rs} \<and> distinct (map reg_bundleType rs) \<and>
     (\<forall>r \<in> set rs.
        (reg_syncMode r = DeltaStateMode \<longrightarrow> reg_bundleType r = bundle_struct NewDeltaComplianceStatusBundle) \<and>
        (\<forall>d. reg_dependency r = Some d \<longrightarrow>
           (\<exists>q \<in> set rs. reg_bundleType q = dep_BundleType d \<and> reg_priority q < reg_priority r)))"

lemma valid_distinct_priorities: "valid_registrations rs \<Longrightarrow> distinct (map reg_priority rs)"
  by (simp add: valid_registrations_def card_distinct)

lemma reg_at_in:
  assumes v: "valid_registrations rs" and r: "r \<in> set rs"
  shows "reg_at rs (reg_priority r) = r" and "reg_priority r < length rs"
proof -
  have "reg_priority r \<in> set (map reg_priority rs)" using r by simp
  then show "reg_priority r < length rs" using v unfolding valid_registrations_def by auto
  have inj: "q = r" if "q \<in> set rs" "reg_priority q = reg_priority r" for q
    using valid_distinct_priorities [OF v] r that by (auto simp: distinct_map inj_on_def)
  obtain q where q: "find (\<lambda>q. reg_priority q = reg_priority r) rs = Some q"
    using r by (cases "find (\<lambda>q. reg_priority q = reg_priority r) rs") (auto simp: find_None_iff)
  then have "q \<in> set rs" "reg_priority q = reg_priority r" by (auto simp: find_Some_iff)
  with inj q show "reg_at rs (reg_priority r) = r" by (simp add: reg_at_def)
qed

lemma reg_at_ex:
  assumes v: "valid_registrations rs" and i: "i < length rs"
  shows "reg_at rs i \<in> set rs" "reg_priority (reg_at rs i) = i"
proof -
  have "i \<in> set (map reg_priority rs)" using v i by (simp add: valid_registrations_def del: set_map)
  then obtain r where "r \<in> set rs" "reg_priority r = i" by auto
  with reg_at_in [OF v] show "reg_at rs i \<in> set rs" "reg_priority (reg_at rs i) = i" by auto
qed

lemma register_all_spec:
  assumes "\<forall>r \<in> set rs. reg_priority r < length pq" "distinct (map reg_priority rs)" "distinct (map reg_bundleType rs)"
  shows "\<exists>pq' btp'. register_all rs pq btp = Some (pq', btp') \<and> length pq' = length pq \<and>
    (\<forall>r \<in> set rs. pq' ! reg_priority r = Some (new_element r) \<and> btp' (reg_bundleType r) = Some (reg_priority r)) \<and>
    (\<forall>i. i \<notin> reg_priority ` set rs \<longrightarrow> pq' ! i = pq ! i) \<and>
    (\<forall>t. t \<notin> reg_bundleType ` set rs \<longrightarrow> btp' t = btp t)"
  using assms
proof (induction rs arbitrary: pq btp)
  case (Cons r rs)
  let ?pq = "pq[reg_priority r := Some (new_element r)]" and ?btp = "btp(reg_bundleType r \<mapsto> reg_priority r)"
  have pre: "\<forall>r \<in> set rs. reg_priority r < length ?pq" "distinct (map reg_priority rs)"
    "distinct (map reg_bundleType rs)" using Cons.prems by auto
  obtain pq' btp' where "register_all rs ?pq ?btp = Some (pq', btp')" "length pq' = length pq"
    "\<forall>r \<in> set rs. pq' ! reg_priority r = Some (new_element r) \<and> btp' (reg_bundleType r) = Some (reg_priority r)"
    "\<forall>i. i \<notin> reg_priority ` set rs \<longrightarrow> pq' ! i = ?pq ! i" "\<forall>t. t \<notin> reg_bundleType ` set rs \<longrightarrow> btp' t = ?btp t"
    using Cons.IH [OF pre, of ?btp] unfolding length_list_update by blast
  with Cons.prems show ?case by (auto simp: go_simps)
qed simp

lemma registered_types_nth [simp]:
  "i < length rs \<Longrightarrow> registered_types rs ! i = reg_bundleType (reg_at rs i)"
  "length (registered_types rs) = length rs"
  by (simp_all add: registered_types_def)

lemma distinct_registered_types:
  assumes v: "valid_registrations rs" shows "distinct (registered_types rs)"
proof -
  have "i = j" if "i < length rs" "j < length rs" "reg_bundleType (reg_at rs i) = reg_bundleType (reg_at rs j)" for i j
  proof -
    have "reg_at rs i = reg_at rs j"
      using v that reg_at_ex(1) [OF v] by (auto simp: valid_registrations_def distinct_map inj_on_def)
    with reg_at_ex(2) [OF v] that show ?thesis by metis
  qed
  then show ?thesis by (auto simp: distinct_conv_nth)
qed

lemma new_element_ok:
  assumes "reg_syncMode r = DeltaStateMode \<longrightarrow> reg_bundleType r = bundle_struct NewDeltaComplianceStatusBundle"
  shows "element_ok (reg_bundleType r) None (new_element r) ts"
  using assms
  by (cases "reg_syncMode r")
     (auto simp: element_ok_def new_element_def noBundleVersion_def NewBundleVersion_def complete_inv_def
       delta_inv_def metas_ok_def newCompleteStateBundleInfo_def newDeltaStateBundleInfo_def)

lemma new_element_not_ready: "element_ready cu (new_element r) = Some False"
  by (cases "reg_syncMode r")
     (simp_all add: element_ready_def new_element_def newCompleteStateBundleInfo_def newDeltaStateBundleInfo_def
       complete_getBundle_def delta_getBundle_def)

lemma newConflationUnit_ok:
  assumes v: "valid_registrations rs" and st: "stats_complete (sh_stats sh)"
  obtains cu where "newConflationUnit name rs req = Some cu" "cu_inv (registered_types rs) cu sh None"
    "cu_name cu = name" "\<not> cu_isInReadyQueue cu"
proof -
  have v2: "distinct (map reg_bundleType rs)" using v by (simp add: valid_registrations_def)
  have lt: "\<forall>r \<in> set rs. reg_priority r < length (replicate (length rs) (None :: 'a conflation_element option))"
    using reg_at_in(2) [OF v] by simp
  obtain pq btp where ra: "register_all rs (replicate (length rs) None) Map.empty = Some (pq, btp)"
    "length pq = length rs"
    "\<forall>r \<in> set rs. pq ! reg_priority r = Some (new_element r) \<and> btp (reg_bundleType r) = Some (reg_priority r)"
    using register_all_spec [OF lt valid_distinct_priorities [OF v] v2, of Map.empty] by auto
  let ?cu = "\<lparr> cu_name = name, cu_priorityQueue = pq, cu_bundleTypeToPriority = btp,
    cu_requireInitialDependencyChecks = req, cu_isInReadyQueue = False \<rparr>"
  have slot: "pq ! i = Some (new_element (reg_at rs i))" "btp (reg_bundleType (reg_at rs i)) = Some i"
    "el ?cu i = new_element (reg_at rs i)" if "i < length rs" for i
    using ra(3) reg_at_ex [OF v that] by (auto simp: el_def dest!: bspec)
  have dep: "\<exists>j < i. dep_BundleType d = registered_types rs ! j"
    if i: "i < length rs" and d: "reg_dependency (reg_at rs i) = Some d" for i d
  proof -
    from v reg_at_ex [OF v i] d obtain q where "q \<in> set rs" "reg_bundleType q = dep_BundleType d" "reg_priority q < i"
      by (fastforce simp: valid_registrations_def)
    with reg_at_in [OF v] i show ?thesis by (intro exI [of _ "reg_priority q"]) auto
  qed
  have shape: "cu_shape (registered_types rs) ?cu"
    using distinct_registered_types [OF v] ra(2) slot dep by (auto simp: cu_shape_def new_element_def)
  have "element_ok (registered_types rs ! i) None (el ?cu i) (sh_tmetas sh)" if "i < length rs" for i
    using v reg_at_ex(1) [OF v that] that new_element_ok slot(3) [OF that] by (auto simp: valid_registrations_def)
  with shape have ok: "unit_ok (registered_types rs) ?cu (sh_tmetas sh) None" by (simp add: unit_ok_def)
  from ok have "getNextReadyBundlePriority ?cu = Some None"
    by (cases rule: getNextReady_spec) (auto simp: slot(3) new_element_not_ready)
  with ok st ra(1) that [of ?cu] show thesis by (simp add: newConflationUnit_def cu_inv_def)
qed

section \<open>What the committer reads\<close>

lemma collect_metadata_ok:
  assumes "\<forall>s \<in> set slots. \<exists>e ty ja. s = Some e \<and> element_ok ty ja e ts"
  shows "\<exists>as. collect_metadata slots = Some as \<and> (\<forall>a \<in> set as. a < length ts)"
  using assms
proof (induction slots)
  case (Cons slot slots)
  then obtain e ty ja as where e: "slot = Some e" "element_ok ty ja e ts"
    and as: "collect_metadata slots = Some as" "\<forall>a \<in> set as. a < length ts" by auto
  from e(2) bi.toCommit_ok [of ty "ja \<noteq> None" "ce_bundleInfo e" "ce_metas e" ts] obtain p where
    "bi_getTransportMetadataToCommit (ce_bundleInfo e) (ce_metas e) = Some p" "p = None \<or> transport_ok p ts"
    by (auto simp: element_ok_def)
  with e as show ?case by (auto split: option.splits)
qed simp

lemma getBundlesMetadata_ok:
  assumes "unit_ok tys cu ts job"
  shows "\<exists>as. getBundlesMetadata cu = Some as \<and> (\<forall>a \<in> set as. a < length ts)"
  unfolding getBundlesMetadata_def
proof (rule collect_metadata_ok)
  show "\<forall>s \<in> set (cu_priorityQueue cu). \<exists>e ty ja. s = Some e \<and> element_ok ty ja e ts"
    using unit_okD [OF assms] by (force simp: cu_shape_def in_set_conv_nth el_def)
qed

section \<open>The last processed versions only grow\<close>

definition processed_versions :: "'h conflation_unit \<Rightarrow> bundle_version option option list" where
  "processed_versions cu = map (map_option ce_lastProcessedBundleVersion) (cu_priorityQueue cu)"

lemma processed_versions_addCU:
  "addCUToReadyQueueIfNeeded cu sh = Some (cu', sh') \<Longrightarrow> processed_versions cu' = processed_versions cu"
  by (auto simp: addCUToReadyQueueIfNeeded_def processed_versions_def bind_Some_iff split: if_splits option.splits)

lemma processed_versions_set:
  assumes "get_element cu p = Some e" "ce_lastProcessedBundleVersion e' = ce_lastProcessedBundleVersion e"
  shows "processed_versions (set_element cu p e') = processed_versions cu"
  using assms
  by (auto simp: processed_versions_def set_element_def get_element_def deref_def bind_Some_iff
      nth_list_update intro!: nth_equalityI split: if_splits)

lemma element_update_processed:
  "element_update enum e b t = Some (Inr e') \<Longrightarrow> ce_lastProcessedBundleVersion e' = ce_lastProcessedBundleVersion e"
  by (cases "bi_update enum (ce_bundleInfo e) b t (\<not> ce_isInProcess e) (ce_metas e)")
     (auto simp: element_update_def split: sum.split_asm)

lemma processed_versions_insert:
  assumes "cu_insert enum now cu sh b t = Some (cu', sh')"
  shows "processed_versions cu' = processed_versions cu"
proof -
  let ?p = "priority_of cu (GetBundleType b)"
  have *: "processed_versions cu' = processed_versions cu"
    if "get_element cu ?p = Some e" "element_update enum e b t = Some (Inr e')"
      "addCUToReadyQueueIfNeeded (set_element cu ?p e') sh1 = Some (cu', sh')" for e e' sh1
    using processed_versions_addCU [OF that(3)]
      processed_versions_set [OF that(1) element_update_processed [OF that(2)]] by simp
  obtain e where e: "get_element cu ?p = Some e" using assms by (auto simp: cu_insert_def Let_def bind_Some_iff)
  show ?thesis
  proof (cases "element_update enum e b t")
    case None
    with assms e show ?thesis
      by (auto simp: cu_insert_def Let_def bind_Some_iff simp del: GetBundleType_struct split: if_split_asm)
  next
    case (Some r)
    with assms e show ?thesis
      by (cases r) (auto simp: cu_insert_def Let_def bind_Some_iff simp del: GetBundleType_struct
          split: if_split_asm intro: *)
  qed
qed

lemma processed_versions_GetNext:
  assumes "GetNext now cu sh = Some (r, cu', sh')"
  shows "processed_versions cu' = processed_versions cu"
proof -
  have *: "processed_versions (set_element (cu\<lparr>cu_isInReadyQueue := False\<rparr>) p e') = processed_versions cu"
    if e: "get_element cu p = Some e" "getBundleForProcessing (e\<lparr>ce_isInProcess := True\<rparr>) = Some (b, a, e')" for e e' p a b
  proof -
    have "ce_lastProcessedBundleVersion e' = ce_lastProcessedBundleVersion e"
      using e(2) by (auto simp: getBundleForProcessing_def Let_def bind_Some_iff)
    moreover have "get_element (cu\<lparr>cu_isInReadyQueue := False\<rparr>) p = Some e" using e(1) by (simp add: get_element_def)
    ultimately have "processed_versions (set_element (cu\<lparr>cu_isInReadyQueue := False\<rparr>) p e') =
        processed_versions (cu\<lparr>cu_isInReadyQueue := False\<rparr>)" by (intro processed_versions_set)
    then show ?thesis by (simp add: processed_versions_def)
  qed
  obtain nx where nx: "getNextReadyBundlePriority cu = Some nx" using assms by (auto simp: GetNext_def bind_Some_iff)
  show ?thesis
  proof (cases nx)
    case None
    then show ?thesis using assms nx by (simp add: GetNext_def)
  next
    case (Some p)
    then obtain e b a e' where "get_element cu p = Some e"
      "getBundleForProcessing (e\<lparr>ce_isInProcess := True\<rparr>) = Some (b, a, e')"
      "cu' = set_element (cu\<lparr>cu_isInReadyQueue := False\<rparr>) p e'"
      using assms nx by (auto simp: GetNext_def Let_def bind_Some_iff)
    with * show ?thesis by blast
  qed
qed

definition processed_le :: "'h conflation_unit \<Rightarrow> 'h conflation_unit \<Rightarrow> bool" where
  "processed_le cu cu' \<longleftrightarrow> (\<forall>i e. get_element cu i = Some e \<longrightarrow>
     (\<exists>e' v v'. get_element cu' i = Some e' \<and> ce_lastProcessedBundleVersion e = Some v \<and>
        ce_lastProcessedBundleVersion e' = Some v' \<and> v \<le> v'))"

lemma cu_inv_element:
  assumes "cu_inv tys cu sh job" "get_element cu i = Some e"
  shows "i < length tys" "e = el cu i" "\<exists>v. ce_lastProcessedBundleVersion e = Some v"
proof -
  have ok: "unit_ok tys cu (sh_tmetas sh) job" using assms(1) by (simp add: cu_inv_def)
  show i: "i < length tys"
    using assms(2) unit_okD(1) [OF ok] by (auto simp: get_element_def deref_def bind_Some_iff cu_shape_def split: if_splits)
  show e: "e = el cu i" using get_element_el [OF unit_okD(1) [OF ok] i] assms(2) by simp
  show "\<exists>v. ce_lastProcessedBundleVersion e = Some v"
    using unit_okD(2) [OF ok i] e by (auto simp: element_ok_def)
qed

lemma processed_le_same:
  assumes "cu_inv tys cu sh job" "processed_versions cu' = processed_versions cu"
  shows "processed_le cu cu'"
  unfolding processed_le_def
proof (intro allI impI)
  fix i e assume e: "get_element cu i = Some e"
  then have i: "i < length (cu_priorityQueue cu)" "cu_priorityQueue cu ! i = Some e"
    by (auto simp: get_element_def deref_def bind_Some_iff split: if_splits)
  from assms(2) have "length (cu_priorityQueue cu') = length (cu_priorityQueue cu)"
    unfolding processed_versions_def by (rule map_eq_imp_length_eq)
  moreover from assms(2) have "processed_versions cu' ! i = processed_versions cu ! i" by simp
  ultimately have "map_option ce_lastProcessedBundleVersion (cu_priorityQueue cu' ! i) = Some (ce_lastProcessedBundleVersion e)"
    "i < length (cu_priorityQueue cu')"
    using i by (simp_all add: processed_versions_def)
  then obtain e' where "get_element cu' i = Some e'" "ce_lastProcessedBundleVersion e' = ce_lastProcessedBundleVersion e"
    by (auto simp: get_element_def deref_def)
  with cu_inv_element(3) [OF assms(1) e]
  show "\<exists>e' v v'. get_element cu' i = Some e' \<and> ce_lastProcessedBundleVersion e = Some v \<and>
        ce_lastProcessedBundleVersion e' = Some v' \<and> v \<le> v'" by fastforce
qed

lemma processed_le_report:
  assumes inv: "cu_inv tys cu sh (Some (p, a))" and r: "ReportResult enum cu sh (p, a) failed = Some (cu', sh')"
  shows "processed_le cu cu'"
  unfolding processed_le_def
proof (intro allI impI)
  fix i e assume e: "get_element cu i = Some e"
  note i = cu_inv_element [OF inv e]
  obtain v w where R: "cu_inv tys cu' sh' None" "ce_lastProcessedBundleVersion (el cu p) = Some v"
    "ce_lastProcessedBundleVersion (el cu' p) = Some (if failed then v else max v w)"
    "\<forall>j. j < length tys \<longrightarrow> j \<noteq> p \<longrightarrow> el cu' j = el cu j"
    by (rule ReportResult_ok [OF inv, of enum failed]) (use r in auto)
  have "get_element cu' i = Some (el cu' i)"
    using R(1) i(1) by (auto simp: cu_inv_def intro: get_element_el dest: unit_okD(1))
  moreover have "\<exists>v v'. ce_lastProcessedBundleVersion e = Some v \<and> ce_lastProcessedBundleVersion (el cu' i) = Some v' \<and> v \<le> v'"
    using R i by (cases "i = p") auto
  ultimately show "\<exists>e' v v'. get_element cu' i = Some e' \<and> ce_lastProcessedBundleVersion e = Some v \<and>
        ce_lastProcessedBundleVersion e' = Some v' \<and> v \<le> v'" by blast
qed

lemma processed_le_refl: "cu_inv tys cu sh job \<Longrightarrow> processed_le cu cu"
  by (rule processed_le_same) auto

lemma processed_le_trans: "processed_le cu cu' \<Longrightarrow> processed_le cu' cu'' \<Longrightarrow> processed_le cu cu''"
  unfolding processed_le_def by (metis option.inject order_trans)

end
