(* ===== verification/Conflation_Manager.thy ===== *)
theory Conflation_Manager
  imports Conflation_Invariant
begin

text \<open>
  \<open>conflator/conflation_manager.go\<close>: one conflation unit per leaf hub, created on the first bundle the
  hub sends. \<open>GetBundlesMetadata\<close> visits the units in Go's unspecified map order, the argument \<open>order\<close>.
\<close>

record 'h conflation_manager =
  cm_conflationUnits :: "string \<rightharpoonup> 'h conflation_unit"
  cm_requireInitialDependencyChecks :: bool
  cm_registrations :: "'h conflation_registration list"

definition NewConflationManager :: "bool \<Rightarrow> 'h conflation_manager" where
  "NewConflationManager requireInitialDependencyChecks =
     \<lparr> cm_conflationUnits = Map.empty,
       cm_requireInitialDependencyChecks = requireInitialDependencyChecks, cm_registrations = [] \<rparr>"

definition Register :: "'h conflation_manager \<Rightarrow> 'h conflation_registration \<Rightarrow> 'h conflation_manager" where
  "Register cm registration = cm\<lparr>cm_registrations := cm_registrations cm @ [registration]\<rparr>"

definition set_unit :: "'h conflation_manager \<Rightarrow> string \<Rightarrow> 'h conflation_unit \<Rightarrow> 'h conflation_manager" where
  "set_unit cm name cu = cm\<lparr>cm_conflationUnits := (cm_conflationUnits cm)(name \<mapsto> cu)\<rparr>"

definition getConflationUnit ::
    "'h conflation_manager \<Rightarrow> string \<Rightarrow> ('h conflation_unit \<times> 'h conflation_manager) option" where
  "getConflationUnit cm leafHubName =
     (case cm_conflationUnits cm leafHubName of
        Some conflationUnit \<Rightarrow> Some (conflationUnit, cm)
      | None \<Rightarrow> do {
          conflationUnit \<leftarrow> newConflationUnit leafHubName (cm_registrations cm) (cm_requireInitialDependencyChecks cm);
          Some (conflationUnit, set_unit cm leafHubName conflationUnit) })"

definition cm_Insert ::
    "(string set \<Rightarrow> string list) \<Rightarrow> int \<Rightarrow> 'h conflation_manager \<Rightarrow> shared \<Rightarrow> status_bundle \<Rightarrow> addr \<Rightarrow>
     ('h conflation_manager \<times> shared) option" where
  "cm_Insert enum now cm sh b t = do {
     (cu, cm1) \<leftarrow> getConflationUnit cm (GetLeafHubName b);
     (cu', sh') \<leftarrow> cu_insert enum now cu sh b t;
     Some (set_unit cm1 (GetLeafHubName b) cu', sh') }"

fun units_metadata :: "'h conflation_manager \<Rightarrow> string list \<Rightarrow> addr list option" where
  "units_metadata cm [] = Some []"
| "units_metadata cm (n # ns) = do {
     cu \<leftarrow> cm_conflationUnits cm n;
     as \<leftarrow> getBundlesMetadata cu;
     bs \<leftarrow> units_metadata cm ns;
     Some (as @ bs) }"

definition cm_GetBundlesMetadata :: "(string set \<Rightarrow> string list) \<Rightarrow> 'h conflation_manager \<Rightarrow> addr list option" where
  "cm_GetBundlesMetadata order cm = units_metadata cm (order (dom (cm_conflationUnits cm)))"

section \<open>The manager's invariant\<close>

text \<open>\<open>jobs\<close> gives, for each leaf hub, the metadata pointer of the bundle in process.\<close>

definition cm_inv :: "'h conflation_manager \<Rightarrow> shared \<Rightarrow> (string \<rightharpoonup> metadata_ptr) \<Rightarrow> bool" where
  "cm_inv cm sh jobs \<longleftrightarrow>
     valid_registrations (cm_registrations cm) \<and> stats_complete (sh_stats sh) \<and>
     finite (dom (cm_conflationUnits cm)) \<and> dom jobs \<subseteq> dom (cm_conflationUnits cm) \<and>
     (\<forall>n cu. cm_conflationUnits cm n = Some cu \<longrightarrow>
        cu_name cu = n \<and> cu_inv (registered_types (cm_registrations cm)) cu sh (jobs n))"

abbreviation cm_types :: "'h conflation_manager \<Rightarrow> string list" where
  "cm_types cm \<equiv> registered_types (cm_registrations cm)"

lemma set_unit_simps [simp]:
  "cm_registrations (set_unit cm n cu) = cm_registrations cm"
  "cm_requireInitialDependencyChecks (set_unit cm n cu) = cm_requireInitialDependencyChecks cm"
  "cm_conflationUnits (set_unit cm n cu) m = (if m = n then Some cu else cm_conflationUnits cm m)"
  "dom (cm_conflationUnits (set_unit cm n cu)) = insert n (dom (cm_conflationUnits cm))"
  by (auto simp: set_unit_def)

lemma cu_inv_other:
  assumes "cu_inv tys cu sh job" "length (sh_tmetas sh) \<le> length (sh_tmetas sh')" "stats_complete (sh_stats sh')"
  shows "cu_inv tys cu sh' job"
  using assms by (auto simp: cu_inv_def intro: unit_ok_mono)

text \<open>Replacing one unit and the shared state by the result of an operation on that unit.\<close>

lemma cm_inv_set_unit:
  assumes "cm_inv cm sh jobs" "cu_inv (cm_types cm) cu sh' (jobs' n)" "cu_name cu = n"
    "length (sh_tmetas sh) \<le> length (sh_tmetas sh')" "\<And>m. m \<noteq> n \<Longrightarrow> jobs' m = jobs m"
  shows "cm_inv (set_unit cm n cu) sh' jobs'"
proof -
  have st: "stats_complete (sh_stats sh')" using assms(2) by (simp add: cu_inv_def)
  have "dom jobs' \<subseteq> insert n (dom (cm_conflationUnits cm))"
    using assms(1,5) by (fastforce simp: cm_inv_def)
  moreover have "cu_inv (cm_types cm) c sh' (jobs' m)" if "m \<noteq> n" "cm_conflationUnits cm m = Some c" for m c
    using that assms(1,5) by (auto simp: cm_inv_def intro: cu_inv_other [OF _ assms(4) st])
  ultimately show ?thesis using assms st by (auto simp: cm_inv_def)
qed

lemma getConflationUnit_ok:
  assumes inv: "cm_inv cm sh jobs"
  obtains cu cm' where "getConflationUnit cm n = Some (cu, cm')" "cm_inv cm' sh jobs"
    "cm_conflationUnits cm' n = Some cu" "cm_registrations cm' = cm_registrations cm"
    "\<forall>m. m \<noteq> n \<longrightarrow> cm_conflationUnits cm' m = cm_conflationUnits cm m"
    "cm_conflationUnits cm n = None \<longrightarrow> \<not> cu_isInReadyQueue cu"
    "cm_conflationUnits cm n \<noteq> None \<longrightarrow> cm_conflationUnits cm n = Some cu"
proof (cases "cm_conflationUnits cm n")
  case (Some cu)
  with inv show thesis by (intro that [of cu cm]) (simp_all add: getConflationUnit_def)
next
  case None
  have v: "valid_registrations (cm_registrations cm)" "stats_complete (sh_stats sh)"
    using inv by (auto simp: cm_inv_def)
  have jn: "jobs n = None" using inv None by (metis cm_inv_def domIff subsetD)
  obtain cu where cu: "newConflationUnit n (cm_registrations cm) (cm_requireInitialDependencyChecks cm) = Some cu"
    "cu_inv (cm_types cm) cu sh None" "cu_name cu = n" "\<not> cu_isInReadyQueue cu"
    by (rule newConflationUnit_ok [OF v])
  have "cm_inv (set_unit cm n cu) sh jobs"
    by (rule cm_inv_set_unit [OF inv]) (simp_all add: cu jn)
  with None cu show thesis by (intro that [of cu "set_unit cm n cu"]) (simp_all add: getConflationUnit_def)
qed

lemma cm_Insert_ok:
  assumes inv: "cm_inv cm sh jobs" and b: "wf_bundle b" "GetBundleType b \<in> set (cm_types cm)"
    and t: "t < length (sh_tmetas sh)"
  obtains cm' sh' cu cu' where "cm_Insert enum now cm sh b t = Some (cm', sh')" "cm_inv cm' sh' jobs"
    "cm_registrations cm' = cm_registrations cm" "sh_tmetas sh' = sh_tmetas sh"
    "cm_conflationUnits cm' (GetLeafHubName b) = Some cu'"
    "\<forall>m. m \<noteq> GetLeafHubName b \<longrightarrow> cm_conflationUnits cm' m = cm_conflationUnits cm m"
    "rq_queue (sh_readyQueue sh') = rq_queue (sh_readyQueue sh) @ enqueued cu cu'"
    "cu_name cu = GetLeafHubName b" "cu_isInReadyQueue cu \<longrightarrow> cu_isInReadyQueue cu'"
    "cm_conflationUnits cm (GetLeafHubName b) = None \<longrightarrow> \<not> cu_isInReadyQueue cu"
    "cm_conflationUnits cm (GetLeafHubName b) \<noteq> None \<longrightarrow> cm_conflationUnits cm (GetLeafHubName b) = Some cu"
    "\<forall>ptr. jobs (GetLeafHubName b) = Some ptr \<longrightarrow> read_metadata cu' ptr = read_metadata cu ptr"
proof -
  let ?n = "GetLeafHubName b"
  obtain cu cm1 where g: "getConflationUnit cm ?n = Some (cu, cm1)" "cm_inv cm1 sh jobs"
    "cm_conflationUnits cm1 ?n = Some cu" "cm_registrations cm1 = cm_registrations cm"
    "\<forall>m. m \<noteq> ?n \<longrightarrow> cm_conflationUnits cm1 m = cm_conflationUnits cm m"
    "cm_conflationUnits cm ?n = None \<longrightarrow> \<not> cu_isInReadyQueue cu"
    "cm_conflationUnits cm ?n \<noteq> None \<longrightarrow> cm_conflationUnits cm ?n = Some cu"
    by (rule getConflationUnit_ok [OF inv, of ?n])
  from g(2,3,4) have cu: "cu_inv (cm_types cm) cu sh (jobs ?n)" "cu_name cu = ?n" by (auto simp: cm_inv_def)
  from b(2) obtain i where i: "i < length (cm_types cm)" "GetBundleType b = cm_types cm ! i"
    by (metis in_set_conv_nth)
  obtain cu' sh' where ins: "cu_insert enum now cu sh b t = Some (cu', sh')"
    "cu_inv (cm_types cm) cu' sh' (jobs ?n)" "sh_tmetas sh' = sh_tmetas sh" "cu_name cu' = cu_name cu"
    "rq_queue (sh_readyQueue sh') = rq_queue (sh_readyQueue sh) @ enqueued cu cu'"
    "cu_isInReadyQueue cu \<longrightarrow> cu_isInReadyQueue cu'"
    "\<forall>ptr. jobs ?n = Some ptr \<longrightarrow> read_metadata cu' ptr = read_metadata cu ptr"
    by (rule cu_insert_ok [OF cu(1) b(1) i t, of enum now])
  have "cm_inv (set_unit cm1 ?n cu') sh' jobs"
    by (rule cm_inv_set_unit [OF g(2)]) (use ins cu g(4) in auto)
  then show thesis
    by (intro that [of "set_unit cm1 ?n cu'" sh' cu' cu]) (use g ins cu in \<open>auto simp: cm_Insert_def\<close>)
qed

lemma units_metadata_ok:
  assumes inv: "cm_inv cm sh jobs" and "set ns \<subseteq> dom (cm_conflationUnits cm)"
  shows "\<exists>as. units_metadata cm ns = Some as \<and> (\<forall>a \<in> set as. a < length (sh_tmetas sh))"
  using assms(2)
proof (induction ns)
  case (Cons n ns)
  then obtain cu bs where cu: "cm_conflationUnits cm n = Some cu"
    and bs: "units_metadata cm ns = Some bs" "\<forall>a \<in> set bs. a < length (sh_tmetas sh)" by auto
  from inv cu have "unit_ok (cm_types cm) cu (sh_tmetas sh) (jobs n)" by (auto simp: cm_inv_def cu_inv_def)
  from getBundlesMetadata_ok [OF this] cu bs show ?case by auto
qed simp

end
