(* ===== verification/Status_Pipeline.thy ===== *)
theory Status_Pipeline
  imports Conflation_Manager
begin

text \<open>
  \<open>syncer/dispatcher/dispatcher.go\<close> and \<open>db/workerpool\<close>: the goroutines of the status path and how they
  interleave. The consumer inserts bundles; the dispatcher loops over dequeue, acquire, \<open>GetNext\<close>,
  \<open>RunAsync\<close>; each worker runs a job's handler, reports the result and returns to the pool. The
  steps between two blocking or locking points of a goroutine are one transition, so the relation
  \<open>pipeline_step\<close> has every interleaving of the Go program. A handler's outcome is not determined
  by the pipeline: both are possible steps.
\<close>

record 'h db_job =
  job_bundle :: status_bundle
  job_bundleMetadata :: metadata_ptr
  job_handlerFunc :: 'h
  job_conflationUnit :: string

definition NewDBJob :: "status_bundle \<Rightarrow> metadata_ptr \<Rightarrow> 'h \<Rightarrow> string \<Rightarrow> 'h db_job" where
  "NewDBJob b metadata handlerFunction conflationUnit =
     \<lparr> job_bundle = b, job_bundleMetadata = metadata, job_handlerFunc = handlerFunction,
       job_conflationUnit = conflationUnit \<rparr>"

text \<open>A worker is about to put itself into the pool, waits in the pool, was taken out of it by the
  dispatcher, or has a job.\<close>

datatype 'h worker_state = Returning | Available | Acquired | Running "'h db_job"

datatype dispatcher_state = Dequeueing | HasUnit string | HasWorker string nat

record 'h pipeline =
  pl_manager :: "'h conflation_manager"
  pl_shared :: shared
  pl_dispatcher :: dispatcher_state
  pl_dbWorkers :: "nat list"
  pl_workers :: "'h worker_state list"

definition set_available :: "shared \<Rightarrow> nat list \<Rightarrow> shared" where
  "set_available sh pool = set_stats sh (SetNumberOfAvailableDBWorkers (sh_stats sh) (int (length pool)))"

text \<open>\<open>pool.Start\<close>: \<open>n\<close> workers, each about to add itself to the pool.\<close>

definition Start_workers :: "nat \<Rightarrow> 'h worker_state list" where
  "Start_workers n = replicate n Returning"

definition worker_return :: "'h pipeline \<Rightarrow> nat \<Rightarrow> 'h pipeline" where
  "worker_return s w =
     (let pool = pl_dbWorkers s @ [w] in
      s\<lparr>pl_dbWorkers := pool, pl_workers := (pl_workers s)[w := Available],
        pl_shared := set_available (pl_shared s) pool\<rparr>)"

text \<open>\<open>Acquire\<close> reports the number of available workers before it takes one; with none it waits.\<close>

definition Acquire :: "'h pipeline \<Rightarrow> (nat \<times> 'h pipeline) option" where
  "Acquire s =
     (case pl_dbWorkers s of
        [] \<Rightarrow> None
      | w # pool \<Rightarrow> Some (w, s\<lparr>pl_dbWorkers := pool, pl_workers := (pl_workers s)[w := Acquired],
                                pl_shared := set_available (pl_shared s) (w # pool)\<rparr>))"

text \<open>The rest of the dispatcher's loop body, once it has a unit and a worker. On an error from
  \<open>GetNext\<close> the loop continues, and the worker it acquired gets no job.\<close>

definition dispatch_next :: "int \<Rightarrow> 'h pipeline \<Rightarrow> string \<Rightarrow> nat \<Rightarrow> 'h pipeline option" where
  "dispatch_next now s n w = do {
     cu \<leftarrow> cm_conflationUnits (pl_manager s) n;
     (r, cu', sh') \<leftarrow> GetNext now cu (pl_shared s);
     let s' = s\<lparr>pl_manager := set_unit (pl_manager s) n cu', pl_shared := sh', pl_dispatcher := Dequeueing\<rparr>;
     (case r of
        Inl err \<Rightarrow> Some s'
      | Inr (b, md, h) \<Rightarrow> do {
          b' \<leftarrow> b;
          md' \<leftarrow> md;
          Some (s'\<lparr>pl_workers := (pl_workers s)[w := Running (NewDBJob b' md' h n)]\<rparr>) }) }"

text \<open>The body of the worker's loop after its handler returned, in \<open>duration\<close> nanoseconds.\<close>

definition worker_finish ::
    "(string set \<Rightarrow> string list) \<Rightarrow> int \<Rightarrow> bool \<Rightarrow> 'h pipeline \<Rightarrow> nat \<Rightarrow> 'h db_job \<Rightarrow> 'h pipeline option" where
  "worker_finish enum duration failed s w job = do {
     _ \<leftarrow> version_String (GetVersion (job_bundle job));
     st \<leftarrow> AddDatabaseMetrics (sh_stats (pl_shared s)) (job_bundle job) duration failed;
     cu \<leftarrow> cm_conflationUnits (pl_manager s) (job_conflationUnit job);
     (cu', sh') \<leftarrow> ReportResult enum cu (set_stats (pl_shared s) st) (job_bundleMetadata job) failed;
     Some (s\<lparr>pl_manager := set_unit (pl_manager s) (job_conflationUnit job) cu', pl_shared := sh',
             pl_workers := (pl_workers s)[w := Returning]\<rparr>) }"

text \<open>The consumer hands a bundle and its transport metadata, a new object, to the manager.\<close>

definition consume ::
    "(string set \<Rightarrow> string list) \<Rightarrow> int \<Rightarrow> 'h pipeline \<Rightarrow> status_bundle \<Rightarrow> transport_metadata \<Rightarrow> 'h pipeline option" where
  "consume enum now s b tm = do {
     st \<leftarrow> IncrementNumberOfReceivedBundles (sh_stats (pl_shared s)) b;
     let ts = sh_tmetas (pl_shared s);
     let sh = (set_stats (pl_shared s) st)\<lparr>sh_tmetas := ts @ [tm]\<rparr>;
     (cm, sh') \<leftarrow> cm_Insert enum now (pl_manager s) sh b (length ts);
     Some (s\<lparr>pl_manager := cm, pl_shared := sh'\<rparr>) }"

definition init_pipeline :: "bool \<Rightarrow> 'h conflation_registration list \<Rightarrow> nat \<Rightarrow> 'h pipeline" where
  "init_pipeline req rs n =
     \<lparr> pl_manager = foldl Register (NewConflationManager req) rs,
       pl_shared = \<lparr> sh_tmetas = [], sh_readyQueue = NewConflationReadyQueue NewStatistics \<rparr>,
       pl_dispatcher = Dequeueing, pl_dbWorkers = [], pl_workers = Start_workers n \<rparr>"

text \<open>The transitions. \<open>deliverable\<close> is what the transport hands over: bundles of registered types
  with their version fields set. Both transports make metadata that is not marked as processed.\<close>

definition deliverable :: "'h conflation_manager \<Rightarrow> status_bundle \<Rightarrow> bool" where
  "deliverable cm b \<longleftrightarrow> wf_bundle b \<and> GetBundleType b \<in> set (cm_types cm)"

inductive pipeline_step :: "(string set \<Rightarrow> string list) \<Rightarrow> 'h pipeline \<Rightarrow> 'h pipeline \<Rightarrow> bool" for enum where
  step_consume: "deliverable (pl_manager s) b \<Longrightarrow> consume enum now s b tm = Some s' \<Longrightarrow> \<not> Processed tm \<Longrightarrow>
    pipeline_step enum s s'"
| step_dequeue: "pl_dispatcher s = Dequeueing \<Longrightarrow>
    BlockingDequeue (sh_readyQueue (pl_shared s)) = Some (n, rq) \<Longrightarrow>
    pipeline_step enum s (s\<lparr>pl_dispatcher := HasUnit n, pl_shared := (pl_shared s)\<lparr>sh_readyQueue := rq\<rparr>\<rparr>)"
| step_acquire: "pl_dispatcher s = HasUnit n \<Longrightarrow> Acquire s = Some (w, s') \<Longrightarrow>
    pipeline_step enum s (s'\<lparr>pl_dispatcher := HasWorker n w\<rparr>)"
| step_next: "pl_dispatcher s = HasWorker n w \<Longrightarrow> dispatch_next now s n w = Some s' \<Longrightarrow> pipeline_step enum s s'"
| step_finish: "w < length (pl_workers s) \<Longrightarrow> pl_workers s ! w = Running job \<Longrightarrow>
    worker_finish enum duration failed s w job = Some s' \<Longrightarrow> pipeline_step enum s s'"
| step_return: "w < length (pl_workers s) \<Longrightarrow> pl_workers s ! w = Returning \<Longrightarrow>
    pipeline_step enum s (worker_return s w)"

inductive reachable :: "(string set \<Rightarrow> string list) \<Rightarrow> 'h pipeline \<Rightarrow> 'h pipeline \<Rightarrow> bool" for enum s0 where
  reach_init: "reachable enum s0 s0"
| reach_step: "reachable enum s0 s \<Longrightarrow> pipeline_step enum s s' \<Longrightarrow> reachable enum s0 s'"

section \<open>The invariant of the pipeline\<close>

definition running :: "'h pipeline \<Rightarrow> nat \<Rightarrow> 'h db_job \<Rightarrow> bool" where
  "running s w job \<longleftrightarrow> w < length (pl_workers s) \<and> pl_workers s ! w = Running job"

text \<open>The unit the dispatcher holds, and the units that are queued or held.\<close>

fun held :: "dispatcher_state \<Rightarrow> string list" where
  "held Dequeueing = []"
| "held (HasUnit n) = [n]"
| "held (HasWorker n w) = [n]"

definition queued :: "'h pipeline \<Rightarrow> string list" where
  "queued s = held (pl_dispatcher s) @ rq_queue (sh_readyQueue (pl_shared s))"

definition jobs_inv :: "'h pipeline \<Rightarrow> (string \<rightharpoonup> metadata_ptr) \<Rightarrow> bool" where
  "jobs_inv s jobs \<longleftrightarrow>
     (\<forall>w job. running s w job \<longrightarrow> jobs (job_conflationUnit job) = Some (job_bundleMetadata job) \<and>
        wf_bundle (job_bundle job)) \<and>
     (\<forall>n \<in> dom jobs. \<exists>w job. running s w job \<and> job_conflationUnit job = n) \<and>
     (\<forall>w w' job job'. running s w job \<longrightarrow> running s w' job' \<longrightarrow>
        job_conflationUnit job = job_conflationUnit job' \<longrightarrow> w = w')"

definition queue_inv :: "'h pipeline \<Rightarrow> bool" where
  "queue_inv s \<longleftrightarrow> distinct (queued s) \<and>
     (\<forall>n \<in> set (queued s). \<exists>cu. cm_conflationUnits (pl_manager s) n = Some cu \<and> cu_isInReadyQueue cu)"

definition pool_inv :: "'h pipeline \<Rightarrow> bool" where
  "pool_inv s \<longleftrightarrow> distinct (pl_dbWorkers s) \<and>
     (\<forall>w \<in> set (pl_dbWorkers s). w < length (pl_workers s) \<and> pl_workers s ! w = Available) \<and>
     (\<forall>n w. pl_dispatcher s = HasWorker n w \<longrightarrow> w < length (pl_workers s) \<and> pl_workers s ! w = Acquired)"

definition pipeline_inv :: "'h pipeline \<Rightarrow> bool" where
  "pipeline_inv s \<longleftrightarrow> pool_inv s \<and> queue_inv s \<and>
     (\<exists>jobs. cm_inv (pl_manager s) (pl_shared s) jobs \<and> jobs_inv s jobs)"

text \<open>A unit that says it is in the ready queue, but nobody holds it and none of its jobs runs.\<close>

definition stuck :: "'h pipeline \<Rightarrow> string \<Rightarrow> bool" where
  "stuck s hub \<longleftrightarrow> (\<exists>cu. cm_conflationUnits (pl_manager s) hub = Some cu \<and> cu_isInReadyQueue cu) \<and>
     hub \<notin> set (queued s) \<and> (\<forall>w job. running s w job \<longrightarrow> job_conflationUnit job \<noteq> hub)"

lemma cm_inv_shared:
  assumes "cm_inv cm sh jobs" "length (sh_tmetas sh) \<le> length (sh_tmetas sh')" "stats_complete (sh_stats sh')"
  shows "cm_inv cm sh' jobs"
  using assms(1,3) by (auto simp: cm_inv_def intro: cu_inv_other [OF _ assms(2,3)])

lemma cm_invD:
  assumes "cm_inv cm sh jobs"
  shows "stats_complete (sh_stats sh)"
    and "cm_conflationUnits cm n = Some cu \<Longrightarrow> cu_inv (cm_types cm) cu sh (jobs n) \<and> cu_name cu = n"
  using assms by (auto simp: cm_inv_def)

lemma cu_inv_flag: "cu_inv tys cu sh job \<Longrightarrow> cu_isInReadyQueue cu \<Longrightarrow> job = None"
  by (cases job) (auto simp: cu_inv_def unit_ok_def)

lemma running_workers: "pl_workers s' = pl_workers s \<Longrightarrow> running s' = running s"
  by (auto simp: running_def fun_eq_iff)

lemma jobs_inv_workers: "pl_workers s' = pl_workers s \<Longrightarrow> jobs_inv s' jobs = jobs_inv s jobs"
  using running_workers [of s' s] by (simp add: jobs_inv_def)

text \<open>When an operation changes one unit and appends what it enqueued, the queue stays consistent.\<close>

lemma queue_inv_unit:
  assumes q: "queue_inv s"
    and q': "set (queued s') \<subseteq> set (queued s) \<union> set new" "distinct (queued s')"
    and units: "\<forall>m. m \<noteq> n \<longrightarrow> cm_conflationUnits (pl_manager s') m = cm_conflationUnits (pl_manager s) m"
    and new: "set new \<subseteq> {n}"
    and n: "n \<in> set (queued s') \<longrightarrow> (\<exists>cu. cm_conflationUnits (pl_manager s') n = Some cu \<and> cu_isInReadyQueue cu)"
  shows "queue_inv s'"
  unfolding queue_inv_def
proof (intro conjI ballI)
  fix m assume m: "m \<in> set (queued s')"
  show "\<exists>cu. cm_conflationUnits (pl_manager s') m = Some cu \<and> cu_isInReadyQueue cu"
  proof (cases "m = n")
    case True
    with m n show ?thesis by simp
  next
    case False
    with m q'(1) new have "m \<in> set (queued s)" by auto
    with q False units show ?thesis by (simp add: queue_inv_def)
  qed
qed (rule q'(2))

lemma consume_ok:
  assumes inv: "pipeline_inv s" and b: "deliverable (pl_manager s) b"
  shows "\<exists>s'. consume enum now s b tm = Some s' \<and> pipeline_inv s' \<and> (\<forall>hub. stuck s hub \<longrightarrow> stuck s' hub)"
proof -
  obtain jobs where cm: "cm_inv (pl_manager s) (pl_shared s) jobs" and jobs: "jobs_inv s jobs"
    and pool: "pool_inv s" and q: "queue_inv s" using inv by (auto simp: pipeline_inv_def)
  obtain st where st: "IncrementNumberOfReceivedBundles (sh_stats (pl_shared s)) b = Some st" "stats_complete st"
    unfolding IncrementNumberOfReceivedBundles_def by (rule update_metrics_complete [OF cm_invD(1) [OF cm]])
  let ?n = "GetLeafHubName b" and ?ts = "sh_tmetas (pl_shared s)"
  let ?sh = "(set_stats (pl_shared s) st)\<lparr>sh_tmetas := ?ts @ [tm]\<rparr>"
  have sh: "rq_queue (sh_readyQueue ?sh) = rq_queue (sh_readyQueue (pl_shared s))" by (simp add: set_stats_def)
  have cm1: "cm_inv (pl_manager s) ?sh jobs"
    by (rule cm_inv_shared [OF cm]) (use st in \<open>simp_all add: set_stats_def\<close>)
  have b': "wf_bundle b" "GetBundleType b \<in> set (cm_types (pl_manager s))" using b by (auto simp: deliverable_def)
  have t: "length ?ts < length (sh_tmetas ?sh)" by simp
  obtain cm' sh' cu cu' where ins: "cm_Insert enum now (pl_manager s) ?sh b (length ?ts) = Some (cm', sh')"
    "cm_inv cm' sh' jobs" "cm_registrations cm' = cm_registrations (pl_manager s)"
    "sh_tmetas sh' = sh_tmetas ?sh" "cm_conflationUnits cm' ?n = Some cu'"
    "\<forall>m. m \<noteq> ?n \<longrightarrow> cm_conflationUnits cm' m = cm_conflationUnits (pl_manager s) m"
    "rq_queue (sh_readyQueue sh') = rq_queue (sh_readyQueue ?sh) @ enqueued cu cu'" "cu_name cu = ?n"
    "cu_isInReadyQueue cu \<longrightarrow> cu_isInReadyQueue cu'"
    "cm_conflationUnits (pl_manager s) ?n = None \<longrightarrow> \<not> cu_isInReadyQueue cu"
    "cm_conflationUnits (pl_manager s) ?n \<noteq> None \<longrightarrow> cm_conflationUnits (pl_manager s) ?n = Some cu"
    "\<forall>ptr. jobs ?n = Some ptr \<longrightarrow> read_metadata cu' ptr = read_metadata cu ptr"
    by (rule cm_Insert_ok [OF cm1 b' t, of enum now])
  let ?s = "s\<lparr>pl_manager := cm', pl_shared := sh'\<rparr>"
  have qd: "queued ?s = queued s @ enqueued cu cu'" using ins(7) sh by (simp add: queued_def)
  have flag: "cu_isInReadyQueue cu" if "?n \<in> set (queued s)"
    using q that ins(10,11) by (auto simp: queue_inv_def)
  have "queue_inv ?s"
  proof (rule queue_inv_unit [OF q, where n = ?n and new = "enqueued cu cu'"])
    show "distinct (queued ?s)" using q flag ins(8) by (auto simp: qd enqueued_def queue_inv_def)
  qed (use ins(5,6,8,9) flag in \<open>auto simp: qd enqueued_def split: if_splits\<close>)
  moreover have "jobs_inv ?s jobs" using jobs jobs_inv_workers [of ?s s] by simp
  moreover have "pool_inv ?s" using pool by (simp add: pool_inv_def)
  ultimately have "pipeline_inv ?s" using ins(2) by (auto simp: pipeline_inv_def)
  moreover have "stuck ?s hub" if "stuck s hub" for hub
    using that ins(5-11) qd running_workers [of ?s s] by (cases "hub = ?n") (auto simp: stuck_def enqueued_def)
  ultimately show ?thesis using ins(1) st(1) by (simp add: consume_def Let_def)
qed

lemma running_upd:
  "w < length (pl_workers s) \<Longrightarrow> pl_workers s' = (pl_workers s)[w := x] \<Longrightarrow>
    running s' v job \<longleftrightarrow> (if v = w then x = Running job else running s v job)"
  by (auto simp: running_def nth_list_update)

lemma jobs_inv_idle:
  assumes "jobs_inv s jobs" "w < length (pl_workers s)" "pl_workers s' = (pl_workers s)[w := x]"
    "\<forall>job. pl_workers s ! w \<noteq> Running job" "\<forall>job. x \<noteq> Running job"
  shows "jobs_inv s' jobs"
proof -
  have "running s' = running s"
    using assms(4,5) running_upd [OF assms(2,3)] by (auto simp: fun_eq_iff running_def)
  with assms(1) show ?thesis by (simp add: jobs_inv_def)
qed

lemma worker_return_ok:
  assumes inv: "pipeline_inv s" and w: "w < length (pl_workers s)" "pl_workers s ! w = Returning"
  shows "pipeline_inv (worker_return s w)"
proof -
  obtain jobs where cm: "cm_inv (pl_manager s) (pl_shared s) jobs" and jobs: "jobs_inv s jobs"
    and pool: "pool_inv s" and q: "queue_inv s" using inv by (auto simp: pipeline_inv_def)
  let ?s = "worker_return s w"
  have ws: "pl_workers ?s = (pl_workers s)[w := Available]" by (simp add: worker_return_def Let_def)
  have "w \<notin> set (pl_dbWorkers s)" using pool w by (auto simp: pool_inv_def)
  then have "pool_inv ?s" using pool w
    by (auto simp: pool_inv_def worker_return_def Let_def nth_list_update)
  moreover have "queue_inv ?s"
    using q by (simp add: queue_inv_def queued_def worker_return_def Let_def set_available_def)
  moreover have "cm_inv (pl_manager ?s) (pl_shared ?s) jobs"
    using cm_inv_shared [OF cm, of "pl_shared ?s"] cm_invD(1) [OF cm]
    by (simp add: worker_return_def Let_def set_available_def)
  moreover have "jobs_inv ?s jobs" by (rule jobs_inv_idle [OF jobs w(1) ws]) (use w in auto)
  ultimately show ?thesis by (auto simp: pipeline_inv_def)
qed

lemma dequeue_ok:
  assumes inv: "pipeline_inv s" and d: "pl_dispatcher s = Dequeueing"
    and rq: "BlockingDequeue (sh_readyQueue (pl_shared s)) = Some (n, rq)"
  shows "pipeline_inv (s\<lparr>pl_dispatcher := HasUnit n, pl_shared := (pl_shared s)\<lparr>sh_readyQueue := rq\<rparr>\<rparr>)" (is "pipeline_inv ?s")
proof -
  obtain jobs where cm: "cm_inv (pl_manager s) (pl_shared s) jobs" and jobs: "jobs_inv s jobs"
    and pool: "pool_inv s" and q: "queue_inv s" using inv by (auto simp: pipeline_inv_def)
  note deq = BlockingDequeue_eq_Some [OF rq]
  have "queued ?s = queued s" using d deq by (simp add: queued_def)
  then have "queue_inv ?s" using q by (simp add: queue_inv_def)
  moreover have "cm_inv (pl_manager ?s) (pl_shared ?s) jobs"
    using cm_inv_shared [OF cm, of "pl_shared ?s"] cm_invD(1) [OF cm] deq by simp
  moreover have "jobs_inv ?s jobs" using jobs jobs_inv_workers [of ?s s] by simp
  moreover have "pool_inv ?s" using pool by (simp add: pool_inv_def)
  ultimately show ?thesis by (auto simp: pipeline_inv_def)
qed

lemma acquire_ok:
  assumes inv: "pipeline_inv s" and d: "pl_dispatcher s = HasUnit n" and acq: "Acquire s = Some (w, s')"
  shows "pipeline_inv (s'\<lparr>pl_dispatcher := HasWorker n w\<rparr>)" (is "pipeline_inv ?s")
proof -
  obtain jobs where cm: "cm_inv (pl_manager s) (pl_shared s) jobs" and jobs: "jobs_inv s jobs"
    and pool: "pool_inv s" and q: "queue_inv s" using inv by (auto simp: pipeline_inv_def)
  obtain ws where ws: "pl_dbWorkers s = w # ws" and s': "s' = s\<lparr>pl_dbWorkers := ws,
      pl_workers := (pl_workers s)[w := Acquired], pl_shared := set_available (pl_shared s) (w # ws)\<rparr>"
    using acq by (auto simp: Acquire_def split: list.splits)
  have w: "w < length (pl_workers s)" "pl_workers s ! w = Available" using pool ws by (auto simp: pool_inv_def)
  have "queue_inv ?s" using q d by (simp add: queue_inv_def queued_def s' set_available_def)
  moreover have "cm_inv (pl_manager ?s) (pl_shared ?s) jobs"
    using cm_inv_shared [OF cm, of "pl_shared ?s"] cm_invD(1) [OF cm] by (simp add: s' set_available_def)
  moreover have "jobs_inv ?s jobs"
    by (rule jobs_inv_idle [OF jobs w(1), where x = Acquired]) (use w in \<open>simp_all add: s'\<close>)
  moreover have "pool_inv ?s" using pool w by (auto simp: pool_inv_def s' ws nth_list_update)
  ultimately show ?thesis by (auto simp: pipeline_inv_def)
qed

lemma set_unit_same: "cm_conflationUnits cm n = Some cu \<Longrightarrow> set_unit cm n cu = cm"
  by (cases cm) (auto simp: set_unit_def)

lemma jobs_invD:
  assumes "jobs_inv s jobs"
  shows "running s w job \<Longrightarrow> jobs (job_conflationUnit job) = Some (job_bundleMetadata job)"
    and "running s w job \<Longrightarrow> wf_bundle (job_bundle job)"
    and "jobs n = Some ptr \<Longrightarrow> \<exists>w job. running s w job \<and> job_conflationUnit job = n"
    and "running s w job \<Longrightarrow> running s w' job' \<Longrightarrow> job_conflationUnit job = job_conflationUnit job' \<Longrightarrow> w = w'"
  using assms unfolding jobs_inv_def by blast+

lemma jobs_inv_start:
  assumes "jobs_inv s jobs" "w < length (pl_workers s)" "pl_workers s' = (pl_workers s)[w := Running job]"
    "\<forall>job. pl_workers s ! w \<noteq> Running job" "jobs (job_conflationUnit job) = None" "wf_bundle (job_bundle job)"
  shows "jobs_inv s' (jobs(job_conflationUnit job \<mapsto> job_bundleMetadata job))"
proof -
  note run = running_upd [OF assms(2,3)]
  have idle: "\<not> running s w j" for j using assms(4) by (simp add: running_def)
  have other: "job_conflationUnit j \<noteq> job_conflationUnit job" if "running s v j" for v j
    using jobs_invD(1) [OF assms(1) that] assms(5) by auto
  show ?thesis
    unfolding jobs_inv_def
  proof (intro conjI allI impI ballI)
    fix n assume n: "n \<in> dom (jobs(job_conflationUnit job \<mapsto> job_bundleMetadata job))"
    show "\<exists>w j. running s' w j \<and> job_conflationUnit j = n"
    proof (cases "n = job_conflationUnit job")
      case True
      then show ?thesis using run [of w job] by auto
    next
      case False
      with n obtain v j where "running s v j" "job_conflationUnit j = n"
        using jobs_invD(3) [OF assms(1), of n] by auto
      with run [of v j] idle show ?thesis by metis
    qed
  next
    fix v v' j j'
    assume "running s' v j" "running s' v' j'" "job_conflationUnit j = job_conflationUnit j'"
    with run other [of v j] other [of v' j'] jobs_invD(4) [OF assms(1)] show "v = v'"
      by (auto split: if_splits)
  qed (use run other jobs_invD(1,2) [OF assms(1)] assms(6) in \<open>auto split: if_splits\<close>)
qed

lemma jobs_inv_end:
  assumes jobs: "jobs_inv s jobs" and w: "running s w job" "pl_workers s' = (pl_workers s)[w := Returning]"
  shows "jobs_inv s' (jobs(job_conflationUnit job := None))"
proof -
  have wl: "w < length (pl_workers s)" using w(1) by (simp add: running_def)
  have run: "running s' v j \<longleftrightarrow> v \<noteq> w \<and> running s v j" for v j using running_upd [OF wl w(2), of v j] by simp
  have other: "job_conflationUnit j \<noteq> job_conflationUnit job" if "running s v j" "v \<noteq> w" for v j
    using jobs_invD(4) [OF jobs that(1) w(1)] that(2) by blast
  have same: "j = job" if "running s w j" for j using that w(1) by (simp add: running_def)
  show ?thesis
    unfolding jobs_inv_def
  proof (intro conjI allI impI ballI)
    fix n assume n: "n \<in> dom (jobs(job_conflationUnit job := None))"
    then obtain v j where "running s v j" "job_conflationUnit j = n"
      using jobs_invD(3) [OF jobs, of n] by (auto split: if_splits)
    moreover have "v \<noteq> w" using n same calculation by (auto split: if_splits)
    ultimately show "\<exists>w j. running s' w j \<and> job_conflationUnit j = n" using run by blast
  next
    fix v v' j j'
    assume "running s' v j" "running s' v' j'" "job_conflationUnit j = job_conflationUnit j'"
    with run jobs_invD(4) [OF jobs] show "v = v'" by blast
  qed (use run other jobs_invD(1,2) [OF jobs] in auto)
qed

lemma dispatch_next_ok:
  assumes inv: "pipeline_inv s" and d: "pl_dispatcher s = HasWorker n w"
  shows "\<exists>s'. dispatch_next now s n w = Some s' \<and> pipeline_inv s' \<and> (\<forall>hub. stuck s hub \<longrightarrow> stuck s' hub)"
proof -
  obtain jobs where cm: "cm_inv (pl_manager s) (pl_shared s) jobs" and jobs: "jobs_inv s jobs"
    and pool: "pool_inv s" and q: "queue_inv s" using inv by (auto simp: pipeline_inv_def)
  have w: "w < length (pl_workers s)" "pl_workers s ! w = Acquired" using pool d by (auto simp: pool_inv_def)
  have "n \<in> set (queued s)" using d by (simp add: queued_def)
  with q obtain cu where cu: "cm_conflationUnits (pl_manager s) n = Some cu" "cu_isInReadyQueue cu"
    by (auto simp: queue_inv_def)
  have cuinv: "cu_inv (cm_types (pl_manager s)) cu (pl_shared s) None" and jn: "jobs n = None"
    using cm_invD(2) [OF cm cu(1)] cu_inv_flag cu(2) by metis+
  have nq: "n \<notin> set (rq_queue (sh_readyQueue (pl_shared s)))" "distinct (rq_queue (sh_readyQueue (pl_shared s)))"
    using q d by (auto simp: queue_inv_def queued_def)
  from cuinv show ?thesis
  proof (cases rule: GetNext_ok [where now = now])
    case error
    let ?s = "s\<lparr>pl_dispatcher := Dequeueing\<rparr>"
    have "dispatch_next now s n w = Some ?s"
      using error(2) cu(1) set_unit_same [OF cu(1)] by (simp add: dispatch_next_def Let_def)
    moreover have "queue_inv ?s" using q d by (auto simp: queue_inv_def queued_def)
    moreover have "jobs_inv ?s jobs" using jobs jobs_inv_workers [of ?s s] by simp
    moreover have "pool_inv ?s" using pool by (simp add: pool_inv_def)
    moreover have "stuck ?s hub" if "stuck s hub" for hub
      using that running_workers [of ?s s] by (auto simp: stuck_def queued_def)
    ultimately show ?thesis using cm by (auto simp: pipeline_inv_def)
  next
    case (dispatched p b a cu' sh')
    let ?job = "NewDBJob b (p, a) (ce_handlerFunction (el cu p)) n"
    let ?s = "s\<lparr>pl_manager := set_unit (pl_manager s) n cu', pl_shared := sh', pl_dispatcher := Dequeueing,
      pl_workers := (pl_workers s)[w := Running ?job]\<rparr>"
    have job: "job_conflationUnit ?job = n" "job_bundleMetadata ?job = (p, a)" "job_bundle ?job = b"
      by (simp_all add: NewDBJob_def)
    have b: "wf_bundle b"
      using dispatched(2,5) cuinv bi.getBundle_wf unfolding cu_inv_def unit_ok_def element_ok_def by blast
    have "dispatch_next now s n w = Some ?s"
      using dispatched(3) cu(1) by (simp add: dispatch_next_def Let_def)
    moreover have "cm_inv (pl_manager ?s) (pl_shared ?s) (jobs(n \<mapsto> (p, a)))"
      using cm_inv_set_unit [OF cm, of cu' sh' "jobs(n \<mapsto> (p, a))" n] dispatched cm_invD(2) [OF cm cu(1)] by simp
    moreover have "jobs_inv ?s (jobs(n \<mapsto> (p, a)))"
      using jobs_inv_start [OF jobs w(1), of ?s ?job] w(2) jn b job by simp
    moreover have "queued ?s = rq_queue (sh_readyQueue (pl_shared s))" using dispatched(9) by (simp add: queued_def)
    then have "queue_inv ?s" using q nq d by (auto simp: queue_inv_def queued_def)
    moreover have "pool_inv ?s" using pool w by (auto simp: pool_inv_def nth_list_update)
    moreover have "stuck ?s hub" if "stuck s hub" for hub
    proof -
      have "hub \<noteq> n" using that d by (auto simp: stuck_def queued_def)
      then show ?thesis
        using that d job dispatched(9) running_upd [OF w(1), of ?s "Running ?job"]
        by (auto simp: stuck_def queued_def set_unit_def)
    qed
    ultimately show ?thesis by (auto simp: pipeline_inv_def)
  qed
qed

lemma worker_finish_ok:
  assumes inv: "pipeline_inv s" and run: "running s w job"
  shows "\<exists>s'. worker_finish enum duration failed s w job = Some s' \<and> pipeline_inv s' \<and>
    (\<forall>hub. stuck s hub \<longrightarrow> stuck s' hub)"
proof -
  obtain jobs where cm: "cm_inv (pl_manager s) (pl_shared s) jobs" and jobs: "jobs_inv s jobs"
    and pool: "pool_inv s" and q: "queue_inv s" using inv by (auto simp: pipeline_inv_def)
  let ?n = "job_conflationUnit job"
  obtain p a where pa: "job_bundleMetadata job = (p, a)" by (cases "job_bundleMetadata job")
  have jn: "jobs ?n = Some (p, a)" using jobs_invD(1) [OF jobs run] pa by simp
  then obtain cu where cu: "cm_conflationUnits (pl_manager s) ?n = Some cu"
    using cm by (fastforce simp: cm_inv_def)
  have cuinv: "cu_inv (cm_types (pl_manager s)) cu (pl_shared s) (Some (p, a))" and name: "cu_name cu = ?n"
    using cm_invD(2) [OF cm cu] jn by auto
  obtain v where v: "GetVersion (job_bundle job) = Some v"
    using jobs_invD(2) [OF jobs run] by (auto simp: wf_bundle_def)
  obtain st where st: "AddDatabaseMetrics (sh_stats (pl_shared s)) (job_bundle job) duration failed = Some st"
    "stats_complete st"
    unfolding AddDatabaseMetrics_def by (rule update_metrics_complete [OF cm_invD(1) [OF cm]])
  let ?sh = "set_stats (pl_shared s) st"
  have cuinv': "cu_inv (cm_types (pl_manager s)) cu ?sh (Some (p, a))"
    using cu_inv_other [OF cuinv, of ?sh] st(2) by simp
  obtain cu' sh' v' w' where r: "ReportResult enum cu ?sh (p, a) failed = Some (cu', sh')"
    "cu_inv (cm_types (pl_manager s)) cu' sh' None" "length (sh_tmetas sh') = length (sh_tmetas ?sh)"
    "cu_name cu' = cu_name cu" "rq_queue (sh_readyQueue sh') = rq_queue (sh_readyQueue ?sh) @ enqueued cu cu'"
    by (rule ReportResult_ok [OF cuinv', of enum failed]) blast
  let ?s = "s\<lparr>pl_manager := set_unit (pl_manager s) ?n cu', pl_shared := sh',
    pl_workers := (pl_workers s)[w := Returning]\<rparr>"
  have "worker_finish enum duration failed s w job = Some ?s"
    using v st(1) cu r(1) pa by (simp add: worker_finish_def version_String_def)
  moreover have "cm_inv (pl_manager ?s) (pl_shared ?s) (jobs(?n := None))"
    using cm_inv_set_unit [OF cm, of cu' sh' "jobs(?n := None)" ?n] r name by simp
  moreover have "jobs_inv ?s (jobs(?n := None))" by (rule jobs_inv_end [OF jobs run]) simp
  moreover have "pool_inv ?s"
    using pool run by (auto simp: pool_inv_def running_def nth_list_update)
  moreover have "\<not> cu_isInReadyQueue cu" using cu_inv_flag [OF cuinv] by auto
  then have nq: "?n \<notin> set (queued s)" using q cu by (auto simp: queue_inv_def)
  have qd: "queued ?s = queued s @ enqueued cu cu'" using r(5) by (simp add: queued_def)
  have "queue_inv ?s"
  proof (rule queue_inv_unit [OF q, where n = ?n and new = "enqueued cu cu'"])
    show "distinct (queued ?s)" using q nq name by (auto simp: qd enqueued_def queue_inv_def)
  qed (use name nq in \<open>auto simp: qd enqueued_def split: if_splits\<close>)
  moreover have "stuck ?s hub" if "stuck s hub" for hub
  proof -
    have "w < length (pl_workers s)" "hub \<noteq> ?n" using that run by (auto simp: stuck_def running_def)
    then show ?thesis
      using that name running_upd [of w s ?s Returning] unfolding stuck_def qd
      by (auto simp: enqueued_def set_unit_def)
  qed
  ultimately show ?thesis by (auto simp: pipeline_inv_def)
qed

text \<open>What a dispatched job is.\<close>

lemma dispatch_next_job:
  assumes inv: "pipeline_inv s" and d: "pl_dispatcher s = HasWorker n w"
    and nxt: "dispatch_next now s n w = Some s'" and job: "running s' w job"
  obtains cu p where "cm_conflationUnits (pl_manager s) n = Some cu" "getNextReadyBundlePriority cu = Some (Some p)"
    "bi_getBundle (ce_bundleInfo (el cu p)) = Some (job_bundle job)" "job_conflationUnit job = n"
    "fst (job_bundleMetadata job) = p" "job_handlerFunc job = ce_handlerFunction (el cu p)"
    "unit_ok (cm_types (pl_manager s)) cu (sh_tmetas (pl_shared s)) None"
proof -
  obtain jobs where cm: "cm_inv (pl_manager s) (pl_shared s) jobs"
    and pool: "pool_inv s" and q: "queue_inv s" using inv by (auto simp: pipeline_inv_def)
  have w: "w < length (pl_workers s)" "pl_workers s ! w = Acquired" using pool d by (auto simp: pool_inv_def)
  have "n \<in> set (queued s)" using d by (simp add: queued_def)
  with q obtain cu where cu: "cm_conflationUnits (pl_manager s) n = Some cu" "cu_isInReadyQueue cu"
    by (auto simp: queue_inv_def)
  have cuinv: "cu_inv (cm_types (pl_manager s)) cu (pl_shared s) None"
    using cm_invD(2) [OF cm cu(1)] cu_inv_flag cu(2) by metis
  from cuinv show thesis
  proof (cases rule: GetNext_ok [where now = now])
    case error
    with nxt job cu(1) w show thesis by (auto simp: dispatch_next_def Let_def running_def)
  next
    case (dispatched p b a cu' sh')
    with nxt job cu(1) w have "job = NewDBJob b (p, a) (ce_handlerFunction (el cu p)) n"
      by (auto simp: dispatch_next_def Let_def running_def)
    with dispatched cu(1) cuinv that show thesis by (simp add: NewDBJob_def cu_inv_def)
  qed
qed

lemma step_keeps: "pipeline_step enum s s' \<Longrightarrow> pipeline_inv s \<Longrightarrow> pipeline_inv s'"
proof (induction rule: pipeline_step.induct)
  case (step_consume s b now tm s')
  then show ?case using consume_ok [of s b enum now tm] by auto
next
  case (step_next s n w now s')
  then show ?case using dispatch_next_ok [of s n w now] by auto
next
  case (step_finish w s job duration failed s')
  then show ?case using worker_finish_ok [of s w job enum duration failed] by (auto simp: running_def)
qed (auto intro: dequeue_ok acquire_ok worker_return_ok)

lemma stuck_step: "pipeline_step enum s s' \<Longrightarrow> pipeline_inv s \<Longrightarrow> stuck s hub \<Longrightarrow> stuck s' hub"
proof (induction rule: pipeline_step.induct)
  case (step_consume s b now tm s')
  then show ?case using consume_ok [of s b enum now tm] by auto
next
  case (step_dequeue s n rq)
  let ?s = "s\<lparr>pl_dispatcher := HasUnit n, pl_shared := (pl_shared s)\<lparr>sh_readyQueue := rq\<rparr>\<rparr>"
  have "queued ?s = queued s"
    using step_dequeue(1) BlockingDequeue_eq_Some [OF step_dequeue(2)] by (simp add: queued_def)
  with step_dequeue(4) running_workers [of ?s s] show ?case by (simp add: stuck_def)
next
  case (step_acquire s n w s')
  then have "w < length (pl_workers s)"
    by (auto simp: Acquire_def pipeline_inv_def pool_inv_def split: list.splits)
  moreover from step_acquire(2) have "pl_workers s' = (pl_workers s)[w := Acquired]"
    "pl_manager s' = pl_manager s"
    "rq_queue (sh_readyQueue (pl_shared s')) = rq_queue (sh_readyQueue (pl_shared s))"
    by (auto simp: Acquire_def set_available_def set_stats_def split: list.splits)
  ultimately show ?case
    using step_acquire(1,4) running_upd [of w s "s'\<lparr>pl_dispatcher := HasWorker n w\<rparr>" Acquired]
    by (auto simp: stuck_def queued_def split: if_splits)
next
  case (step_next s n w now s')
  then show ?case using dispatch_next_ok [of s n w now] by auto
next
  case (step_finish w s job duration failed s')
  then show ?case using worker_finish_ok [of s w job enum duration failed] by (auto simp: running_def)
next
  case (step_return w s)
  then show ?case
    using running_upd [of w s "worker_return s w" Available]
    by (auto simp: stuck_def queued_def worker_return_def set_available_def Let_def)
qed

lemma step_processed:
  assumes "pipeline_step enum s s'" "pipeline_inv s" "cm_conflationUnits (pl_manager s) hub = Some cu"
  shows "\<exists>cu'. cm_conflationUnits (pl_manager s') hub = Some cu' \<and> processed_le cu cu'"
proof -
  obtain jobs where cm: "cm_inv (pl_manager s) (pl_shared s) jobs" and jobs: "jobs_inv s jobs"
    using assms(2) by (auto simp: pipeline_inv_def)
  note inv = cm_invD(2) [OF cm assms(3)]
  have same: "processed_le cu cu" using inv processed_le_refl by blast
  from assms(1) show ?thesis
  proof cases
    case (step_consume b now tm)
    then obtain sh cm' sh' where i: "cm_Insert enum now (pl_manager s) sh b (length (sh_tmetas (pl_shared s))) = Some (cm', sh')"
      "pl_manager s' = cm'" by (auto simp: consume_def Let_def bind_Some_iff)
    then obtain cu0 cm1 cu' where g: "getConflationUnit (pl_manager s) (GetLeafHubName b) = Some (cu0, cm1)"
      "cu_insert enum now cu0 sh b (length (sh_tmetas (pl_shared s))) = Some (cu', sh')"
      "cm' = set_unit cm1 (GetLeafHubName b) cu'"
      by (auto simp: cm_Insert_def bind_Some_iff)
    show ?thesis
    proof (cases "hub = GetLeafHubName b")
      case True
      with g assms(3) have "cu0 = cu" "cm1 = pl_manager s" by (simp_all add: getConflationUnit_def)
      with g i True processed_le_same [OF conjunct1 [OF inv] processed_versions_insert [of enum now cu]]
      show ?thesis by (auto simp: set_unit_def)
    next
      case False
      with g have "cm_conflationUnits cm1 hub = cm_conflationUnits (pl_manager s) hub"
        by (auto simp: getConflationUnit_def set_unit_def bind_Some_iff split: option.split_asm)
      with False g i assms(3) same show ?thesis by (simp add: set_unit_def)
    qed
  next
    case (step_next n w now)
    then obtain c r c' sh' where c: "cm_conflationUnits (pl_manager s) n = Some c" "GetNext now c (pl_shared s) = Some (r, c', sh')"
      by (auto simp: dispatch_next_def bind_Some_iff)
    with step_next have "pl_manager s' = set_unit (pl_manager s) n c'"
      by (cases r) (auto simp: dispatch_next_def Let_def bind_Some_iff)
    with c assms(3) same processed_le_same [OF conjunct1 [OF inv] processed_versions_GetNext [of now cu]] show ?thesis
      by (cases "hub = n") (auto simp: set_unit_def)
  next
    case (step_finish w job duration failed)
    let ?n = "job_conflationUnit job"
    obtain st c c' sh' where f: "cm_conflationUnits (pl_manager s) ?n = Some c"
      "AddDatabaseMetrics (sh_stats (pl_shared s)) (job_bundle job) duration failed = Some st"
      "ReportResult enum c (set_stats (pl_shared s) st) (job_bundleMetadata job) failed = Some (c', sh')"
      "pl_manager s' = set_unit (pl_manager s) ?n c'"
      using step_finish(3) by (auto simp: worker_finish_def Let_def bind_Some_iff)
    show ?thesis
    proof (cases "hub = ?n")
      case True
      have "jobs hub = Some (job_bundleMetadata job)" using jobs_invD(1) [OF jobs] step_finish True by (simp add: running_def)
      moreover have "stats_complete st"
        using update_metrics_complete [OF cm_invD(1) [OF cm]] f(2) unfolding AddDatabaseMetrics_def by (metis option.inject)
      ultimately have "cu_inv (cm_types (pl_manager s)) cu (set_stats (pl_shared s) st) (Some (job_bundleMetadata job))"
        using cu_inv_other [OF conjunct1 [OF inv], of "set_stats (pl_shared s) st"] by simp
      then have "processed_le cu c'"
        using processed_le_report [of _ cu _ "fst (job_bundleMetadata job)" "snd (job_bundleMetadata job)"] f(1,3) True assms(3) by simp
      with f True show ?thesis by (simp add: set_unit_def)
    next
      case False
      with f assms(3) same show ?thesis by (simp add: set_unit_def)
    qed
  qed (use assms(3) same in \<open>auto simp: Acquire_def worker_return_def Let_def split: list.split_asm\<close>)
qed

lemma Register_all:
  "cm_registrations (foldl Register cm rs) = cm_registrations cm @ rs"
  "cm_conflationUnits (foldl Register cm rs) = cm_conflationUnits cm"
  by (induction rs arbitrary: cm) (simp_all add: Register_def)

lemma init_inv:
  assumes "valid_registrations rs"
  shows "pipeline_inv (init_pipeline req rs n)"
proof -
  have "cm_inv (pl_manager (init_pipeline req rs n)) (pl_shared (init_pipeline req rs n)) Map.empty"
    using assms stats_complete_New
    by (simp add: cm_inv_def init_pipeline_def Register_all NewConflationManager_def NewConflationReadyQueue_def)
  moreover have "jobs_inv (init_pipeline req rs n) Map.empty"
    by (auto simp: jobs_inv_def running_def init_pipeline_def Start_workers_def)
  ultimately show ?thesis
    by (auto simp: pipeline_inv_def pool_inv_def queue_inv_def queued_def init_pipeline_def
        NewConflationReadyQueue_def)
qed

lemma reachable_trans: "reachable enum s1 s2 \<Longrightarrow> reachable enum s0 s1 \<Longrightarrow> reachable enum s0 s2"
  by (induction rule: reachable.induct) (auto intro: reach_step)

lemma reachable_inv: "reachable enum s0 s \<Longrightarrow> pipeline_inv s0 \<Longrightarrow> pipeline_inv s"
  by (induction rule: reachable.induct) (auto intro: step_keeps)

lemma reachable_processed:
  "reachable enum s s' \<Longrightarrow> pipeline_inv s \<Longrightarrow> cm_conflationUnits (pl_manager s) hub = Some cu \<Longrightarrow>
    \<exists>cu'. cm_conflationUnits (pl_manager s') hub = Some cu' \<and> processed_le cu cu'"
proof (induction rule: reachable.induct)
  case reach_init
  then obtain jobs where "cm_inv (pl_manager s) (pl_shared s) jobs" by (auto simp: pipeline_inv_def)
  from cm_invD(2) [OF this reach_init(2)] reach_init(2) show ?case using processed_le_refl by blast
next
  case (reach_step s' s'')
  then show ?case using step_processed [OF reach_step(2) reachable_inv] processed_le_trans by blast
qed

lemma stuck_reachable: "reachable enum s s' \<Longrightarrow> pipeline_inv s \<Longrightarrow> stuck s hub \<Longrightarrow> stuck s' hub"
  by (induction rule: reachable.induct) (auto intro: stuck_step reachable_inv)

lemmas reachable_from_init = reachable_inv [OF _ init_inv]

section \<open>The relation as an executable scheduler\<close>

text \<open>One event per transition, with the transition's free choices as arguments; \<^const>\<open>None\<close> when the
  event is not enabled, or panics.\<close>

datatype event =
    Consume int status_bundle transport_metadata | Dequeue | AcquireWorker | Next int
  | Finish nat int bool | Return nat

fun exec_event :: "(string set \<Rightarrow> string list) \<Rightarrow> event \<Rightarrow> 'h pipeline \<Rightarrow> 'h pipeline option" where
  "exec_event enum (Consume now b tm) s =
     (if deliverable (pl_manager s) b \<and> \<not> Processed tm then consume enum now s b tm else None)"
| "exec_event enum Dequeue s =
     (case pl_dispatcher s of
        Dequeueing \<Rightarrow> (case BlockingDequeue (sh_readyQueue (pl_shared s)) of
            None \<Rightarrow> None
          | Some (n, rq) \<Rightarrow>
              Some (s\<lparr>pl_dispatcher := HasUnit n, pl_shared := (pl_shared s)\<lparr>sh_readyQueue := rq\<rparr>\<rparr>))
      | _ \<Rightarrow> None)"
| "exec_event enum AcquireWorker s =
     (case pl_dispatcher s of
        HasUnit n \<Rightarrow> (case Acquire s of
            None \<Rightarrow> None
          | Some (w, s') \<Rightarrow> Some (s'\<lparr>pl_dispatcher := HasWorker n w\<rparr>))
      | _ \<Rightarrow> None)"
| "exec_event enum (Next now) s =
     (case pl_dispatcher s of HasWorker n w \<Rightarrow> dispatch_next now s n w | _ \<Rightarrow> None)"
| "exec_event enum (Finish w duration failed) s =
     (if w < length (pl_workers s)
      then (case pl_workers s ! w of Running job \<Rightarrow> worker_finish enum duration failed s w job | _ \<Rightarrow> None)
      else None)"
| "exec_event enum (Return w) s =
     (if w < length (pl_workers s)
      then (case pl_workers s ! w of Returning \<Rightarrow> Some (worker_return s w) | _ \<Rightarrow> None)
      else None)"

fun exec_events :: "(string set \<Rightarrow> string list) \<Rightarrow> event list \<Rightarrow> 'h pipeline \<Rightarrow> 'h pipeline option" where
  "exec_events enum [] s = Some s"
| "exec_events enum (e # es) s =
     (case exec_event enum e s of None \<Rightarrow> None | Some s' \<Rightarrow> exec_events enum es s')"

lemma exec_event_step: "exec_event enum e s = Some s' \<Longrightarrow> pipeline_step enum s s'"
  by (cases e) (auto intro: pipeline_step.intros split: if_splits dispatcher_state.splits option.splits worker_state.splits)

lemma step_exec_event: "pipeline_step enum s s' \<Longrightarrow> \<exists>e. exec_event enum e s = Some s'"
proof (induction rule: pipeline_step.induct)
  case (step_consume s b now tm s')
  then show ?case by (intro exI [of _ "Consume now b tm"]) simp
next
  case (step_dequeue s n rq)
  then show ?case by (intro exI [of _ Dequeue]) simp
next
  case (step_acquire s n w s')
  then show ?case by (intro exI [of _ AcquireWorker]) simp
next
  case (step_next s n w now s')
  then show ?case by (intro exI [of _ "Next now"]) simp
next
  case (step_finish w s job duration failed s')
  then show ?case by (intro exI [of _ "Finish w duration failed"]) simp
next
  case (step_return w s)
  then show ?case by (intro exI [of _ "Return w"]) simp
qed

lemma exec_events_reachable:
  "exec_events enum es s = Some s' \<Longrightarrow> reachable enum s0 s \<Longrightarrow> reachable enum s0 s'"
proof (induction es arbitrary: s)
  case (Cons e es)
  then obtain t where "exec_event enum e s = Some t" "exec_events enum es t = Some s'"
    by (auto split: option.splits)
  with Cons show ?case using reach_step [OF Cons.prems(2) exec_event_step] by blast
qed simp

lemma exec_events_append:
  "exec_events enum (es @ fs) s = (case exec_events enum es s of None \<Rightarrow> None | Some s' \<Rightarrow> exec_events enum fs s')"
  by (induction es arbitrary: s) (auto split: option.splits)

lemma reachable_exec_events: "reachable enum s0 s \<Longrightarrow> \<exists>es. exec_events enum es s0 = Some s"
proof (induction rule: reachable.induct)
  case reach_init
  show ?case by (intro exI [of _ "[]"]) simp
next
  case (reach_step s s')
  then obtain es e where "exec_events enum es s0 = Some s" "exec_event enum e s = Some s'"
    using step_exec_event by blast
  then show ?case by (intro exI [of _ "es @ [e]"]) (simp add: exec_events_append)
qed

end
