(* ===== verification/Compressor.thy ===== *)
theory Compressor
  imports Hoh_Prelude
begin

text \<open>
  \<open>pkg/compressor\<close>: the compressors and the lookup by compression type. The gzip implementation
  belongs to Go's \<open>compress/gzip\<close>, of which the code calls a writer and a reader; those calls are the
  record \<open>gzip_lib\<close>, with \<open>gzip_ok\<close> for the documented behaviour that reading returns what was
  written. The locale \<open>compressor\<close> is the interface's contract.
\<close>

datatype compressor_error = ErrCompressionTypeNotFound | GzipError | NoCompressorError

datatype compressor_impl = CompressorNoOp | CompressorGZip

record ('w, 'r) gzip_lib =
  gz_Write :: "string \<Rightarrow> 'w option"
  gz_CloseWriter :: "'w \<Rightarrow> string option"
  gz_NewReader :: "string \<Rightarrow> 'r option"
  gz_ReadAll :: "'r \<Rightarrow> string option"
  gz_CloseReader :: "'r \<Rightarrow> bool"

definition NoOpType :: string where "NoOpType = ''no-op''"
definition GZipType :: string where "GZipType = ''gzip''"

definition NewCompressor :: "string \<Rightarrow> compressor_error + compressor_impl" where
  "NewCompressor compressionType =
     (if compressionType = NoOpType then Inr CompressorNoOp
      else if compressionType = GZipType then Inr CompressorGZip
      else Inl ErrCompressionTypeNotFound)"

fun compressor_GetType :: "compressor_impl \<Rightarrow> string" where
  "compressor_GetType CompressorNoOp = ''no-op''"
| "compressor_GetType CompressorGZip = ''gzip''"

definition NoOp_Compress :: "string \<Rightarrow> compressor_error + string" where
  "NoOp_Compress data = Inr data"

definition NoOp_Decompress :: "string \<Rightarrow> compressor_error + string" where
  "NoOp_Decompress data = Inr data"

definition GZip_Compress :: "('w, 'r) gzip_lib \<Rightarrow> string \<Rightarrow> compressor_error + string" where
  "GZip_Compress gz data =
     (case gz_Write gz data of
        None \<Rightarrow> Inl GzipError
      | Some writer \<Rightarrow> (case gz_CloseWriter gz writer of None \<Rightarrow> Inl GzipError | Some buf \<Rightarrow> Inr buf))"

definition GZip_Decompress :: "('w, 'r) gzip_lib \<Rightarrow> string \<Rightarrow> compressor_error + string" where
  "GZip_Decompress gz compressedData =
     (case gz_NewReader gz compressedData of
        None \<Rightarrow> Inl GzipError
      | Some reader \<Rightarrow>
          (case gz_ReadAll gz reader of
             None \<Rightarrow> Inl GzipError
           | Some data \<Rightarrow> (if gz_CloseReader gz reader then Inr data else Inl GzipError)))"

fun Compress :: "('w, 'r) gzip_lib \<Rightarrow> compressor_impl \<Rightarrow> string \<Rightarrow> compressor_error + string" where
  "Compress gz CompressorNoOp data = NoOp_Compress data"
| "Compress gz CompressorGZip data = GZip_Compress gz data"

fun Decompress :: "('w, 'r) gzip_lib \<Rightarrow> compressor_impl \<Rightarrow> string \<Rightarrow> compressor_error + string" where
  "Decompress gz CompressorNoOp data = NoOp_Decompress data"
| "Decompress gz CompressorGZip data = GZip_Decompress gz data"

text \<open>\<open>decompressPayload\<close> of both consumers: the compressors are cached by type.\<close>

definition decompressPayload ::
    "('w, 'r) gzip_lib \<Rightarrow> (string \<rightharpoonup> compressor_impl) \<Rightarrow> string \<Rightarrow> string \<Rightarrow>
     (compressor_error + string) \<times> (string \<rightharpoonup> compressor_impl)" where
  "decompressPayload gz compressorsMap payload msgCompressorType =
     (case compressorsMap msgCompressorType of
        Some msgCompressor \<Rightarrow> (Decompress gz msgCompressor payload, compressorsMap)
      | None \<Rightarrow>
          (case NewCompressor msgCompressorType of
             Inl err \<Rightarrow> (Inl err, compressorsMap)
           | Inr newCompressor \<Rightarrow>
               (Decompress gz newCompressor payload, compressorsMap(msgCompressorType \<mapsto> newCompressor))))"

section \<open>The contract\<close>

locale compressor =
  fixes compress :: "string \<Rightarrow> compressor_error + string"
    and decompress :: "string \<Rightarrow> compressor_error + string"
  assumes roundtrip: "compress data = Inr z \<Longrightarrow> decompress z = Inr data"
begin

lemma compress_inject: "compress data = Inr z \<Longrightarrow> compress data' = Inr z \<Longrightarrow> data = data'"
  using roundtrip [of data z] roundtrip [of data' z] by simp

end

interpretation noop: compressor NoOp_Compress NoOp_Decompress
  by unfold_locales (simp add: NoOp_Compress_def NoOp_Decompress_def)

definition gzip_ok :: "('w, 'r) gzip_lib \<Rightarrow> bool" where
  "gzip_ok gz \<longleftrightarrow> (\<forall>data w z. gz_Write gz data = Some w \<longrightarrow> gz_CloseWriter gz w = Some z \<longrightarrow>
     (\<exists>r. gz_NewReader gz z = Some r \<and> gz_ReadAll gz r = Some data \<and> gz_CloseReader gz r))"

lemma gzip_compressor: "gzip_ok gz \<Longrightarrow> compressor (GZip_Compress gz) (GZip_Decompress gz)"
  by unfold_locales
     (fastforce simp: GZip_Compress_def GZip_Decompress_def gzip_ok_def split: option.splits)

lemma Decompress_Compress:
  assumes "gzip_ok gz" "Compress gz c data = Inr z"
  shows "Decompress gz c z = Inr data"
proof (cases c)
  case CompressorNoOp
  with assms show ?thesis using noop.roundtrip by simp
next
  case CompressorGZip
  with assms compressor.roundtrip [OF gzip_compressor [OF assms(1)]] show ?thesis by simp
qed

text \<open>The cache is transparent: it only ever holds what \<open>NewCompressor\<close> returns for its key.\<close>

definition cache_ok :: "(string \<rightharpoonup> compressor_impl) \<Rightarrow> bool" where
  "cache_ok m \<longleftrightarrow> (\<forall>t c. m t = Some c \<longrightarrow> NewCompressor t = Inr c)"

lemma cache_ok_empty [simp]: "cache_ok Map.empty"
  by (simp add: cache_ok_def)

lemma decompressPayload_cache:
  assumes "cache_ok m"
  shows "fst (decompressPayload gz m payload t) =
      (case NewCompressor t of Inl err \<Rightarrow> Inl err | Inr c \<Rightarrow> Decompress gz c payload)"
    and "cache_ok (snd (decompressPayload gz m payload t))"
  using assms by (auto simp: decompressPayload_def cache_ok_def split: option.splits sum.splits)

end
