(* ===== verification/Consumers.thy ===== *)
theory Consumers
  imports Status_Pipeline Compressor
begin

text \<open>
  \<open>transport/kafka/consumer.go\<close> and \<open>transport/syncservice/sync_service.go\<close>: from a received message to
  \<open>ConflationManager.Insert\<close>, with every early return. JSON decoding is Go's \<open>encoding/json\<close>, given
  as arguments: it decodes the transport message, and fills in the struct that the registration's
  \<open>CreateBundleFunc\<close> made. \<open>'c\<close> is the configuration that the registrations' predicates read.
\<close>

record 'c bundle_registration =
  br_MsgID :: string
  br_CreateBundleFunc :: status_bundle
  br_Predicate :: "'c \<Rightarrow> bool"

record message =
  msg_ID :: string
  msg_MsgType :: string
  msg_Version :: string
  msg_Payload :: string

record kafka_message =
  km_Headers :: "(string \<times> string) list"
  km_Value :: string
  km_Partition :: int
  km_Offset :: int

record ('w, 'r) codec =
  cd_gzip :: "('w, 'r) gzip_lib"
  cd_message :: "string \<Rightarrow> message option"
  cd_bundle :: "string \<Rightarrow> status_bundle \<Rightarrow> status_bundle option"

record 'c consumer =
  cs_compressorsMap :: "string \<rightharpoonup> compressor_impl"
  cs_msgIDToRegistrationMap :: "string \<rightharpoonup> 'c bundle_registration"

datatype consume_outcome =
    DecompressFailed | ParseMessageFailed | WrongMessageID | NotRegistered | PredicateFalse
  | ParseBundleFailed | FetchFailed | Inserted status_bundle

definition consumer_Register :: "'c consumer \<Rightarrow> 'c bundle_registration \<Rightarrow> 'c consumer" where
  "consumer_Register c registration =
     c\<lparr>cs_msgIDToRegistrationMap := (cs_msgIDToRegistrationMap c)(br_MsgID registration \<mapsto> registration)\<rparr>"

text \<open>The state of both transports' constructors, \<open>NewConsumer\<close> and \<open>NewSyncService\<close>.\<close>

definition NewConsumer :: "'c consumer" where
  "NewConsumer = \<lparr> cs_compressorsMap = Map.empty, cs_msgIDToRegistrationMap = Map.empty \<rparr>"

fun lookupHeaderValue :: "(string \<times> string) list \<Rightarrow> string \<Rightarrow> string option" where
  "lookupHeaderValue [] headerKey = None"
| "lookupHeaderValue ((key, val) # headers) headerKey =
     (if key = headerKey then Some val else lookupHeaderValue headers headerKey)"

text \<open>The header key is a constant of the module hub-of-hubs-kafka-transport.\<close>

definition processMessage ::
    "(string set \<Rightarrow> string list) \<Rightarrow> ('w, 'r) codec \<Rightarrow> string \<Rightarrow> 'c \<Rightarrow> int \<Rightarrow> 'c consumer \<Rightarrow> 'h pipeline \<Rightarrow>
     kafka_message \<Rightarrow> (consume_outcome \<times> 'c consumer \<times> 'h pipeline) option" where
  "processMessage enum cd compressionHeader cfg now c s msg =
     (let compressionType = (case lookupHeaderValue (km_Headers msg) compressionHeader of
                               Some v \<Rightarrow> v | None \<Rightarrow> NoOpType);
          (decompressed, cmap) = decompressPayload (cd_gzip cd) (cs_compressorsMap c) (km_Value msg) compressionType;
          c = c\<lparr>cs_compressorsMap := cmap\<rparr>
      in case decompressed of
        Inl err \<Rightarrow> Some (DecompressFailed, c, s)
      | Inr payload \<Rightarrow>
      (case cd_message cd payload of
        None \<Rightarrow> Some (ParseMessageFailed, c, s)
      | Some transportMsg \<Rightarrow>
          (let msgIDTokens = split_on CHR ''.'' (msg_ID transportMsg) in
           if length msgIDTokens \<noteq> 2 then Some (WrongMessageID, c, s)
           else (case cs_msgIDToRegistrationMap c (msgIDTokens ! 1) of
             None \<Rightarrow> Some (NotRegistered, c, s)
           | Some registration \<Rightarrow>
               if \<not> br_Predicate registration cfg then Some (PredicateFalse, c, s)
               else (case cd_bundle cd (msg_Payload transportMsg) (br_CreateBundleFunc registration) of
                 None \<Rightarrow> Some (ParseBundleFailed, c, s)
               | Some receivedBundle \<Rightarrow> do {
                   s' \<leftarrow> consume enum now s receivedBundle (kafka_newBundleMetadata (km_Partition msg) (km_Offset msg));
                   Some (Inserted receivedBundle, c, s') })))))"

text \<open>The sync service: \<open>unmarshalPayload\<close> takes the compression type from the object's description.\<close>

definition unmarshalPayload ::
    "('w, 'r) codec \<Rightarrow> (string \<rightharpoonup> compressor_impl) \<Rightarrow> status_bundle \<Rightarrow> object_metadata \<Rightarrow> string \<Rightarrow>
     status_bundle option \<times> (string \<rightharpoonup> compressor_impl)" where
  "unmarshalPayload cd cmap template objectMetaData payload =
     (let compressionTokens = split_on CHR '':'' (om_Description objectMetaData) in
      if om_Description objectMetaData \<noteq> [] \<and> length compressionTokens \<noteq> 2 then (None, cmap)
      else (let compressionType = (if om_Description objectMetaData \<noteq> [] then compressionTokens ! 1 else NoOpType);
                (decompressed, cmap') = decompressPayload (cd_gzip cd) cmap payload compressionType
            in case decompressed of
                 Inl err \<Rightarrow> (None, cmap')
               | Inr bytes \<Rightarrow> (cd_bundle cd bytes template, cmap')))"

text \<open>One iteration of \<open>handleBundles\<close>. \<open>fetch\<close> is the sync-service client's \<open>FetchObjectData\<close>; the
  receipt it is sent afterwards changes nothing here.\<close>

definition handleBundle ::
    "(string set \<Rightarrow> string list) \<Rightarrow> ('w, 'r) codec \<Rightarrow> (object_metadata \<Rightarrow> string option) \<Rightarrow> 'c \<Rightarrow> int \<Rightarrow> 'c consumer \<Rightarrow>
     'h pipeline \<Rightarrow> object_metadata \<Rightarrow> (consume_outcome \<times> 'c consumer \<times> 'h pipeline) option" where
  "handleBundle enum cd fetch cfg now c s objectMetadata =
     (case fetch objectMetadata of
        None \<Rightarrow> Some (FetchFailed, c, s)
      | Some buffer \<Rightarrow>
          (let msgIDTokens = split_on CHR ''.'' (om_ObjectID objectMetadata) in
           if length msgIDTokens \<noteq> 2 then Some (WrongMessageID, c, s)
           else (case cs_msgIDToRegistrationMap c (msgIDTokens ! 1) of
             None \<Rightarrow> Some (NotRegistered, c, s)
           | Some registration \<Rightarrow>
               if \<not> br_Predicate registration cfg then Some (PredicateFalse, c, s)
               else (let (r, cmap) = unmarshalPayload cd (cs_compressorsMap c) (br_CreateBundleFunc registration)
                                       objectMetadata buffer;
                         c = c\<lparr>cs_compressorsMap := cmap\<rparr>
                     in case r of
                          None \<Rightarrow> Some (ParseBundleFailed, c, s)
                        | Some receivedBundle \<Rightarrow> do {
                            s' \<leftarrow> consume enum now s receivedBundle (syncservice_newBundleMetadata objectMetadata);
                            Some (Inserted receivedBundle, c, s') }))))"

section \<open>Messages do not bring the pipeline down\<close>

text \<open>What the decoder must do: keep the struct it fills in, and leave no nil version in it. The
  second half is about the sender: JSON without the version field decodes, to nil.\<close>

definition decodes_wf :: "('w, 'r) codec \<Rightarrow> bool" where
  "decodes_wf cd \<longleftrightarrow> (\<forall>bytes template b. cd_bundle cd bytes template = Some b \<longrightarrow>
     bundle_struct b = bundle_struct template \<and> wf_bundle b)"

definition registrations_served :: "'c consumer \<Rightarrow> 'h pipeline \<Rightarrow> bool" where
  "registrations_served c s \<longleftrightarrow> (\<forall>m r. cs_msgIDToRegistrationMap c m = Some r \<longrightarrow>
     GetBundleType (br_CreateBundleFunc r) \<in> set (cm_types (pl_manager s)))"

lemma decoded_deliverable:
  assumes "decodes_wf cd" "registrations_served c s" "cs_msgIDToRegistrationMap c m = Some r"
    "cd_bundle cd bytes (br_CreateBundleFunc r) = Some b"
  shows "deliverable (pl_manager s) b"
  using assms by (force simp: decodes_wf_def registrations_served_def deliverable_def)

lemma msgID_two_tokens:
  "length (split_on c s) = 2 \<longleftrightarrow> (\<exists>a b. s = a @ c # b \<and> c \<notin> set a \<and> c \<notin> set b)"
proof
  show "length (split_on c s) = 2 \<Longrightarrow> \<exists>a b. s = a @ c # b \<and> c \<notin> set a \<and> c \<notin> set b"
  proof (induction s)
    case (Cons x xs)
    show ?case
    proof (cases "x = c")
      case True
      with Cons.prems obtain w where w: "split_on c xs = [w]"
        by (cases "split_on c xs") auto
      then have "c \<notin> set xs"
        by (metis in_set_conv_decomp_first length_Cons list.size(3) nat.inject split_on_append split_on_ne
              length_0_conv)
      with True show ?thesis by (intro exI [of _ "[]"] exI [of _ xs]) simp
    next
      case False
      with Cons.prems have "length (split_on c xs) = 2" by (cases "split_on c xs") auto
      with Cons.IH obtain a b where "xs = a @ c # b" "c \<notin> set a" "c \<notin> set b" by blast
      with False show ?thesis by (intro exI [of _ "x # a"] exI [of _ b]) simp
    qed
  qed simp
qed (auto simp: split_on_append split_on_no_sep)

end
