(* ===== verification/Batch_Builder.thy ===== *)
theory Batch_Builder
  imports Db_Consts
begin

text \<open>
  \<open>db/postgresql/batch/base_batch_builder.go\<close>: collecting rows into multi-row SQL statements with
  numbered placeholders, split so that no statement has more than 65535 arguments. A batch is the
  list of the statements queued on \<open>pgx.Batch\<close> with their arguments. The update statement differs per
  table, so the operations that need it take its generator as an argument, as the Go struct does.

  \<open>placeholders\<close> reads the numbered parameters back from the text of a statement; the lemmas show
  that they are exactly 1 to the number of arguments.
\<close>

datatype sql_value =
    VStr string
  | VCompliance compliance_status
  | VPayload k8s_object
  | VInt int
  | VSlice "sql_value list"

type_synonym statement = "string \<times> sql_value list"

definition maxColumnsUpdateInStatement :: nat where "maxColumnsUpdateInStatement = 65536"
definition deleteStartingIndex :: nat where "deleteStartingIndex = 2"

record base_builder =
  bt_deleteBatchItems :: "statement list"
  bt_insertBatchItems :: "statement list"
  bt_updateBatchItems :: "statement list"
  bt_schema :: string
  bt_tableName :: string
  bt_tableSpecialColumns :: "nat \<rightharpoonup> string"
  bt_leafHubName :: string
  bt_insertArgs :: "sql_value list"
  bt_insertRowsCount :: nat
  bt_updateArgs :: "sql_value list"
  bt_updateRowsCount :: nat
  bt_deleteArgs :: "sql_value list"
  bt_deleteRowsCount :: nat
  bt_deleteRowKey :: string

definition newBaseBatchBuilder ::
    "string \<Rightarrow> string \<Rightarrow> (nat \<rightharpoonup> string) \<Rightarrow> string \<Rightarrow> string \<Rightarrow> base_builder" where
  "newBaseBatchBuilder schema tableName tableSpecialColumns leafHubName deleteRowKey =
     \<lparr> bt_deleteBatchItems = [], bt_insertBatchItems = [], bt_updateBatchItems = [],
       bt_schema = schema, bt_tableName = tableName, bt_tableSpecialColumns = tableSpecialColumns,
       bt_leafHubName = leafHubName, bt_insertArgs = [], bt_insertRowsCount = 0,
       bt_updateArgs = [], bt_updateRowsCount = 0,
       bt_deleteArgs = [VStr leafHubName], bt_deleteRowsCount = 0, bt_deleteRowKey = deleteRowKey \<rparr>"

text \<open>The loop bodies of \<open>generateArgsList\<close> and \<open>generateInsertOrUpdateArgs\<close>.\<close>

definition arg_text :: "nat \<Rightarrow> nat \<Rightarrow> (nat \<rightharpoonup> string) \<Rightarrow> nat \<Rightarrow> string" where
  "arg_text argsCount startingIndex specialArgs index =
     ''$'' @ digits (index + startingIndex) @
     (case specialArgs (index + 1) of Some columnSpecialType \<Rightarrow> ''::'' @ columnSpecialType | None \<Rightarrow> '''') @
     (if index + 1 < argsCount then '', '' else '''')"

definition generateArgsList :: "nat \<Rightarrow> nat \<Rightarrow> (nat \<rightharpoonup> string) \<Rightarrow> string" where
  "generateArgsList argsCount startingIndex specialArgs =
     concat (map (arg_text argsCount startingIndex specialArgs) [0..<argsCount])"

definition row_text :: "nat \<Rightarrow> nat \<Rightarrow> (nat \<rightharpoonup> string) \<Rightarrow> nat \<Rightarrow> string" where
  "row_text rowsCount columnsCount specialColumns i =
     ''('' @ generateArgsList columnsCount (i * columnsCount + 1) specialColumns @ '')'' @
     (if i + 1 < rowsCount then '', '' else '''')"

definition generateInsertOrUpdateArgs :: "nat \<Rightarrow> nat \<Rightarrow> (nat \<rightharpoonup> string) \<Rightarrow> string" where
  "generateInsertOrUpdateArgs rowsCount columnsCount specialColumns =
     concat (map (row_text rowsCount columnsCount specialColumns) [0..<rowsCount])"

text \<open>The number of columns is the number of arguments divided by the number of rows; the statement
  is only generated when there is a row.\<close>

definition generateInsertStatement :: "'a base_builder_scheme \<Rightarrow> string" where
  "generateInsertStatement b =
     ''INSERT into '' @ bt_schema b @ ''.'' @ bt_tableName b @ '' values '' @
     generateInsertOrUpdateArgs (bt_insertRowsCount b)
       (length (bt_insertArgs b) div bt_insertRowsCount b) (bt_tableSpecialColumns b)"

definition generateDeleteStatement :: "'a base_builder_scheme \<Rightarrow> string" where
  "generateDeleteStatement b =
     ''DELETE from '' @ bt_schema b @ ''.'' @ bt_tableName b @ '' WHERE leaf_hub_name=$1 AND '' @
     bt_deleteRowKey b @ '' IN ('' @
     generateArgsList (bt_deleteRowsCount b) deleteStartingIndex Map.empty @ '')''"

definition base_insert :: "'a base_builder_scheme \<Rightarrow> sql_value list \<Rightarrow> 'a base_builder_scheme" where
  "base_insert b insertArgs =
     (let b = (if maxColumnsUpdateInStatement \<le> length (bt_insertArgs b) + length insertArgs
               then b\<lparr>bt_insertBatchItems := bt_insertBatchItems b @ [(generateInsertStatement b, bt_insertArgs b)],
                      bt_insertArgs := [], bt_insertRowsCount := 0\<rparr>
               else b)
      in b\<lparr>bt_insertArgs := bt_insertArgs b @ insertArgs, bt_insertRowsCount := bt_insertRowsCount b + 1\<rparr>)"

definition base_update ::
    "('a base_builder_scheme \<Rightarrow> string) \<Rightarrow> 'a base_builder_scheme \<Rightarrow> sql_value list \<Rightarrow> 'a base_builder_scheme" where
  "base_update generateUpdateStatement b updateArgs =
     (let b = (if maxColumnsUpdateInStatement \<le> length (bt_updateArgs b) + length updateArgs
               then b\<lparr>bt_updateBatchItems := bt_updateBatchItems b @ [(generateUpdateStatement b, bt_updateArgs b)],
                      bt_updateArgs := [], bt_updateRowsCount := 0\<rparr>
               else b)
      in b\<lparr>bt_updateArgs := bt_updateArgs b @ updateArgs, bt_updateRowsCount := bt_updateRowsCount b + 1\<rparr>)"

definition base_delete :: "'a base_builder_scheme \<Rightarrow> sql_value list \<Rightarrow> 'a base_builder_scheme" where
  "base_delete b deleteArgs =
     (let b = (if maxColumnsUpdateInStatement \<le> length (bt_deleteArgs b) + length deleteArgs
               then b\<lparr>bt_deleteBatchItems := bt_deleteBatchItems b @ [(generateDeleteStatement b, bt_deleteArgs b)],
                      bt_deleteArgs := [VStr (bt_leafHubName b)], bt_deleteRowsCount := 0\<rparr>
               else b)
      in b\<lparr>bt_deleteArgs := bt_deleteArgs b @ deleteArgs, bt_deleteRowsCount := bt_deleteRowsCount b + 1\<rparr>)"

text \<open>\<open>batch.Queue(item.query, item.arguments)\<close>: the slice of arguments is passed as one argument.\<close>

definition queue_items :: "statement list \<Rightarrow> statement list" where
  "queue_items items = map (\<lambda>(query, arguments). (query, [VSlice arguments])) items"

definition base_build :: "('a base_builder_scheme \<Rightarrow> string) \<Rightarrow> 'a base_builder_scheme \<Rightarrow> statement list" where
  "base_build generateUpdateStatement b =
     queue_items (bt_deleteBatchItems b) @
     (if bt_deleteRowsCount b > 0 then [(generateDeleteStatement b, bt_deleteArgs b)] else []) @
     queue_items (bt_insertBatchItems b) @
     (if bt_insertRowsCount b > 0 then [(generateInsertStatement b, bt_insertArgs b)] else []) @
     queue_items (bt_updateBatchItems b) @
     (if bt_updateRowsCount b > 0 then [(generateUpdateStatement b, bt_updateArgs b)] else [])"

section \<open>Placeholders\<close>

definition is_digit :: "char \<Rightarrow> bool" where
  "is_digit c \<longleftrightarrow> 48 \<le> (of_char c :: nat) \<and> of_char c < (58 :: nat)"

function placeholders :: "string \<Rightarrow> nat list" where
  "placeholders [] = []"
| "placeholders (c # cs) =
     (if c = CHR ''$'' then digit_value (takeWhile is_digit cs) # placeholders (dropWhile is_digit cs)
      else placeholders cs)"
  by pat_completeness auto
termination
  by (relation "measure length") (auto simp: le_imp_less_Suc length_dropWhile_le)

lemma placeholders_skip: "CHR ''$'' \<notin> set a \<Longrightarrow> placeholders (a @ s) = placeholders s"
  by (induction a) auto

lemma placeholders_none: "CHR ''$'' \<notin> set a \<Longrightarrow> placeholders a = []"
  using placeholders_skip [of a "[]"] by simp

text \<open>A text whose first character is not a digit ends the number before it.\<close>

definition ends_number :: "string \<Rightarrow> bool" where
  "ends_number s \<longleftrightarrow> s = [] \<or> \<not> is_digit (hd s)"

lemma digits_is_digit: "\<forall>c \<in> set (digits n). is_digit c"
  using digits_range by (auto simp: is_digit_def)

lemma placeholders_number:
  assumes "ends_number s"
  shows "placeholders (''$'' @ digits n @ s) = n # placeholders s"
proof -
  have s: "takeWhile is_digit s = []" "dropWhile is_digit s = s"
    using assms by (cases s; simp add: ends_number_def)+
  have "takeWhile is_digit (digits n @ s) = digits n" "dropWhile is_digit (digits n @ s) = s"
    using digits_is_digit [of n] s takeWhile_append2 [of "digits n" is_digit s]
      dropWhile_append2 [of "digits n" is_digit s] by auto
  then show ?thesis by simp
qed

text \<open>Column types are plain names.\<close>

definition plain_columns :: "(nat \<rightharpoonup> string) \<Rightarrow> bool" where
  "plain_columns m \<longleftrightarrow> (\<forall>i t. m i = Some t \<longrightarrow> CHR ''$'' \<notin> set t)"

lemma plain_columns_empty [simp]: "plain_columns Map.empty"
  by (simp add: plain_columns_def)

lemma arg_text_placeholder:
  assumes "plain_columns special" "ends_number s"
  shows "placeholders (arg_text n start special i @ s) = (i + start) # placeholders s"
    and "ends_number (arg_text n start special i @ s)"
proof -
  let ?t = "(case special (i + 1) of Some t \<Rightarrow> ''::'' @ t | None \<Rightarrow> '''') @ (if i + 1 < n then '', '' else '''')"
  have dollar: "CHR ''$'' \<notin> set ?t" using assms(1) by (auto simp: plain_columns_def split: option.splits)
  have "ends_number (?t @ s)"
    using assms(2) by (auto simp: ends_number_def is_digit_def split: option.splits)
  from placeholders_number [OF this, of "i + start"] placeholders_skip [OF dollar, of s]
  show "placeholders (arg_text n start special i @ s) = (i + start) # placeholders s"
    by (simp add: arg_text_def del: placeholders.simps)
  show "ends_number (arg_text n start special i @ s)" by (simp add: arg_text_def ends_number_def is_digit_def)
qed

lemma args_placeholders:
  assumes "plain_columns special" "ends_number s"
  shows "placeholders (concat (map (arg_text n start special) is) @ s) = map (\<lambda>i. i + start) is @ placeholders s \<and>
    ends_number (concat (map (arg_text n start special) is) @ s)"
  using assms(2)
proof (induction "is")
  case (Cons i "is")
  then have "ends_number (concat (map (arg_text n start special) is) @ s)" by blast
  from arg_text_placeholder [OF assms(1) this, of n start i] Cons show ?case by simp
qed simp

lemma generateArgsList_placeholders:
  assumes "plain_columns special" "ends_number s"
  shows "placeholders (generateArgsList n start special @ s) = [start..<start + n] @ placeholders s"
proof -
  have "map (\<lambda>i. i + start) [0..<n] = [start..<start + n]" by (simp add: map_add_upt add.commute)
  with args_placeholders [OF assms, of n start "[0..<n]"] show ?thesis by (simp add: generateArgsList_def)
qed

lemma row_placeholders:
  assumes "plain_columns special"
  shows "placeholders (row_text rows cols special i @ s) = [i * cols + 1..<i * cols + 1 + cols] @ placeholders s"
proof -
  let ?t = "'')'' @ (if i + 1 < rows then '', '' else '''') @ s"
  have "ends_number ?t" by (simp add: ends_number_def is_digit_def)
  from generateArgsList_placeholders [OF assms this, of cols "i * cols + 1"]
  show ?thesis by (simp add: row_text_def)
qed

lemma rows_placeholders:
  assumes "plain_columns special"
  shows "placeholders (concat (map (row_text rows cols special) [0..<n]) @ s) = [1..<1 + n * cols] @ placeholders s"
proof (induction n arbitrary: s)
  case (Suc n)
  have "placeholders (concat (map (row_text rows cols special) [0..<Suc n]) @ s) =
      [1..<1 + n * cols] @ [n * cols + 1..<n * cols + 1 + cols] @ placeholders s"
    using Suc [of "row_text rows cols special n @ s"]
    by (simp only: upt_Suc_append le0 map_append concat_append append_assoc row_placeholders [OF assms]
      list.map concat.simps append_Nil2)
  also have "[1..<1 + n * cols] @ [n * cols + 1..<n * cols + 1 + cols] = [1..<1 + (n * cols + cols)]"
    using upt_add_eq_append [of 1 "1 + n * cols" cols] by (simp only: add.commute add.left_commute le_add1)
  then have "[1..<1 + n * cols] @ [n * cols + 1..<n * cols + 1 + cols] @ placeholders s =
      [1..<1 + (n * cols + cols)] @ placeholders s" by (metis append_assoc)
  also have "n * cols + cols = Suc n * cols" by simp
  finally show ?case .
qed simp

lemma generateInsertOrUpdateArgs_placeholders:
  assumes "plain_columns special"
  shows "placeholders (generateInsertOrUpdateArgs rows cols special @ s) = [1..<1 + rows * cols] @ placeholders s"
  unfolding generateInsertOrUpdateArgs_def by (rule rows_placeholders [OF assms])

section \<open>Statements match their arguments\<close>

definition numbered :: "nat \<Rightarrow> nat list" where
  "numbered n = [1..<1 + n]"

lemma numbered_Cons: "numbered (Suc n) = 1 # [2..<2 + n]"
  unfolding numbered_def by (subst upt_conv_Cons) (simp_all add: numeral_2_eq_2 del: upt_Suc)

definition stmt_ok :: "statement \<Rightarrow> bool" where
  "stmt_ok st \<longleftrightarrow> placeholders (fst st) = numbered (length (snd st)) \<and>
     length (snd st) < maxColumnsUpdateInStatement"

text \<open>\<open>ci\<close> and \<open>cu\<close> are the numbers of columns of an inserted and an updated row.\<close>

definition bt_ok :: "nat \<Rightarrow> nat \<Rightarrow> 'a base_builder_scheme \<Rightarrow> bool" where
  "bt_ok ci cu b \<longleftrightarrow>
     length (bt_insertArgs b) = bt_insertRowsCount b * ci \<and>
     length (bt_updateArgs b) = bt_updateRowsCount b * cu \<and>
     length (bt_deleteArgs b) = 1 + bt_deleteRowsCount b \<and>
     length (bt_insertArgs b) < maxColumnsUpdateInStatement \<and>
     length (bt_updateArgs b) < maxColumnsUpdateInStatement \<and>
     length (bt_deleteArgs b) < maxColumnsUpdateInStatement \<and>
     CHR ''$'' \<notin> set (bt_schema b @ bt_tableName b @ bt_deleteRowKey b) \<and>
     plain_columns (bt_tableSpecialColumns b) \<and>
     (\<forall>st \<in> set (bt_deleteBatchItems b @ bt_insertBatchItems b @ bt_updateBatchItems b). stmt_ok st)"

lemma insert_stmt_ok:
  assumes "bt_ok ci cu b" "bt_insertRowsCount b > 0"
  shows "stmt_ok (generateInsertStatement b, bt_insertArgs b)"
proof -
  have cols: "length (bt_insertArgs b) div bt_insertRowsCount b = ci" using assms by (simp add: bt_ok_def)
  have "CHR ''$'' \<notin> set (''INSERT into '' @ bt_schema b @ ''.'' @ bt_tableName b @ '' values '')"
    using assms(1) by (simp add: bt_ok_def)
  from placeholders_skip [OF this, of "generateInsertOrUpdateArgs (bt_insertRowsCount b) ci (bt_tableSpecialColumns b)"]
  have "placeholders (generateInsertStatement b) =
      placeholders (generateInsertOrUpdateArgs (bt_insertRowsCount b) ci (bt_tableSpecialColumns b))"
    unfolding generateInsertStatement_def cols append_assoc .
  also have "\<dots> = numbered (length (bt_insertArgs b))"
    using generateInsertOrUpdateArgs_placeholders [of "bt_tableSpecialColumns b" "bt_insertRowsCount b" ci "[]"] assms(1)
    by (simp add: numbered_def bt_ok_def)
  finally show ?thesis using assms(1) by (simp add: stmt_ok_def bt_ok_def)
qed

lemma delete_stmt_ok:
  assumes "bt_ok ci cu b"
  shows "stmt_ok (generateDeleteStatement b, bt_deleteArgs b)"
proof -
  let ?pre = "''DELETE from '' @ bt_schema b @ ''.'' @ bt_tableName b @ '' WHERE leaf_hub_name=''"
  let ?mid = "'' AND '' @ bt_deleteRowKey b @ '' IN (''"
  let ?args = "generateArgsList (bt_deleteRowsCount b) deleteStartingIndex Map.empty @ '')''"
  have dollar: "CHR ''$'' \<notin> set ?pre" "CHR ''$'' \<notin> set ?mid" using assms by (simp_all add: bt_ok_def)
  have one: "''$1'' = ''$'' @ digits 1" by (subst digits.simps) (code_simp)
  have ends: "ends_number (?mid @ ?args)" "ends_number '')''" by (simp_all add: ends_number_def is_digit_def)
  have split: "generateDeleteStatement b = ?pre @ ''$'' @ digits 1 @ ?mid @ ?args"
    using one by (simp add: generateDeleteStatement_def)
  have "placeholders (generateDeleteStatement b) =
      1 # [deleteStartingIndex..<deleteStartingIndex + bt_deleteRowsCount b]"
    unfolding split placeholders_skip [OF dollar(1)] placeholders_number [OF ends(1)] placeholders_skip [OF dollar(2)]
      generateArgsList_placeholders [OF plain_columns_empty ends(2)]
    by simp
  then show ?thesis using assms
    by (simp add: stmt_ok_def deleteStartingIndex_def bt_ok_def numbered_Cons)
qed

lemma base_insert_ok:
  assumes ok: "bt_ok ci cu b" and args: "length args = ci" "ci < maxColumnsUpdateInStatement"
  shows "bt_ok ci cu (base_insert b args)"
proof (cases "maxColumnsUpdateInStatement \<le> length (bt_insertArgs b) + length args")
  case True
  then have "bt_insertRowsCount b > 0" using args ok by (auto simp: bt_ok_def intro: gr0I)
  from insert_stmt_ok [OF ok this] True args ok show ?thesis
    by (auto simp: base_insert_def Let_def bt_ok_def)
next
  case False
  with args ok show ?thesis by (auto simp: base_insert_def Let_def bt_ok_def)
qed

lemma base_delete_ok:
  assumes ok: "bt_ok ci cu b"
  shows "bt_ok ci cu (base_delete b [v])"
proof (cases "maxColumnsUpdateInStatement \<le> length (bt_deleteArgs b) + length [v]")
  case True
  from delete_stmt_ok [OF ok] True ok show ?thesis
    by (auto simp: base_delete_def Let_def bt_ok_def maxColumnsUpdateInStatement_def)
next
  case False
  with ok show ?thesis by (auto simp: base_delete_def Let_def bt_ok_def)
qed

text \<open>What a table's builder has to provide: a generator whose text has a placeholder per argument.\<close>

locale table_builder =
  fixes gen :: "'a base_builder_scheme \<Rightarrow> string" and ci cu :: nat
  assumes gen_ok: "bt_ok ci cu b \<Longrightarrow> bt_updateRowsCount b > 0 \<Longrightarrow>
      placeholders (gen b) = numbered (length (bt_updateArgs b))"
    and widths: "ci < maxColumnsUpdateInStatement" "cu < maxColumnsUpdateInStatement"
begin

lemma update_stmt_ok:
  "bt_ok ci cu b \<Longrightarrow> bt_updateRowsCount b > 0 \<Longrightarrow> stmt_ok (gen b, bt_updateArgs b)"
  using gen_ok by (auto simp: stmt_ok_def bt_ok_def)

lemma base_update_ok:
  assumes ok: "bt_ok ci cu b" and args: "length args = cu"
  shows "bt_ok ci cu (base_update gen b args)"
proof (cases "maxColumnsUpdateInStatement \<le> length (bt_updateArgs b) + length args")
  case True
  then have "bt_updateRowsCount b > 0" using args widths ok by (auto simp: bt_ok_def intro: gr0I)
  from update_stmt_ok [OF ok this] True args widths ok show ?thesis
    by (auto simp: base_update_def Let_def bt_ok_def)
next
  case False
  with args ok show ?thesis by (auto simp: base_update_def Let_def bt_ok_def)
qed

text \<open>A batch whose builder never split a statement consists of well-formed statements.\<close>

lemma base_build_ok:
  assumes "bt_ok ci cu b" "bt_deleteBatchItems b @ bt_insertBatchItems b @ bt_updateBatchItems b = []"
  shows "\<forall>st \<in> set (base_build gen b). stmt_ok st"
  using assms insert_stmt_ok [OF assms(1)] delete_stmt_ok [OF assms(1)] update_stmt_ok [OF assms(1)]
  by (auto simp: base_build_def queue_items_def)

end

text \<open>What a split statement becomes: one argument, the slice, for all its placeholders.\<close>

lemma queue_items_mismatch:
  assumes "st \<in> set (queue_items items)" "\<forall>i \<in> set items. stmt_ok i"
  shows "\<exists>args. snd st = [VSlice args] \<and> placeholders (fst st) = numbered (length args)"
  using assms by (auto simp: queue_items_def stmt_ok_def)

end
