(* ===== verification/Table_Builders.thy ===== *)
theory Table_Builders
  imports Batch_Builder
begin

text \<open>
  The builders of the individual tables in \<open>db/postgresql/batch\<close>: generic status resources, local
  resources, managed clusters and policies. Each interprets \<open>table_builder\<close> with its own update statement.
\<close>

section \<open>Generic status resources\<close>

definition NewGenericBatchBuilder :: "string \<Rightarrow> string \<Rightarrow> string \<Rightarrow> base_builder" where
  "NewGenericBatchBuilder schema tableName leafHubName =
     newBaseBatchBuilder schema tableName [1 \<mapsto> db_UUID, 3 \<mapsto> db_Jsonb] leafHubName ''id''"

definition generic_generateUpdateStatement :: "'a base_builder_scheme \<Rightarrow> string" where
  "generic_generateUpdateStatement b =
     ''UPDATE '' @ bt_schema b @ ''.'' @ bt_tableName b @ '' AS old SET payload=new.payload FROM (values '' @
     generateInsertOrUpdateArgs (bt_updateRowsCount b) (length (bt_updateArgs b) div bt_updateRowsCount b)
       (bt_tableSpecialColumns b) @
     '') AS new(id,leaf_hub_name,payload) '' @ ''WHERE old.leaf_hub_name=new.leaf_hub_name '' @
     ''AND old.id=new.id''"

definition generic_Insert :: "base_builder \<Rightarrow> string \<Rightarrow> k8s_object \<Rightarrow> base_builder" where
  "generic_Insert b uid payload = base_insert b [VStr uid, VStr (bt_leafHubName b), VPayload payload]"

definition generic_Update :: "base_builder \<Rightarrow> string \<Rightarrow> k8s_object \<Rightarrow> base_builder" where
  "generic_Update b uid payload =
     base_update generic_generateUpdateStatement b [VStr uid, VStr (bt_leafHubName b), VPayload payload]"

definition generic_Delete :: "base_builder \<Rightarrow> string \<Rightarrow> base_builder" where
  "generic_Delete b uid = base_delete b [VStr uid]"

definition generic_Build :: "base_builder \<Rightarrow> statement list" where
  "generic_Build b = base_build generic_generateUpdateStatement b"

section \<open>Local resources\<close>

definition NewGenericLocalBatchBuilder :: "string \<Rightarrow> string \<Rightarrow> string \<Rightarrow> base_builder" where
  "NewGenericLocalBatchBuilder schema tableName leafHubName =
     newBaseBatchBuilder schema tableName [2 \<mapsto> db_Jsonb] leafHubName (''payload->'metadata'->>'uid'' @ squote)"

definition local_generateUpdateStatement :: "'a base_builder_scheme \<Rightarrow> string" where
  "local_generateUpdateStatement b =
     ''UPDATE '' @ bt_schema b @ ''.'' @ bt_tableName b @ '' AS old SET payload=new.payload FROM (values '' @
     generateInsertOrUpdateArgs (bt_updateRowsCount b) (length (bt_updateArgs b) div bt_updateRowsCount b)
       (bt_tableSpecialColumns b) @
     '') AS new(leaf_hub_name,payload) '' @ ''WHERE old.leaf_hub_name=new.leaf_hub_name '' @
     ''AND old.payload->'metadata'->>'uid'=new.payload->'metadata'->>'uid'' @ squote"

definition local_Insert :: "base_builder \<Rightarrow> k8s_object \<Rightarrow> base_builder" where
  "local_Insert b payload = base_insert b [VStr (bt_leafHubName b), VPayload payload]"

definition local_Update :: "base_builder \<Rightarrow> k8s_object \<Rightarrow> base_builder" where
  "local_Update b payload =
     base_update local_generateUpdateStatement b [VStr (bt_leafHubName b), VPayload payload]"

definition local_Delete :: "base_builder \<Rightarrow> string \<Rightarrow> base_builder" where
  "local_Delete b uid = base_delete b [VStr uid]"

definition local_Build :: "base_builder \<Rightarrow> statement list" where
  "local_Build b = base_build local_generateUpdateStatement b"

section \<open>Managed clusters\<close>

definition NewManagedClustersBatchBuilder :: "string \<Rightarrow> string \<Rightarrow> string \<Rightarrow> base_builder" where
  "NewManagedClustersBatchBuilder schema tableName leafHubName =
     newBaseBatchBuilder schema tableName [2 \<mapsto> db_Jsonb] leafHubName (''payload->'metadata'->>'name'' @ squote)"

definition mc_generateUpdateStatement :: "'a base_builder_scheme \<Rightarrow> string" where
  "mc_generateUpdateStatement b =
     ''UPDATE '' @ bt_schema b @ ''.'' @ bt_tableName b @ '' AS old SET payload=new.payload FROM (values '' @
     generateInsertOrUpdateArgs (bt_updateRowsCount b) (length (bt_updateArgs b) div bt_updateRowsCount b)
       (bt_tableSpecialColumns b) @
     '') AS new(leaf_hub_name,payload,cluster_name) '' @ ''WHERE old.leaf_hub_name=new.leaf_hub_name '' @
     ''AND old.payload->'metadata'->>'name'=new.cluster_name''"

definition mc_Insert :: "base_builder \<Rightarrow> k8s_object \<Rightarrow> string \<Rightarrow> base_builder" where
  "mc_Insert b payload errorString =
     base_insert b [VStr (bt_leafHubName b), VPayload payload, VStr errorString]"

definition mc_Update :: "base_builder \<Rightarrow> string \<Rightarrow> k8s_object \<Rightarrow> base_builder" where
  "mc_Update b clusterName payload =
     base_update mc_generateUpdateStatement b [VStr (bt_leafHubName b), VPayload payload, VStr clusterName]"

definition mc_Delete :: "base_builder \<Rightarrow> string \<Rightarrow> base_builder" where
  "mc_Delete b clusterName = base_delete b [VStr clusterName]"

definition mc_Build :: "base_builder \<Rightarrow> statement list" where
  "mc_Build b = base_build mc_generateUpdateStatement b"

section \<open>Policies\<close>

record policies_builder = base_builder +
  pb_updateClusterComplianceArgs :: "sql_value list"
  pb_updateClusterComplianceRowsCount :: nat
  pb_deleteClusterComplianceArgs :: "string \<rightharpoonup> sql_value list"

definition NewPoliciesBatchBuilder :: "string \<Rightarrow> string \<Rightarrow> string \<Rightarrow> policies_builder" where
  "NewPoliciesBatchBuilder schema tableName leafHubName =
     base_builder.extend (newBaseBatchBuilder schema tableName [1 \<mapsto> db_UUID] leafHubName ''id'')
       (policies_builder.fields [] 0 Map.empty)"

definition generateUpdatePolicyComplianceStatement :: "'a base_builder_scheme \<Rightarrow> string" where
  "generateUpdatePolicyComplianceStatement b =
     ''UPDATE '' @ bt_schema b @ ''.'' @ bt_tableName b @ '' AS old SET compliance=new.compliance FROM (values '' @
     generateInsertOrUpdateArgs (bt_updateRowsCount b) (length (bt_updateArgs b) div bt_updateRowsCount b)
       [1 \<mapsto> db_UUID, 3 \<mapsto> bt_schema b @ ''.'' @ db_ComplianceType] @
     '') AS new(id,leaf_hub_name,compliance) '' @
     ''WHERE old.id=new.id AND old.leaf_hub_name=new.leaf_hub_name''"

definition generateUpdateClusterComplianceStatement :: "policies_builder \<Rightarrow> string" where
  "generateUpdateClusterComplianceStatement b =
     ''UPDATE '' @ bt_schema b @ ''.'' @ bt_tableName b @ '' AS old SET compliance=new.compliance FROM (values '' @
     generateInsertOrUpdateArgs (pb_updateClusterComplianceRowsCount b)
       (length (pb_updateClusterComplianceArgs b) div pb_updateClusterComplianceRowsCount b)
       [1 \<mapsto> db_UUID, 4 \<mapsto> bt_schema b @ ''.'' @ db_ComplianceType] @
     '') AS new(id,cluster_name,leaf_hub_name,compliance) '' @
     ''WHERE old.id=new.id AND old.leaf_hub_name=new.leaf_hub_name '' @
     ''AND old.cluster_name=new.cluster_name''"

text \<open>A missing key reads as the empty slice.\<close>

definition cluster_delete_args :: "policies_builder \<Rightarrow> string \<Rightarrow> sql_value list" where
  "cluster_delete_args b policyID =
     (case pb_deleteClusterComplianceArgs b policyID of Some args \<Rightarrow> args | None \<Rightarrow> [])"

definition generateDeleteClusterComplianceStatement :: "policies_builder \<Rightarrow> string \<Rightarrow> string" where
  "generateDeleteClusterComplianceStatement b policyID =
     ''DELETE from '' @ bt_schema b @ ''.'' @ bt_tableName b @
     '' WHERE id=$1 AND leaf_hub_name=$2 AND cluster_name IN ('' @
     generateArgsList (length (cluster_delete_args b policyID) - 2) 3 Map.empty @ '')''"

definition policies_Insert ::
    "policies_builder \<Rightarrow> string \<Rightarrow> string \<Rightarrow> string \<Rightarrow> compliance_status \<Rightarrow> policies_builder" where
  "policies_Insert b policyID clusterName errorString compliance =
     base_insert b [VStr policyID, VStr clusterName, VStr (bt_leafHubName b), VStr errorString, VCompliance compliance]"

definition UpdatePolicyCompliance :: "policies_builder \<Rightarrow> string \<Rightarrow> compliance_status \<Rightarrow> policies_builder" where
  "UpdatePolicyCompliance b policyID compliance =
     base_update generateUpdatePolicyComplianceStatement b
       [VStr policyID, VStr (bt_leafHubName b), VCompliance compliance]"

definition UpdateClusterCompliance ::
    "policies_builder \<Rightarrow> string \<Rightarrow> string \<Rightarrow> compliance_status \<Rightarrow> policies_builder" where
  "UpdateClusterCompliance b policyID clusterName compliance =
     (let b = (if maxColumnsUpdateInStatement \<le> length (pb_updateClusterComplianceArgs b) + 4
               then b\<lparr>bt_updateBatchItems := bt_updateBatchItems b @
                        [(generateUpdateClusterComplianceStatement b, pb_updateClusterComplianceArgs b)],
                      pb_updateClusterComplianceArgs := [], pb_updateClusterComplianceRowsCount := 0\<rparr>
               else b)
      in b\<lparr>pb_updateClusterComplianceArgs := pb_updateClusterComplianceArgs b @
             [VStr policyID, VStr clusterName, VStr (bt_leafHubName b), VCompliance compliance],
           pb_updateClusterComplianceRowsCount := pb_updateClusterComplianceRowsCount b + 1\<rparr>)"

definition DeletePolicy :: "policies_builder \<Rightarrow> string \<Rightarrow> policies_builder" where
  "DeletePolicy b policyID = base_delete b [VStr policyID]"

definition DeleteClusterStatus :: "policies_builder \<Rightarrow> string \<Rightarrow> string \<Rightarrow> policies_builder" where
  "DeleteClusterStatus b policyID clusterName =
     (let args = (case pb_deleteClusterComplianceArgs b policyID of
                    Some args \<Rightarrow> args | None \<Rightarrow> [VStr policyID, VStr (bt_leafHubName b)])
      in b\<lparr>pb_deleteClusterComplianceArgs := (pb_deleteClusterComplianceArgs b)(policyID \<mapsto> args @ [VStr clusterName])\<rparr>)"

text \<open>\<open>order\<close> is the order in which Go visits the map of cluster deletes.\<close>

definition policies_Build :: "(string set \<Rightarrow> string list) \<Rightarrow> policies_builder \<Rightarrow> statement list" where
  "policies_Build order b =
     base_build generateUpdatePolicyComplianceStatement b @
     map (\<lambda>policyID. (generateDeleteClusterComplianceStatement b policyID, cluster_delete_args b policyID))
       (order (dom (pb_deleteClusterComplianceArgs b))) @
     (if pb_updateClusterComplianceRowsCount b > 0
      then [(generateUpdateClusterComplianceStatement b, pb_updateClusterComplianceArgs b)] else [])"

section \<open>Every builder generates well-formed statements\<close>

text \<open>The shape all update statements share.\<close>

lemma update_text_placeholders:
  assumes "CHR ''$'' \<notin> set pre" "CHR ''$'' \<notin> set suf" "plain_columns special" "0 < rows"
  shows "placeholders (pre @ generateInsertOrUpdateArgs rows (rows * cols div rows) special @ suf) = numbered (rows * cols)"
  using assms placeholders_none [OF assms(2)]
  by (simp add: placeholders_skip generateInsertOrUpdateArgs_placeholders numbered_def del: upt_Suc)

lemma bt_ok_names: "bt_ok ci cu b \<Longrightarrow> CHR ''$'' \<notin> set (bt_schema b) \<and> CHR ''$'' \<notin> set (bt_tableName b)"
  by (simp add: bt_ok_def)

lemma plain_compliance_columns:
  "CHR ''$'' \<notin> set schema \<Longrightarrow> plain_columns [1 \<mapsto> db_UUID, n \<mapsto> schema @ ''.'' @ db_ComplianceType]"
  by (auto simp: plain_columns_def db_UUID_def db_ComplianceType_def)

interpretation generic: table_builder generic_generateUpdateStatement 3 3
proof
  fix b :: "'a base_builder_scheme"
  assume ok: "bt_ok 3 3 b" and rows: "bt_updateRowsCount b > 0"
  show "placeholders (generic_generateUpdateStatement b) = numbered (length (bt_updateArgs b))"
    using update_text_placeholders [of "''UPDATE '' @ bt_schema b @ ''.'' @ bt_tableName b @ '' AS old SET payload=new.payload FROM (values ''"
        "'') AS new(id,leaf_hub_name,payload) WHERE old.leaf_hub_name=new.leaf_hub_name AND old.id=new.id''"
        "bt_tableSpecialColumns b" "bt_updateRowsCount b" 3] ok rows bt_ok_names [OF ok]
    by (simp add: generic_generateUpdateStatement_def bt_ok_def)
qed (simp_all add: maxColumnsUpdateInStatement_def)

interpretation local_resources: table_builder local_generateUpdateStatement 2 2
proof
  fix b :: "'a base_builder_scheme"
  assume ok: "bt_ok 2 2 b" and rows: "bt_updateRowsCount b > 0"
  show "placeholders (local_generateUpdateStatement b) = numbered (length (bt_updateArgs b))"
    using update_text_placeholders [of "''UPDATE '' @ bt_schema b @ ''.'' @ bt_tableName b @ '' AS old SET payload=new.payload FROM (values ''"
        "'') AS new(leaf_hub_name,payload) WHERE old.leaf_hub_name=new.leaf_hub_name AND old.payload->'metadata'->>'uid'=new.payload->'metadata'->>'uid'' @ squote"
        "bt_tableSpecialColumns b" "bt_updateRowsCount b" 2] ok rows bt_ok_names [OF ok]
    by (simp add: local_generateUpdateStatement_def bt_ok_def squote_def)
qed (simp_all add: maxColumnsUpdateInStatement_def)

interpretation managed_clusters: table_builder mc_generateUpdateStatement 3 3
proof
  fix b :: "'a base_builder_scheme"
  assume ok: "bt_ok 3 3 b" and rows: "bt_updateRowsCount b > 0"
  show "placeholders (mc_generateUpdateStatement b) = numbered (length (bt_updateArgs b))"
    using update_text_placeholders [of "''UPDATE '' @ bt_schema b @ ''.'' @ bt_tableName b @ '' AS old SET payload=new.payload FROM (values ''"
        "'') AS new(leaf_hub_name,payload,cluster_name) WHERE old.leaf_hub_name=new.leaf_hub_name AND old.payload->'metadata'->>'name'=new.cluster_name''"
        "bt_tableSpecialColumns b" "bt_updateRowsCount b" 3] ok rows bt_ok_names [OF ok]
    by (simp add: mc_generateUpdateStatement_def bt_ok_def)
qed (simp_all add: maxColumnsUpdateInStatement_def)

interpretation policies: table_builder generateUpdatePolicyComplianceStatement 5 3
proof
  fix b :: "'a base_builder_scheme"
  assume ok: "bt_ok 5 3 b" and rows: "bt_updateRowsCount b > 0"
  show "placeholders (generateUpdatePolicyComplianceStatement b) = numbered (length (bt_updateArgs b))"
    using update_text_placeholders [of "''UPDATE '' @ bt_schema b @ ''.'' @ bt_tableName b @ '' AS old SET compliance=new.compliance FROM (values ''"
        "'') AS new(id,leaf_hub_name,compliance) WHERE old.id=new.id AND old.leaf_hub_name=new.leaf_hub_name''"
        "[1 \<mapsto> db_UUID, 3 \<mapsto> bt_schema b @ ''.'' @ db_ComplianceType]" "bt_updateRowsCount b" 3]
      ok rows bt_ok_names [OF ok] plain_compliance_columns [of "bt_schema b" 3]
    by (simp add: generateUpdatePolicyComplianceStatement_def bt_ok_def)
qed (simp_all add: maxColumnsUpdateInStatement_def)

text \<open>The two extra statements of the policies builder.\<close>

lemma cluster_update_placeholders:
  assumes "bt_ok 5 3 b" "0 < pb_updateClusterComplianceRowsCount b"
    "length (pb_updateClusterComplianceArgs b) = pb_updateClusterComplianceRowsCount b * 4"
  shows "placeholders (generateUpdateClusterComplianceStatement b) = numbered (length (pb_updateClusterComplianceArgs b))"
  using update_text_placeholders [of "''UPDATE '' @ bt_schema b @ ''.'' @ bt_tableName b @ '' AS old SET compliance=new.compliance FROM (values ''"
      "'') AS new(id,cluster_name,leaf_hub_name,compliance) WHERE old.id=new.id AND old.leaf_hub_name=new.leaf_hub_name AND old.cluster_name=new.cluster_name''"
      "[1 \<mapsto> db_UUID, 4 \<mapsto> bt_schema b @ ''.'' @ db_ComplianceType]" "pb_updateClusterComplianceRowsCount b" 4]
    assms bt_ok_names [OF assms(1)] plain_compliance_columns [of "bt_schema b" 4]
  by (simp add: generateUpdateClusterComplianceStatement_def)

lemma cluster_delete_placeholders:
  assumes "bt_ok 5 3 b" "length (cluster_delete_args b p) = Suc (Suc n)"
  shows "placeholders (generateDeleteClusterComplianceStatement b p) = numbered (Suc (Suc n))"
proof -
  let ?pre = "''DELETE from '' @ bt_schema b @ ''.'' @ bt_tableName b @ '' WHERE id=''"
  let ?mid = "'' AND leaf_hub_name=''" and ?tail = "'' AND cluster_name IN (''"
  let ?args = "generateArgsList n 3 Map.empty @ '')''"
  have dollar: "CHR ''$'' \<notin> set ?pre" "CHR ''$'' \<notin> set ?mid" "CHR ''$'' \<notin> set ?tail"
    using bt_ok_names [OF assms(1)] by simp_all
  have num: "''$1'' = ''$'' @ digits 1" "''$2'' = ''$'' @ digits 2" by code_simp+
  have ends: "ends_number (?mid @ ''$'' @ digits 2 @ ?tail @ ?args)" "ends_number (?tail @ ?args)" "ends_number '')''"
    by (simp_all add: ends_number_def is_digit_def)
  have split: "generateDeleteClusterComplianceStatement b p = ?pre @ ''$'' @ digits 1 @ ?mid @ ''$'' @ digits 2 @ ?tail @ ?args"
    using num assms(2) by (simp add: generateDeleteClusterComplianceStatement_def)
  have "placeholders (generateDeleteClusterComplianceStatement b p) = 1 # 2 # [3..<3 + n]"
    unfolding split placeholders_skip [OF dollar(1)] placeholders_number [OF ends(1)] placeholders_skip [OF dollar(2)]
      placeholders_number [OF ends(2)] placeholders_skip [OF dollar(3)]
      generateArgsList_placeholders [OF plain_columns_empty ends(3)] by simp
  also have "\<dots> = numbered (Suc (Suc n))"
    unfolding numbered_Cons by (subst (2) upt_conv_Cons) (simp_all add: eval_nat_numeral del: upt_Suc)
  finally show ?thesis .
qed

end
