(* ===== verification/Postgres.thy ===== *)
theory Postgres
  imports Table_Builders
begin

text \<open>
  \<open>db/postgresql/postgresql.go\<close>: the reads and writes of the status tables. The pgx driver and the
  database are outside the repository; they are the record \<open>pg_lib\<close> over a database state. A query
  gives the rows its iterator delivers: the code drops the error of \<open>Query\<close> and never asks for
  \<open>rows.Err()\<close>, so a failed or interrupted query is just fewer rows.
\<close>

record 'db pg_lib =
  pg_Query :: "'db \<Rightarrow> string \<Rightarrow> sql_value list \<Rightarrow> sql_value list list"
  pg_QueryRow :: "'db \<Rightarrow> string \<Rightarrow> sql_value list \<Rightarrow> bool option"
  pg_Exec :: "'db \<Rightarrow> string \<Rightarrow> sql_value list \<Rightarrow> bool \<times> 'db"
  pg_SendBatch :: "'db \<Rightarrow> statement list \<Rightarrow> bool list \<times> 'db"

datatype db_error = ErrScan | ErrBatchFailed | ErrRead | ErrExec

text \<open>\<open>SendBatch\<close>: an empty batch is not sent; otherwise one result is read per statement, and any
  failed one makes the whole call fail.\<close>

definition SendBatch :: "'db pg_lib \<Rightarrow> 'db \<Rightarrow> statement list \<Rightarrow> db_error option \<times> 'db" where
  "SendBatch lib db batch =
     (if length batch = 0 then (None, db)
      else (let (failed, db') = pg_SendBatch lib db batch
            in (if True \<in> set failed then Some ErrBatchFailed else None, db')))"

section \<open>Reading rows\<close>

fun compliance_rows ::
    "sql_value list list \<Rightarrow> (string \<rightharpoonup> policy_clusters_sets) \<Rightarrow> db_error + (string \<rightharpoonup> policy_clusters_sets)" where
  "compliance_rows [] result = Inr result"
| "compliance_rows (row # rows) result =
     (case row of
        [VStr policyID, VStr clusterName, VCompliance complianceStatus] \<Rightarrow>
          (let policyClustersSets = (case result policyID of Some s \<Rightarrow> s | None \<Rightarrow> NewPolicyClusterSets)
           in compliance_rows rows
                (result(policyID \<mapsto> AddCluster policyClustersSets clusterName complianceStatus)))
      | _ \<Rightarrow> Inl ErrScan)"

definition buildComplianceClustersSetsFromRows ::
    "sql_value list list \<Rightarrow> db_error + (string \<rightharpoonup> policy_clusters_sets)" where
  "buildComplianceClustersSetsFromRows rows = compliance_rows rows Map.empty"

fun key_value_rows :: "sql_value list list \<Rightarrow> (string \<rightharpoonup> string) \<Rightarrow> db_error + (string \<rightharpoonup> string)" where
  "key_value_rows [] result = Inr result"
| "key_value_rows (row # rows) result =
     (case row of [VStr key, VStr val] \<Rightarrow> key_value_rows rows (result(key \<mapsto> val)) | _ \<Rightarrow> Inl ErrScan)"

definition buildKeyValueMapFromRows :: "sql_value list list \<Rightarrow> db_error + (string \<rightharpoonup> string)" where
  "buildKeyValueMapFromRows rows = key_value_rows rows Map.empty"

definition compliance_query :: "string \<Rightarrow> string \<Rightarrow> string" where
  "compliance_query schema tableName =
     ''SELECT id,cluster_name,compliance FROM '' @ schema @ ''.'' @ tableName @ '' WHERE '' @ newline_tabs 3 @
     ''leaf_hub_name=$1''"

definition GetComplianceStatusByLeafHub ::
    "'db pg_lib \<Rightarrow> 'db \<Rightarrow> string \<Rightarrow> string \<Rightarrow> string \<Rightarrow> db_error + (string \<rightharpoonup> policy_clusters_sets)" where
  "GetComplianceStatusByLeafHub lib db schema tableName leafHubName =
     buildComplianceClustersSetsFromRows (pg_Query lib db (compliance_query schema tableName) [VStr leafHubName])"

definition noncompliant_query :: "string \<Rightarrow> string \<Rightarrow> string" where
  "noncompliant_query schema tableName =
     ''SELECT id,cluster_name,compliance FROM '' @ schema @ ''.'' @ tableName @ '' WHERE leaf_hub_name=$1'' @
     newline_tabs 3 @ '' AND compliance!='compliant'' @ squote"

definition GetNonCompliantClustersByLeafHub ::
    "'db pg_lib \<Rightarrow> 'db \<Rightarrow> string \<Rightarrow> string \<Rightarrow> string \<Rightarrow> db_error + (string \<rightharpoonup> policy_clusters_sets)" where
  "GetNonCompliantClustersByLeafHub lib db schema tableName leafHubName =
     buildComplianceClustersSetsFromRows (pg_Query lib db (noncompliant_query schema tableName) [VStr leafHubName])"

fun id_rows :: "sql_value list list \<Rightarrow> string set \<Rightarrow> db_error + string set" where
  "id_rows [] result = Inr result"
| "id_rows (row # rows) result =
     (case row of [VStr policyID] \<Rightarrow> id_rows rows (insert policyID result) | _ \<Rightarrow> Inl ErrScan)"

definition GetPolicyIDsByLeafHub ::
    "'db pg_lib \<Rightarrow> 'db \<Rightarrow> string \<Rightarrow> string \<Rightarrow> string \<Rightarrow> db_error + string set" where
  "GetPolicyIDsByLeafHub lib db schema tableName leafHubName =
     id_rows (pg_Query lib db
       (''SELECT DISTINCT(id) FROM '' @ schema @ ''.'' @ tableName @ '' WHERE leaf_hub_name=$1'') [VStr leafHubName]) {}"

definition managed_clusters_query :: "string \<Rightarrow> string \<Rightarrow> string" where
  "managed_clusters_query schema tableName =
     ''SELECT payload->'metadata'->>'name','' @ newline_tabs 2 @
     ''payload->'metadata'->>'resourceVersion' FROM '' @ schema @ ''.'' @ tableName @ '' WHERE leaf_hub_name=$1''"

definition GetManagedClustersByLeafHub ::
    "'db pg_lib \<Rightarrow> 'db \<Rightarrow> string \<Rightarrow> string \<Rightarrow> string \<Rightarrow> db_error + (string \<rightharpoonup> string)" where
  "GetManagedClustersByLeafHub lib db schema tableName leafHubName =
     buildKeyValueMapFromRows (pg_Query lib db (managed_clusters_query schema tableName) [VStr leafHubName])"

definition resource_query :: "string \<Rightarrow> string \<Rightarrow> string" where
  "resource_query schema tableName =
     ''SELECT id,'' @ newline_tabs 2 @
     ''payload->'metadata'->>'resourceVersion' FROM '' @ schema @ ''.'' @ tableName @ '' WHERE leaf_hub_name=$1''"

definition GetResourceIDToVersionByLeafHub ::
    "'db pg_lib \<Rightarrow> 'db \<Rightarrow> string \<Rightarrow> string \<Rightarrow> string \<Rightarrow> db_error + (string \<rightharpoonup> string)" where
  "GetResourceIDToVersionByLeafHub lib db schema tableName leafHubName =
     buildKeyValueMapFromRows (pg_Query lib db (resource_query schema tableName) [VStr leafHubName])"

definition local_resource_query :: "string \<Rightarrow> string \<Rightarrow> string" where
  "local_resource_query schema tableName =
     ''SELECT payload->'metadata'->>'uid','' @ newline_tabs 2 @
     ''payload->'metadata'->>'resourceVersion' FROM '' @ schema @ ''.'' @ tableName @ '' WHERE leaf_hub_name=$1''"

definition GetLocalResourceIDToVersionByLeafHub ::
    "'db pg_lib \<Rightarrow> 'db \<Rightarrow> string \<Rightarrow> string \<Rightarrow> string \<Rightarrow> db_error + (string \<rightharpoonup> string)" where
  "GetLocalResourceIDToVersionByLeafHub lib db schema tableName leafHubName =
     buildKeyValueMapFromRows (pg_Query lib db (local_resource_query schema tableName) [VStr leafHubName])"

section \<open>Single-row writes\<close>

definition exec_write :: "'db pg_lib \<Rightarrow> 'db \<Rightarrow> string \<Rightarrow> sql_value list \<Rightarrow> db_error option \<times> 'db" where
  "exec_write lib db query args =
     (let (failed, db') = pg_Exec lib db query args in (if failed then Some ErrExec else None, db'))"

definition InsertOrUpdateAggregatedPolicyCompliance ::
    "'db pg_lib \<Rightarrow> 'db \<Rightarrow> string \<Rightarrow> string \<Rightarrow> string \<Rightarrow> string \<Rightarrow> int \<Rightarrow> int \<Rightarrow> db_error option \<times> 'db" where
  "InsertOrUpdateAggregatedPolicyCompliance lib db schema tableName leafHubName policyID appliedClusters
     nonCompliantClusters =
     (case pg_QueryRow lib db
         (''SELECT EXISTS(SELECT 1 from '' @ schema @ ''.'' @ tableName @ '' WHERE leaf_hub_name=$1 AND '' @
          newline_tabs 3 @ ''id=$2)'') [VStr leafHubName, VStr policyID] of
        None \<Rightarrow> (Some ErrRead, db)
      | Some True \<Rightarrow>
          exec_write lib db
            (''UPDATE '' @ schema @ ''.'' @ tableName @ '' SET applied_clusters=$1,non_compliant_clusters=$2'' @
             newline_tabs 3 @ '' WHERE leaf_hub_name=$3 AND id=$4'')
            [VInt appliedClusters, VInt nonCompliantClusters, VStr leafHubName, VStr policyID]
      | Some False \<Rightarrow>
          exec_write lib db
            (''INSERT INTO '' @ schema @ ''.'' @ tableName @ '' (id,leaf_hub_name,applied_clusters,'' @
             newline_tabs 3 @ ''non_compliant_clusters) values($1, $2, $3, $4)'')
            [VStr policyID, VStr leafHubName, VInt appliedClusters, VInt nonCompliantClusters])"

definition DeleteAllComplianceRows ::
    "'db pg_lib \<Rightarrow> 'db \<Rightarrow> string \<Rightarrow> string \<Rightarrow> string \<Rightarrow> string \<Rightarrow> db_error option \<times> 'db" where
  "DeleteAllComplianceRows lib db schema tableName leafHubName policyID =
     exec_write lib db
       (''DELETE from '' @ schema @ ''.'' @ tableName @ '' WHERE leaf_hub_name=$1 AND id=$2'')
       [VStr leafHubName, VStr policyID]"

definition UpdateHeartbeat ::
    "'db pg_lib \<Rightarrow> 'db \<Rightarrow> string \<Rightarrow> string \<Rightarrow> string \<Rightarrow> db_error option \<times> 'db" where
  "UpdateHeartbeat lib db schema tableName leafHubName =
     exec_write lib db
       (''INSERT INTO '' @ schema @ ''.'' @ tableName @ '' (leaf_hub_name, last_timestamp) '' @ newline_tabs 2 @
        ''values($1, (now() at time zone 'utc')) ON CONFLICT (leaf_hub_name) DO UPDATE SET last_timestamp = (now() '' @
        newline_tabs 2 @ ''at time zone 'utc') WHERE '' @ schema @ ''.'' @ tableName @ ''.leaf_hub_name = $1'')
       [VStr leafHubName]"

section \<open>What the readers compute\<close>

definition sets_of_rows :: "(string \<times> string \<times> compliance_status) list \<Rightarrow> string \<Rightarrow> policy_clusters_sets option" where
  "sets_of_rows rs p = (if \<exists>c s. (p, c, s) \<in> set rs then Some (\<lambda>s. {c. (p, c, s) \<in> set rs}) else None)"

definition row_values :: "string \<times> string \<times> compliance_status \<Rightarrow> sql_value list" where
  "row_values r = [VStr (fst r), VStr (fst (snd r)), VCompliance (snd (snd r))]"

lemma compliance_rows_fold:
  "compliance_rows (map row_values rs) m =
     Inr (foldl (\<lambda>m (p, c, s). m(p \<mapsto> AddCluster (case m p of Some t \<Rightarrow> t | None \<Rightarrow> NewPolicyClusterSets) c s)) m rs)"
  by (induction rs arbitrary: m) (auto simp: row_values_def Let_def)

lemma sets_of_rows_snoc:
  "sets_of_rows (rs @ [(p, c, s)]) =
     (sets_of_rows rs)(p \<mapsto> AddCluster (case sets_of_rows rs p of Some t \<Rightarrow> t | None \<Rightarrow> NewPolicyClusterSets) c s)"
  by (auto simp: sets_of_rows_def fun_eq_iff AddCluster_def NewPolicyClusterSets_def)

lemma buildComplianceClustersSets_spec:
  "buildComplianceClustersSetsFromRows (map row_values rs) = Inr (sets_of_rows rs)"
proof -
  have "foldl (\<lambda>m (p, c, s). m(p \<mapsto> AddCluster (case m p of Some t \<Rightarrow> t | None \<Rightarrow> NewPolicyClusterSets) c s))
      Map.empty rs = sets_of_rows rs"
  proof (induction rs rule: rev_induct)
    case Nil
    then show ?case by (auto simp: sets_of_rows_def)
  next
    case (snoc r rs)
    then show ?case by (cases r) (simp add: sets_of_rows_snoc)
  qed
  then show ?thesis by (simp add: buildComplianceClustersSetsFromRows_def compliance_rows_fold)
qed

lemma key_value_rows_map:
  "key_value_rows (map (\<lambda>(k, v). [VStr k, VStr v]) kvs) m = Inr (m ++ map_of (rev kvs))"
  by (induction kvs arbitrary: m) (auto simp: fun_eq_iff map_add_def split: option.splits)

end
