(* ===== verification/Policies_Db_Syncer.thy ===== *)
theory Policies_Db_Syncer
  imports Postgres
begin

text \<open>
  \<open>syncer/dbsyncer/policies_db_syncer.go\<close>: the handlers that bring the compliance tables in line with
  a bundle. The batch builder is threaded through the calls the way the code mutates it. \<open>enum\<close> is
  the order in which the sets and maps are visited. The log lines that print the bundle's version are
  left out: the worker has printed the version before it calls a handler.
\<close>

section \<open>Clusters per policy\<close>

fun handleClustersPerPolicyWithSpecificCompliance ::
    "policies_builder \<Rightarrow> string \<Rightarrow> string list \<Rightarrow> string set \<Rightarrow> string set \<Rightarrow> compliance_status \<Rightarrow>
     policies_builder \<times> string set" where
  "handleClustersPerPolicyWithSpecificCompliance bb policyID [] allClustersFromDB typedClustersFromDB complianceStatus =
     (bb, allClustersFromDB)"
| "handleClustersPerPolicyWithSpecificCompliance bb policyID (clusterName # clusters) allClustersFromDB
     typedClustersFromDB complianceStatus =
     (if clusterName \<notin> allClustersFromDB
      then handleClustersPerPolicyWithSpecificCompliance
             (policies_Insert bb policyID clusterName ErrorNone complianceStatus)
             policyID clusters allClustersFromDB typedClustersFromDB complianceStatus
      else handleClustersPerPolicyWithSpecificCompliance
             (if clusterName \<notin> typedClustersFromDB
              then UpdateClusterCompliance bb policyID clusterName complianceStatus else bb)
             policyID clusters (allClustersFromDB - {clusterName}) typedClustersFromDB complianceStatus)"

definition handleClusterPerPolicy ::
    "(string set \<Rightarrow> string list) \<Rightarrow> policies_builder \<Rightarrow> policy_generic_status \<Rightarrow> policy_clusters_sets \<Rightarrow>
     policies_builder" where
  "handleClusterPerPolicy enum bb clustersFromBundle clustersFromDB =
     (let policyID = gs_PolicyID clustersFromBundle;
          all0 = GetAllClusters clustersFromDB;
          (bb1, all1) = handleClustersPerPolicyWithSpecificCompliance bb policyID
            (gs_CompliantClusters clustersFromBundle) all0 (GetClusters clustersFromDB Compliant) Compliant;
          (bb2, all2) = handleClustersPerPolicyWithSpecificCompliance bb1 policyID
            (gs_NonCompliantClusters clustersFromBundle) all1 (GetClusters clustersFromDB NonCompliant) NonCompliant;
          (bb3, all3) = handleClustersPerPolicyWithSpecificCompliance bb2 policyID
            (gs_UnknownComplianceClusters clustersFromBundle) all2 (GetClusters clustersFromDB Unknown) Unknown
      in foldl (\<lambda>bb clusterName. DeleteClusterStatus bb policyID clusterName) bb3 (enum all3))"

text \<open>The loop over the bundle's objects; an object of another type is skipped.\<close>

fun cpp_objects ::
    "(string set \<Rightarrow> string list) \<Rightarrow> bundle_object list \<Rightarrow> policies_builder \<Rightarrow> (string \<rightharpoonup> policy_clusters_sets) \<Rightarrow>
     policies_builder \<times> (string \<rightharpoonup> policy_clusters_sets)" where
  "cpp_objects enum [] bb fromDB = (bb, fromDB)"
| "cpp_objects enum (obj # objs) bb fromDB =
     (case obj of
        GenericStatusObject g \<Rightarrow>
          (let clustersFromDB = (case fromDB (gs_PolicyID g) of Some s \<Rightarrow> s | None \<Rightarrow> NewPolicyClusterSets)
           in cpp_objects enum objs (handleClusterPerPolicy enum bb g clustersFromDB)
                (fromDB(gs_PolicyID g := None)))
      | _ \<Rightarrow> cpp_objects enum objs bb fromDB)"

definition cpp_builder ::
    "(string set \<Rightarrow> string list) \<Rightarrow> string \<Rightarrow> string \<Rightarrow> status_bundle \<Rightarrow> (string \<rightharpoonup> policy_clusters_sets) \<Rightarrow> policies_builder" where
  "cpp_builder enum dbSchema dbTableName b fromDB =
     (let (bb, left) = cpp_objects enum (GetObjects b)
            (NewPoliciesBatchBuilder dbSchema dbTableName (GetLeafHubName b)) fromDB
      in foldl DeletePolicy bb (enum (dom left)))"

definition handleClustersPerPolicyBundle ::
    "'db pg_lib \<Rightarrow> (string set \<Rightarrow> string list) \<Rightarrow> string \<Rightarrow> string \<Rightarrow> status_bundle \<Rightarrow> 'db \<Rightarrow> db_error option \<times> 'db" where
  "handleClustersPerPolicyBundle lib enum dbSchema dbTableName b db =
     (case GetComplianceStatusByLeafHub lib db dbSchema dbTableName (GetLeafHubName b) of
        Inl err \<Rightarrow> (Some err, db)
      | Inr complianceRowsFromDB \<Rightarrow>
          SendBatch lib db (policies_Build enum (cpp_builder enum dbSchema dbTableName b complianceRowsFromDB)))"

section \<open>Complete compliance\<close>

text \<open>The two loops over the clusters the bundle lists as non-compliant and as unknown.\<close>

fun report_clusters ::
    "policies_builder \<Rightarrow> string \<Rightarrow> string list \<Rightarrow> string set \<Rightarrow> string set \<Rightarrow> compliance_status \<Rightarrow>
     policies_builder \<times> string set" where
  "report_clusters bb policyID [] fromDB clustersFromDB complianceStatus = (bb, clustersFromDB)"
| "report_clusters bb policyID (clusterName # clusters) fromDB clustersFromDB complianceStatus =
     report_clusters
       (if clusterName \<notin> fromDB then UpdateClusterCompliance bb policyID clusterName complianceStatus else bb)
       policyID clusters fromDB (clustersFromDB - {clusterName}) complianceStatus"

definition handlePolicyCompleteComplianceStatus ::
    "(string set \<Rightarrow> string list) \<Rightarrow> policies_builder \<Rightarrow> policy_complete_status \<Rightarrow> string set \<Rightarrow> string set \<Rightarrow>
     policies_builder" where
  "handlePolicyCompleteComplianceStatus enum bb st nonCompliantClustersFromDB unknownClustersFromDB =
     (let clustersFromDB = nonCompliantClustersFromDB \<union> unknownClustersFromDB;
          (bb1, left1) = report_clusters bb (cs_PolicyID st) (cs_NonCompliantClusters st)
            nonCompliantClustersFromDB clustersFromDB NonCompliant;
          (bb2, left2) = report_clusters bb1 (cs_PolicyID st) (cs_UnknownComplianceClusters st)
            unknownClustersFromDB left1 Unknown
      in foldl (\<lambda>bb clusterName. UpdateClusterCompliance bb (cs_PolicyID st) clusterName Compliant) bb2 (enum left2))"

fun complete_objects ::
    "(string set \<Rightarrow> string list) \<Rightarrow> bundle_object list \<Rightarrow> policies_builder \<Rightarrow> (string \<rightharpoonup> policy_clusters_sets) \<Rightarrow>
     policies_builder \<times> (string \<rightharpoonup> policy_clusters_sets)" where
  "complete_objects enum [] bb fromDB = (bb, fromDB)"
| "complete_objects enum (obj # objs) bb fromDB =
     (case obj of
        CompleteStatusObject st \<Rightarrow>
          (let sets = (case fromDB (cs_PolicyID st) of Some s \<Rightarrow> s | None \<Rightarrow> NewPolicyClusterSets)
           in complete_objects enum objs
                (handlePolicyCompleteComplianceStatus enum bb st (GetClusters sets NonCompliant) (GetClusters sets Unknown))
                (fromDB(cs_PolicyID st := None)))
      | _ \<Rightarrow> complete_objects enum objs bb fromDB)"

definition complete_builder ::
    "(string set \<Rightarrow> string list) \<Rightarrow> string \<Rightarrow> string \<Rightarrow> status_bundle \<Rightarrow> (string \<rightharpoonup> policy_clusters_sets) \<Rightarrow> policies_builder" where
  "complete_builder enum dbSchema dbTableName b fromDB =
     (let (bb, left) = complete_objects enum (GetObjects b)
            (NewPoliciesBatchBuilder dbSchema dbTableName (GetLeafHubName b)) fromDB
      in foldl (\<lambda>bb policyID. UpdatePolicyCompliance bb policyID Compliant) bb (enum (dom left)))"

definition handleCompleteComplianceBundle ::
    "'db pg_lib \<Rightarrow> (string set \<Rightarrow> string list) \<Rightarrow> string \<Rightarrow> string \<Rightarrow> status_bundle \<Rightarrow> 'db \<Rightarrow> db_error option \<times> 'db" where
  "handleCompleteComplianceBundle lib enum dbSchema dbTableName b db =
     (case GetNonCompliantClustersByLeafHub lib db dbSchema dbTableName (GetLeafHubName b) of
        Inl err \<Rightarrow> (Some err, db)
      | Inr nonCompliantRowsFromDB \<Rightarrow>
          SendBatch lib db (policies_Build enum (complete_builder enum dbSchema dbTableName b nonCompliantRowsFromDB)))"

section \<open>Delta compliance\<close>

definition update_clusters ::
    "string \<Rightarrow> compliance_status \<Rightarrow> policies_builder \<Rightarrow> string list \<Rightarrow> policies_builder" where
  "update_clusters policyID complianceStatus bb clusters =
     foldl (\<lambda>bb cluster. UpdateClusterCompliance bb policyID cluster complianceStatus) bb clusters"

definition handleDeltaPolicyComplianceStatus :: "policies_builder \<Rightarrow> policy_generic_status \<Rightarrow> policies_builder" where
  "handleDeltaPolicyComplianceStatus bb g =
     (let bb = update_clusters (gs_PolicyID g) Compliant bb (gs_CompliantClusters g);
          bb = update_clusters (gs_PolicyID g) NonCompliant bb (gs_NonCompliantClusters g)
      in update_clusters (gs_PolicyID g) Unknown bb (gs_UnknownComplianceClusters g))"

fun delta_objects :: "bundle_object list \<Rightarrow> policies_builder \<Rightarrow> policies_builder" where
  "delta_objects [] bb = bb"
| "delta_objects (obj # objs) bb =
     (case obj of
        GenericStatusObject g \<Rightarrow> delta_objects objs (handleDeltaPolicyComplianceStatus bb g)
      | _ \<Rightarrow> delta_objects objs bb)"

definition handleDeltaComplianceBundle ::
    "'db pg_lib \<Rightarrow> (string set \<Rightarrow> string list) \<Rightarrow> string \<Rightarrow> string \<Rightarrow> status_bundle \<Rightarrow> 'db \<Rightarrow> db_error option \<times> 'db" where
  "handleDeltaComplianceBundle lib enum dbSchema dbTableName b db =
     SendBatch lib db (policies_Build enum
       (delta_objects (GetObjects b) (NewPoliciesBatchBuilder dbSchema dbTableName (GetLeafHubName b))))"

section \<open>Minimal compliance\<close>

fun minimal_objects ::
    "'db pg_lib \<Rightarrow> string \<Rightarrow> bundle_object list \<Rightarrow> string set \<Rightarrow> 'db \<Rightarrow> (db_error + string set) \<times> 'db" where
  "minimal_objects lib leafHubName [] policyIDsFromDB db = (Inr policyIDsFromDB, db)"
| "minimal_objects lib leafHubName (obj # objs) policyIDsFromDB db =
     (case obj of
        MinimalStatusObject m \<Rightarrow>
          (case InsertOrUpdateAggregatedPolicyCompliance lib db StatusSchema MinimalComplianceTable leafHubName
              (ms_PolicyID m) (ms_AppliedClusters m) (ms_NonCompliantClusters m) of
             (Some err, db') \<Rightarrow> (Inl err, db')
           | (None, db') \<Rightarrow> minimal_objects lib leafHubName objs (policyIDsFromDB - {ms_PolicyID m}) db')
      | _ \<Rightarrow> minimal_objects lib leafHubName objs policyIDsFromDB db)"

fun minimal_deletes :: "'db pg_lib \<Rightarrow> string \<Rightarrow> string list \<Rightarrow> 'db \<Rightarrow> db_error option \<times> 'db" where
  "minimal_deletes lib leafHubName [] db = (None, db)"
| "minimal_deletes lib leafHubName (policyID # policyIDs) db =
     (case DeleteAllComplianceRows lib db StatusSchema MinimalComplianceTable leafHubName policyID of
        (Some err, db') \<Rightarrow> (Some err, db')
      | (None, db') \<Rightarrow> minimal_deletes lib leafHubName policyIDs db')"

definition handleMinimalComplianceBundle ::
    "'db pg_lib \<Rightarrow> (string set \<Rightarrow> string list) \<Rightarrow> status_bundle \<Rightarrow> 'db \<Rightarrow> db_error option \<times> 'db" where
  "handleMinimalComplianceBundle lib enum b db =
     (case GetPolicyIDsByLeafHub lib db StatusSchema MinimalComplianceTable (GetLeafHubName b) of
        Inl err \<Rightarrow> (Some err, db)
      | Inr policyIDsFromDB \<Rightarrow>
          (case minimal_objects lib (GetLeafHubName b) (GetObjects b) policyIDsFromDB db of
             (Inl err, db') \<Rightarrow> (Some err, db')
           | (Inr left, db') \<Rightarrow> minimal_deletes lib (GetLeafHubName b) (enum left) db'))"

end
