(* ===== verification/Resource_Db_Syncers.thy ===== *)
theory Resource_Db_Syncers
  imports Postgres
begin

text \<open>
  \<open>syncer/dbsyncer/generic_db_syncer.go\<close>, \<open>managed_clusters_db_syncer.go\<close>, \<open>local_spec_db_syncer.go\<close>
  and \<open>control_info_db_syncer.go\<close>: the handlers that diff the objects of a bundle against the keys
  and resource versions the database has for the leaf hub. The three loops differ in the key, the
  type assertion and the builder; the locale \<open>diff_loop\<close> is what they have in common.
\<close>

definition getGenericResourceUID :: "k8s_object \<Rightarrow> string" where
  "getGenericResourceUID resourceObject =
     (case map_of (obj_Annotations resourceObject) OriginOwnerReferenceAnnotation of
        Some originOwnerReference \<Rightarrow> originOwnerReference
      | None \<Rightarrow> obj_UID resourceObject)"

text \<open>The type assertions \<open>object.(metav1.Object)\<close> and \<open>object.(*clusterv1.ManagedCluster)\<close>.\<close>

fun as_meta_object :: "bundle_object \<Rightarrow> k8s_object option" where
  "as_meta_object (ManagedClusterObject obj) = Some obj"
| "as_meta_object (ResourceObject obj) = Some obj"
| "as_meta_object _ = None"

fun as_managed_cluster :: "bundle_object \<Rightarrow> k8s_object option" where
  "as_managed_cluster (ManagedClusterObject obj) = Some obj"
| "as_managed_cluster _ = None"

section \<open>Generic status resources\<close>

fun resources_loop ::
    "bundle_object list \<Rightarrow> base_builder \<Rightarrow> (string \<rightharpoonup> string) \<Rightarrow> base_builder \<times> (string \<rightharpoonup> string)" where
  "resources_loop [] bb idToVersion = (bb, idToVersion)"
| "resources_loop (object # objects) bb idToVersion =
     (case as_meta_object object of
        None \<Rightarrow> resources_loop objects bb idToVersion
      | Some obj \<Rightarrow>
          (let uid = getGenericResourceUID obj in
           case idToVersion uid of
             None \<Rightarrow> resources_loop objects (generic_Insert bb uid obj) idToVersion
           | Some resourceVersionFromDB \<Rightarrow>
               (if obj_ResourceVersion obj = resourceVersionFromDB
                then resources_loop objects bb (idToVersion(uid := None))
                else resources_loop objects (generic_Update bb uid obj) (idToVersion(uid := None)))))"

definition handleResourcesBundle ::
    "'db pg_lib \<Rightarrow> (string set \<Rightarrow> string list) \<Rightarrow> string \<Rightarrow> string \<Rightarrow> status_bundle \<Rightarrow> 'db \<Rightarrow> db_error option \<times> 'db" where
  "handleResourcesBundle lib enum dbSchema dbTableName b db =
     (case GetResourceIDToVersionByLeafHub lib db dbSchema dbTableName (GetLeafHubName b) of
        Inl err \<Rightarrow> (Some err, db)
      | Inr idToVersionMapFromDB \<Rightarrow>
          (let (bb, left) = resources_loop (GetObjects b)
                 (NewGenericBatchBuilder dbSchema dbTableName (GetLeafHubName b)) idToVersionMapFromDB
           in SendBatch lib db (generic_Build (foldl generic_Delete bb (enum (dom left))))))"

section \<open>Managed clusters\<close>

fun clusters_loop ::
    "bundle_object list \<Rightarrow> base_builder \<Rightarrow> (string \<rightharpoonup> string) \<Rightarrow> base_builder \<times> (string \<rightharpoonup> string)" where
  "clusters_loop [] bb clustersFromDB = (bb, clustersFromDB)"
| "clusters_loop (object # objects) bb clustersFromDB =
     (case as_managed_cluster object of
        None \<Rightarrow> clusters_loop objects bb clustersFromDB
      | Some cluster \<Rightarrow>
          (case clustersFromDB (obj_Name cluster) of
             None \<Rightarrow> clusters_loop objects (mc_Insert bb cluster ErrorNone) clustersFromDB
           | Some resourceVersionFromDB \<Rightarrow>
               (if obj_ResourceVersion cluster = resourceVersionFromDB
                then clusters_loop objects bb (clustersFromDB(obj_Name cluster := None))
                else clusters_loop objects (mc_Update bb (obj_Name cluster) cluster)
                       (clustersFromDB(obj_Name cluster := None)))))"

definition handleManagedClustersBundle ::
    "'db pg_lib \<Rightarrow> (string set \<Rightarrow> string list) \<Rightarrow> status_bundle \<Rightarrow> 'db \<Rightarrow> db_error option \<times> 'db" where
  "handleManagedClustersBundle lib enum b db =
     (case GetManagedClustersByLeafHub lib db StatusSchema ManagedClustersTableName (GetLeafHubName b) of
        Inl err \<Rightarrow> (Some err, db)
      | Inr clustersFromDB \<Rightarrow>
          (let (bb, left) = clusters_loop (GetObjects b)
                 (NewManagedClustersBatchBuilder StatusSchema ManagedClustersTableName (GetLeafHubName b)) clustersFromDB
           in SendBatch lib db (mc_Build (foldl mc_Delete bb (enum (dom left))))))"

section \<open>Local resources\<close>

fun local_loop ::
    "bundle_object list \<Rightarrow> base_builder \<Rightarrow> (string \<rightharpoonup> string) \<Rightarrow> base_builder \<times> (string \<rightharpoonup> string)" where
  "local_loop [] bb idToVersion = (bb, idToVersion)"
| "local_loop (object # objects) bb idToVersion =
     (case as_meta_object object of
        None \<Rightarrow> local_loop objects bb idToVersion
      | Some obj \<Rightarrow>
          (case idToVersion (obj_UID obj) of
             None \<Rightarrow> local_loop objects (local_Insert bb obj) idToVersion
           | Some resourceVersionFromDB \<Rightarrow>
               (if obj_ResourceVersion obj = resourceVersionFromDB
                then local_loop objects bb (idToVersion(obj_UID obj := None))
                else local_loop objects (local_Update bb obj) (idToVersion(obj_UID obj := None)))))"

definition handleLocalObjectsBundle ::
    "'db pg_lib \<Rightarrow> (string set \<Rightarrow> string list) \<Rightarrow> string \<Rightarrow> string \<Rightarrow> status_bundle \<Rightarrow> 'db \<Rightarrow> db_error option \<times> 'db" where
  "handleLocalObjectsBundle lib enum schema tableName b db =
     (case GetLocalResourceIDToVersionByLeafHub lib db schema tableName (GetLeafHubName b) of
        Inl err \<Rightarrow> (Some err, db)
      | Inr idToVersion \<Rightarrow>
          (let (bb, left) = local_loop (GetObjects b)
                 (NewGenericLocalBatchBuilder schema tableName (GetLeafHubName b)) idToVersion
           in SendBatch lib db (local_Build (foldl local_Delete bb (enum (dom left))))))"

section \<open>Control info\<close>

definition handleControlInfoBundle :: "'db pg_lib \<Rightarrow> status_bundle \<Rightarrow> 'db \<Rightarrow> db_error option \<times> 'db" where
  "handleControlInfoBundle lib b db =
     UpdateHeartbeat lib db StatusSchema LeafHubHeartbeatsTableName (GetLeafHubName b)"

section \<open>The diff\<close>

text \<open>The objects a loop handles, with their keys, and the two builder calls it makes.\<close>

locale diff_loop =
  fixes loop :: "bundle_object list \<Rightarrow> base_builder \<Rightarrow> (string \<rightharpoonup> string) \<Rightarrow> base_builder \<times> (string \<rightharpoonup> string)"
    and obj :: "k8s_object \<Rightarrow> bundle_object"
    and key :: "k8s_object \<Rightarrow> string"
    and ins :: "base_builder \<Rightarrow> k8s_object \<Rightarrow> base_builder"
    and upd :: "base_builder \<Rightarrow> k8s_object \<Rightarrow> base_builder"
  assumes loop_Nil: "loop [] bb m = (bb, m)"
    and loop_Cons: "loop (obj x # xs) bb m =
      (case m (key x) of
         None \<Rightarrow> loop xs (ins bb x) m
       | Some v \<Rightarrow> loop xs (if obj_ResourceVersion x = v then bb else upd bb x) (m(key x := None)))"
begin

text \<open>With distinct keys the loop inserts what the database does not have, updates what has another
  resource version, and leaves exactly the keys the bundle does not mention.\<close>

definition step :: "(string \<rightharpoonup> string) \<Rightarrow> base_builder \<Rightarrow> k8s_object \<Rightarrow> base_builder" where
  "step m bb x = (case m (key x) of None \<Rightarrow> ins bb x
     | Some v \<Rightarrow> if obj_ResourceVersion x = v then bb else upd bb x)"

lemma step_cong: "m (key x) = m' (key x) \<Longrightarrow> step m bb x = step m' bb x"
  by (simp add: step_def)

lemma foldl_step_cong: "(\<And>x. x \<in> set xs \<Longrightarrow> m (key x) = m' (key x)) \<Longrightarrow> foldl (step m) bb xs = foldl (step m') bb xs"
proof (induction xs arbitrary: bb)
  case (Cons x xs)
  then show ?case using step_cong [of m x m' bb] by simp
qed simp

lemma loop_diff:
  "distinct (map key xs) \<Longrightarrow>
    loop (map obj xs) bb m = (foldl (step m) bb xs, (\<lambda>k. if k \<in> key ` set xs then None else m k))"
proof (induction xs arbitrary: bb m)
  case (Cons x xs)
  then have IH: "loop (map obj xs) bb' m' = (foldl (step m') bb' xs, (\<lambda>k. if k \<in> key ` set xs then None else m' k))"
    for bb' m' by simp
  have same: "foldl (step (m(key x := None))) bb' xs = foldl (step m) bb' xs" for bb'
    using Cons.prems by (intro foldl_step_cong) (auto simp: image_iff)
  have left: "(\<lambda>k. if k \<in> key ` set xs then None else (m(key x := None)) k) = (\<lambda>k. if k \<in> key ` set (x # xs) then None else m k)"
    by auto
  show ?case
  proof (cases "m (key x)")
    case None
    then have "(\<lambda>k. if k \<in> key ` set xs then None else m k) = (\<lambda>k. if k \<in> key ` set (x # xs) then None else m k)"
      by auto
    moreover have "step m bb x = ins bb x" using None by (simp add: step_def)
    ultimately show ?thesis using None by (simp only: list.map loop_Cons option.case IH foldl_Cons)
  next
    case (Some v)
    then have "loop (map obj (x # xs)) bb m = (foldl (step m) (step m bb x) xs,
        (\<lambda>k. if k \<in> key ` set xs then None else (m(key x := None)) k))"
      by (simp only: list.map loop_Cons option.case IH same step_def)
    then show ?thesis unfolding left by simp
  qed
qed (simp add: loop_Nil)

end

interpretation resources: diff_loop resources_loop ResourceObject getGenericResourceUID
  "\<lambda>bb x. generic_Insert bb (getGenericResourceUID x) x" "\<lambda>bb x. generic_Update bb (getGenericResourceUID x) x"
  by unfold_locales (simp_all add: Let_def split: option.splits)

interpretation clusters: diff_loop clusters_loop ManagedClusterObject obj_Name
  "\<lambda>bb x. mc_Insert bb x ErrorNone" "\<lambda>bb x. mc_Update bb (obj_Name x) x"
  by unfold_locales (simp_all split: option.splits)

interpretation local_objects: diff_loop local_loop ResourceObject obj_UID local_Insert local_Update
  by unfold_locales (simp_all split: option.splits)

end
