(* ===== verification/Db_Syncers.thy ===== *)
theory Db_Syncers
  imports Consumers Policies_Db_Syncer Resource_Db_Syncers
begin

text \<open>
  \<open>syncer/syncers.go\<close>, \<open>syncer/config/config_controller.go\<close> and the registration halves of
  \<open>syncer/dbsyncer\<close>: which message keys the transport accepts under which configuration, and which
  handler, priority, sync mode and dependency the conflation manager has for each bundle type.
\<close>

section \<open>The configuration\<close>

definition config_Full :: string where "config_Full = ''full''"
definition config_Minimal :: string where "config_Minimal = ''minimal''"

record config_spec =
  cfg_AggregationLevel :: string
  cfg_HoHInSeconds :: "64 word"
  cfg_LeafHubInSeconds :: "64 word"
  cfg_EnableLocalPolicies :: bool

text \<open>What a call of the client's \<open>Get\<close> does to the configuration it is given: a new content, or one of
  the two kinds of error.\<close>

datatype get_result = GetFound config_spec | GetNotFound | GetFailed string

definition requeuePeriodSeconds :: nat where "requeuePeriodSeconds = 5"

record reconcile_result =
  rr_RequeueAfter :: "nat option"
  rr_error :: "string option"

definition config_Reconcile ::
    "(config_spec \<Rightarrow> get_result) \<Rightarrow> config_spec \<Rightarrow> reconcile_result \<times> config_spec" where
  "config_Reconcile client_Get config =
     (case client_Get config of
        GetNotFound \<Rightarrow> (\<lparr> rr_RequeueAfter = None, rr_error = None \<rparr>, config)
      | GetFailed err \<Rightarrow> (\<lparr> rr_RequeueAfter = Some requeuePeriodSeconds,
                            rr_error = Some (''reconciliation failed: '' @ err) \<rparr>, config)
      | GetFound config' \<Rightarrow> (\<lparr> rr_RequeueAfter = None, rr_error = None \<rparr>, config'))"

text \<open>The event filter of the controller.\<close>

definition HohSystemNamespace :: string where "HohSystemNamespace = ''hoh-system''"
definition configName :: string where "configName = ''hub-of-hubs-config''"

definition configPredicate :: "k8s_object \<Rightarrow> bool" where
  "configPredicate object \<longleftrightarrow> obj_Namespace object = HohSystemNamespace \<and> obj_Name object = configName"

definition default_config :: config_spec where
  "default_config = \<lparr> cfg_AggregationLevel = config_Full, cfg_HoHInSeconds = 0, cfg_LeafHubInSeconds = 0,
                      cfg_EnableLocalPolicies = False \<rparr>"

text \<open>\<open>AddConfigController\<close> reads the resource once at start-up and fails when it cannot, so a missing
  resource is an error here and none in \<open>Reconcile\<close>.\<close>

definition addConfigController :: "(config_spec \<Rightarrow> get_result) \<Rightarrow> string + config_spec" where
  "addConfigController reader_Get =
     (case reader_Get default_config of
        GetFound config \<Rightarrow> Inr config
      | GetNotFound \<Rightarrow> Inl ''failed to add config controller: failed to read config - not found''
      | GetFailed err \<Rightarrow> Inl (''failed to add config controller: failed to read config - '' @ err))"

section \<open>The message keys\<close>

definition ManagedClustersMsgKey :: string where "ManagedClustersMsgKey = ''ManagedClusters''"
definition ClustersPerPolicyMsgKey :: string where "ClustersPerPolicyMsgKey = ''ClustersPerPolicy''"
definition PolicyCompleteComplianceMsgKey :: string where
  "PolicyCompleteComplianceMsgKey = ''PolicyCompleteCompliance''"
definition PolicyDeltaComplianceMsgKey :: string where "PolicyDeltaComplianceMsgKey = ''PolicyDeltaCompliance''"
definition MinimalPolicyComplianceMsgKey :: string where
  "MinimalPolicyComplianceMsgKey = ''MinimalPolicyCompliance''"
definition LocalPolicySpecMsgKey :: string where "LocalPolicySpecMsgKey = ''LocalPolicySpec''"
definition LocalClustersPerPolicyMsgKey :: string where "LocalClustersPerPolicyMsgKey = ''LocalClustersPerPolicy''"
definition LocalPolicyCompleteComplianceMsgKey :: string where
  "LocalPolicyCompleteComplianceMsgKey = ''LocalPolicyCompleteCompliance''"
definition LocalPlacementRulesMsgKey :: string where "LocalPlacementRulesMsgKey = ''LocalPlacementRules''"
definition SubscriptionStatusMsgKey :: string where "SubscriptionStatusMsgKey = ''SubscriptionStatus''"
definition SubscriptionReportMsgKey :: string where "SubscriptionReportMsgKey = ''SubscriptionReport''"
definition PlacementRuleMsgKey :: string where "PlacementRuleMsgKey = ''PlacementRule''"
definition PlacementMsgKey :: string where "PlacementMsgKey = ''Placement''"
definition PlacementDecisionMsgKey :: string where "PlacementDecisionMsgKey = ''PlacementDecision''"
definition ControlInfoMsgKey :: string where "ControlInfoMsgKey = ''ControlInfo''"

lemmas msg_keys =
  ManagedClustersMsgKey_def ClustersPerPolicyMsgKey_def PolicyCompleteComplianceMsgKey_def
  PolicyDeltaComplianceMsgKey_def MinimalPolicyComplianceMsgKey_def LocalPolicySpecMsgKey_def
  LocalClustersPerPolicyMsgKey_def LocalPolicyCompleteComplianceMsgKey_def LocalPlacementRulesMsgKey_def
  SubscriptionStatusMsgKey_def SubscriptionReportMsgKey_def PlacementRuleMsgKey_def PlacementMsgKey_def
  PlacementDecisionMsgKey_def ControlInfoMsgKey_def

section \<open>The db syncers\<close>

record generic_db_syncer =
  gen_transportMsgKey :: string
  gen_dbSchema :: string
  gen_dbTableName :: string
  gen_createBundleFunc :: status_bundle
  gen_bundlePriority :: nat
  gen_bundleSyncMode :: bundle_sync_mode

definition NewPlacementRulesDBSyncer :: generic_db_syncer where
  "NewPlacementRulesDBSyncer =
     \<lparr> gen_transportMsgKey = PlacementRuleMsgKey, gen_dbSchema = StatusSchema,
       gen_dbTableName = PlacementRulesTableName, gen_createBundleFunc = NewPlacementRulesBundle,
       gen_bundlePriority = PlacementRulePriority, gen_bundleSyncMode = CompleteStateMode \<rparr>"

definition NewPlacementsDBSyncer :: generic_db_syncer where
  "NewPlacementsDBSyncer =
     \<lparr> gen_transportMsgKey = PlacementMsgKey, gen_dbSchema = StatusSchema,
       gen_dbTableName = PlacementsTableName, gen_createBundleFunc = NewPlacementsBundle,
       gen_bundlePriority = PlacementPriority, gen_bundleSyncMode = CompleteStateMode \<rparr>"

definition NewPlacementDecisionsDBSyncer :: generic_db_syncer where
  "NewPlacementDecisionsDBSyncer =
     \<lparr> gen_transportMsgKey = PlacementDecisionMsgKey, gen_dbSchema = StatusSchema,
       gen_dbTableName = PlacementDecisionsTableName, gen_createBundleFunc = NewPlacementDecisionsBundle,
       gen_bundlePriority = PlacementDecisionPriority, gen_bundleSyncMode = CompleteStateMode \<rparr>"

definition NewSubscriptionStatusesDBSyncer :: generic_db_syncer where
  "NewSubscriptionStatusesDBSyncer =
     \<lparr> gen_transportMsgKey = SubscriptionStatusMsgKey, gen_dbSchema = StatusSchema,
       gen_dbTableName = SubscriptionStatusesTableName, gen_createBundleFunc = NewSubscriptionStatusesBundle,
       gen_bundlePriority = SubscriptionStatusPriority, gen_bundleSyncMode = CompleteStateMode \<rparr>"

definition NewSubscriptionReportsDBSyncer :: generic_db_syncer where
  "NewSubscriptionReportsDBSyncer =
     \<lparr> gen_transportMsgKey = SubscriptionReportMsgKey, gen_dbSchema = StatusSchema,
       gen_dbTableName = SubscriptionReportsTableName, gen_createBundleFunc = NewSubscriptionReportsBundle,
       gen_bundlePriority = SubscriptionReportPriority, gen_bundleSyncMode = CompleteStateMode \<rparr>"

text \<open>The values of the Go interface \<open>DBSyncer\<close>.\<close>

datatype db_syncer =
    ManagedClustersDBSyncer | PoliciesDBSyncer | GenericDBSyncer generic_db_syncer
  | LocalSpecDBSyncer | ControlInfoDBSyncer

subsection \<open>Create-bundle functions\<close>

text \<open>The predicates close over the shared configuration and read it at the time of a message.\<close>

definition fullStatusPredicate :: "config_spec \<Rightarrow> bool" where
  "fullStatusPredicate config \<longleftrightarrow> cfg_AggregationLevel config = config_Full"

definition minimalStatusPredicate :: "config_spec \<Rightarrow> bool" where
  "minimalStatusPredicate config \<longleftrightarrow> cfg_AggregationLevel config = config_Minimal"

definition localPredicate :: "config_spec \<Rightarrow> bool" where
  "localPredicate config \<longleftrightarrow> fullStatusPredicate config \<and> cfg_EnableLocalPolicies config"

definition bundle_reg :: "string \<Rightarrow> status_bundle \<Rightarrow> (config_spec \<Rightarrow> bool) \<Rightarrow> config_spec bundle_registration" where
  "bundle_reg msgID createBundleFunc predicate =
     \<lparr> br_MsgID = msgID, br_CreateBundleFunc = createBundleFunc, br_Predicate = predicate \<rparr>"

definition policies_create_regs :: "config_spec bundle_registration list" where
  "policies_create_regs =
     [bundle_reg ClustersPerPolicyMsgKey NewClustersPerPolicyBundle fullStatusPredicate,
      bundle_reg PolicyCompleteComplianceMsgKey NewCompleteComplianceStatusBundle fullStatusPredicate,
      bundle_reg PolicyDeltaComplianceMsgKey NewDeltaComplianceStatusBundle fullStatusPredicate,
      bundle_reg MinimalPolicyComplianceMsgKey NewMinimalComplianceStatusBundle minimalStatusPredicate,
      bundle_reg LocalClustersPerPolicyMsgKey NewLocalClustersPerPolicyBundle localPredicate,
      bundle_reg LocalPolicyCompleteComplianceMsgKey NewLocalCompleteComplianceStatusBundle localPredicate]"

definition local_spec_create_regs :: "config_spec bundle_registration list" where
  "local_spec_create_regs =
     [bundle_reg LocalPolicySpecMsgKey NewLocalPolicySpecBundle cfg_EnableLocalPolicies,
      bundle_reg LocalPlacementRulesMsgKey NewLocalPlacementRulesBundle cfg_EnableLocalPolicies]"

definition managed_clusters_create_regs :: "config_spec bundle_registration list" where
  "managed_clusters_create_regs = [bundle_reg ManagedClustersMsgKey NewManagedClustersStatusBundle (\<lambda>_. True)]"

definition control_info_create_regs :: "config_spec bundle_registration list" where
  "control_info_create_regs = [bundle_reg ControlInfoMsgKey NewControlInfoBundle (\<lambda>_. True)]"

fun create_regs :: "db_syncer \<Rightarrow> config_spec bundle_registration list" where
  "create_regs ManagedClustersDBSyncer = managed_clusters_create_regs"
| "create_regs PoliciesDBSyncer = policies_create_regs"
| "create_regs (GenericDBSyncer g) = [bundle_reg (gen_transportMsgKey g) (gen_createBundleFunc g) (\<lambda>_. True)]"
| "create_regs LocalSpecDBSyncer = local_spec_create_regs"
| "create_regs ControlInfoDBSyncer = control_info_create_regs"

definition RegisterCreateBundleFunctions :: "db_syncer \<Rightarrow> config_spec consumer \<Rightarrow> config_spec consumer" where
  "RegisterCreateBundleFunctions dbsyncerObj c = foldl consumer_Register c (create_regs dbsyncerObj)"

subsection \<open>Handler functions\<close>

type_synonym 'db handler = "status_bundle \<Rightarrow> 'db \<Rightarrow> db_error option \<times> 'db"

definition policies_handler_regs ::
    "'db pg_lib \<Rightarrow> (string set \<Rightarrow> string list) \<Rightarrow> 'db handler conflation_registration list" where
  "policies_handler_regs lib enum =
     (let clustersPerPolicyBundleType = GetBundleType NewClustersPerPolicyBundle;
          completeComplianceStatusBundleType = GetBundleType NewCompleteComplianceStatusBundle;
          localClustersPerPolicyBundleType = GetBundleType NewLocalClustersPerPolicyBundle
      in [NewConflationRegistration ClustersPerPolicyPriority CompleteStateMode clustersPerPolicyBundleType
            (handleClustersPerPolicyBundle lib enum StatusSchema ComplianceTableName),
          WithDependency (NewConflationRegistration CompleteComplianceStatusPriority CompleteStateMode
            completeComplianceStatusBundleType (handleCompleteComplianceBundle lib enum StatusSchema ComplianceTableName))
            (NewDependency clustersPerPolicyBundleType ExactMatch),
          WithDependency (NewConflationRegistration DeltaComplianceStatusPriority DeltaStateMode
            (GetBundleType NewDeltaComplianceStatusBundle)
            (handleDeltaComplianceBundle lib enum StatusSchema ComplianceTableName))
            (NewDependency completeComplianceStatusBundleType ExactMatch),
          NewConflationRegistration MinimalComplianceStatusPriority CompleteStateMode
            (GetBundleType NewMinimalComplianceStatusBundle) (handleMinimalComplianceBundle lib enum),
          NewConflationRegistration LocalClustersPerPolicyPriority CompleteStateMode localClustersPerPolicyBundleType
            (handleClustersPerPolicyBundle lib enum LocalStatusSchema ComplianceTableName),
          WithDependency (NewConflationRegistration LocalCompleteComplianceStatusPriority CompleteStateMode
            (GetBundleType NewLocalCompleteComplianceStatusBundle)
            (handleCompleteComplianceBundle lib enum LocalStatusSchema ComplianceTableName))
            (NewDependency localClustersPerPolicyBundleType ExactMatch)])"

definition local_spec_handler_regs ::
    "'db pg_lib \<Rightarrow> (string set \<Rightarrow> string list) \<Rightarrow> 'db handler conflation_registration list" where
  "local_spec_handler_regs lib enum =
     [NewConflationRegistration LocalPolicySpecPriority CompleteStateMode (GetBundleType NewLocalPolicySpecBundle)
        (handleLocalObjectsBundle lib enum LocalSpecSchema LocalPolicySpecTableName),
      NewConflationRegistration LocalPlacementRulesSpecPriority CompleteStateMode
        (GetBundleType NewLocalPlacementRulesBundle)
        (handleLocalObjectsBundle lib enum LocalSpecSchema PlacementRulesTableName)]"

definition managed_clusters_handler_regs ::
    "'db pg_lib \<Rightarrow> (string set \<Rightarrow> string list) \<Rightarrow> 'db handler conflation_registration list" where
  "managed_clusters_handler_regs lib enum =
     [NewConflationRegistration ManagedClustersPriority CompleteStateMode (GetBundleType NewManagedClustersStatusBundle)
        (handleManagedClustersBundle lib enum)]"

definition control_info_handler_regs :: "'db pg_lib \<Rightarrow> 'db handler conflation_registration list" where
  "control_info_handler_regs lib =
     [NewConflationRegistration ControlInfoPriority CompleteStateMode (GetBundleType NewControlInfoBundle)
        (handleControlInfoBundle lib)]"

fun handler_regs ::
    "'db pg_lib \<Rightarrow> (string set \<Rightarrow> string list) \<Rightarrow> db_syncer \<Rightarrow> 'db handler conflation_registration list" where
  "handler_regs lib enum ManagedClustersDBSyncer = managed_clusters_handler_regs lib enum"
| "handler_regs lib enum PoliciesDBSyncer = policies_handler_regs lib enum"
| "handler_regs lib enum (GenericDBSyncer g) =
     [NewConflationRegistration (gen_bundlePriority g) (gen_bundleSyncMode g) (GetBundleType (gen_createBundleFunc g))
        (handleResourcesBundle lib enum (gen_dbSchema g) (gen_dbTableName g))]"
| "handler_regs lib enum LocalSpecDBSyncer = local_spec_handler_regs lib enum"
| "handler_regs lib enum ControlInfoDBSyncer = control_info_handler_regs lib"

definition RegisterBundleHandlerFunctions ::
    "'db pg_lib \<Rightarrow> (string set \<Rightarrow> string list) \<Rightarrow> db_syncer \<Rightarrow> 'db handler conflation_manager \<Rightarrow>
     'db handler conflation_manager" where
  "RegisterBundleHandlerFunctions lib enum dbsyncerObj cm = foldl Register cm (handler_regs lib enum dbsyncerObj)"

subsection \<open>The set-up\<close>

definition dbSyncers :: "db_syncer list" where
  "dbSyncers =
     [ManagedClustersDBSyncer, PoliciesDBSyncer, GenericDBSyncer NewPlacementRulesDBSyncer,
      GenericDBSyncer NewPlacementsDBSyncer, GenericDBSyncer NewPlacementDecisionsDBSyncer,
      GenericDBSyncer NewSubscriptionStatusesDBSyncer, GenericDBSyncer NewSubscriptionReportsDBSyncer,
      LocalSpecDBSyncer, ControlInfoDBSyncer]"

fun register_syncers ::
    "'db pg_lib \<Rightarrow> (string set \<Rightarrow> string list) \<Rightarrow> db_syncer list \<Rightarrow>
     config_spec consumer \<Rightarrow> 'db handler conflation_manager \<Rightarrow> config_spec consumer \<times> 'db handler conflation_manager" where
  "register_syncers lib enum [] c cm = (c, cm)"
| "register_syncers lib enum (dbsyncerObj # rest) c cm =
     register_syncers lib enum rest (RegisterCreateBundleFunctions dbsyncerObj c)
       (RegisterBundleHandlerFunctions lib enum dbsyncerObj cm)"

text \<open>\<open>AddTransport2DBSyncers\<close>, past the controllers and runnables it adds to the manager.\<close>

definition AddTransport2DBSyncers ::
    "'db pg_lib \<Rightarrow> (string set \<Rightarrow> string list) \<Rightarrow> (config_spec \<Rightarrow> get_result) \<Rightarrow> config_spec consumer \<Rightarrow>
     'db handler conflation_manager \<Rightarrow>
     string + (config_spec \<times> config_spec consumer \<times> 'db handler conflation_manager)" where
  "AddTransport2DBSyncers lib enum reader_Get c cm =
     (case addConfigController reader_Get of
        Inl err \<Rightarrow> Inl (''failed to add config controller to manager - '' @ err)
      | Inr config \<Rightarrow> Inr (config, register_syncers lib enum dbSyncers c cm))"

section \<open>What the set-up registers\<close>

definition all_handler_regs ::
    "'db pg_lib \<Rightarrow> (string set \<Rightarrow> string list) \<Rightarrow> 'db handler conflation_registration list" where
  "all_handler_regs lib enum = concat (map (handler_regs lib enum) dbSyncers)"

definition all_create_regs :: "config_spec bundle_registration list" where
  "all_create_regs = concat (map create_regs dbSyncers)"

lemma register_syncers_spec:
  "register_syncers lib enum ss c cm =
     (foldl consumer_Register c (concat (map create_regs ss)),
      foldl Register cm (concat (map (handler_regs lib enum) ss)))"
  by (induction ss arbitrary: c cm)
    (simp_all add: RegisterCreateBundleFunctions_def RegisterBundleHandlerFunctions_def)

lemmas priorities =
  ManagedClustersPriority_def ClustersPerPolicyPriority_def CompleteComplianceStatusPriority_def
  DeltaComplianceStatusPriority_def MinimalComplianceStatusPriority_def PlacementRulePriority_def
  PlacementPriority_def PlacementDecisionPriority_def SubscriptionStatusPriority_def
  SubscriptionReportPriority_def ControlInfoPriority_def LocalPolicySpecPriority_def
  LocalClustersPerPolicyPriority_def LocalCompleteComplianceStatusPriority_def
  LocalPlacementRulesSpecPriority_def

lemmas new_bundles =
  NewManagedClustersStatusBundle_def NewClustersPerPolicyBundle_def NewCompleteComplianceStatusBundle_def
  NewDeltaComplianceStatusBundle_def NewMinimalComplianceStatusBundle_def NewPlacementRulesBundle_def
  NewPlacementsBundle_def NewPlacementDecisionsBundle_def NewSubscriptionStatusesBundle_def
  NewSubscriptionReportsBundle_def NewControlInfoBundle_def NewLocalPolicySpecBundle_def
  NewLocalClustersPerPolicyBundle_def NewLocalCompleteComplianceStatusBundle_def NewLocalPlacementRulesBundle_def

lemmas generic_syncers =
  NewPlacementRulesDBSyncer_def NewPlacementsDBSyncer_def NewPlacementDecisionsDBSyncer_def
  NewSubscriptionStatusesDBSyncer_def NewSubscriptionReportsDBSyncer_def

lemmas setup_simps = managed_clusters_handler_regs_def control_info_handler_regs_def all_handler_regs_def
  dbSyncers_def policies_handler_regs_def
  local_spec_handler_regs_def generic_syncers NewConflationRegistration_def WithDependency_def NewDependency_def
  Let_def

lemma handler_priorities:
  "map reg_priority (all_handler_regs lib enum) = [0, 1, 2, 3, 4, 12, 13, 5, 6, 7, 8, 9, 11, 14, 10]"
  by (simp add: setup_simps priorities)

lemma handler_types:
  "map reg_bundleType (all_handler_regs lib enum) = map bundle_struct
     [NewManagedClustersStatusBundle, NewClustersPerPolicyBundle, NewCompleteComplianceStatusBundle,
      NewDeltaComplianceStatusBundle, NewMinimalComplianceStatusBundle, NewLocalClustersPerPolicyBundle,
      NewLocalCompleteComplianceStatusBundle, NewPlacementRulesBundle, NewPlacementsBundle,
      NewPlacementDecisionsBundle, NewSubscriptionStatusesBundle, NewSubscriptionReportsBundle,
      NewLocalPolicySpecBundle, NewLocalPlacementRulesBundle, NewControlInfoBundle]"
  by (simp add: setup_simps)

lemma length_handler_regs: "length (all_handler_regs lib enum) = 15"
  using arg_cong [OF handler_priorities [of lib enum], of length] by simp

lemma handler_priorities_set: "set (map reg_priority (all_handler_regs lib enum)) = {0..<15}"
proof -
  have "{0..<15} = set [0..<15::nat]" by simp
  also have "\<dots> = set [0, 1, 2, 3, 4, 12, 13, 5, 6, 7, 8, 9, 11, 14, 10]"
    by (simp add: upt_rec numeral_eq_Suc insert_commute)
  finally show ?thesis by (simp only: handler_priorities)
qed

lemma valid_handler_regs: "valid_registrations (all_handler_regs lib enum)"
  unfolding valid_registrations_def
proof (intro conjI)
  show "set (map reg_priority (all_handler_regs lib enum)) = {0..<length (all_handler_regs lib enum)}"
    by (simp only: handler_priorities_set length_handler_regs)
  show "distinct (map reg_bundleType (all_handler_regs lib enum))"
    by (simp add: handler_types new_bundles)
  show "\<forall>r \<in> set (all_handler_regs lib enum).
      (reg_syncMode r = DeltaStateMode \<longrightarrow> reg_bundleType r = bundle_struct NewDeltaComplianceStatusBundle) \<and>
      (\<forall>d. reg_dependency r = Some d \<longrightarrow> (\<exists>q \<in> set (all_handler_regs lib enum).
         reg_bundleType q = dep_BundleType d \<and> reg_priority q < reg_priority r))"
    by (simp add: setup_simps priorities new_bundles)
qed

lemma set_registered_types:
  assumes "valid_registrations rs" shows "set (registered_types rs) = reg_bundleType ` set rs"
proof -
  have "reg_bundleType r \<in> set (registered_types rs)" if "r \<in> set rs" for r
    using reg_at_in [OF assms that] by (force simp: registered_types_def)
  moreover have "reg_bundleType (reg_at rs i) \<in> reg_bundleType ` set rs" if "i < length rs" for i
    using reg_at_ex [OF assms that] by blast
  ultimately show ?thesis by (auto simp: registered_types_def)
qed

lemma foldl_consumer_Register:
  "cs_msgIDToRegistrationMap (foldl consumer_Register c rs) =
     cs_msgIDToRegistrationMap c ++ map_of (rev (map (\<lambda>r. (br_MsgID r, r)) rs))"
  by (induction rs arbitrary: c) (simp_all add: consumer_Register_def fun_eq_iff map_add_def split: option.splits)

lemmas create_simps = managed_clusters_create_regs_def control_info_create_regs_def all_create_regs_def
  dbSyncers_def policies_create_regs_def local_spec_create_regs_def
  generic_syncers bundle_reg_def

lemma create_types:
  "map (\<lambda>r. bundle_struct (br_CreateBundleFunc r)) all_create_regs = map reg_bundleType (all_handler_regs lib enum)"
  by (simp add: handler_types create_simps)

lemma set_types_of_all_handlers:
  "set (registered_types (all_handler_regs lib enum)) = (\<lambda>r. bundle_struct (br_CreateBundleFunc r)) ` set all_create_regs"
  using arg_cong [OF create_types [of lib enum], of set]
  by (simp add: set_registered_types valid_handler_regs)

lemma create_keys_distinct: "distinct (map br_MsgID all_create_regs)"
  by (simp add: create_simps msg_keys)

lemma consumer_registrations:
  assumes "cs_msgIDToRegistrationMap (foldl consumer_Register NewConsumer all_create_regs) m = Some r"
  shows "r \<in> set all_create_regs \<and> br_MsgID r = m"
proof -
  from assms have "map_of (rev (map (\<lambda>r. (br_MsgID r, r)) all_create_regs)) m = Some r"
    by (simp add: foldl_consumer_Register NewConsumer_def)
  then show ?thesis by (auto dest!: map_of_SomeD)
qed

lemma consumer_lookup:
  assumes "r \<in> set all_create_regs"
  shows "cs_msgIDToRegistrationMap (foldl consumer_Register NewConsumer all_create_regs) (br_MsgID r) = Some r"
proof -
  have "distinct (map fst (rev (map (\<lambda>r. (br_MsgID r, r)) all_create_regs)))"
    using create_keys_distinct by (simp add: rev_map [symmetric] comp_def)
  with assms show ?thesis
    by (auto simp: foldl_consumer_Register NewConsumer_def intro!: map_of_is_SomeI)
qed

text \<open>The transport starts before the syncers register with it: a unit created between the
  registrations of the policies syncer and those of the later ones indexes its priority queue out
  of range.\<close>

lemma unit_of_partial_setup:
  "newConflationUnit name (concat (map (handler_regs lib enum) (take 2 dbSyncers))) req = None"
  by (simp add: newConflationUnit_def setup_simps priorities set_cell_def numeral_eq_Suc)

end
