(* ===== verification/Sample_Order.thy ===== *)
theory Sample_Order
  imports Hoh_Prelude "HOL-Library.List_Lexorder" "HOL-Library.Char_ord"
begin

text \<open>One iteration order for sets of strings, the sorted one, for the witnesses.\<close>

definition sample_enum :: "string set \<Rightarrow> string list" where
  "sample_enum = sorted_list_of_set"

lemma sample_enum_enumerates: "enumerates sample_enum"
  by (simp add: enumerates_def sample_enum_def)

end
