(* ===== verification/Sample_Run.thy ===== *)
theory Sample_Run
  imports Db_Syncers Sample_Order
begin

text \<open>
  A small deployment on which the theorems are exercised: the first four registrations of the
  status path with numbers for handlers, one or two workers, and runs of the scheduler.
\<close>

definition sample_regs :: "nat conflation_registration list" where
  "sample_regs =
     [NewConflationRegistration 0 CompleteStateMode ''ManagedClustersStatusBundle'' 0,
      NewConflationRegistration 1 CompleteStateMode ''ClustersPerPolicyBundle'' 1,
      WithDependency (NewConflationRegistration 2 CompleteStateMode ''CompleteComplianceStatusBundle'' 2)
        (NewDependency ''ClustersPerPolicyBundle'' ExactMatch),
      WithDependency (NewConflationRegistration 3 DeltaStateMode ''DeltaComplianceStatusBundle'' 3)
        (NewDependency ''CompleteComplianceStatusBundle'' ExactMatch)]"

definition sample_clusters :: "string \<Rightarrow> 64 word \<Rightarrow> status_bundle" where
  "sample_clusters hub g = ManagedClustersStatusBundle
     \<lparr> bb_LeafHubName = hub, bb_BundleVersion = NewBundleVersion 0 g \<rparr> []"

definition sample_policies :: "string \<Rightarrow> 64 word \<Rightarrow> status_bundle" where
  "sample_policies hub g = ClustersPerPolicyBundle
     \<lparr> bb_LeafHubName = hub, bb_BundleVersion = NewBundleVersion 0 g \<rparr> []"

definition sample_compliance :: "string \<Rightarrow> 64 word \<Rightarrow> 64 word \<Rightarrow> status_bundle" where
  "sample_compliance hub base g = CompleteComplianceStatusBundle
     \<lparr> bb_LeafHubName = hub, bb_BundleVersion = NewBundleVersion 0 g,
       bb_BaseBundleVersion = NewBundleVersion 0 base \<rparr> []"

definition sample_delta :: "string \<Rightarrow> 64 word \<Rightarrow> 64 word \<Rightarrow> status_bundle" where
  "sample_delta hub base g = DeltaComplianceStatusBundle
     \<lparr> db_Objects = [], db_LeafHubName = hub, db_BaseBundleVersion = NewBundleVersion 0 base,
       db_BundleVersion = NewBundleVersion 0 g \<rparr>"

definition sample_init :: "bool \<Rightarrow> nat pipeline" where
  "sample_init req = init_pipeline req sample_regs 2"

definition sample_after :: "bool \<Rightarrow> event list \<Rightarrow> nat pipeline" where
  "sample_after req es = the (exec_events sample_enum es (sample_init req))"

lemma sample_regs_valid: "valid_registrations sample_regs"
proof -
  have "{0..<Suc (Suc (Suc (Suc 0)))} = {0, Suc 0, 2, 3}" by auto
  then show ?thesis
    by (simp add: valid_registrations_def sample_regs_def NewConflationRegistration_def WithDependency_def
        NewDependency_def NewDeltaComplianceStatusBundle_def)
qed

lemma sample_reachable:
  assumes "exec_events sample_enum es (sample_init req) \<noteq> None"
  shows "reachable sample_enum (init_pipeline req sample_regs 2) (sample_after req es)"
  using assms exec_events_reachable [OF _ reach_init, of sample_enum es "sample_init req"]
  by (auto simp: sample_after_def sample_init_def)

text \<open>Two hubs, a job each.\<close>

definition two_hubs :: "event list" where
  "two_hubs = [Return 0, Return 1, Consume 1 (sample_clusters ''hub1'' 1) (kafka_newBundleMetadata 0 7),
     Consume 2 (sample_clusters ''hub2'' 1) (kafka_newBundleMetadata 0 8),
     Dequeue, AcquireWorker, Next 3, Dequeue, AcquireWorker, Next 4]"

text \<open>A job of one hub runs, and a second bundle of the hub arrives.\<close>

definition busy_hub :: "event list" where
  "busy_hub = [Return 0, Return 1, Consume 1 (sample_policies ''hub1'' 1) (kafka_newBundleMetadata 0 7),
     Dequeue, AcquireWorker, Next 3, Consume 4 (sample_compliance ''hub1'' 1 1) (kafka_newBundleMetadata 0 8)]"

text \<open>The dispatcher has a unit and a worker.\<close>

definition about_to_dispatch :: "event list" where
  "about_to_dispatch = busy_hub @ [Finish 0 5 False, Dequeue, AcquireWorker]"

fun worker_job :: "'h pipeline \<Rightarrow> nat \<Rightarrow> 'h db_job option" where
  "worker_job s w = (if w < length (pl_workers s)
     then (case pl_workers s ! w of Running job \<Rightarrow> Some job | _ \<Rightarrow> None) else None)"

lemma running_worker_job: "running s w job \<longleftrightarrow> worker_job s w = Some job"
  by (auto simp: running_def split: worker_state.splits)

lemma two_hubs_runs: "exec_events sample_enum two_hubs (sample_init False) \<noteq> None"
  by code_simp

lemma busy_hub_runs: "exec_events sample_enum busy_hub (sample_init False) \<noteq> None"
  by code_simp

lemma about_to_dispatch_runs: "exec_events sample_enum about_to_dispatch (sample_init False) \<noteq> None"
  by code_simp

text \<open>A dependant bundle whose dependency has not been processed.\<close>

definition idle_dependant :: "event list" where
  "idle_dependant = [Return 0, Consume 1 (sample_compliance ''hub1'' 1 1) (kafka_newBundleMetadata 0 7)]"

lemma idle_dependant_runs: "exec_events sample_enum idle_dependant (sample_init True) \<noteq> None"
  by code_simp

text \<open>A ready bundle is replaced by one that is not ready while its unit waits in the ready queue.\<close>

definition overtaken :: "event list" where
  "overtaken = [Return 0, Return 1, Consume 1 (sample_policies ''hub1'' 1) (kafka_newBundleMetadata 0 7),
     Dequeue, AcquireWorker, Next 2, Finish 0 3 False, Return 0,
     Consume 4 (sample_compliance ''hub1'' 1 1) (kafka_newBundleMetadata 0 8),
     Consume 5 (sample_compliance ''hub1'' 2 2) (kafka_newBundleMetadata 0 9),
     Dequeue, AcquireWorker, Next 6, Consume 7 (sample_policies ''hub1'' 2) (kafka_newBundleMetadata 0 10)]"

lemma overtaken_runs: "exec_events sample_enum overtaken (sample_init True) \<noteq> None"
  by code_simp

lemma sample_continues:
  assumes "exec_events sample_enum (es @ fs) (sample_init req) \<noteq> None"
  shows "reachable sample_enum (sample_after req es) (sample_after req (es @ fs))"
proof -
  from assms obtain s where s: "exec_events sample_enum es (sample_init req) = Some s"
    "exec_events sample_enum fs s = Some (sample_after req (es @ fs))"
    by (auto simp: exec_events_append sample_after_def split: option.split_asm)
  from exec_events_reachable [OF s(2) reach_init] s(1) show ?thesis by (simp add: sample_after_def)
qed

end
