(* ===== verification/Pipeline_Properties.thy ===== *)
theory Pipeline_Properties
  imports Sample_Run
begin

text \<open>
  The properties of the status path as a whole: every interleaving of consumer, dispatcher and
  workers that \<open>Status_Pipeline\<close> allows, from the initial state on.
\<close>

text \<open>C1: in every reachable state at most one db worker has a job of a given leaf hub, so the bundles
  of a hub are handled one at a time although the workers run concurrently.\<close>

theorem one_job_per_hub:
  assumes "valid_registrations rs" and "reachable enum (init_pipeline req rs n) s"
    and "running s w job" and "running s w' job'"
    and "job_conflationUnit job = job_conflationUnit job'"
  shows "w = w'"
proof -
  from reachable_from_init [OF assms(2,1)] obtain jobs where "jobs_inv s jobs"
    by (auto simp: pipeline_inv_def)
  with assms(3-5) show ?thesis by (blast dest: jobs_invD(4))
qed

theorem one_job_per_hub_witness:
  "\<exists>job job'. reachable sample_enum (init_pipeline False sample_regs 2) (sample_after False two_hubs) \<and>
     running (sample_after False two_hubs) 0 job \<and> running (sample_after False two_hubs) 1 job' \<and>
     job_conflationUnit job \<noteq> job_conflationUnit job'"
proof -
  have "worker_job (sample_after False two_hubs) 0 \<noteq> None" "worker_job (sample_after False two_hubs) 1 \<noteq> None"
    by code_simp+
  then obtain job job' where j: "running (sample_after False two_hubs) 0 job" "running (sample_after False two_hubs) 1 job'"
    unfolding running_worker_job by blast
  note r = sample_reachable [OF two_hubs_runs]
  from one_job_per_hub [OF sample_regs_valid r j] have "job_conflationUnit job \<noteq> job_conflationUnit job'" by auto
  with r j show ?thesis by blast
qed

text \<open>C2: no step of the pipeline panics in a reachable state: inserting any bundle of a registered type
  with its versions set, dispatching, and reporting the result of a job, failed or not, all return.\<close>

theorem no_panic:
  assumes "valid_registrations rs" and "reachable enum (init_pipeline req rs n) s"
  shows "(deliverable (pl_manager s) b \<longrightarrow> consume enum now s b tm \<noteq> None) \<and>
    (pl_dispatcher s = HasWorker hub v \<longrightarrow> dispatch_next now s hub v \<noteq> None) \<and>
    (running s w job \<longrightarrow> worker_finish enum duration failed s w job \<noteq> None)"
proof -
  note inv = reachable_from_init [OF assms(2,1)]
  from consume_ok [OF inv] dispatch_next_ok [OF inv] worker_finish_ok [OF inv] show ?thesis
    by (metis option.distinct(1))
qed

theorem no_panic_witness:
  "(\<exists>s'. dispatch_next 9 (sample_after False about_to_dispatch) ''hub1'' 1 = Some s') \<and>
   (\<exists>s'. consume sample_enum 9 (sample_after False about_to_dispatch) (sample_delta ''hub1'' 1 1)
      (kafka_newBundleMetadata 0 9) = Some s')"
proof -
  have "pl_dispatcher (sample_after False about_to_dispatch) = HasWorker ''hub1'' 1" by code_simp
  moreover have "deliverable (pl_manager (sample_after False about_to_dispatch)) (sample_delta ''hub1'' 1 1)" by code_simp
  ultimately show ?thesis
    using no_panic [OF sample_regs_valid sample_reachable [OF about_to_dispatch_runs]] by blast
qed

text \<open>C3: no wake-up is lost: a unit that is not marked as queued and has no running job holds no bundle
  that could be processed.\<close>

theorem no_lost_wakeup:
  assumes "valid_registrations rs" and "reachable enum (init_pipeline req rs n) s"
    and "cm_conflationUnits (pl_manager s) hub = Some cu" and "\<not> cu_isInReadyQueue cu"
    and "\<forall>w job. running s w job \<longrightarrow> job_conflationUnit job \<noteq> hub"
    and "i < length (cu_priorityQueue cu)" and "get_element cu i = Some e"
  shows "element_ready cu e = Some False"
proof -
  from reachable_from_init [OF assms(2,1)] obtain jobs where
    cm: "cm_inv (pl_manager s) (pl_shared s) jobs" and jobs: "jobs_inv s jobs" by (auto simp: pipeline_inv_def)
  have "jobs hub = None" using jobs_invD(3) [OF jobs, of hub] assms(5) by (cases "jobs hub") blast+
  with cm_invD(2) [OF cm assms(3)] have inv: "cu_inv (cm_types (pl_manager s)) cu (pl_shared s) None" by simp
  then have ok: "unit_ok (cm_types (pl_manager s)) cu (sh_tmetas (pl_shared s)) None"
    and none: "getNextReadyBundlePriority cu = Some None" using assms(4) by (auto simp: cu_inv_def)
  have i: "i < length (cm_types (pl_manager s))" and "e = el cu i"
    using unit_okD(1) [OF ok] assms(6,7) get_element_el [OF unit_okD(1) [OF ok]] by (auto simp: cu_shape_def)
  with ok none show ?thesis by (cases rule: getNextReady_spec) auto
qed

theorem no_lost_wakeup_witness:
  "\<exists>cu e. cm_conflationUnits (pl_manager (sample_after True idle_dependant)) ''hub1'' = Some cu \<and>
     get_element cu 2 = Some e \<and> bi_getBundle (ce_bundleInfo e) = Some (sample_compliance ''hub1'' 1 1) \<and>
     element_ready cu e = Some False"
proof -
  let ?s = "sample_after True idle_dependant"
  have "(case cm_conflationUnits (pl_manager ?s) ''hub1'' of None \<Rightarrow> False
     | Some cu \<Rightarrow> \<not> cu_isInReadyQueue cu \<and> 2 < length (cu_priorityQueue cu) \<and> (case get_element cu 2 of None \<Rightarrow> False
         | Some e \<Rightarrow> bi_getBundle (ce_bundleInfo e) = Some (sample_compliance ''hub1'' 1 1)))" by code_simp
  then obtain cu e where cu: "cm_conflationUnits (pl_manager ?s) ''hub1'' = Some cu" "\<not> cu_isInReadyQueue cu"
    "2 < length (cu_priorityQueue cu)" "get_element cu 2 = Some e"
    "bi_getBundle (ce_bundleInfo e) = Some (sample_compliance ''hub1'' 1 1)" by (auto split: option.splits)
  have idle: "length (pl_workers ?s) = 2" "worker_job ?s 0 = None" "worker_job ?s 1 = None" by code_simp+
  have "\<not> running ?s w job" for w job
    using idle by (cases "w = 0"; cases "w = 1") (auto simp: running_worker_job)
  then have "element_ready cu e = Some False"
    by (intro no_lost_wakeup [OF sample_regs_valid sample_reachable [OF idle_dependant_runs] cu(1,2) _ cu(3,4)]) auto
  with cu show ?thesis by blast
qed

text \<open>C4: the job a worker gets is a bundle of the unit the dispatcher dequeued, with the handler
  registered for it; neither its element nor any element it transitively depends on is in process,
  its dependency check holds, and no element of higher priority is ready.\<close>

theorem dispatched_bundle_is_due:
  assumes "valid_registrations rs" and "reachable enum (init_pipeline req rs n) s"
    and "pl_dispatcher s = HasWorker hub w" and "dispatch_next now s hub w = Some s'" and "running s' w job"
  shows "\<exists>cu p e. cm_conflationUnits (pl_manager s) hub = Some cu \<and> get_element cu p = Some e \<and>
     bi_getBundle (ce_bundleInfo e) = Some (job_bundle job) \<and>
     job_conflationUnit job = hub \<and> job_handlerFunc job = ce_handlerFunction e \<and>
     (\<forall>e'. dependency_chain cu e e' \<longrightarrow> \<not> ce_isInProcess e') \<and> checkDependency cu e = Some True \<and>
     (\<forall>i e'. i < p \<longrightarrow> get_element cu i = Some e' \<longrightarrow> element_ready cu e' = Some False)"
proof -
  note inv = reachable_from_init [OF assms(2,1)]
  obtain cu p where cu: "cm_conflationUnits (pl_manager s) hub = Some cu" "getNextReadyBundlePriority cu = Some (Some p)"
    "bi_getBundle (ce_bundleInfo (el cu p)) = Some (job_bundle job)" "job_conflationUnit job = hub"
    "job_handlerFunc job = ce_handlerFunction (el cu p)"
    and ok: "unit_ok (cm_types (pl_manager s)) cu (sh_tmetas (pl_shared s)) None"
    by (rule dispatch_next_job [OF inv assms(3-5)])
  have get: "get_element cu i = Some (el cu i)" if "i < length (cm_types (pl_manager s))" for i
    by (rule get_element_el [OF unit_okD(1) [OF ok] that])
  from ok show ?thesis
  proof (cases rule: getNextReady_spec)
    case none
    with cu(2) show ?thesis by simp
  next
    case (ready q)
    with cu(2) have q: "q = p" by simp
    from element_ready_idle [OF ready(3)] have "checkDependency cu (el cu p) = Some True"
      "\<forall>e'. dependency_chain cu (el cu p) e' \<longrightarrow> \<not> ce_isInProcess e'"
      using isCurrentOrAny_chain q by blast+
    moreover have "\<forall>i e'. i < p \<longrightarrow> get_element cu i = Some e' \<longrightarrow> element_ready cu e' = Some False"
      using ready(2,4) get q by (metis less_trans option.inject)
    ultimately show ?thesis using cu get [OF ready(2)] q by blast
  qed
qed

theorem dispatched_bundle_is_due_witness:
  "\<exists>s' job cu e. dispatch_next 9 (sample_after False about_to_dispatch) ''hub1'' 1 = Some s' \<and> running s' 1 job \<and>
     cm_conflationUnits (pl_manager (sample_after False about_to_dispatch)) ''hub1'' = Some cu \<and>
     job_bundle job = sample_compliance ''hub1'' 1 1 \<and> checkDependency cu e = Some True"
proof -
  let ?s = "sample_after False about_to_dispatch"
  have d: "pl_dispatcher ?s = HasWorker ''hub1'' 1" by code_simp
  have "(case dispatch_next 9 ?s ''hub1'' 1 of None \<Rightarrow> False | Some s' \<Rightarrow>
     (case worker_job s' 1 of None \<Rightarrow> False | Some job \<Rightarrow> job_bundle job = sample_compliance ''hub1'' 1 1))" by code_simp
  then obtain s' job where j: "dispatch_next 9 ?s ''hub1'' 1 = Some s'" "running s' 1 job"
    "job_bundle job = sample_compliance ''hub1'' 1 1"
    unfolding running_worker_job by (auto split: option.split_asm)
  from dispatched_bundle_is_due [OF sample_regs_valid sample_reachable [OF about_to_dispatch_runs] d j(1,2)] j
  show ?thesis by blast
qed

text \<open>C5: along every run the last processed version of each element of each unit only grows.\<close>

theorem processed_versions_grow:
  assumes "valid_registrations rs" and "reachable enum (init_pipeline req rs n) s" and "reachable enum s s'"
    and "cm_conflationUnits (pl_manager s) hub = Some cu" and "get_element cu i = Some e"
  shows "\<exists>cu' e' v v'. cm_conflationUnits (pl_manager s') hub = Some cu' \<and> get_element cu' i = Some e' \<and>
     ce_lastProcessedBundleVersion e = Some v \<and> ce_lastProcessedBundleVersion e' = Some v' \<and> v \<le> v'"
  using reachable_processed [OF assms(3) reachable_from_init [OF assms(2,1)] assms(4)] assms(5)
  unfolding processed_le_def by blast

theorem processed_versions_grow_witness:
  "\<exists>cu e v cu' e' v'. cm_conflationUnits (pl_manager (sample_after False busy_hub)) ''hub1'' = Some cu \<and>
     get_element cu 1 = Some e \<and> ce_lastProcessedBundleVersion e = Some v \<and>
     cm_conflationUnits (pl_manager (sample_after False (busy_hub @ [Finish 0 5 False]))) ''hub1'' = Some cu' \<and>
     get_element cu' 1 = Some e' \<and> ce_lastProcessedBundleVersion e' = Some v' \<and> v \<le> v'"
proof -
  let ?s = "sample_after False busy_hub"
  have "(case cm_conflationUnits (pl_manager ?s) ''hub1'' of None \<Rightarrow> False | Some cu \<Rightarrow> get_element cu 1 \<noteq> None)"
    by code_simp
  then obtain cu e where cu: "cm_conflationUnits (pl_manager ?s) ''hub1'' = Some cu" "get_element cu 1 = Some e"
    by (auto split: option.split_asm)
  have "exec_events sample_enum (busy_hub @ [Finish 0 5 False]) (sample_init False) \<noteq> None" by code_simp
  from processed_versions_grow [OF sample_regs_valid sample_reachable [OF busy_hub_runs] sample_continues [OF this] cu] cu
  show ?thesis by blast
qed



end
