(* ===== verification/Committers.thy ===== *)
theory Committers
  imports Conflation_Manager
begin

text \<open>
  \<open>transport/kafka/committer.go\<close> and \<open>transport/syncservice/committer.go\<close>: one tick of the periodic
  commit of each transport. The metadata comes from the conflation manager; the broker client is
  outside the repository, so it is an argument: a function from its state and a request to whether
  the request failed and its next state. The visiting order of a Go map is an argument too.
\<close>

section \<open>Kafka\<close>

record kafka_committer =
  kc_topic :: string
  kc_commitsMap :: "int \<rightharpoonup> int"

definition kafka_newCommitter :: "string \<Rightarrow> kafka_committer" where
  "kafka_newCommitter topic = \<lparr> kc_topic = topic, kc_commitsMap = Map.empty \<rparr>"

text \<open>One iteration of the loop over the metadata; metadata of the other transport is skipped.\<close>

fun filter_metadata ::
    "(int \<rightharpoonup> int) \<times> (int \<rightharpoonup> int) \<Rightarrow> transport_metadata \<Rightarrow> (int \<rightharpoonup> int) \<times> (int \<rightharpoonup> int)" where
  "filter_metadata (pending, processed) (SyncServiceMetadata p om) = (pending, processed)"
| "filter_metadata (pending, processed) (KafkaMetadata False part offset) =
     (if (case pending part of None \<Rightarrow> False | Some lowestOffset \<Rightarrow> lowestOffset \<le> offset)
      then (pending, processed) else (pending(part \<mapsto> offset), processed))"
| "filter_metadata (pending, processed) (KafkaMetadata True part offset) =
     (if (case processed part of None \<Rightarrow> False | Some highestOffset \<Rightarrow> offset \<le> highestOffset)
      then (pending, processed) else (pending, processed(part \<mapsto> offset)))"

definition filterMetadataPerPartition :: "transport_metadata list \<Rightarrow> (int \<rightharpoonup> int) \<times> (int \<rightharpoonup> int)" where
  "filterMetadataPerPartition metadataArray =
     (let (pending, processed) = foldl filter_metadata (Map.empty, Map.empty) metadataArray
      in (pending, (\<lambda>part. map_option (\<lambda>offset. wrap64 (offset + 1)) (processed part))))"

text \<open>\<open>commitOffsets\<close>: the loop stops at the first failed request.\<close>

fun commitOffsets ::
    "(string \<Rightarrow> 'b \<Rightarrow> int \<Rightarrow> int \<Rightarrow> bool \<times> 'b) \<Rightarrow> (int \<rightharpoonup> int) \<Rightarrow> int list \<Rightarrow> kafka_committer \<Rightarrow> 'b \<Rightarrow>
     bool \<times> kafka_committer \<times> 'b" where
  "commitOffsets client offsets [] c br = (False, c, br)"
| "commitOffsets client offsets (part # parts) c br =
     (case offsets part of
        None \<Rightarrow> commitOffsets client offsets parts c br
      | Some offset \<Rightarrow>
          (if (case kc_commitsMap c part of None \<Rightarrow> False | Some committedOffset \<Rightarrow> offset \<le> committedOffset)
           then commitOffsets client offsets parts c br
           else (case client (kc_topic c) br part offset of
                   (True, br') \<Rightarrow> (True, c, br')
                 | (False, br') \<Rightarrow> commitOffsets client offsets parts
                     (c\<lparr>kc_commitsMap := (kc_commitsMap c)(part \<mapsto> offset)\<rparr>) br')))"

text \<open>The offsets of one tick: the pending ones overwrite the processed ones.\<close>

definition offsets_to_commit :: "transport_metadata list \<Rightarrow> (int \<rightharpoonup> int)" where
  "offsets_to_commit ms =
     (let (pending, processed) = filterMetadataPerPartition ms in processed ++ pending)"

definition periodicCommit ::
    "(string \<Rightarrow> 'b \<Rightarrow> int \<Rightarrow> int \<Rightarrow> bool \<times> 'b) \<Rightarrow> (int set \<Rightarrow> int list) \<Rightarrow> transport_metadata list \<Rightarrow>
     kafka_committer \<Rightarrow> 'b \<Rightarrow> bool \<times> kafka_committer \<times> 'b" where
  "periodicCommit client order bundlesMetadata c br =
     (let offsets = offsets_to_commit bundlesMetadata
      in commitOffsets client offsets (order (dom offsets)) c br)"

section \<open>Sync service\<close>

type_synonym ss_committer = "string \<rightharpoonup> string"

definition ss_newCommitter :: ss_committer where
  "ss_newCommitter = Map.empty"

fun processed_objects :: "(string \<rightharpoonup> object_metadata) \<Rightarrow> transport_metadata list \<Rightarrow> (string \<rightharpoonup> object_metadata)" where
  "processed_objects m [] = m"
| "processed_objects m (KafkaMetadata p part offset # ms) = processed_objects m ms"
| "processed_objects m (SyncServiceMetadata p om # ms) =
     processed_objects (if p then m(om_ObjectID om @ ''.'' @ om_ObjectType om \<mapsto> om) else m) ms"

fun commitObjectsMetadata ::
    "('b \<Rightarrow> object_metadata \<Rightarrow> bool \<times> 'b) \<Rightarrow> (string \<rightharpoonup> object_metadata) \<Rightarrow> string list \<Rightarrow> ss_committer \<Rightarrow> 'b \<Rightarrow>
     bool \<times> ss_committer \<times> 'b" where
  "commitObjectsMetadata client objs [] c br = (False, c, br)"
| "commitObjectsMetadata client objs (key # keys) c br =
     (case objs key of
        None \<Rightarrow> commitObjectsMetadata client objs keys c br
      | Some om \<Rightarrow>
          (if c key = Some (om_Version om) then commitObjectsMetadata client objs keys c br
           else (case client br om of
                   (True, br') \<Rightarrow> (True, c, br')
                 | (False, br') \<Rightarrow> commitObjectsMetadata client objs keys (c(key \<mapsto> om_Version om)) br')))"

definition commitMetadata ::
    "('b \<Rightarrow> object_metadata \<Rightarrow> bool \<times> 'b) \<Rightarrow> (string set \<Rightarrow> string list) \<Rightarrow> transport_metadata list \<Rightarrow>
     ss_committer \<Rightarrow> 'b \<Rightarrow> bool \<times> ss_committer \<times> 'b" where
  "commitMetadata client order metadataArray c br =
     (let objs = processed_objects Map.empty metadataArray
      in commitObjectsMetadata client objs (order (dom objs)) c br)"

section \<open>The Kafka watermark\<close>

definition pending_at :: "transport_metadata list \<Rightarrow> int \<Rightarrow> int set" where
  "pending_at ms part = {off. KafkaMetadata False part off \<in> set ms}"

definition processed_at :: "transport_metadata list \<Rightarrow> int \<Rightarrow> int set" where
  "processed_at ms part = {off. KafkaMetadata True part off \<in> set ms}"

lemma finite_pending_at [simp]: "finite (pending_at ms part)" "finite (processed_at ms part)"
proof -
  have "pending_at ms part \<subseteq> km_offset ` set ms" "processed_at ms part \<subseteq> km_offset ` set ms"
    by (force simp: pending_at_def processed_at_def)+
  then show "finite (pending_at ms part)" "finite (processed_at ms part)" by (auto intro: finite_subset)
qed

lemma at_snoc:
  "pending_at (ms @ [m]) part =
     (case m of KafkaMetadata p q off \<Rightarrow> if \<not> p \<and> q = part then insert off (pending_at ms part) else pending_at ms part
      | _ \<Rightarrow> pending_at ms part)"
  "processed_at (ms @ [m]) part =
     (case m of KafkaMetadata p q off \<Rightarrow> if p \<and> q = part then insert off (processed_at ms part) else processed_at ms part
      | _ \<Rightarrow> processed_at ms part)"
  by (auto simp: pending_at_def processed_at_def split: transport_metadata.splits)

definition lowest :: "int set \<Rightarrow> int option" where
  "lowest S = (if S = {} then None else Some (Min S))"

definition highest :: "int set \<Rightarrow> int option" where
  "highest S = (if S = {} then None else Some (Max S))"

lemma lowest_insert: "finite S \<Longrightarrow>
    lowest (insert x S) = (case lowest S of None \<Rightarrow> Some x | Some y \<Rightarrow> Some (if y \<le> x then y else x))"
  using Min_insert [of S x] by (auto simp: lowest_def simp del: Min_insert)

lemma highest_insert: "finite S \<Longrightarrow>
    highest (insert x S) = (case highest S of None \<Rightarrow> Some x | Some y \<Rightarrow> Some (if x \<le> y then y else x))"
  using Max_insert [of S x] by (auto simp: highest_def simp del: Max_insert)

lemma filter_fold:
  "foldl filter_metadata (Map.empty, Map.empty) ms = (\<lambda>part. lowest (pending_at ms part), \<lambda>part. highest (processed_at ms part))"
proof (induction ms rule: rev_induct)
  case Nil
  then show ?case by (auto simp: pending_at_def processed_at_def lowest_def highest_def)
next
  case (snoc m ms)
  show ?case
  proof (cases m)
    case (KafkaMetadata p q off)
    then show ?thesis using snoc
      by (cases p) (auto simp: at_snoc lowest_insert highest_insert fun_eq_iff split: option.splits)
  next
    case (SyncServiceMetadata p om)
    then show ?thesis using snoc by (simp add: at_snoc)
  qed
qed

lemma filterMetadata_spec:
  "filterMetadataPerPartition ms =
     (\<lambda>part. lowest (pending_at ms part), \<lambda>part. map_option (\<lambda>off. wrap64 (off + 1)) (highest (processed_at ms part)))"
  by (simp add: filterMetadataPerPartition_def filter_fold)

lemma offsets_to_commit_spec:
  "offsets_to_commit ms part =
     (if pending_at ms part \<noteq> {} then Some (Min (pending_at ms part))
      else if processed_at ms part \<noteq> {} then Some (wrap64 (Max (processed_at ms part) + 1)) else None)"
  by (simp add: offsets_to_commit_def filterMetadata_spec map_add_def lowest_def highest_def)

text \<open>One run of the commit loop, whatever the broker answers: the map of committed offsets only
  grows, and every entry is an old one or one of the offsets of this tick.\<close>

lemma commitOffsets_map:
  assumes "commitOffsets client offsets parts c br = (failed, c', br')"
  shows "kc_commitsMap c' part = kc_commitsMap c part \<or>
    (\<exists>off. offsets part = Some off \<and> kc_commitsMap c' part = Some off \<and>
       (\<forall>old. kc_commitsMap c part = Some old \<longrightarrow> old < off))"
  using assms
proof (induction client offsets parts c br rule: commitOffsets.induct)
  case (2 client offsets p parts c br)
  show ?case
  proof (cases "offsets p")
    case None
    with 2 show ?thesis by simp
  next
    case (Some off)
    show ?thesis
    proof (cases "case kc_commitsMap c p of None \<Rightarrow> False | Some old \<Rightarrow> off \<le> old")
      case True
      with 2(2) [OF Some True] 2(4) Some show ?thesis by simp
    next
      case False
      obtain f br1 where cl: "client (kc_topic c) br p off = (f, br1)" by fastforce
      show ?thesis
      proof (cases f)
        case True
        with 2(4) Some False cl show ?thesis by simp
      next
        case f: False
        let ?c = "c\<lparr>kc_commitsMap := (kc_commitsMap c)(p \<mapsto> off)\<rparr>"
        have "commitOffsets client offsets parts ?c br1 = (failed, c', br')"
          using 2(4) Some False cl f by simp
        from 2(3) [OF Some False cl [symmetric] _ this] f have
          "kc_commitsMap c' part = kc_commitsMap ?c part \<or>
            (\<exists>off'. offsets part = Some off' \<and> kc_commitsMap c' part = Some off' \<and>
              (\<forall>old. kc_commitsMap ?c part = Some old \<longrightarrow> old < off'))" by simp
        then show ?thesis using Some False by (cases "part = p") (auto split: option.splits)
      qed
    qed
  qed
qed simp

end
