(* ===== verification/Status_Delivery.thy ===== *)
theory Status_Delivery
  imports Status_Pipeline Committers
begin

text \<open>
  No bundle of a complete-state type is lost between the transport and the database. The invariant ties the elements of the
  conflation units to the transport metadata that the committer reads: the objects that different elements refer to are
  different ones, and the object of a bundle that waits or is in process is not marked as processed. With what the committer
  makes of it, the offset it commits does not pass the message of such a bundle, so that a restarted process receives it again.
\<close>

section \<open>Transport objects of an element\<close>

definition md_refs :: "metas \<Rightarrow> addr set" where
  "md_refs ms = {t. Some t \<in> md_transport ` set ms}"

fun bi_refs :: "bundle_info \<Rightarrow> metas \<Rightarrow> addr set" where
  "bi_refs (CompleteInfo ci) ms = md_refs ms"
| "bi_refs (DeltaInfo di) ms =
     md_refs ms \<union> set_option (di_lastReceivedTransport di) \<union> set_option (di_lastDispatched_lowest di)"

abbreviation el_refs :: "'h conflation_element \<Rightarrow> addr set" where
  "el_refs e \<equiv> bi_refs (ce_bundleInfo e) (ce_metas e)"

lemma md_refs_simps [simp]:
  "md_refs [] = {}"
  "md_refs (ms @ [md]) = md_refs ms \<union> set_option (md_transport md)"
  by (auto simp: md_refs_def)

lemma md_refs_nth: "a < length ms \<Longrightarrow> md_transport (ms ! a) = Some t \<Longrightarrow> t \<in> md_refs ms"
  using nth_mem [of a ms] unfolding md_refs_def by (metis image_eqI mem_Collect_eq)

lemma md_refs_update: "md_refs (ms[a := md]) \<subseteq> md_refs ms \<union> set_option (md_transport md)"
  using set_update_subset_insert [of ms a md] by (auto simp: md_refs_def)

lemma md_refs_version: "a < length ms \<Longrightarrow> md_refs (ms[a := (ms ! a)\<lparr>md_bundleVersion := v\<rparr>]) \<subseteq> md_refs ms"
  using md_refs_update [of ms a "(ms ! a)\<lparr>md_bundleVersion := v\<rparr>"] md_refs_nth [of a ms]
  by (cases "md_transport (ms ! a)") auto

lemma delta_updateMetadata_refs:
  assumes "delta_updateMetadata di ty v t ow ms = Some (di', ms')"
  shows "bi_refs (DeltaInfo di') ms' \<subseteq> insert t (bi_refs (DeltaInfo di) ms)" and "di_metadata di' \<noteq> None"
proof -
  obtain di1 ms1 a where step: "di_metadata di1 = Some a" "a < length ms1"
    "di_lastDispatched_lowest di1 = di_lastDispatched_lowest di"
    "md_refs ms1 \<subseteq> insert t (md_refs ms)"
    "di' = di1\<lparr>di_lastReceivedTransport := Some t\<rparr>" "ms' = ms1[a := (ms1 ! a)\<lparr>md_bundleVersion := v\<rparr>]"
  proof (cases "di_metadata di")
    case None
    show thesis
      by (rule that [of "di\<lparr>di_metadata := Some (length ms)\<rparr>" "length ms"
            "ms @ [\<lparr> md_bundleType = ty, md_bundleVersion = None, md_transport = Some t \<rparr>]"])
         (use assms None in \<open>auto simp: delta_updateMetadata_def bind_Some_iff\<close>)
  next
    case (Some a)
    show thesis
    proof (cases ow)
      case True
      show thesis
        by (rule that [of di a ms]) (use assms Some True in \<open>auto simp: delta_updateMetadata_def bind_Some_iff\<close>)
    next
      case False
      with assms Some have a: "a < length ms" by (auto simp: delta_updateMetadata_def bind_Some_iff)
      show thesis
        by (rule that [of "di\<lparr>di_metadata := Some (length ms)\<rparr>" "length ms"
              "ms @ [\<lparr> md_bundleType = ty, md_bundleVersion = None, md_transport = md_transport (ms ! a) \<rparr>]"])
           (use assms Some False a md_refs_nth [OF a] in
             \<open>auto simp: delta_updateMetadata_def bind_Some_iff\<close>)
    qed
  qed
  from md_refs_version [OF step(2), of v] step show "bi_refs (DeltaInfo di') ms' \<subseteq> insert t (bi_refs (DeltaInfo di) ms)"
    and "di_metadata di' \<noteq> None" by auto
qed

lemma delta_update_refs:
  assumes "delta_update enum di b t ow ms = Some (Inr (di', ms'))"
  shows "bi_refs (DeltaInfo di') ms' \<subseteq> insert t (bi_refs (DeltaInfo di) ms)"
proof -
  obtain d where b: "b = DeltaComplianceStatusBundle d" using assms by (cases b) (auto simp: delta_update_def)
  obtain new r where r: "delta_starts_new_line di d = Some new" "delta_updateBundle enum di d = Some r"
    using assms by (auto simp: b delta_update_def bind_Some_iff)
  with assms obtain di1 where "r = Inr di1" by (cases r) (auto simp: b delta_update_def)
  with r have di1: "delta_starts_new_line di d = Some new" "delta_updateBundle enum di d = Some (Inr di1)" by simp_all
  obtain r' where "InheritEvents enum d (delta_getBundle di) = Some r'"
    using di1(2) by (auto simp: delta_updateBundle_def bind_Some_iff)
  with di1(2) have same: "bi_refs (DeltaInfo di1) ms = bi_refs (DeltaInfo di) ms"
    by (cases r') (auto simp: delta_updateBundle_def)
  obtain di2 ms2 where di2: "delta_updateMetadata di1 (GetBundleType b) (GetVersion b) t ow ms = Some (di2, ms2)"
    using assms di1 by (auto simp: b delta_update_def bind_Some_iff)
  note refs = delta_updateMetadata_refs [OF di2]
  show ?thesis
  proof (cases new)
    case False
    with assms di1 di2 have "di' = di2" "ms' = ms2" by (auto simp: b delta_update_def bind_Some_iff)
    with refs same show ?thesis by simp
  next
    case True
    with assms di1 di2 obtain a where "di' = di2\<lparr>di_deltaLineHead := md_bundleVersion (ms2 ! a)\<rparr>"
      "ms' = ms2[a := (ms2 ! a)\<lparr>md_transport := Some t\<rparr>]" by (auto simp: b delta_update_def bind_Some_iff)
    with refs(1) same md_refs_update [of ms2 a "(ms2 ! a)\<lparr>md_transport := Some t\<rparr>"] show ?thesis by auto
  qed
qed

lemma bi_update_refs: "bi_update enum bi b t ow ms = Some (Inr (bi', ms')) \<Longrightarrow> bi_refs bi' ms' \<subseteq> insert t (bi_refs bi ms)"
proof (cases bi)
  case (CompleteInfo ci)
  assume "bi_update enum bi b t ow ms = Some (Inr (bi', ms'))"
  with CompleteInfo md_refs_update show ?thesis
    by (fastforce simp: complete_update_def Let_def bind_Some_iff split: option.split_asm if_split_asm)
next
  case (DeltaInfo di)
  assume "bi_update enum bi b t ow ms = Some (Inr (bi', ms'))"
  with DeltaInfo obtain di' where "bi' = DeltaInfo di'" "delta_update enum di b t ow ms = Some (Inr (di', ms'))" by auto
  with DeltaInfo delta_update_refs show ?thesis by simp
qed

lemma bi_getMetadata_refs: "bi_getMetadata bi ms = Some (a, bi', ms') \<Longrightarrow> bi_refs bi' ms' \<subseteq> bi_refs bi ms"
proof (cases bi)
  case (CompleteInfo ci)
  assume "bi_getMetadata bi ms = Some (a, bi', ms')"
  with CompleteInfo show ?thesis by (auto simp: complete_getMetadata_def)
next
  case (DeltaInfo di)
  assume "bi_getMetadata bi ms = Some (a, bi', ms')"
  with DeltaInfo obtain c where c: "c < length ms" "ms' = ms[c := (ms ! c)\<lparr>md_transport := di_lastReceivedTransport di\<rparr>]"
    "bi' = DeltaInfo (di\<lparr>di_lastDispatched_bundle := di_bundle di, di_lastDispatched_lowest := md_transport (ms ! c), di_bundle := None\<rparr>)"
    by (auto simp: delta_getMetadata_def bind_Some_iff)
  with md_refs_update [of ms c "(ms ! c)\<lparr>md_transport := di_lastReceivedTransport di\<rparr>"] md_refs_nth [OF c(1)] DeltaInfo
  show ?thesis by auto
qed

lemma delta_handleFailure_refs:
  assumes "delta_handleFailure enum di md ms = Some (di', ms')"
  shows "di_lastReceivedTransport di' = di_lastReceivedTransport di" "di_lastDispatched_lowest di' = None"
    and "ms' = ms \<or> (\<exists>a. ms' = ms[a := (ms ! a)\<lparr>md_transport := di_lastDispatched_lowest di\<rparr>])"
proof -
  obtain c where c: "NewerThan (di_deltaLineHead di) (md_bundleVersion md) = Some c"
    using assms by (auto simp: delta_handleFailure_def Let_def bind_Some_iff)
  have "di_lastReceivedTransport di' = di_lastReceivedTransport di \<and> di_lastDispatched_lowest di' = None \<and>
     (ms' = ms \<or> (\<exists>a. ms' = ms[a := (ms ! a)\<lparr>md_transport := di_lastDispatched_lowest di\<rparr>]))"
  proof (cases "c \<or> di_bundle di = None")
    case True
    with assms c show ?thesis by (auto simp: delta_handleFailure_def Let_def bind_Some_iff split: if_split_asm)
  next
    case False
    then obtain cur where cur: "di_bundle di = Some cur" by auto
    with assms c False obtain r where
      r: "InheritEvents enum cur (map_option DeltaComplianceStatusBundle (di_lastDispatched_bundle di)) = Some r"
      by (auto simp: delta_handleFailure_def Let_def bind_Some_iff)
    with assms c False cur show ?thesis by (cases r) (auto simp: delta_handleFailure_def Let_def bind_Some_iff)
  qed
  then show "di_lastReceivedTransport di' = di_lastReceivedTransport di" "di_lastDispatched_lowest di' = None"
    and "ms' = ms \<or> (\<exists>a. ms' = ms[a := (ms ! a)\<lparr>md_transport := di_lastDispatched_lowest di\<rparr>])" by auto
qed

lemma bi_handleFailure_refs: "bi_handleFailure enum bi md ms = Some (bi', ms') \<Longrightarrow> bi_refs bi' ms' \<subseteq> bi_refs bi ms"
proof (cases bi)
  case (DeltaInfo di)
  assume "bi_handleFailure enum bi md ms = Some (bi', ms')"
  with DeltaInfo obtain di' where di': "bi' = DeltaInfo di'" "delta_handleFailure enum di md ms = Some (di', ms')" by auto
  from delta_handleFailure_refs(3) [OF di'(2)] have "md_refs ms' \<subseteq> md_refs ms \<union> set_option (di_lastDispatched_lowest di)"
  proof
    assume "\<exists>a. ms' = ms[a := (ms ! a)\<lparr>md_transport := di_lastDispatched_lowest di\<rparr>]"
    then obtain a where "ms' = ms[a := (ms ! a)\<lparr>md_transport := di_lastDispatched_lowest di\<rparr>]" ..
    with md_refs_update [of ms a "(ms ! a)\<lparr>md_transport := di_lastDispatched_lowest di\<rparr>"] show ?thesis by simp
  qed simp
  with DeltaInfo di'(1) delta_handleFailure_refs(1,2) [OF di'(2)] show ?thesis by auto
qed auto

lemma bi_mark_refs:
  assumes "bi_markAsProcessed bi md ms ts = Some (bi', ts')"
  shows "bi_refs bi' ms \<subseteq> bi_refs bi ms"
    and "\<exists>t. md_transport md = Some t \<and> t < length ts \<and> ts' = ts[t := MarkAsProcessed (ts ! t)]"
  using assms by (cases bi; auto simp: complete_markAsProcessed_def delta_markAsProcessed_def mark_transport_def bind_Some_iff)+

section \<open>A pending bundle and its transport object\<close>

text \<open>\<open>P b tm\<close> says that the bundle \<open>b\<close> was received with the metadata \<open>tm\<close>. A bundle of a complete-state element has an
  object of its own, which is not marked, until it is processed.\<close>

fun tracked :: "(status_bundle \<Rightarrow> transport_metadata \<Rightarrow> bool) \<Rightarrow> bundle_info \<Rightarrow> metas \<Rightarrow> tmetas \<Rightarrow> bool" where
  "tracked P (CompleteInfo ci) ms ts \<longleftrightarrow> distinct (map md_transport ms) \<and>
     (\<forall>b. ci_bundle ci = Some b \<longrightarrow> (\<exists>a t. ci_metadata ci = Some a \<and> a < length ms \<and> md_transport (ms ! a) = Some t \<and>
        \<not> Processed (ts ! t) \<and> P b (ts ! t)))"
| "tracked P (DeltaInfo di) ms ts \<longleftrightarrow> True"

lemma tracked_mono:
  assumes "tracked P bi ms ts" and "\<And>b tm. P b tm \<Longrightarrow> Q b tm" and "\<forall>t \<in> bi_refs bi ms. ts' ! t = ts ! t"
  shows "tracked Q bi ms ts'"
proof (cases bi)
  case (CompleteInfo ci)
  have "\<exists>a t. ci_metadata ci = Some a \<and> a < length ms \<and> md_transport (ms ! a) = Some t \<and>
        \<not> Processed (ts' ! t) \<and> Q b (ts' ! t)" if b: "ci_bundle ci = Some b" for b
  proof -
    obtain a t where a: "ci_metadata ci = Some a" "a < length ms" "md_transport (ms ! a) = Some t"
      "\<not> Processed (ts ! t)" "P b (ts ! t)" using assms(1) CompleteInfo b by auto
    then have "ts' ! t = ts ! t" using assms(3) CompleteInfo md_refs_nth [OF a(2,3)] by simp
    with a assms(2) show ?thesis by auto
  qed
  with assms(1) CompleteInfo show ?thesis by simp
qed simp

lemma tracked_update:
  assumes up: "bi_update enum bi b t ow ms = Some (Inr (bi', ms'))" and tr: "tracked P bi ms ts"
    and t: "t \<notin> bi_refs bi ms" "\<not> Processed (ts ! t)" "P b (ts ! t)"
  shows "tracked P bi' ms' ts"
proof (cases bi)
  case (CompleteInfo ci)
  have fresh: "Some t \<notin> set (map md_transport ms)" using t(1) CompleteInfo by (auto simp: md_refs_def)
  have dist: "distinct (map md_transport ms)" using tr CompleteInfo by simp
  from up CompleteInfo obtain ci' where ci': "bi' = CompleteInfo ci'" "complete_update ci b t ow ms = Some (Inr (ci', ms'))"
    by auto
  show ?thesis
  proof (cases "if ow then ci_metadata ci else None")
    case None
    with ci' fresh dist t show ?thesis by (auto simp: complete_update_def Let_def split: if_splits)
  next
    case (Some a)
    with ci'(2) have a: "a < length ms" "ci' = ci\<lparr>ci_bundle := Some b\<rparr>" "ci_metadata ci = Some a"
      "ms' = ms[a := (ms ! a)\<lparr>md_bundleVersion := GetVersion b, md_transport := Some t\<rparr>]"
      by (auto simp: complete_update_def Let_def bind_Some_iff split: if_splits)
    have "distinct ((map md_transport ms)[a := Some t])" using dist fresh by (intro distinct_list_update) auto
    with a t ci'(1) show ?thesis by (simp add: map_update)
  qed
next
  case (DeltaInfo di)
  with up show ?thesis by auto
qed

lemma tracked_getMetadata: "bi_getMetadata bi ms = Some (a, bi', ms') \<Longrightarrow> tracked P bi ms ts \<Longrightarrow> tracked P bi' ms' ts"
  by (cases bi) (auto simp: complete_getMetadata_def bind_Some_iff)

lemma tracked_handleFailure: "bi_handleFailure enum bi md ms = Some (bi', ms') \<Longrightarrow> tracked P bi ms ts \<Longrightarrow> tracked P bi' ms' ts"
  by (cases bi) auto

lemma tracked_mark:
  assumes m: "bi_markAsProcessed bi (ms ! a) ms ts = Some (bi', ts')" and tr: "tracked P bi ms ts" and a: "a < length ms"
  shows "tracked P bi' ms ts'"
proof (cases bi)
  case (CompleteInfo ci)
  from m CompleteInfo obtain ci' where ci': "bi' = CompleteInfo ci'" "complete_markAsProcessed ci (ms ! a) ms ts = Some (ci', ts')"
    by auto
  then obtain cur same where cur: "ci_metadata ci = Some cur" "cur < length ms"
    "Equals (md_bundleVersion (ms ! a)) (md_bundleVersion (ms ! cur)) = Some same"
    "ci' = (if \<not> same then ci else ci\<lparr>ci_bundle := None\<rparr>)"
    by (auto simp: complete_markAsProcessed_def bind_Some_iff)
  show ?thesis
  proof (cases same)
    case True
    with cur ci'(1) tr CompleteInfo show ?thesis by simp
  next
    case False
    with cur have ne: "a \<noteq> cur" by (auto simp: Equals_def bind_Some_iff)
    obtain t where t: "md_transport (ms ! a) = Some t" "ts' = ts[t := MarkAsProcessed (ts ! t)]"
      using bi_mark_refs(2) [OF m] by auto
    have "map md_transport ms ! a \<noteq> map md_transport ms ! cur"
      using tr CompleteInfo ne a cur(2) by (simp only: tracked.simps nth_eq_iff_index_eq length_map) simp
    then have "md_transport (ms ! cur) \<noteq> Some t" using a cur(2) t(1) by simp
    with False cur ci'(1) tr CompleteInfo t show ?thesis by auto
  qed
next
  case (DeltaInfo di)
  with m show ?thesis by auto
qed

section \<open>The elements that an operation changes\<close>

lemma addCU_elements:
  "addCUToReadyQueueIfNeeded cu sh = Some (cu', sh') \<Longrightarrow>
     cu_priorityQueue cu' = cu_priorityQueue cu \<and> sh_tmetas sh' = sh_tmetas sh"
  by (auto simp: addCUToReadyQueueIfNeeded_def bind_Some_iff split: if_splits option.split_asm)

lemma get_element_queue: "cu_priorityQueue cu' = cu_priorityQueue cu \<Longrightarrow> get_element cu' = get_element cu"
  by (simp add: get_element_def fun_eq_iff)

lemma get_element_set:
  "get_element cu p = Some e \<Longrightarrow> get_element (set_element cu p e') = (get_element cu)(p \<mapsto> e')"
  by (auto simp: get_element_def set_element_def deref_def fun_eq_iff bind_Some_iff split: if_splits)

text \<open>A bundle is at hand for a version if one of at least that version was processed or waits.\<close>

definition at_hand :: "bundle_version \<Rightarrow> 'h conflation_element \<Rightarrow> bool" where
  "at_hand v e \<longleftrightarrow>
     (\<exists>u. ce_lastProcessedBundleVersion e = Some u \<and> v \<le> u) \<or>
     (\<exists>b u. bi_getBundle (ce_bundleInfo e) = Some b \<and> GetVersion b = Some u \<and> v \<le> u)"

definition newer_for :: "status_bundle \<Rightarrow> 'h conflation_element \<Rightarrow> bool" where
  "newer_for b e \<longleftrightarrow> NewerThan (GetVersion b) (ce_lastProcessedBundleVersion e) = Some True \<and>
     (\<forall>q. bi_getBundle (ce_bundleInfo e) = Some q \<longrightarrow> NewerThan (GetVersion b) (GetVersion q) = Some True)"

lemma insert_elements:
  assumes inv: "cu_inv tys cu sh job" and b: "wf_bundle b" "i < length tys" "GetBundleType b = tys ! i" "t < length (sh_tmetas sh)"
    and ins: "cu_insert enum now cu sh b t = Some (cu', sh')"
  shows "sh_tmetas sh' = sh_tmetas sh"
    and "(get_element cu' = get_element cu \<and> at_hand (the (GetVersion b)) (el cu i)) \<or>
     (\<exists>e'. element_update enum (el cu i) b t = Some (Inr e') \<and> newer_for b (el cu i) \<and> at_hand (the (GetVersion b)) e' \<and>
        get_element cu' = (get_element cu)(i \<mapsto> e'))"
proof -
  have ok: "unit_ok tys cu (sh_tmetas sh) job" using inv by (simp add: cu_inv_def)
  note shape = unit_okD(1) [OF ok] and e = unit_okD(2) [OF ok b(2)]
  let ?e = "el cu i"
  have pri: "priority_of cu (GetBundleType b) = i" "get_element cu i = Some ?e"
    using shape b by (simp_all add: priority_of_ty get_element_el del: GetBundleType_struct)
  obtain w where w: "GetVersion b = Some w" using b by (auto simp: wf_bundle_def)
  obtain v where v: "ce_lastProcessedBundleVersion ?e = Some v" using e by (auto simp: element_ok_def)
  have pend: "GetVersion p \<noteq> None" if "bi_getBundle (ce_bundleInfo ?e) = Some p" for p
    using e that bi.getBundle_wf by (fastforce simp: element_ok_def wf_bundle_def)
  have "sh_tmetas sh' = sh_tmetas sh \<and> ((get_element cu' = get_element cu \<and> at_hand (the (GetVersion b)) ?e) \<or>
     (\<exists>e'. element_update enum ?e b t = Some (Inr e') \<and> newer_for b ?e \<and> at_hand (the (GetVersion b)) e' \<and>
        get_element cu' = (get_element cu)(i \<mapsto> e')))"
  proof (cases "v < w \<and> (\<forall>p. bi_getBundle (ce_bundleInfo ?e) = Some p \<longrightarrow> the (GetVersion p) < w)")
    case False
    then have "cu_insert enum now cu sh b t = Some (cu, sh)"
      using pri w v pend by (auto simp: cu_insert_def Let_def simp del: GetBundleType_struct split: option.splits)
    moreover have "at_hand w ?e" using False v pend by (fastforce simp: at_hand_def not_less)
    ultimately show ?thesis using ins w by simp
  next
    case True
    then have pend': "\<forall>p. bi_getBundle (ce_bundleInfo ?e) = Some p \<longrightarrow> the (GetVersion p) < the (GetVersion b)"
      and newer: "v < the (GetVersion b)" using w by auto
    obtain e' b' where e': "element_update enum ?e b t = Some (Inr e')"
      "bi_getBundle (ce_bundleInfo e') = Some b'" "GetVersion b' = GetVersion b"
      by (rule element_update_ok [OF e b(1,3,4) v newer pend', of enum]) blast
    have "newer_for b ?e" using True v w pend by (fastforce simp: newer_for_def)
    moreover have "at_hand w e'" using e' w by (auto simp: at_hand_def)
    moreover obtain sh1 where "addCUToReadyQueueIfNeeded (set_element cu i e') sh1 = Some (cu', sh')" "sh_tmetas sh1 = sh_tmetas sh"
      using True pri w v pend e'(1) ins
      by (auto simp: cu_insert_def Let_def bind_Some_iff simp del: GetBundleType_struct split: option.splits)
    ultimately show ?thesis
      using e'(1) w get_element_set [OF pri(2), of e'] by (auto dest!: addCU_elements get_element_queue)
  qed
  then show "sh_tmetas sh' = sh_tmetas sh"
    and "(get_element cu' = get_element cu \<and> at_hand (the (GetVersion b)) ?e) \<or>
     (\<exists>e'. element_update enum ?e b t = Some (Inr e') \<and> newer_for b ?e \<and> at_hand (the (GetVersion b)) e' \<and>
        get_element cu' = (get_element cu)(i \<mapsto> e'))" by auto
qed

lemma next_elements:
  assumes "GetNext now cu sh = Some (r, cu', sh')"
  shows "sh_tmetas sh' = sh_tmetas sh"
    and "get_element cu' = get_element cu \<or>
     (\<exists>p e b a e'. get_element cu p = Some e \<and> getBundleForProcessing (e\<lparr>ce_isInProcess := True\<rparr>) = Some (b, a, e') \<and>
        get_element cu' = (get_element cu)(p \<mapsto> e'))"
proof -
  obtain nx where nx: "getNextReadyBundlePriority cu = Some nx" using assms by (auto simp: GetNext_def bind_Some_iff)
  have "sh_tmetas sh' = sh_tmetas sh \<and> (get_element cu' = get_element cu \<or>
     (\<exists>p e b a e'. get_element cu p = Some e \<and> getBundleForProcessing (e\<lparr>ce_isInProcess := True\<rparr>) = Some (b, a, e') \<and>
        get_element cu' = (get_element cu)(p \<mapsto> e')))"
  proof (cases nx)
    case None
    then show ?thesis using assms nx by (simp add: GetNext_def)
  next
    case (Some p)
    let ?idle = "cu\<lparr>cu_isInReadyQueue := False\<rparr>"
    from Some obtain e b a e' where e: "get_element cu p = Some e"
      "getBundleForProcessing (e\<lparr>ce_isInProcess := True\<rparr>) = Some (b, a, e')"
      "cu' = set_element ?idle p e'" "sh_tmetas sh' = sh_tmetas sh"
      using assms nx by (auto simp: GetNext_def Let_def bind_Some_iff)
    have idle: "get_element ?idle = get_element cu" by (rule get_element_queue) simp
    with e get_element_set [of ?idle p e e'] have "get_element cu' = (get_element cu)(p \<mapsto> e')" by simp
    with e(1,2,4) show ?thesis by blast
  qed
  then show "sh_tmetas sh' = sh_tmetas sh"
    and "get_element cu' = get_element cu \<or>
     (\<exists>p e b a e'. get_element cu p = Some e \<and> getBundleForProcessing (e\<lparr>ce_isInProcess := True\<rparr>) = Some (b, a, e') \<and>
        get_element cu' = (get_element cu)(p \<mapsto> e'))" by auto
qed

text \<open>What a report does to the element of the job.\<close>

definition reported :: "(string set \<Rightarrow> string list) \<Rightarrow> bool \<Rightarrow> addr \<Rightarrow> 'h conflation_element \<Rightarrow> tmetas \<Rightarrow>
    'h conflation_element \<Rightarrow> tmetas \<Rightarrow> bool" where
  "reported enum failed a e ts e' ts' \<longleftrightarrow>
     (if failed
      then (\<exists>bi ms. bi_handleFailure enum (ce_bundleInfo e) (ce_metas e ! a) (ce_metas e) = Some (bi, ms) \<and>
              e' = e\<lparr>ce_isInProcess := False, ce_bundleInfo := bi, ce_metas := ms\<rparr> \<and> ts' = ts)
      else (\<exists>bi newer. bi_markAsProcessed (ce_bundleInfo e) (ce_metas e ! a) (ce_metas e) ts = Some (bi, ts') \<and>
              NewerThan (md_bundleVersion (ce_metas e ! a)) (ce_lastProcessedBundleVersion e) = Some newer \<and>
              e' = e\<lparr>ce_isInProcess := False, ce_bundleInfo := bi, ce_lastProcessedBundleVersion :=
                     (if newer then md_bundleVersion (ce_metas e ! a) else ce_lastProcessedBundleVersion e)\<rparr>))"

lemma report_elements:
  assumes inv: "cu_inv tys cu sh (Some (p, a))" and r: "ReportResult enum cu sh (p, a) failed = Some (cu', sh')"
  shows "\<exists>e'. reported enum failed a (el cu p) (sh_tmetas sh) e' (sh_tmetas sh') \<and> get_element cu p = Some (el cu p) \<and>
    get_element cu' = (get_element cu)(p \<mapsto> e')"
proof -
  have ok: "unit_ok tys cu (sh_tmetas sh) (Some (p, a))" using inv by (auto simp: cu_inv_def)
  note shape = unit_okD(1) [OF ok]
  have p: "p < length tys" using ok by (auto simp: unit_ok_def)
  have e: "element_ok (tys ! p) (Some a) (el cu p) (sh_tmetas sh)" using unit_okD(2) [OF ok p] by simp
  let ?e = "el cu p" and ?md = "ce_metas (el cu p) ! a"
  have a: "a < length (ce_metas ?e)" "md_bundleType ?md = tys ! p" using e by (auto simp: element_ok_def)
  have md: "read_metadata cu (p, a) = Some ?md" "priority_of cu (md_bundleType ?md) = p" "get_element cu p = Some ?e"
    using get_element_el [OF shape p] priority_of_ty [OF shape p] a by (simp_all add: read_metadata_def)
  obtain e' sh1 where "addCUToReadyQueueIfNeeded (set_element cu p e') sh1 = Some (cu', sh')"
    "reported enum failed a ?e (sh_tmetas sh) e' (sh_tmetas sh1)"
  proof (cases failed)
    case True
    with r md obtain bi ms where "bi_handleFailure enum (ce_bundleInfo ?e) ?md (ce_metas ?e) = Some (bi, ms)"
      "addCUToReadyQueueIfNeeded (set_element cu p (?e\<lparr>ce_isInProcess := False, ce_bundleInfo := bi, ce_metas := ms\<rparr>)) sh = Some (cu', sh')"
      by (auto simp: ReportResult_def Let_def bind_Some_iff)
    with True that show thesis by (simp add: reported_def)
  next
    case False
    with r md obtain newer bi ts where n: "NewerThan (md_bundleVersion ?md) (ce_lastProcessedBundleVersion ?e) = Some newer"
      "bi_markAsProcessed (ce_bundleInfo ?e) ?md (ce_metas ?e) (sh_tmetas sh) = Some (bi, ts)"
      "addCUToReadyQueueIfNeeded (set_element cu p ((if newer then ?e\<lparr>ce_isInProcess := False,
         ce_lastProcessedBundleVersion := md_bundleVersion ?md\<rparr> else ?e\<lparr>ce_isInProcess := False\<rparr>)\<lparr>ce_bundleInfo := bi\<rparr>))
         (sh\<lparr>sh_tmetas := ts\<rparr>) = Some (cu', sh')"
      by (cases "NewerThan (md_bundleVersion ?md) (ce_lastProcessedBundleVersion ?e)")
         (auto simp: ReportResult_def Let_def bind_Some_iff split: if_split_asm)
    have "(if newer then ?e\<lparr>ce_isInProcess := False, ce_lastProcessedBundleVersion := md_bundleVersion ?md\<rparr>
        else ?e\<lparr>ce_isInProcess := False\<rparr>)\<lparr>ce_bundleInfo := bi\<rparr> = ?e\<lparr>ce_isInProcess := False, ce_bundleInfo := bi,
        ce_lastProcessedBundleVersion := (if newer then md_bundleVersion ?md else ce_lastProcessedBundleVersion ?e)\<rparr>"
      by (cases ?e) simp
    with n that False show thesis by (simp add: reported_def)
  qed
  with get_element_set [OF md(3)] md(3) show ?thesis by (auto dest!: addCU_elements get_element_queue)
qed

section \<open>A version stays at hand\<close>

abbreviation is_complete :: "'h conflation_element \<Rightarrow> bool" where
  "is_complete e \<equiv> (\<exists>ci. ce_bundleInfo e = CompleteInfo ci)"

lemma is_complete_update: "element_update enum e b t = Some (Inr e') \<Longrightarrow> is_complete e' = is_complete e"
  by (cases "ce_bundleInfo e"; cases "bi_update enum (ce_bundleInfo e) b t (\<not> ce_isInProcess e) (ce_metas e)")
     (auto simp: element_update_def split: sum.split_asm)

lemma is_complete_dispatch: "getBundleForProcessing e = Some (b, a, e') \<Longrightarrow> is_complete e' = is_complete e"
  by (cases "ce_bundleInfo e") (auto simp: getBundleForProcessing_def Let_def bind_Some_iff)

lemma is_complete_reported: "reported enum failed a e ts e' ts' \<Longrightarrow> is_complete e' = is_complete e"
  by (cases "ce_bundleInfo e") (auto simp: reported_def split: if_split_asm)

lemma at_hand_update:
  assumes "element_update enum e b t = Some (Inr e')" "newer_for b e" "at_hand (the (GetVersion b)) e'" "at_hand v e"
    "wf_bundle b"
  shows "at_hand v e'"
proof -
  obtain w where w: "GetVersion b = Some w" using assms(5) by (auto simp: wf_bundle_def)
  from assms(4) show ?thesis unfolding at_hand_def
  proof
    assume "\<exists>u. ce_lastProcessedBundleVersion e = Some u \<and> v \<le> u"
    with element_update_processed [OF assms(1)] show "(\<exists>u. ce_lastProcessedBundleVersion e' = Some u \<and> v \<le> u) \<or>
      (\<exists>b u. bi_getBundle (ce_bundleInfo e') = Some b \<and> GetVersion b = Some u \<and> v \<le> u)" by simp
  next
    assume "\<exists>b u. bi_getBundle (ce_bundleInfo e) = Some b \<and> GetVersion b = Some u \<and> v \<le> u"
    then obtain q u where q: "bi_getBundle (ce_bundleInfo e) = Some q" "GetVersion q = Some u" "v \<le> u" by blast
    with assms(2) w have "v \<le> w" by (fastforce simp: newer_for_def)
    with assms(3) w show "(\<exists>u. ce_lastProcessedBundleVersion e' = Some u \<and> v \<le> u) \<or>
      (\<exists>b u. bi_getBundle (ce_bundleInfo e') = Some b \<and> GetVersion b = Some u \<and> v \<le> u)"
      by (auto simp: at_hand_def intro: order_trans)
  qed
qed

lemma at_hand_dispatch:
  assumes "getBundleForProcessing (e\<lparr>ce_isInProcess := True\<rparr>) = Some (b, a, e')" "is_complete e" "at_hand v e"
  shows "at_hand v e'"
  using assms by (auto simp: getBundleForProcessing_def Let_def bind_Some_iff complete_getMetadata_def at_hand_def)

lemma at_hand_reported:
  assumes r: "reported enum failed a e ts e' ts'" and c: "is_complete e" and h: "at_hand v e"
    and e: "element_ok ty (Some a) e ts"
  shows "at_hand v e'"
proof (cases failed)
  case True
  with r c h show ?thesis by (auto simp: reported_def at_hand_def)
next
  case False
  obtain ci where ci: "ce_bundleInfo e = CompleteInfo ci" using c by blast
  obtain bi newer where m: "bi_markAsProcessed (ce_bundleInfo e) (ce_metas e ! a) (ce_metas e) ts = Some (bi, ts')"
    "NewerThan (md_bundleVersion (ce_metas e ! a)) (ce_lastProcessedBundleVersion e) = Some newer"
    "e' = e\<lparr>ce_isInProcess := False, ce_bundleInfo := bi, ce_lastProcessedBundleVersion :=
       (if newer then md_bundleVersion (ce_metas e ! a) else ce_lastProcessedBundleVersion e)\<rparr>"
    using r False by (auto simp: reported_def)
  obtain ci' where ci': "bi = CompleteInfo ci'" "complete_markAsProcessed ci (ce_metas e ! a) (ce_metas e) ts = Some (ci', ts')"
    using m(1) ci by auto
  then obtain cur same where cur: "ci_metadata ci = Some cur"
    "Equals (md_bundleVersion (ce_metas e ! a)) (md_bundleVersion (ce_metas e ! cur)) = Some same"
    "ci' = (if \<not> same then ci else ci\<lparr>ci_bundle := None\<rparr>)"
    by (auto simp: complete_markAsProcessed_def bind_Some_iff)
  have inv: "complete_inv ty True ci (ce_metas e) ts" using e ci by (simp add: element_ok_def)
  obtain l where l: "ce_lastProcessedBundleVersion e = Some l" using e by (auto simp: element_ok_def)
  obtain w where w: "md_bundleVersion (ce_metas e ! a) = Some w"
    using m(2) l by (cases "md_bundleVersion (ce_metas e ! a)") auto
  have lp: "ce_lastProcessedBundleVersion e' = Some (if l < w then w else l)" using m(2,3) l w by auto
  from h consider (processed) "v \<le> l" | (pending) b u where "ci_bundle ci = Some b" "GetVersion b = Some u" "v \<le> u"
    using l ci by (auto simp: at_hand_def complete_getBundle_def)
  then show ?thesis
  proof cases
    case processed
    with lp show ?thesis by (auto simp: at_hand_def)
  next
    case pending
    show ?thesis
    proof (cases same)
      case False
      with pending cur(3) ci'(1) m(3) show ?thesis by (auto simp: at_hand_def complete_getBundle_def)
    next
      case True
      have "md_bundleVersion (ce_metas e ! cur) = Some u" using inv cur(1) pending by (auto simp: complete_inv_def)
      with True cur(2) w have "w = u" by (auto simp: Equals_def bind_Some_iff bundle_version.expand)
      with lp pending(3) show ?thesis by (auto simp: at_hand_def)
    qed
  qed
qed

section \<open>The invariant of the manager\<close>

definition cm_elem :: "'h conflation_manager \<Rightarrow> string \<Rightarrow> nat \<Rightarrow> 'h conflation_element \<Rightarrow> bool" where
  "cm_elem cm hub i e \<longleftrightarrow> (\<exists>cu. cm_conflationUnits cm hub = Some cu \<and> get_element cu i = Some e)"

definition delivery_inv ::
    "(string \<Rightarrow> status_bundle \<Rightarrow> transport_metadata \<Rightarrow> bool) \<Rightarrow> 'h conflation_manager \<Rightarrow> tmetas \<Rightarrow> bool" where
  "delivery_inv P cm ts \<longleftrightarrow>
     (\<forall>hub i e. cm_elem cm hub i e \<longrightarrow>
        tracked (P hub) (ce_bundleInfo e) (ce_metas e) ts \<and> el_refs e \<subseteq> {..<length ts}) \<and>
     (\<forall>hub i e hub' i' e'. cm_elem cm hub i e \<longrightarrow> cm_elem cm hub' i' e' \<longrightarrow> (hub, i) \<noteq> (hub', i') \<longrightarrow>
        el_refs e \<inter> el_refs e' = {})"

lemma delivery_invD:
  assumes "delivery_inv P cm ts" "cm_elem cm hub i e"
  shows "tracked (P hub) (ce_bundleInfo e) (ce_metas e) ts" "el_refs e \<subseteq> {..<length ts}"
    "cm_elem cm hub' i' e' \<Longrightarrow> (hub, i) \<noteq> (hub', i') \<Longrightarrow> el_refs e \<inter> el_refs e' = {}"
  using assms unfolding delivery_inv_def by blast+

lemma cm_elem_set_unit:
  assumes "cm_conflationUnits cm hub = Some cu" "get_element cu' = (get_element cu)(i \<mapsto> e')"
  shows "cm_elem (set_unit cm hub cu') h j x \<longleftrightarrow> (if (h, j) = (hub, i) then x = e' else cm_elem cm h j x)"
  using assms by (auto simp: cm_elem_def)

lemma cm_elem_same:
  assumes "cm_conflationUnits cm hub = Some cu" "get_element cu' = get_element cu"
  shows "cm_elem (set_unit cm hub cu') h j x \<longleftrightarrow> cm_elem cm h j x"
  using assms by (auto simp: cm_elem_def)

lemma delivery_inv_grow:
  assumes "delivery_inv P cm ts" "\<And>h b tm. P h b tm \<Longrightarrow> Q h b tm" "\<And>h j x. cm_elem cm' h j x \<longleftrightarrow> cm_elem cm h j x"
  shows "delivery_inv Q cm' (ts @ us)"
proof -
  have "tracked (Q h) (ce_bundleInfo x) (ce_metas x) (ts @ us)" if "cm_elem cm h j x" for h j x
    using delivery_invD [OF assms(1) that] assms(2) by (elim tracked_mono) (auto simp: nth_append)
  moreover have "el_refs x \<subseteq> {..<length (ts @ us)}" if "cm_elem cm h j x" for h j x
    using delivery_invD(2) [OF assms(1) that] by auto
  ultimately show ?thesis using delivery_invD(3) [OF assms(1)] unfolding delivery_inv_def assms(3) by blast
qed

lemmas delivery_inv_same = delivery_inv_grow [where us = "[]", simplified]

text \<open>Replacing one element: its objects are old ones of its own or new, and only its own objects were changed.\<close>

lemma delivery_inv_set:
  assumes inv: "delivery_inv P cm ts" and cu: "cm_conflationUnits cm hub = Some cu" "get_element cu i = Some e"
    and cu': "get_element cu' = (get_element cu)(i \<mapsto> e')"
    and e': "tracked (Q hub) (ce_bundleInfo e') (ce_metas e') ts'" "el_refs e' \<subseteq> el_refs e \<union> {length ts..<length ts'}"
    and ts': "length ts \<le> length ts'" "\<And>t. t < length ts \<Longrightarrow> t \<notin> el_refs e \<Longrightarrow> ts' ! t = ts ! t"
    and PQ: "\<And>h b tm. P h b tm \<Longrightarrow> Q h b tm"
  shows "delivery_inv Q (set_unit cm hub cu') ts'"
proof -
  note elem = cm_elem_set_unit [OF cu(1) cu']
  have mine: "cm_elem cm hub i e" using cu by (auto simp: cm_elem_def)
  have old: "el_refs e \<subseteq> {..<length ts}" by (rule delivery_invD(2) [OF inv mine])
  have other: "tracked (Q h) (ce_bundleInfo x) (ce_metas x) ts'" "el_refs x \<subseteq> {..<length ts'}"
    "el_refs x \<inter> el_refs e' = {}" if x: "cm_elem cm h j x" "(h, j) \<noteq> (hub, i)" for h j x
  proof -
    note D = delivery_invD(1,2) [OF inv x(1)]
    have dis: "el_refs x \<inter> el_refs e = {}" using delivery_invD(3) [OF inv x(1) mine x(2)] .
    have "\<forall>t \<in> el_refs x. ts' ! t = ts ! t" using D(2) dis ts'(2) by blast
    with tracked_mono [OF D(1), of "Q h" ts'] PQ show "tracked (Q h) (ce_bundleInfo x) (ce_metas x) ts'" by blast
    show "el_refs x \<subseteq> {..<length ts'}" using D(2) ts'(1) by auto
    show "el_refs x \<inter> el_refs e' = {}" using D(2) dis e'(2) by fastforce
  qed
  have "el_refs e' \<subseteq> {..<length ts'}" using e'(2) old ts'(1) by fastforce
  with e'(1) have each: "tracked (Q h) (ce_bundleInfo x) (ce_metas x) ts' \<and> el_refs x \<subseteq> {..<length ts'}"
    if "cm_elem (set_unit cm hub cu') h j x" for h j x
    using that other(1,2) [of h j x] by (cases "(h, j) = (hub, i)") (simp_all add: elem)
  have "el_refs x \<inter> el_refs y = {}" if "cm_elem (set_unit cm hub cu') h j x" "cm_elem (set_unit cm hub cu') h' j' y"
    "(h, j) \<noteq> (h', j')" for h j x h' j' y
  proof (cases "(h, j) = (hub, i)")
    case True
    with that other(3) [of h' j' y] show ?thesis by (auto simp: elem)
  next
    case x: False
    show ?thesis
    proof (cases "(h', j') = (hub, i)")
      case True
      with that x other(3) [of h j x] show ?thesis by (auto simp: elem)
    next
      case False
      with that x delivery_invD(3) [OF inv, of h j x h' j' y] show ?thesis by (auto simp: elem)
    qed
  qed
  with each show ?thesis unfolding delivery_inv_def by blast
qed

text \<open>A new unit has no bundles and no objects.\<close>

lemma register_all_slots:
  "register_all rs pq btp = Some (pq', btp') \<Longrightarrow> set pq' \<subseteq> set pq \<union> range (Some \<circ> new_element)"
proof (induction rs arbitrary: pq btp)
  case (Cons r rs)
  then obtain pq1 where pq1: "pq1 = pq[reg_priority r := Some (new_element r)]" and
    "register_all rs pq1 (btp(reg_bundleType r \<mapsto> reg_priority r)) = Some (pq', btp')"
    by (auto simp: bind_Some_iff)
  with Cons.IH have "set pq' \<subseteq> set pq1 \<union> range (Some \<circ> new_element)" by blast
  moreover have "set pq1 \<subseteq> insert (Some (new_element r)) (set pq)" unfolding pq1 by (rule set_update_subset_insert)
  ultimately show ?case by auto
qed auto

lemma new_unit_elements:
  assumes "newConflationUnit name rs req = Some cu" "get_element cu i = Some e"
  shows "\<exists>r. e = new_element r"
proof -
  obtain pq btp where pq: "register_all rs (replicate (length rs) None) Map.empty = Some (pq, btp)" "cu_priorityQueue cu = pq"
    using assms(1) by (auto simp: newConflationUnit_def bind_Some_iff)
  have "Some e \<in> set pq" using assms(2) pq(2) by (auto simp: get_element_def bind_Some_iff in_set_conv_nth)
  with register_all_slots [OF pq(1)] show ?thesis by auto
qed

lemma new_element_refs: "el_refs (new_element r) = {}" "tracked P (ce_bundleInfo (new_element r)) (ce_metas (new_element r)) ts"
  by (cases "reg_syncMode r"; simp add: new_element_def newCompleteStateBundleInfo_def newDeltaStateBundleInfo_def)+

lemma delivery_getConflationUnit:
  assumes "delivery_inv P cm ts" "getConflationUnit cm n = Some (cu, cm')"
  shows "delivery_inv P cm' ts"
proof (cases "cm_conflationUnits cm n")
  case (Some c)
  with assms show ?thesis by (simp add: getConflationUnit_def)
next
  case None
  with assms(2) have cu: "newConflationUnit n (cm_registrations cm) (cm_requireInitialDependencyChecks cm) = Some cu"
    "cm' = set_unit cm n cu" by (auto simp: getConflationUnit_def bind_Some_iff)
  have elem: "cm_elem cm h j x \<or> (\<exists>r. x = new_element r)" if "cm_elem cm' h j x" for h j x
    using that new_unit_elements [OF cu(1)] by (auto simp: cu(2) cm_elem_def split: if_split_asm)
  show ?thesis unfolding delivery_inv_def
  proof (intro conjI allI impI)
    fix h j x assume "cm_elem cm' h j x"
    with elem delivery_invD(1,2) [OF assms(1)] new_element_refs
    show "tracked (P h) (ce_bundleInfo x) (ce_metas x) ts" "el_refs x \<subseteq> {..<length ts}" by (metis empty_subsetI)+
  next
    fix h j x h' j' y assume "cm_elem cm' h j x" "cm_elem cm' h' j' y" "(h, j) \<noteq> (h', j')"
    with elem delivery_invD(3) [OF assms(1)] new_element_refs(1) show "el_refs x \<inter> el_refs y = {}"
      by (metis Int_empty_left Int_empty_right)
  qed
qed

section \<open>The invariant along a run\<close>

text \<open>In the run from \<open>s0\<close> to \<open>s\<close> the consumer handed over the bundle \<open>b\<close> of the leaf hub with the metadata \<open>tm\<close>.\<close>

definition received ::
    "(string set \<Rightarrow> string list) \<Rightarrow> 'h pipeline \<Rightarrow> 'h pipeline \<Rightarrow> string \<Rightarrow> status_bundle \<Rightarrow> transport_metadata \<Rightarrow> bool" where
  "received enum s0 s hub b tm \<longleftrightarrow> GetLeafHubName b = hub \<and>
     (\<exists>s1 s2 now. reachable enum s0 s1 \<and> consume enum now s1 b tm = Some s2 \<and> reachable enum s2 s)"

lemma received_step: "received enum s0 s hub b tm \<Longrightarrow> pipeline_step enum s s' \<Longrightarrow> received enum s0 s' hub b tm"
  unfolding received_def by (blast intro: reach_step)

lemma received_now:
  "reachable enum s0 s \<Longrightarrow> consume enum now s b tm = Some s' \<Longrightarrow> received enum s0 s' (GetLeafHubName b) b tm"
  unfolding received_def by (blast intro: reach_init)

lemma consume_parts:
  assumes inv: "pipeline_inv s" and b: "deliverable (pl_manager s) b" and run: "consume enum now s b tm = Some s'"
  obtains cu cm1 sh sh' cu' jobs i where "getConflationUnit (pl_manager s) (GetLeafHubName b) = Some (cu, cm1)"
    "cm_conflationUnits cm1 (GetLeafHubName b) = Some cu" "sh_tmetas sh = sh_tmetas (pl_shared s) @ [tm]"
    "cu_inv (cm_types (pl_manager s)) cu sh (jobs (GetLeafHubName b))"
    "cu_insert enum now cu sh b (length (sh_tmetas (pl_shared s))) = Some (cu', sh')"
    "pl_manager s' = set_unit cm1 (GetLeafHubName b) cu'" "pl_shared s' = sh'"
    "i < length (cm_types (pl_manager s))" "GetBundleType b = cm_types (pl_manager s) ! i" "wf_bundle b"
    "cm_conflationUnits (pl_manager s) (GetLeafHubName b) \<noteq> None \<longrightarrow> cm1 = pl_manager s"
proof -
  obtain jobs where cm: "cm_inv (pl_manager s) (pl_shared s) jobs" using inv by (auto simp: pipeline_inv_def)
  let ?n = "GetLeafHubName b" and ?ts = "sh_tmetas (pl_shared s)"
  from run obtain st cm' sh' where st: "IncrementNumberOfReceivedBundles (sh_stats (pl_shared s)) b = Some st"
    "cm_Insert enum now (pl_manager s) ((set_stats (pl_shared s) st)\<lparr>sh_tmetas := ?ts @ [tm]\<rparr>) b (length ?ts) = Some (cm', sh')"
    "s' = s\<lparr>pl_manager := cm', pl_shared := sh'\<rparr>"
    by (auto simp: consume_def Let_def bind_Some_iff)
  let ?sh = "(set_stats (pl_shared s) st)\<lparr>sh_tmetas := ?ts @ [tm]\<rparr>"
  have "stats_complete st"
    using update_metrics_complete [OF cm_invD(1) [OF cm]] st(1) unfolding IncrementNumberOfReceivedBundles_def by (metis option.inject)
  then have cm1: "cm_inv (pl_manager s) ?sh jobs" by (intro cm_inv_shared [OF cm]) (simp_all add: set_stats_def)
  obtain cu cm1 where g: "getConflationUnit (pl_manager s) ?n = Some (cu, cm1)" "cm_inv cm1 ?sh jobs"
    "cm_conflationUnits cm1 ?n = Some cu" "cm_registrations cm1 = cm_registrations (pl_manager s)"
    by (rule getConflationUnit_ok [OF cm1, of ?n]) blast
  obtain cu' where ins: "cu_insert enum now cu ?sh b (length ?ts) = Some (cu', sh')" "cm' = set_unit cm1 ?n cu'"
    using st(2) g(1) by (auto simp: cm_Insert_def bind_Some_iff)
  have "cu_inv (cm_types (pl_manager s)) cu ?sh (jobs ?n)" using cm_invD(2) [OF g(2,3)] g(4) by simp
  moreover from b obtain i where "i < length (cm_types (pl_manager s))" "GetBundleType b = cm_types (pl_manager s) ! i" "wf_bundle b"
    unfolding deliverable_def by (metis in_set_conv_nth)
  moreover have "cm1 = pl_manager s" if "cm_conflationUnits (pl_manager s) ?n \<noteq> None"
    using that g(1) by (auto simp: getConflationUnit_def)
  ultimately show thesis using that [of cu cm1 ?sh jobs cu' sh' i] g ins st(3) by auto
qed

lemma delivery_consume:
  assumes inv: "pipeline_inv s" and D: "delivery_inv P (pl_manager s) (sh_tmetas (pl_shared s))"
    and b: "deliverable (pl_manager s) b" and run: "consume enum now s b tm = Some s'" and tm: "\<not> Processed tm"
    and PQ: "\<And>h b tm. P h b tm \<Longrightarrow> Q h b tm" and new: "Q (GetLeafHubName b) b tm"
  shows "delivery_inv Q (pl_manager s') (sh_tmetas (pl_shared s'))"
proof (rule consume_parts [OF inv b run])
  fix cu cm1 sh sh' cu' jobs i
  let ?n = "GetLeafHubName b" and ?ts = "sh_tmetas (pl_shared s)"
  assume g: "getConflationUnit (pl_manager s) ?n = Some (cu, cm1)" "cm_conflationUnits cm1 ?n = Some cu"
    and sh: "sh_tmetas sh = ?ts @ [tm]" and cu: "cu_inv (cm_types (pl_manager s)) cu sh (jobs ?n)"
    and ins: "cu_insert enum now cu sh b (length ?ts) = Some (cu', sh')"
    and s': "pl_manager s' = set_unit cm1 ?n cu'" "pl_shared s' = sh'"
    and i: "i < length (cm_types (pl_manager s))" "GetBundleType b = cm_types (pl_manager s) ! i" "wf_bundle b"
  have D1: "delivery_inv P cm1 ?ts" by (rule delivery_getConflationUnit [OF D g(1)])
  have t: "length ?ts < length (sh_tmetas sh)" using sh by simp
  note ie = insert_elements [OF cu i(3,1,2) t ins]
  have ok: "unit_ok (cm_types (pl_manager s)) cu (sh_tmetas sh) (jobs ?n)" using cu by (simp add: cu_inv_def)
  have e: "get_element cu i = Some (el cu i)" by (rule get_element_el [OF unit_okD(1) [OF ok] i(1)])
  have ts': "sh_tmetas (pl_shared s') = ?ts @ [tm]" using ie(1) sh s'(2) by simp
  from ie(2) show ?thesis
  proof (elim disjE conjE exE)
    assume "get_element cu' = get_element cu"
    from delivery_inv_grow [OF D1 PQ cm_elem_same [OF g(2) this]] show ?thesis by (simp add: s'(1) ts')
  next
    fix e' assume up: "element_update enum (el cu i) b (length ?ts) = Some (Inr e')"
      and cu': "get_element cu' = (get_element cu)(i \<mapsto> e')"
    let ?e = "el cu i"
    have mine: "cm_elem cm1 ?n i ?e" using g(2) e by (auto simp: cm_elem_def)
    note De = delivery_invD(1,2) [OF D1 mine]
    obtain bi ms where bi: "bi_update enum (ce_bundleInfo ?e) b (length ?ts) (\<not> ce_isInProcess ?e) (ce_metas ?e) = Some (Inr (bi, ms))"
      "e' = ?e\<lparr>ce_bundleInfo := bi, ce_metas := ms\<rparr>"
      using up by (cases "bi_update enum (ce_bundleInfo ?e) b (length ?ts) (\<not> ce_isInProcess ?e) (ce_metas ?e)")
        (auto simp: element_update_def split: sum.split_asm)
    have "tracked (Q ?n) (ce_bundleInfo ?e) (ce_metas ?e) (?ts @ [tm])"
      using De PQ by (elim tracked_mono) (auto simp: nth_append)
    then have "tracked (Q ?n) bi ms (?ts @ [tm])"
      by (rule tracked_update [OF bi(1)]) (use De(2) tm new in auto)
    moreover have "el_refs e' \<subseteq> el_refs ?e \<union> {length ?ts..<length (?ts @ [tm])}" using bi_update_refs [OF bi(1)] bi(2) by auto
    ultimately have "delivery_inv Q (set_unit cm1 ?n cu') (?ts @ [tm])"
      by (intro delivery_inv_set [OF D1 g(2) e cu' _ _ _ _ PQ]) (use bi(2) in \<open>auto simp: nth_append\<close>)
    then show ?thesis by (simp add: s'(1) ts')
  qed
qed


lemma dispatch_parts:
  assumes "dispatch_next now s n w = Some s'"
  obtains cu r cu' where "cm_conflationUnits (pl_manager s) n = Some cu" "GetNext now cu (pl_shared s) = Some (r, cu', pl_shared s')"
    "pl_manager s' = set_unit (pl_manager s) n cu'"
proof -
  obtain cu r cu' sh' where c: "cm_conflationUnits (pl_manager s) n = Some cu" "GetNext now cu (pl_shared s) = Some (r, cu', sh')"
    using assms by (auto simp: dispatch_next_def bind_Some_iff)
  moreover from c assms have "pl_manager s' = set_unit (pl_manager s) n cu'" "pl_shared s' = sh'"
    by (cases r; auto simp: dispatch_next_def Let_def bind_Some_iff)+
  ultimately show thesis using that by blast
qed

lemma delivery_next:
  assumes D: "delivery_inv P (pl_manager s) (sh_tmetas (pl_shared s))" and run: "dispatch_next now s n w = Some s'"
    and PQ: "\<And>h b tm. P h b tm \<Longrightarrow> Q h b tm"
  shows "delivery_inv Q (pl_manager s') (sh_tmetas (pl_shared s'))"
proof -
  obtain cu r cu' where c: "cm_conflationUnits (pl_manager s) n = Some cu" "GetNext now cu (pl_shared s) = Some (r, cu', pl_shared s')"
    and s': "pl_manager s' = set_unit (pl_manager s) n cu'" by (rule dispatch_parts [OF run])
  note nx = next_elements [OF c(2)]
  from nx(2) show ?thesis
  proof (elim disjE exE conjE)
    assume "get_element cu' = get_element cu"
    from delivery_inv_same [OF D PQ cm_elem_same [OF c(1) this]] show ?thesis by (simp add: s' nx(1))
  next
    fix p e b a e' assume e: "get_element cu p = Some e" "get_element cu' = (get_element cu)(p \<mapsto> e')"
      and "getBundleForProcessing (e\<lparr>ce_isInProcess := True\<rparr>) = Some (b, a, e')"
    then obtain bi ms a' where bi: "bi_getMetadata (ce_bundleInfo e) (ce_metas e) = Some (a', bi, ms)"
      "ce_bundleInfo e' = bi" "ce_metas e' = ms"
      by (auto simp: getBundleForProcessing_def Let_def bind_Some_iff)
    have "cm_elem (pl_manager s) n p e" using c(1) e(1) by (auto simp: cm_elem_def)
    from delivery_invD(1) [OF D this] have "tracked (Q n) (ce_bundleInfo e) (ce_metas e) (sh_tmetas (pl_shared s))"
      by (rule tracked_mono) (use PQ in auto)
    from tracked_getMetadata [OF bi(1) this] bi_getMetadata_refs [OF bi(1)]
    have "delivery_inv Q (set_unit (pl_manager s) n cu') (sh_tmetas (pl_shared s))"
      by (intro delivery_inv_set [OF D c(1) e _ _ _ _ PQ]) (use bi in auto)
    then show ?thesis by (simp add: s' nx(1))
  qed
qed

text \<open>The report of a job, as the pipeline makes it.\<close>

lemma finish_parts:
  assumes inv: "pipeline_inv s" and job: "running s w job" and run: "worker_finish enum duration failed s w job = Some s'"
  obtains cu cu' p a e' where "cm_conflationUnits (pl_manager s) (job_conflationUnit job) = Some cu"
    "pl_manager s' = set_unit (pl_manager s) (job_conflationUnit job) cu'" "get_element cu p = Some (el cu p)"
    "get_element cu' = (get_element cu)(p \<mapsto> e')" "a < length (ce_metas (el cu p))"
    "reported enum failed a (el cu p) (sh_tmetas (pl_shared s)) e' (sh_tmetas (pl_shared s'))"
    "element_ok (cm_types (pl_manager s) ! p) (Some a) (el cu p) (sh_tmetas (pl_shared s))"
proof -
  obtain jobs where cm: "cm_inv (pl_manager s) (pl_shared s) jobs" and jobs: "jobs_inv s jobs"
    using inv by (auto simp: pipeline_inv_def)
  let ?n = "job_conflationUnit job"
  obtain p a where pa: "job_bundleMetadata job = (p, a)" by (cases "job_bundleMetadata job")
  obtain st cu cu' sh' where f: "cm_conflationUnits (pl_manager s) ?n = Some cu"
    "AddDatabaseMetrics (sh_stats (pl_shared s)) (job_bundle job) duration failed = Some st"
    "ReportResult enum cu (set_stats (pl_shared s) st) (p, a) failed = Some (cu', sh')"
    "pl_manager s' = set_unit (pl_manager s) ?n cu'" "pl_shared s' = sh'"
    using run by (auto simp: worker_finish_def Let_def bind_Some_iff pa)
  have "jobs ?n = Some (p, a)" using jobs_invD(1) [OF jobs job] pa by simp
  moreover have "stats_complete st"
    using update_metrics_complete [OF cm_invD(1) [OF cm]] f(2) unfolding AddDatabaseMetrics_def by (metis option.inject)
  ultimately have cu: "cu_inv (cm_types (pl_manager s)) cu (set_stats (pl_shared s) st) (Some (p, a))"
    using cu_inv_other [OF conjunct1 [OF cm_invD(2) [OF cm f(1)]], of "set_stats (pl_shared s) st"] by simp
  then have ok: "unit_ok (cm_types (pl_manager s)) cu (sh_tmetas (pl_shared s)) (Some (p, a))"
    by (simp add: cu_inv_def)
  then have p: "p < length (cm_types (pl_manager s))" by (auto simp: unit_ok_def)
  have e: "element_ok (cm_types (pl_manager s) ! p) (Some a) (el cu p) (sh_tmetas (pl_shared s))"
    using unit_okD(2) [OF ok p] by simp
  then have a: "a < length (ce_metas (el cu p))" by (auto simp: element_ok_def)
  obtain e' where "reported enum failed a (el cu p) (sh_tmetas (pl_shared s)) e' (sh_tmetas sh')"
    "get_element cu p = Some (el cu p)" "get_element cu' = (get_element cu)(p \<mapsto> e')"
    using report_elements [OF cu f(3)] by auto
  with that f e a show thesis by blast
qed

lemma reported_tracked:
  assumes r: "reported enum failed a e ts e' ts'" and tr: "tracked P (ce_bundleInfo e) (ce_metas e) ts" and a: "a < length (ce_metas e)"
  shows "tracked P (ce_bundleInfo e') (ce_metas e') ts'" "el_refs e' \<subseteq> el_refs e" "length ts' = length ts"
    "t \<notin> el_refs e \<Longrightarrow> ts' ! t = ts ! t"
proof -
  have "tracked P (ce_bundleInfo e') (ce_metas e') ts' \<and> el_refs e' \<subseteq> el_refs e \<and> length ts' = length ts \<and>
    (t \<notin> el_refs e \<longrightarrow> ts' ! t = ts ! t)"
  proof (cases failed)
    case True
    with r obtain bi ms where "bi_handleFailure enum (ce_bundleInfo e) (ce_metas e ! a) (ce_metas e) = Some (bi, ms)"
      "ce_bundleInfo e' = bi" "ce_metas e' = ms" "ts' = ts" by (auto simp: reported_def)
    with tr tracked_handleFailure bi_handleFailure_refs show ?thesis by blast
  next
    case False
    with r obtain bi where bi: "bi_markAsProcessed (ce_bundleInfo e) (ce_metas e ! a) (ce_metas e) ts = Some (bi, ts')"
      "ce_bundleInfo e' = bi" "ce_metas e' = ce_metas e" by (auto simp: reported_def)
    obtain u where u: "md_transport (ce_metas e ! a) = Some u" "ts' = ts[u := MarkAsProcessed (ts ! u)]"
      using bi_mark_refs(2) [OF bi(1)] by auto
    have "u \<in> el_refs e" using md_refs_nth [OF a u(1)] by (cases "ce_bundleInfo e") auto
    then have "t \<notin> el_refs e \<longrightarrow> ts' ! t = ts ! t" using u(2) by (cases "t = u") auto
    with bi tracked_mark [OF bi(1) tr a] bi_mark_refs(1) [OF bi(1)] u(2) show ?thesis by simp
  qed
  then show "tracked P (ce_bundleInfo e') (ce_metas e') ts'" "el_refs e' \<subseteq> el_refs e" "length ts' = length ts"
    "t \<notin> el_refs e \<Longrightarrow> ts' ! t = ts ! t" by auto
qed

lemma delivery_finish:
  assumes inv: "pipeline_inv s" and D: "delivery_inv P (pl_manager s) (sh_tmetas (pl_shared s))" and job: "running s w job"
    and run: "worker_finish enum duration failed s w job = Some s'" and PQ: "\<And>h b tm. P h b tm \<Longrightarrow> Q h b tm"
  shows "delivery_inv Q (pl_manager s') (sh_tmetas (pl_shared s'))"
proof (rule finish_parts [OF inv job run])
  fix cu cu' p a e'
  let ?n = "job_conflationUnit job" and ?ts = "sh_tmetas (pl_shared s)" and ?ts' = "sh_tmetas (pl_shared s')"
  assume cu: "cm_conflationUnits (pl_manager s) ?n = Some cu" "get_element cu p = Some (el cu p)"
    "get_element cu' = (get_element cu)(p \<mapsto> e')" and s': "pl_manager s' = set_unit (pl_manager s) ?n cu'"
    and a: "a < length (ce_metas (el cu p))" and r: "reported enum failed a (el cu p) ?ts e' ?ts'"
  have "cm_elem (pl_manager s) ?n p (el cu p)" using cu by (auto simp: cm_elem_def)
  from delivery_invD(1) [OF D this] have "tracked (Q ?n) (ce_bundleInfo (el cu p)) (ce_metas (el cu p)) ?ts"
    by (rule tracked_mono) (use PQ in auto)
  note rt = reported_tracked [OF r this a]
  show ?thesis unfolding s'
    by (rule delivery_inv_set [OF D cu, where Q = Q]) (use rt PQ in auto)
qed

lemma delivery_step:
  assumes step: "pipeline_step enum s s'" and inv: "pipeline_inv s" and run: "reachable enum s0 s"
    and D: "delivery_inv (received enum s0 s) (pl_manager s) (sh_tmetas (pl_shared s))"
  shows "delivery_inv (received enum s0 s') (pl_manager s') (sh_tmetas (pl_shared s'))"
proof -
  have PQ: "received enum s0 s h b tm \<Longrightarrow> received enum s0 s' h b tm" for h b tm
    by (rule received_step [OF _ step])
  note same = delivery_inv_same [OF D PQ]
  from step show ?thesis
  proof cases
    case (step_consume b now tm)
    show ?thesis
      by (rule delivery_consume [OF inv D step_consume(1-3)]) (use PQ received_now [OF run step_consume(2)] in auto)
  next
    case (step_next n w now)
    show ?thesis by (rule delivery_next [OF D step_next(2) PQ])
  next
    case (step_finish w job duration failed)
    then have "running s w job" by (simp add: running_def)
    from delivery_finish [OF inv D this step_finish(3)] PQ show ?thesis by blast
  qed (use same in \<open>auto simp: Acquire_def worker_return_def set_available_def set_stats_def Let_def split: list.split_asm\<close>)
qed

lemma delivery_reachable:
  assumes "reachable enum s0 s" "pipeline_inv s0" "cm_conflationUnits (pl_manager s0) = Map.empty"
  shows "delivery_inv (received enum s0 s) (pl_manager s) (sh_tmetas (pl_shared s))"
  using assms
proof (induction rule: reachable.induct)
  case reach_init
  then show ?case by (simp add: delivery_inv_def cm_elem_def)
next
  case (reach_step s s')
  then show ?case using delivery_step reachable_inv by blast
qed

section \<open>A version stays at hand along a run\<close>

lemma getConflationUnit_keeps:
  assumes "getConflationUnit cm n = Some (cu, cm')"
  shows "cm_registrations cm' = cm_registrations cm" "insert n (dom (cm_conflationUnits cm')) = insert n (dom (cm_conflationUnits cm))"
    "cm_elem cm h j x \<Longrightarrow> cm_elem cm' h j x"
  using assms by (auto simp: getConflationUnit_def cm_elem_def bind_Some_iff set_unit_def split: option.split_asm if_split_asm)

lemma step_registrations:
  assumes "pipeline_step enum s s'"
  shows "cm_registrations (pl_manager s') = cm_registrations (pl_manager s)"
  using assms
proof cases
  case (step_consume b now tm)
  then obtain cu cm1 cu' where "getConflationUnit (pl_manager s) (GetLeafHubName b) = Some (cu, cm1)"
    "pl_manager s' = set_unit cm1 (GetLeafHubName b) cu'"
    by (auto simp: consume_def cm_Insert_def Let_def bind_Some_iff)
  with getConflationUnit_keeps(1) [OF this(1)] show ?thesis by simp
next
  case (step_next n w now)
  then show ?thesis by (auto elim: dispatch_parts)
qed (auto simp: worker_finish_def Acquire_def worker_return_def Let_def bind_Some_iff split: list.split_asm)

lemma reachable_registrations:
  "reachable enum s0 s \<Longrightarrow> cm_registrations (pl_manager s) = cm_registrations (pl_manager s0)"
  by (induction rule: reachable.induct) (auto dest: step_registrations)

lemma step_at_hand:
  assumes step: "pipeline_step enum s s'" and inv: "pipeline_inv s"
    and e: "cm_elem (pl_manager s) hub i e" "is_complete e" "at_hand v e"
  shows "\<exists>e'. cm_elem (pl_manager s') hub i e' \<and> is_complete e' \<and> at_hand v e'"
  using step
proof cases
  case (step_consume b now tm)
  show ?thesis
  proof (rule consume_parts [OF inv step_consume(1,2)])
    fix cu cm1 sh sh' cu' jobs k
    let ?n = "GetLeafHubName b" and ?ts = "sh_tmetas (pl_shared s)"
    assume g: "getConflationUnit (pl_manager s) ?n = Some (cu, cm1)" "cm_conflationUnits cm1 ?n = Some cu"
      and sh: "sh_tmetas sh = ?ts @ [tm]" and cu: "cu_inv (cm_types (pl_manager s)) cu sh (jobs ?n)"
      and ins: "cu_insert enum now cu sh b (length ?ts) = Some (cu', sh')"
      and s': "pl_manager s' = set_unit cm1 ?n cu'"
      and k: "k < length (cm_types (pl_manager s))" "GetBundleType b = cm_types (pl_manager s) ! k" "wf_bundle b"
    have e1: "cm_elem cm1 hub i e" by (rule getConflationUnit_keeps(3) [OF g(1) e(1)])
    have t: "length ?ts < length (sh_tmetas sh)" using sh by simp
    from insert_elements(2) [OF cu k(3,1,2) t ins] show ?thesis
    proof (elim disjE conjE exE)
      assume "get_element cu' = get_element cu"
      from cm_elem_same [OF g(2) this] e1 e(2,3) show ?thesis by (auto simp: s')
    next
      fix e' assume up: "element_update enum (el cu k) b (length ?ts) = Some (Inr e')" "newer_for b (el cu k)"
        "at_hand (the (GetVersion b)) e'" and cu': "get_element cu' = (get_element cu)(k \<mapsto> e')"
      show ?thesis
      proof (cases "(hub, i) = (?n, k)")
        case True
        then have "e = el cu k" using e1 g(2) by (auto simp: cm_elem_def get_element_def el_def deref_def split: if_splits option.splits)
        with at_hand_update [OF up] is_complete_update [OF up(1)] e(2,3) k(3) True cm_elem_set_unit [OF g(2) cu', of hub i e']
        show ?thesis by (intro exI [of _ e']) (simp add: s')
      next
        case False
        with cm_elem_set_unit [OF g(2) cu', of hub i e] e1 e(2,3) show ?thesis by (auto simp: s')
      qed
    qed
  qed
next
  case (step_next n w now)
  obtain cu r cu' where c: "cm_conflationUnits (pl_manager s) n = Some cu" "GetNext now cu (pl_shared s) = Some (r, cu', pl_shared s')"
    and s': "pl_manager s' = set_unit (pl_manager s) n cu'" by (rule dispatch_parts [OF step_next(2)])
  from next_elements(2) [OF c(2)] show ?thesis
  proof (elim disjE exE conjE)
    assume "get_element cu' = get_element cu"
    from cm_elem_same [OF c(1) this] e show ?thesis by (auto simp: s')
  next
    fix p x b a e' assume x: "get_element cu p = Some x" and cu': "get_element cu' = (get_element cu)(p \<mapsto> e')"
      and d: "getBundleForProcessing (x\<lparr>ce_isInProcess := True\<rparr>) = Some (b, a, e')"
    show ?thesis
    proof (cases "(hub, i) = (n, p)")
      case True
      then have "x = e" using e(1) c(1) x by (auto simp: cm_elem_def)
      with at_hand_dispatch [OF d] is_complete_dispatch [OF d] e(2,3) True cm_elem_set_unit [OF c(1) cu', of hub i e']
      show ?thesis by (intro exI [of _ e']) (simp add: s')
    next
      case False
      with cm_elem_set_unit [OF c(1) cu', of hub i e] e show ?thesis by (auto simp: s')
    qed
  qed
next
  case (step_finish w job duration failed)
  then have "running s w job" by (simp add: running_def)
  then show ?thesis
  proof (rule finish_parts [OF inv _ step_finish(3)])
    fix cu cu' p a e'
    let ?n = "job_conflationUnit job"
    assume c: "cm_conflationUnits (pl_manager s) ?n = Some cu" and s': "pl_manager s' = set_unit (pl_manager s) ?n cu'"
      and x: "get_element cu p = Some (el cu p)" and cu': "get_element cu' = (get_element cu)(p \<mapsto> e')"
      and r: "reported enum failed a (el cu p) (sh_tmetas (pl_shared s)) e' (sh_tmetas (pl_shared s'))"
      and ok: "element_ok (cm_types (pl_manager s) ! p) (Some a) (el cu p) (sh_tmetas (pl_shared s))"
    show ?thesis
    proof (cases "(hub, i) = (?n, p)")
      case True
      then have "el cu p = e" using e(1) c x by (auto simp: cm_elem_def)
      with at_hand_reported [OF r _ _ ok] is_complete_reported [OF r] e(2,3) True cm_elem_set_unit [OF c cu', of hub i e']
      show ?thesis by (intro exI [of _ e']) (simp add: s')
    next
      case False
      with cm_elem_set_unit [OF c cu', of hub i e] e show ?thesis by (auto simp: s')
    qed
  qed
qed (use e in \<open>auto simp: Acquire_def worker_return_def Let_def split: list.split_asm\<close>)

lemma reachable_at_hand:
  assumes "reachable enum s s'" "pipeline_inv s" "cm_elem (pl_manager s) hub i e" "is_complete e" "at_hand v e"
  shows "\<exists>e'. cm_elem (pl_manager s') hub i e' \<and> is_complete e' \<and> at_hand v e'"
  using assms
proof (induction rule: reachable.induct)
  case (reach_step s' s'')
  then obtain e' where "cm_elem (pl_manager s') hub i e'" "is_complete e'" "at_hand v e'" by blast
  with step_at_hand [OF reach_step(2) reachable_inv] reach_step show ?case by blast
qed blast

lemma cm_elem_ok:
  assumes "pipeline_inv s" "cm_elem (pl_manager s) hub i e"
  obtains cu ja where "cm_conflationUnits (pl_manager s) hub = Some cu" "get_element cu i = Some e"
    "i < length (cm_types (pl_manager s))" "priority_of cu (cm_types (pl_manager s) ! i) = i"
    "element_ok (cm_types (pl_manager s) ! i) ja e (sh_tmetas (pl_shared s))"
proof -
  obtain jobs where cm: "cm_inv (pl_manager s) (pl_shared s) jobs" using assms(1) by (auto simp: pipeline_inv_def)
  obtain cu where cu: "cm_conflationUnits (pl_manager s) hub = Some cu" "get_element cu i = Some e"
    using assms(2) by (auto simp: cm_elem_def)
  have ok: "unit_ok (cm_types (pl_manager s)) cu (sh_tmetas (pl_shared s)) (jobs hub)"
    using cm_invD(2) [OF cm cu(1)] by (simp add: cu_inv_def)
  note shape = unit_okD(1) [OF ok]
  have i: "i < length (cm_types (pl_manager s))"
    using cu(2) shape by (auto simp: get_element_def cu_shape_def deref_def bind_Some_iff split: if_splits)
  with get_element_el [OF shape i] cu(2) unit_okD(2) [OF ok i] priority_of_ty [OF shape i] cu(1) that show thesis by simp
qed

text \<open>The bundle that was just handed over is at hand, unless it updates a delta element.\<close>

lemma consume_at_hand:
  assumes inv: "pipeline_inv s" and b: "deliverable (pl_manager s) b" and run: "consume enum now s b tm = Some s'"
  obtains i e where "i < length (cm_types (pl_manager s))" "GetBundleType b = cm_types (pl_manager s) ! i"
    "cm_elem (pl_manager s') (GetLeafHubName b) i e" "at_hand (the (GetVersion b)) e"
proof (rule consume_parts [OF inv b run])
  fix cu cm1 sh sh' cu' jobs i
  let ?n = "GetLeafHubName b" and ?ts = "sh_tmetas (pl_shared s)"
  assume g: "cm_conflationUnits cm1 ?n = Some cu"
    and sh: "sh_tmetas sh = ?ts @ [tm]" and cu: "cu_inv (cm_types (pl_manager s)) cu sh (jobs ?n)"
    and ins: "cu_insert enum now cu sh b (length ?ts) = Some (cu', sh')"
    and s': "pl_manager s' = set_unit cm1 ?n cu'"
    and i: "i < length (cm_types (pl_manager s))" "GetBundleType b = cm_types (pl_manager s) ! i" "wf_bundle b"
  have t: "length ?ts < length (sh_tmetas sh)" using sh by simp
  have ok: "unit_ok (cm_types (pl_manager s)) cu (sh_tmetas sh) (jobs ?n)" using cu by (simp add: cu_inv_def)
  have e: "get_element cu i = Some (el cu i)" by (rule get_element_el [OF unit_okD(1) [OF ok] i(1)])
  from insert_elements(2) [OF cu i(3,1,2) t ins] obtain e' where "get_element cu' i = Some e'" "at_hand (the (GetVersion b)) e'"
    using e by auto
  then have "cm_elem (pl_manager s') ?n i e'" "at_hand (the (GetVersion b)) e'" by (auto simp: s' cm_elem_def set_unit_def)
  with that i(1,2) show thesis by blast
qed

section \<open>What the committer makes of a pending bundle\<close>

lemma collect_metadata_mem:
  "collect_metadata slots = Some addrs \<Longrightarrow> Some e \<in> set slots \<Longrightarrow>
    bi_getTransportMetadataToCommit (ce_bundleInfo e) (ce_metas e) = Some (Some t) \<Longrightarrow> t \<in> set addrs"
  by (induction slots arbitrary: addrs) (auto simp: bind_Some_iff split: option.splits)

lemma units_metadata_mem:
  "units_metadata cm ns = Some addrs \<Longrightarrow> n \<in> set ns \<Longrightarrow> cm_elem cm n i e \<Longrightarrow>
    bi_getTransportMetadataToCommit (ce_bundleInfo e) (ce_metas e) = Some (Some t) \<Longrightarrow> t \<in> set addrs"
proof (induction ns arbitrary: addrs)
  case (Cons m ns)
  then obtain cu as bs where parts: "cm_conflationUnits cm m = Some cu" "getBundlesMetadata cu = Some as"
    "units_metadata cm ns = Some bs" "addrs = as @ bs" by (auto simp: bind_Some_iff)
  show ?case
  proof (cases "n = m")
    case True
    with Cons.prems(3) parts(1) have "Some e \<in> set (cu_priorityQueue cu)"
      by (auto simp: cm_elem_def get_element_def deref_def bind_Some_iff split: if_splits) (metis nth_mem)
    with collect_metadata_mem [of _ as e t] parts(2) Cons.prems(4) parts(4) show ?thesis by (simp add: getBundlesMetadata_def)
  next
    case False
    with Cons parts(3,4) show ?thesis by simp
  qed
qed simp

lemma offset_not_past_pending:
  assumes "KafkaMetadata False part off \<in> set ms" "offsets_to_commit ms part = Some c"
  shows "c \<le> off"
proof -
  have "off \<in> pending_at ms part" using assms(1) by (simp add: pending_at_def)
  with assms(2) Min_le [OF finite_pending_at(1) this] show ?thesis by (auto simp: offsets_to_commit_spec split: if_split_asm)
qed

lemma pending_is_tracked:
  assumes inv: "pipeline_inv s" and D: "delivery_inv P (pl_manager s) (sh_tmetas (pl_shared s))"
    and e: "cm_elem (pl_manager s) hub i e" "is_complete e" "bi_getBundle (ce_bundleInfo e) = Some b"
    and addrs: "cm_GetBundlesMetadata order (pl_manager s) = Some addrs" "hub \<in> set (order (dom (cm_conflationUnits (pl_manager s))))"
  obtains t where "t \<in> set addrs" "\<not> Processed (sh_tmetas (pl_shared s) ! t)" "P hub b (sh_tmetas (pl_shared s) ! t)"
proof -
  obtain ci where ci: "ce_bundleInfo e = CompleteInfo ci" using e(2) by blast
  with delivery_invD(1) [OF D e(1)] e(3) obtain a t where a: "ci_metadata ci = Some a" "a < length (ce_metas e)"
    "md_transport (ce_metas e ! a) = Some t" "\<not> Processed (sh_tmetas (pl_shared s) ! t)" "P hub b (sh_tmetas (pl_shared s) ! t)"
    by (auto simp: complete_getBundle_def)
  then have "bi_getTransportMetadataToCommit (ce_bundleInfo e) (ce_metas e) = Some (Some t)"
    by (simp add: ci complete_getTransportMetadataToCommit_def deref_def)
  from units_metadata_mem [OF addrs(1) [unfolded cm_GetBundlesMetadata_def] addrs(2) e(1) this] a that show thesis by blast
qed

lemma complete_by_type:
  assumes "pipeline_inv s" "cm_elem (pl_manager s) hub i e" "cm_types (pl_manager s) ! i \<noteq> bundle_struct NewDeltaComplianceStatusBundle"
  shows "is_complete e"
proof (rule cm_elem_ok [OF assms(1,2)])
  fix ja assume "element_ok (cm_types (pl_manager s) ! i) ja e (sh_tmetas (pl_shared s))"
  with assms(3) show ?thesis by (cases "ce_bundleInfo e") (auto simp: element_ok_def delta_inv_def)
qed

section \<open>The hubs of a run\<close>

fun event_hubs :: "event \<Rightarrow> string set" where
  "event_hubs (Consume now b tm) = {GetLeafHubName b}"
| "event_hubs _ = {}"

lemma exec_event_dom:
  assumes "exec_event enum ev s = Some s'"
  shows "dom (cm_conflationUnits (pl_manager s')) = event_hubs ev \<union> dom (cm_conflationUnits (pl_manager s))"
proof (cases ev)
  case (Consume now b tm)
  with assms obtain cu cm1 cu' where "getConflationUnit (pl_manager s) (GetLeafHubName b) = Some (cu, cm1)"
    "pl_manager s' = set_unit cm1 (GetLeafHubName b) cu'"
    by (auto simp: consume_def cm_Insert_def Let_def bind_Some_iff split: if_split_asm)
  with getConflationUnit_keeps(2) [OF this(1)] Consume show ?thesis by simp
next
  case (Next now)
  with assms show ?thesis by (auto elim!: dispatch_parts split: dispatcher_state.split_asm if_split_asm)
next
  case (Finish w duration failed)
  with assms show ?thesis
    by (auto simp: worker_finish_def Let_def bind_Some_iff split: if_split_asm worker_state.split_asm)
qed (use assms in \<open>auto simp: Acquire_def worker_return_def Let_def
    split: dispatcher_state.split_asm option.split_asm list.split_asm if_split_asm worker_state.split_asm\<close>)

lemma exec_events_dom:
  "exec_events enum evs s = Some s' \<Longrightarrow>
    dom (cm_conflationUnits (pl_manager s')) = \<Union> (event_hubs ` set evs) \<union> dom (cm_conflationUnits (pl_manager s))"
proof (induction evs arbitrary: s)
  case (Cons ev evs)
  then obtain t where "exec_event enum ev s = Some t" "exec_events enum evs t = Some s'" by (auto split: option.split_asm)
  with Cons.IH [of t] exec_event_dom [of enum ev s t] show ?case by (simp add: Un_ac)
qed simp

end
