(* ===== verification/Compliance_Table.thy ===== *)
theory Compliance_Table
  imports Policies_Db_Syncer
begin

text \<open>
  What a batch of the policies builder does to the compliance table. The calls on a builder are
  collected as a list of \<open>policy_op\<close>s; \<open>rep\<close> says that a builder holds exactly these calls, unsplit.
  The table is a map from (policy, cluster, leaf hub) to the error and compliance columns. What
  PostgreSQL does with each of the five statement texts is the hypothesis \<open>pg_compliance\<close>.
\<close>

section \<open>The calls on a builder\<close>

datatype policy_op =
    OInsert string string compliance_status
  | OUpdPolicy string compliance_status
  | OUpdCluster string string compliance_status
  | ODelPolicy string
  | ODelCluster string string

fun apply_op :: "policies_builder \<Rightarrow> policy_op \<Rightarrow> policies_builder" where
  "apply_op b (OInsert p c s) = policies_Insert b p c ErrorNone s"
| "apply_op b (OUpdPolicy p s) = UpdatePolicyCompliance b p s"
| "apply_op b (OUpdCluster p c s) = UpdateClusterCompliance b p c s"
| "apply_op b (ODelPolicy p) = DeletePolicy b p"
| "apply_op b (ODelCluster p c) = DeleteClusterStatus b p c"

definition ins_of :: "policy_op list \<Rightarrow> ((string \<times> string) \<times> compliance_status) list" where
  "ins_of ops = concat (map (\<lambda>op. case op of OInsert p c s \<Rightarrow> [((p, c), s)] | _ \<Rightarrow> []) ops)"

definition updp_of :: "policy_op list \<Rightarrow> (string \<times> compliance_status) list" where
  "updp_of ops = concat (map (\<lambda>op. case op of OUpdPolicy p s \<Rightarrow> [(p, s)] | _ \<Rightarrow> []) ops)"

definition updc_of :: "policy_op list \<Rightarrow> ((string \<times> string) \<times> compliance_status) list" where
  "updc_of ops = concat (map (\<lambda>op. case op of OUpdCluster p c s \<Rightarrow> [((p, c), s)] | _ \<Rightarrow> []) ops)"

definition delp_of :: "policy_op list \<Rightarrow> string list" where
  "delp_of ops = concat (map (\<lambda>op. case op of ODelPolicy p \<Rightarrow> [p] | _ \<Rightarrow> []) ops)"

definition delc_of :: "string \<Rightarrow> policy_op list \<Rightarrow> string list" where
  "delc_of q ops = concat (map (\<lambda>op. case op of ODelCluster p c \<Rightarrow> if p = q then [c] else [] | _ \<Rightarrow> []) ops)"

lemmas op_lists = ins_of_def updp_of_def updc_of_def delp_of_def delc_of_def

lemma op_lists_Nil [simp]:
  "ins_of [] = []" "updp_of [] = []" "updc_of [] = []" "delp_of [] = []" "delc_of q [] = []"
  by (simp_all add: op_lists)

lemma op_lists_append [simp]:
  "ins_of (a @ b) = ins_of a @ ins_of b" "updp_of (a @ b) = updp_of a @ updp_of b"
  "updc_of (a @ b) = updc_of a @ updc_of b" "delp_of (a @ b) = delp_of a @ delp_of b"
  "delc_of q (a @ b) = delc_of q a @ delc_of q b"
  by (simp_all add: op_lists)

lemma op_lists_single [simp]:
  "ins_of [OInsert p c s] = [((p, c), s)]" "ins_of [OUpdPolicy p s] = []" "ins_of [OUpdCluster p c s] = []"
  "ins_of [ODelPolicy p] = []" "ins_of [ODelCluster p c] = []"
  "updp_of [OInsert p c s] = []" "updp_of [OUpdPolicy p s] = [(p, s)]" "updp_of [OUpdCluster p c s] = []"
  "updp_of [ODelPolicy p] = []" "updp_of [ODelCluster p c] = []"
  "updc_of [OInsert p c s] = []" "updc_of [OUpdPolicy p s] = []" "updc_of [OUpdCluster p c s] = [((p, c), s)]"
  "updc_of [ODelPolicy p] = []" "updc_of [ODelCluster p c] = []"
  "delp_of [OInsert p c s] = []" "delp_of [OUpdPolicy p s] = []" "delp_of [OUpdCluster p c s] = []"
  "delp_of [ODelPolicy p] = [p]" "delp_of [ODelCluster p c] = []"
  "delc_of q [OInsert p c s] = []" "delc_of q [OUpdPolicy p s] = []" "delc_of q [OUpdCluster p c s] = []"
  "delc_of q [ODelPolicy p] = []" "delc_of q [ODelCluster p c] = (if p = q then [c] else [])"
  by (simp_all add: op_lists)

lemma op_lists_set:
  "((p, c), s) \<in> set (ins_of ops) \<longleftrightarrow> OInsert p c s \<in> set ops"
  "(p, s) \<in> set (updp_of ops) \<longleftrightarrow> OUpdPolicy p s \<in> set ops"
  "((p, c), s) \<in> set (updc_of ops) \<longleftrightarrow> OUpdCluster p c s \<in> set ops"
  "p \<in> set (delp_of ops) \<longleftrightarrow> ODelPolicy p \<in> set ops"
  "c \<in> set (delc_of p ops) \<longleftrightarrow> ODelCluster p c \<in> set ops"
  by (force simp: op_lists split: policy_op.splits if_splits)+

text \<open>The calls fit when no statement reaches the limit of arguments.\<close>

definition fits :: "policy_op list \<Rightarrow> bool" where
  "fits ops \<longleftrightarrow> 5 * length (ins_of ops) < maxColumnsUpdateInStatement \<and>
     3 * length (updp_of ops) < maxColumnsUpdateInStatement \<and>
     4 * length (updc_of ops) < maxColumnsUpdateInStatement \<and>
     1 + length (delp_of ops) < maxColumnsUpdateInStatement \<and>
     (\<forall>p. 2 + length (delc_of p ops) < maxColumnsUpdateInStatement)"

lemma fits_prefix: "fits (a @ b) \<Longrightarrow> fits a"
  by (auto simp: fits_def dest: spec) (metis add_lessD1 add.assoc add_Suc)

definition ins_args :: "string \<Rightarrow> (string \<times> string) \<times> compliance_status \<Rightarrow> sql_value list" where
  "ins_args hub r = [VStr (fst (fst r)), VStr (snd (fst r)), VStr hub, VStr ErrorNone, VCompliance (snd r)]"

definition updp_args :: "string \<Rightarrow> string \<times> compliance_status \<Rightarrow> sql_value list" where
  "updp_args hub r = [VStr (fst r), VStr hub, VCompliance (snd r)]"

definition updc_args :: "string \<Rightarrow> (string \<times> string) \<times> compliance_status \<Rightarrow> sql_value list" where
  "updc_args hub r = [VStr (fst (fst r)), VStr (snd (fst r)), VStr hub, VCompliance (snd r)]"

definition delc_args :: "string \<Rightarrow> string \<Rightarrow> string list \<Rightarrow> sql_value list" where
  "delc_args hub p cs = VStr p # VStr hub # map VStr cs"

definition named :: "string \<Rightarrow> string \<Rightarrow> string \<Rightarrow> 'a base_builder_scheme \<Rightarrow> bool" where
  "named schema table hub b \<longleftrightarrow> bt_schema b = schema \<and> bt_tableName b = table \<and> bt_leafHubName b = hub \<and>
     bt_tableSpecialColumns b = [1 \<mapsto> db_UUID] \<and> bt_deleteRowKey b = ''id''"

definition rep :: "string \<Rightarrow> string \<Rightarrow> string \<Rightarrow> policies_builder \<Rightarrow> policy_op list \<Rightarrow> bool" where
  "rep schema table hub b ops \<longleftrightarrow> named schema table hub b \<and>
     bt_deleteBatchItems b = [] \<and> bt_insertBatchItems b = [] \<and> bt_updateBatchItems b = [] \<and>
     bt_insertArgs b = concat (map (ins_args hub) (ins_of ops)) \<and> bt_insertRowsCount b = length (ins_of ops) \<and>
     bt_updateArgs b = concat (map (updp_args hub) (updp_of ops)) \<and> bt_updateRowsCount b = length (updp_of ops) \<and>
     bt_deleteArgs b = VStr hub # map VStr (delp_of ops) \<and> bt_deleteRowsCount b = length (delp_of ops) \<and>
     pb_updateClusterComplianceArgs b = concat (map (updc_args hub) (updc_of ops)) \<and>
     pb_updateClusterComplianceRowsCount b = length (updc_of ops) \<and>
     pb_deleteClusterComplianceArgs b =
       (\<lambda>p. if delc_of p ops = [] then None else Some (delc_args hub p (delc_of p ops)))"

lemma length_concat_args [simp]:
  "length (concat (map (ins_args hub) xs)) = 5 * length xs"
  "length (concat (map (updp_args hub) ys)) = 3 * length ys"
  "length (concat (map (updc_args hub) xs)) = 4 * length xs"
  by (induction xs) (simp_all add: ins_args_def updc_args_def, induction ys, simp_all add: updp_args_def)

lemma rep_New: "rep schema table hub (NewPoliciesBatchBuilder schema table hub) []"
  by (simp add: rep_def named_def NewPoliciesBatchBuilder_def newBaseBatchBuilder_def
      base_builder.extend_def policies_builder.fields_def)

lemma rep_apply:
  assumes rep: "rep schema table hub b ops" and fit: "fits (ops @ [op])"
  shows "rep schema table hub (apply_op b op) (ops @ [op])"
proof (cases op)
  case (OInsert p c s)
  with assms show ?thesis
    by (simp add: rep_def named_def fits_def policies_Insert_def base_insert_def Let_def ins_args_def cong: if_cong)
next
  case (OUpdPolicy p s)
  with assms show ?thesis
    by (simp add: rep_def named_def fits_def UpdatePolicyCompliance_def base_update_def Let_def updp_args_def cong: if_cong)
next
  case (OUpdCluster p c s)
  with assms show ?thesis
    by (simp add: rep_def named_def fits_def UpdateClusterCompliance_def Let_def updc_args_def cong: if_cong)
next
  case (ODelPolicy p)
  with assms show ?thesis
    by (simp add: rep_def named_def fits_def DeletePolicy_def base_delete_def Let_def cong: if_cong)
next
  case (ODelCluster p c)
  with assms show ?thesis
    by (auto simp: rep_def named_def fits_def DeleteClusterStatus_def Let_def delc_args_def fun_eq_iff)
qed

lemma rep_foldl:
  "rep schema table hub b ops \<Longrightarrow> fits (ops @ ops') \<Longrightarrow>
    rep schema table hub (foldl apply_op b ops') (ops @ ops')"
proof (induction ops' arbitrary: b ops)
  case (Cons op ops')
  then have "fits ((ops @ [op]) @ ops')" by simp
  from rep_apply [OF Cons.prems(1) fits_prefix [OF this]] Cons.IH [OF _ this] show ?case by simp
qed simp

section \<open>The table\<close>

type_synonym compliance_table = "(string \<times> string \<times> string) \<rightharpoonup> (string \<times> compliance_status)"

definition t_insert :: "string \<Rightarrow> ((string \<times> string) \<times> compliance_status) list \<Rightarrow> compliance_table \<Rightarrow> compliance_table" where
  "t_insert hub rs t = (\<lambda>(p, c, h). case (if h = hub then map_of rs (p, c) else None) of
     Some s \<Rightarrow> Some (ErrorNone, s) | None \<Rightarrow> t (p, c, h))"

definition t_updp :: "string \<Rightarrow> (string \<times> compliance_status) list \<Rightarrow> compliance_table \<Rightarrow> compliance_table" where
  "t_updp hub us t = (\<lambda>(p, c, h). case (if h = hub then map_of us p else None) of
     Some s \<Rightarrow> map_option (\<lambda>(e, _). (e, s)) (t (p, c, h)) | None \<Rightarrow> t (p, c, h))"

definition t_updc :: "string \<Rightarrow> ((string \<times> string) \<times> compliance_status) list \<Rightarrow> compliance_table \<Rightarrow> compliance_table" where
  "t_updc hub us t = (\<lambda>(p, c, h). case (if h = hub then map_of us (p, c) else None) of
     Some s \<Rightarrow> map_option (\<lambda>(e, _). (e, s)) (t (p, c, h)) | None \<Rightarrow> t (p, c, h))"

definition t_delp :: "string \<Rightarrow> string list \<Rightarrow> compliance_table \<Rightarrow> compliance_table" where
  "t_delp hub ps t = (\<lambda>(p, c, h). if h = hub \<and> p \<in> set ps then None else t (p, c, h))"

definition t_delc :: "string \<Rightarrow> string \<Rightarrow> string list \<Rightarrow> compliance_table \<Rightarrow> compliance_table" where
  "t_delc hub q cs t = (\<lambda>(p, c, h). if h = hub \<and> p = q \<and> c \<in> set cs then None else t (p, c, h))"

text \<open>Executing the statements of a batch one after the other.\<close>

fun exec_all :: "('db \<Rightarrow> statement \<Rightarrow> 'db option) \<Rightarrow> 'db \<Rightarrow> statement list \<Rightarrow> 'db option" where
  "exec_all exec db [] = Some db"
| "exec_all exec db (st # sts) = Option.bind (exec db st) (\<lambda>db'. exec_all exec db' sts)"

lemma exec_all_append: "exec_all exec db (as @ bs) = Option.bind (exec_all exec db as) (\<lambda>db'. exec_all exec db' bs)"
  by (induction as arbitrary: db) (auto split: bind_splits)

text \<open>What the code relies on: pgx runs a batch in order; a statement whose arguments match its
  placeholders (at most 65535 of them) has the effect its text says. An insert needs keys that are
  not in the table, an update lists each key once. A query returns the rows it selects, in some order.\<close>

definition statement_effects ::
    "('db \<Rightarrow> statement \<Rightarrow> 'db option) \<Rightarrow> ('db \<Rightarrow> compliance_table) \<Rightarrow> string \<Rightarrow> string \<Rightarrow> bool" where
  "statement_effects exec tbl schema table \<longleftrightarrow>
     (\<forall>db hub (b :: policies_builder). named schema table hub b \<longrightarrow>
       (\<forall>rs. rs \<noteq> [] \<longrightarrow> bt_insertArgs b = concat (map (ins_args hub) rs) \<longrightarrow> bt_insertRowsCount b = length rs \<longrightarrow>
          5 * length rs < maxColumnsUpdateInStatement \<longrightarrow> distinct (map fst rs) \<longrightarrow>
          (\<forall>(p, c) \<in> set (map fst rs). tbl db (p, c, hub) = None) \<longrightarrow>
          (\<exists>db'. exec db (generateInsertStatement b, bt_insertArgs b) = Some db' \<and> tbl db' = t_insert hub rs (tbl db))) \<and>
       (\<forall>us. us \<noteq> [] \<longrightarrow> bt_updateArgs b = concat (map (updp_args hub) us) \<longrightarrow> bt_updateRowsCount b = length us \<longrightarrow>
          3 * length us < maxColumnsUpdateInStatement \<longrightarrow> distinct (map fst us) \<longrightarrow>
          (\<exists>db'. exec db (generateUpdatePolicyComplianceStatement b, bt_updateArgs b) = Some db' \<and>
             tbl db' = t_updp hub us (tbl db))) \<and>
       (\<forall>us. us \<noteq> [] \<longrightarrow> pb_updateClusterComplianceArgs b = concat (map (updc_args hub) us) \<longrightarrow>
          pb_updateClusterComplianceRowsCount b = length us \<longrightarrow>
          4 * length us < maxColumnsUpdateInStatement \<longrightarrow> distinct (map fst us) \<longrightarrow>
          (\<exists>db'. exec db (generateUpdateClusterComplianceStatement b, pb_updateClusterComplianceArgs b) = Some db' \<and>
             tbl db' = t_updc hub us (tbl db))) \<and>
       (\<forall>ps. ps \<noteq> [] \<longrightarrow> bt_deleteArgs b = VStr hub # map VStr ps \<longrightarrow> bt_deleteRowsCount b = length ps \<longrightarrow>
          1 + length ps < maxColumnsUpdateInStatement \<longrightarrow>
          (\<exists>db'. exec db (generateDeleteStatement b, bt_deleteArgs b) = Some db' \<and> tbl db' = t_delp hub ps (tbl db))) \<and>
       (\<forall>p cs. cs \<noteq> [] \<longrightarrow> pb_deleteClusterComplianceArgs b p = Some (delc_args hub p cs) \<longrightarrow>
          2 + length cs < maxColumnsUpdateInStatement \<longrightarrow>
          (\<exists>db'. exec db (generateDeleteClusterComplianceStatement b p, delc_args hub p cs) = Some db' \<and>
             tbl db' = t_delc hub p cs (tbl db))))"

definition pg_compliance ::
    "'db pg_lib \<Rightarrow> ('db \<Rightarrow> statement \<Rightarrow> 'db option) \<Rightarrow> ('db \<Rightarrow> compliance_table) \<Rightarrow> string \<Rightarrow> string \<Rightarrow> bool" where
  "pg_compliance lib exec tbl schema table \<longleftrightarrow>
     statement_effects exec tbl schema table \<and>
     (\<forall>db sts db'. exec_all exec db sts = Some db' \<longrightarrow> pg_SendBatch lib db sts = (replicate (length sts) False, db')) \<and>
     (\<forall>db hub. \<exists>rs. pg_Query lib db (compliance_query schema table) [VStr hub] = map row_values rs \<and>
        set rs = {(p, c, s). \<exists>e. tbl db (p, c, hub) = Some (e, s)}) \<and>
     (\<forall>db hub. \<exists>rs. pg_Query lib db (noncompliant_query schema table) [VStr hub] = map row_values rs \<and>
        set rs = {(p, c, s). s \<noteq> Compliant \<and> (\<exists>e. tbl db (p, c, hub) = Some (e, s))})"

text \<open>The effect of a list of calls on the table.\<close>

definition ops_effect :: "string \<Rightarrow> policy_op list \<Rightarrow> compliance_table \<Rightarrow> compliance_table" where
  "ops_effect hub ops t = (\<lambda>(p, c, h).
     if h \<noteq> hub then t (p, c, h)
     else (let x0 = (if p \<in> set (delp_of ops) then None else t (p, c, h));
               x1 = (case map_of (ins_of ops) (p, c) of Some s \<Rightarrow> Some (ErrorNone, s) | None \<Rightarrow> x0);
               x2 = (case map_of (updp_of ops) p of Some s \<Rightarrow> map_option (\<lambda>(e, _). (e, s)) x1 | None \<Rightarrow> x1);
               x3 = (if c \<in> set (delc_of p ops) then None else x2)
           in case map_of (updc_of ops) (p, c) of Some s \<Rightarrow> map_option (\<lambda>(e, _). (e, s)) x3 | None \<Rightarrow> x3))"

definition ops_ok :: "string \<Rightarrow> policy_op list \<Rightarrow> compliance_table \<Rightarrow> bool" where
  "ops_ok hub ops t \<longleftrightarrow> fits ops \<and> distinct (map fst (ins_of ops)) \<and> distinct (map fst (updp_of ops)) \<and>
     distinct (map fst (updc_of ops)) \<and> (\<forall>p c s. OInsert p c s \<in> set ops \<longrightarrow> t (p, c, hub) = None)"

section \<open>The effect of a batch\<close>

lemma t_Nil [simp]: "t_insert hub [] t = t" "t_updp hub [] t = t" "t_updc hub [] t = t" "t_delp hub [] t = t"
  by (auto simp: t_insert_def t_updp_def t_updc_def t_delp_def fun_eq_iff)

lemma finite_delc: "finite {p. delc_of p ops \<noteq> []}"
proof (induction ops)
  case (Cons op ops)
  have "{p. delc_of p (op # ops) \<noteq> []} \<subseteq>
      (case op of ODelCluster q c \<Rightarrow> {q} | _ \<Rightarrow> {}) \<union> {p. delc_of p ops \<noteq> []}"
    using op_lists_append(5) [of _ "[op]" ops] by (cases op) (auto split: if_splits)
  with Cons show ?case by (auto intro: finite_subset split: policy_op.splits)
qed simp

lemma foldl_t_delc:
  "foldl (\<lambda>t p. t_delc hub p (cs p) t) t ps (p, c, h) =
     (if h = hub \<and> p \<in> set ps \<and> c \<in> set (cs p) then None else t (p, c, h))"
  by (induction ps arbitrary: t) (auto simp: t_delc_def)

lemma statement_effectsD:
  assumes "statement_effects exec tbl schema table" "named schema table hub b"
  shows "rs \<noteq> [] \<Longrightarrow> bt_insertArgs b = concat (map (ins_args hub) rs) \<Longrightarrow> bt_insertRowsCount b = length rs \<Longrightarrow>
      5 * length rs < maxColumnsUpdateInStatement \<Longrightarrow> distinct (map fst rs) \<Longrightarrow>
      (\<forall>(p, c) \<in> set (map fst rs). tbl db (p, c, hub) = None) \<Longrightarrow>
      \<exists>db'. exec db (generateInsertStatement b, bt_insertArgs b) = Some db' \<and> tbl db' = t_insert hub rs (tbl db)"
    and "us \<noteq> [] \<Longrightarrow> bt_updateArgs b = concat (map (updp_args hub) us) \<Longrightarrow> bt_updateRowsCount b = length us \<Longrightarrow>
      3 * length us < maxColumnsUpdateInStatement \<Longrightarrow> distinct (map fst us) \<Longrightarrow>
      \<exists>db'. exec db (generateUpdatePolicyComplianceStatement b, bt_updateArgs b) = Some db' \<and>
        tbl db' = t_updp hub us (tbl db)"
    and "vs \<noteq> [] \<Longrightarrow> pb_updateClusterComplianceArgs b = concat (map (updc_args hub) vs) \<Longrightarrow>
      pb_updateClusterComplianceRowsCount b = length vs \<Longrightarrow>
      4 * length vs < maxColumnsUpdateInStatement \<Longrightarrow> distinct (map fst vs) \<Longrightarrow>
      \<exists>db'. exec db (generateUpdateClusterComplianceStatement b, pb_updateClusterComplianceArgs b) = Some db' \<and>
        tbl db' = t_updc hub vs (tbl db)"
    and "ps \<noteq> [] \<Longrightarrow> bt_deleteArgs b = VStr hub # map VStr ps \<Longrightarrow> bt_deleteRowsCount b = length ps \<Longrightarrow>
      1 + length ps < maxColumnsUpdateInStatement \<Longrightarrow>
      \<exists>db'. exec db (generateDeleteStatement b, bt_deleteArgs b) = Some db' \<and> tbl db' = t_delp hub ps (tbl db)"
    and "cs \<noteq> [] \<Longrightarrow> pb_deleteClusterComplianceArgs b p = Some (delc_args hub p cs) \<Longrightarrow>
      2 + length cs < maxColumnsUpdateInStatement \<Longrightarrow>
      \<exists>db'. exec db (generateDeleteClusterComplianceStatement b p, delc_args hub p cs) = Some db' \<and>
        tbl db' = t_delc hub p cs (tbl db)"
  using assms unfolding statement_effects_def by blast+

lemma exec_cluster_deletes:
  assumes se: "statement_effects exec tbl schema table" and rep: "rep schema table hub b ops" and fit: "fits ops"
  shows "\<forall>p \<in> set ps. delc_of p ops \<noteq> [] \<Longrightarrow>
    \<exists>db'. exec_all exec db (map (\<lambda>p. (generateDeleteClusterComplianceStatement b p, cluster_delete_args b p)) ps) = Some db' \<and>
      tbl db' = foldl (\<lambda>t p. t_delc hub p (delc_of p ops) t) (tbl db) ps"
proof (induction ps arbitrary: db)
  case (Cons p ps)
  have nm: "named schema table hub b" using rep by (simp add: rep_def)
  have ne: "delc_of p ops \<noteq> []" using Cons.prems by simp
  then have args: "pb_deleteClusterComplianceArgs b p = Some (delc_args hub p (delc_of p ops))"
    using rep by (simp add: rep_def)
  have "2 + length (delc_of p ops) < maxColumnsUpdateInStatement" using fit by (simp add: fits_def)
  from statement_effectsD(5) [OF se nm ne args this, of db] obtain db1 where
    "exec db (generateDeleteClusterComplianceStatement b p, delc_args hub p (delc_of p ops)) = Some db1"
    "tbl db1 = t_delc hub p (delc_of p ops) (tbl db)" by blast
  with Cons.IH [of db1] Cons.prems args show ?case by (auto simp: cluster_delete_args_def)
qed simp

lemma exec_build:
  assumes se: "statement_effects exec tbl schema table" and rep: "rep schema table hub b ops"
    and ok: "ops_ok hub ops (tbl db)" and enum: "enumerates enum"
  shows "\<exists>db'. exec_all exec db (policies_Build enum b) = Some db' \<and> tbl db' = ops_effect hub ops (tbl db)"
proof -
  have nm: "named schema table hub b" and fit: "fits ops" using rep ok by (simp_all add: rep_def ops_ok_def)
  note D = statement_effectsD [OF se nm]
  let ?del = "if bt_deleteRowsCount b > 0 then [(generateDeleteStatement b, bt_deleteArgs b)] else []"
  let ?ins = "if bt_insertRowsCount b > 0 then [(generateInsertStatement b, bt_insertArgs b)] else []"
  let ?updp = "if bt_updateRowsCount b > 0 then [(generateUpdatePolicyComplianceStatement b, bt_updateArgs b)] else []"
  let ?ps = "enum (dom (pb_deleteClusterComplianceArgs b))"
  let ?delc = "map (\<lambda>p. (generateDeleteClusterComplianceStatement b p, cluster_delete_args b p)) ?ps"
  let ?updc = "if pb_updateClusterComplianceRowsCount b > 0
    then [(generateUpdateClusterComplianceStatement b, pb_updateClusterComplianceArgs b)] else []"
  have "policies_Build enum b = ?del @ ?ins @ ?updp @ ?delc @ ?updc"
    using rep by (simp add: policies_Build_def base_build_def queue_items_def rep_def)
  moreover obtain db1 where 1: "exec_all exec db ?del = Some db1" "tbl db1 = t_delp hub (delp_of ops) (tbl db)"
    using D(4) [of "delp_of ops" db] rep fit by (cases "delp_of ops = []") (auto simp: rep_def fits_def)
  moreover obtain db2 where 2: "exec_all exec db1 ?ins = Some db2" "tbl db2 = t_insert hub (ins_of ops) (tbl db1)"
  proof -
    have "\<forall>(p, c) \<in> set (map fst (ins_of ops)). tbl db1 (p, c, hub) = None"
      using ok by (fastforce simp: 1(2) t_delp_def ops_ok_def op_lists_set)
    then show thesis using that D(1) [of "ins_of ops" db1] rep ok
      by (cases "ins_of ops = []") (auto simp: rep_def fits_def ops_ok_def)
  qed
  moreover obtain db3 where 3: "exec_all exec db2 ?updp = Some db3" "tbl db3 = t_updp hub (updp_of ops) (tbl db2)"
    using D(2) [of "updp_of ops" db2] rep ok by (cases "updp_of ops = []") (auto simp: rep_def fits_def ops_ok_def)
  moreover have dom: "dom (pb_deleteClusterComplianceArgs b) = {p. delc_of p ops \<noteq> []}"
    using rep by (auto simp: rep_def split: if_splits)
  moreover have ps: "set ?ps = {p. delc_of p ops \<noteq> []}"
    unfolding dom by (rule enumerates_set [OF enum finite_delc])
  moreover obtain db4 where 4: "exec_all exec db3 ?delc = Some db4"
    "tbl db4 = foldl (\<lambda>t p. t_delc hub p (delc_of p ops) t) (tbl db3) ?ps"
    using exec_cluster_deletes [OF se rep fit, of ?ps db3] ps by auto
  moreover obtain db5 where 5: "exec_all exec db4 ?updc = Some db5" "tbl db5 = t_updc hub (updc_of ops) (tbl db4)"
    using D(3) [of "updc_of ops" db4] rep ok by (cases "updc_of ops = []") (auto simp: rep_def fits_def ops_ok_def)
  ultimately have "exec_all exec db (policies_Build enum b) = Some db5" by (simp add: exec_all_append del: enumerates_set)
  moreover have "tbl db5 = ops_effect hub ops (tbl db)"
  proof
    fix k show "tbl db5 k = ops_effect hub ops (tbl db) k"
      using ps by (cases k) (auto simp: 1 2 3 4 5 t_updc_def t_updp_def t_insert_def t_delp_def foldl_t_delc
        ops_effect_def Let_def split: option.splits)
  qed
  ultimately show ?thesis by blast
qed

lemma batch_effect:
  assumes pg: "pg_compliance lib exec tbl schema table" and rep: "rep schema table hub b ops"
    and ok: "ops_ok hub ops (tbl db)" and enum: "enumerates enum"
  shows "\<exists>db'. SendBatch lib db (policies_Build enum b) = (None, db') \<and> tbl db' = ops_effect hub ops (tbl db)"
proof -
  have se: "statement_effects exec tbl schema table" using pg by (simp add: pg_compliance_def)
  from exec_build [OF se rep ok enum] obtain db' where
    db': "exec_all exec db (policies_Build enum b) = Some db'" "tbl db' = ops_effect hub ops (tbl db)" by blast
  have "pg_SendBatch lib db (policies_Build enum b) = (replicate (length (policies_Build enum b)) False, db')"
    using pg db'(1) by (simp add: pg_compliance_def)
  moreover have "db' = db" if "policies_Build enum b = []" using db'(1) that by simp
  ultimately show ?thesis using db' by (auto simp: SendBatch_def)
qed

end
