(* ===== verification/Compliance_Sync.thy ===== *)
theory Compliance_Sync
  imports Compliance_Table Delta_Bundle
begin

text \<open>
  What the policy handlers do to the compliance table, given the behaviour of PostgreSQL. Each
  handler is shown to make a certain list of builder calls, and the effect of the batch of these
  calls is compared with what the bundle reports.
\<close>

section \<open>Lists of keys\<close>

lemma distinct_keys:
  assumes "distinct (map k gs)" "\<forall>g \<in> set gs. distinct (f g)"
  shows "distinct (concat (map (\<lambda>g. map (Pair (k g)) (f g)) gs))"
  using assms by (induction gs) (auto simp: distinct_map inj_on_def image_iff)

lemma map_of_distinct: "distinct (map fst xs) \<Longrightarrow> map_of xs k = Some v \<longleftrightarrow> (k, v) \<in> set xs"
  by (auto dest: map_of_SomeD)

lemma map_of_none_iff: "map_of xs k = None \<longleftrightarrow> (\<forall>v. (k, v) \<notin> set xs)"
  by (force simp: map_of_eq_None_iff)

text \<open>The operation lists of a concatenation, one group per policy.\<close>

lemma op_lists_concat:
  "ins_of (concat xss) = concat (map ins_of xss)" "updc_of (concat xss) = concat (map updc_of xss)"
  by (induction xss) simp_all

lemma op_lists_map [simp]:
  "ins_of (map (ODelCluster p) cs) = []" "updc_of (map (ODelCluster p) cs) = []"
  "ins_of (map ODelPolicy ps) = []" "updc_of (map ODelPolicy ps) = []"
  "ins_of (map (\<lambda>c. OUpdCluster p c s) cs) = []"
  "updc_of (map (\<lambda>c. OUpdCluster p c s) cs) = map (\<lambda>c. ((p, c), s)) cs"
  "updp_of (map (\<lambda>p. OUpdPolicy p s) ps) = map (\<lambda>p. (p, s)) ps"
  "updc_of (map (\<lambda>p. OUpdPolicy p s) ps) = []" "ins_of (map (\<lambda>p. OUpdPolicy p s) ps) = []"
  by (induction cs; simp add: op_lists; fail | induction ps; simp add: op_lists)+

section \<open>Clusters per policy\<close>

definition g_ok :: "policy_generic_status \<Rightarrow> bool" where
  "g_ok g \<longleftrightarrow> distinct (gs_CompliantClusters g @ gs_NonCompliantClusters g @ gs_UnknownComplianceClusters g)"

definition listed :: "policy_generic_status \<Rightarrow> string set" where
  "listed g = set (gs_CompliantClusters g @ gs_NonCompliantClusters g @ gs_UnknownComplianceClusters g)"

lemma listed_iff: "c \<in> listed g \<longleftrightarrow> (\<exists>s. c \<in> set (clusters_of s g))"
  by (auto simp: listed_def ex_compliance_status)

definition cluster_ops ::
    "string \<Rightarrow> string set \<Rightarrow> string set \<Rightarrow> compliance_status \<Rightarrow> string list \<Rightarrow> policy_op list" where
  "cluster_ops p allc typed s cs =
     concat (map (\<lambda>c. if c \<notin> allc then [OInsert p c s] else if c \<notin> typed then [OUpdCluster p c s] else []) cs)"

lemma cluster_ops_cong:
  "(\<And>c. c \<in> set cs \<Longrightarrow> c \<in> a \<longleftrightarrow> c \<in> b) \<Longrightarrow> cluster_ops p a typed s cs = cluster_ops p b typed s cs"
  by (auto simp: cluster_ops_def intro!: arg_cong [of _ _ concat])

lemma specific_ops:
  "distinct cs \<Longrightarrow> handleClustersPerPolicyWithSpecificCompliance bb p cs allc typed s =
     (foldl apply_op bb (cluster_ops p allc typed s cs), allc - set cs)"
proof (induction bb p cs allc typed s rule: handleClustersPerPolicyWithSpecificCompliance.induct)
  case (2 bb p c cs allc typed s)
  have "cluster_ops p (allc - {c}) typed s cs = cluster_ops p allc typed s cs"
    using 2(3) by (intro cluster_ops_cong) auto
  with 2 show ?case by (auto simp: cluster_ops_def)
qed (simp add: cluster_ops_def)

definition policy_ops :: "(string set \<Rightarrow> string list) \<Rightarrow> policy_generic_status \<Rightarrow> policy_clusters_sets \<Rightarrow> policy_op list" where
  "policy_ops enum g sets =
     (let p = gs_PolicyID g; allc = GetAllClusters sets in
      cluster_ops p allc (sets Compliant) Compliant (gs_CompliantClusters g) @
      cluster_ops p allc (sets NonCompliant) NonCompliant (gs_NonCompliantClusters g) @
      cluster_ops p allc (sets Unknown) Unknown (gs_UnknownComplianceClusters g) @
      map (ODelCluster p) (enum (allc - listed g)))"

lemma foldl_DeleteClusterStatus:
  "foldl (\<lambda>bb c. DeleteClusterStatus bb p c) bb cs = foldl apply_op bb (map (ODelCluster p) cs)"
  by (induction cs arbitrary: bb) simp_all

lemma handleClusterPerPolicy_ops:
  assumes "g_ok g"
  shows "handleClusterPerPolicy enum bb g sets = foldl apply_op bb (policy_ops enum g sets)"
proof -
  let ?a = "GetAllClusters sets" and ?C = "gs_CompliantClusters g" and ?N = "gs_NonCompliantClusters g"
    and ?U = "gs_UnknownComplianceClusters g" and ?p = "gs_PolicyID g"
  have d: "distinct ?C" "distinct ?N" "distinct ?U" using assms by (auto simp: g_ok_def)
  have e: "cluster_ops ?p (?a - set ?C) (sets NonCompliant) NonCompliant ?N =
      cluster_ops ?p ?a (sets NonCompliant) NonCompliant ?N"
    "cluster_ops ?p (?a - set ?C - set ?N) (sets Unknown) Unknown ?U = cluster_ops ?p ?a (sets Unknown) Unknown ?U"
    using assms by (intro cluster_ops_cong; auto simp: g_ok_def)+
  have l: "?a - set ?C - set ?N - set ?U = ?a - listed g" by (auto simp: listed_def)
  show ?thesis
    by (simp add: handleClusterPerPolicy_def Let_def specific_ops [OF d(1)] specific_ops [OF d(2)]
        specific_ops [OF d(3)] GetClusters_def e l policy_ops_def foldl_DeleteClusterStatus)
qed

definition sets_for :: "(string \<rightharpoonup> policy_clusters_sets) \<Rightarrow> string \<Rightarrow> policy_clusters_sets" where
  "sets_for m p = (case m p of Some s \<Rightarrow> s | None \<Rightarrow> NewPolicyClusterSets)"

lemma cpp_objects_ops:
  "distinct (map gs_PolicyID gs) \<Longrightarrow> \<forall>g \<in> set gs. g_ok g \<Longrightarrow>
    cpp_objects enum (map GenericStatusObject gs) bb m =
      (foldl apply_op bb (concat (map (\<lambda>g. policy_ops enum g (sets_for m (gs_PolicyID g))) gs)),
       (\<lambda>p. if p \<in> gs_PolicyID ` set gs then None else m p))"
proof (induction gs arbitrary: bb m)
  case (Cons g gs)
  let ?m = "m(gs_PolicyID g := None)" and ?bb = "handleClusterPerPolicy enum bb g (sets_for m (gs_PolicyID g))"
  have pre: "distinct (map gs_PolicyID gs)" "\<forall>g \<in> set gs. g_ok g" "g_ok g" using Cons.prems by auto
  have "sets_for ?m (gs_PolicyID h) = sets_for m (gs_PolicyID h)" if "h \<in> set gs" for h
    using Cons.prems that by (auto simp: sets_for_def image_iff)
  then have ops: "map (\<lambda>h. policy_ops enum h (sets_for ?m (gs_PolicyID h))) gs =
      map (\<lambda>h. policy_ops enum h (sets_for m (gs_PolicyID h))) gs" by simp
  have left: "(\<lambda>p. if p \<in> gs_PolicyID ` set gs then None else ?m p) =
      (\<lambda>p. if p \<in> gs_PolicyID ` set (g # gs) then None else m p)" by auto
  have "cpp_objects enum (map GenericStatusObject (g # gs)) bb m = cpp_objects enum (map GenericStatusObject gs) ?bb ?m"
    by (simp add: sets_for_def Let_def)
  also have "\<dots> = (foldl apply_op ?bb (concat (map (\<lambda>h. policy_ops enum h (sets_for m (gs_PolicyID h))) gs)),
      (\<lambda>p. if p \<in> gs_PolicyID ` set (g # gs) then None else m p))"
    unfolding Cons.IH [OF pre(1,2)] ops left ..
  finally show ?case by (simp add: handleClusterPerPolicy_ops [OF pre(3)])
qed simp

definition cpp_ops ::
    "(string set \<Rightarrow> string list) \<Rightarrow> policy_generic_status list \<Rightarrow> (string \<rightharpoonup> policy_clusters_sets) \<Rightarrow> policy_op list" where
  "cpp_ops enum gs m =
     concat (map (\<lambda>g. policy_ops enum g (sets_for m (gs_PolicyID g))) gs) @
     map ODelPolicy (enum (dom m - gs_PolicyID ` set gs))"

lemma foldl_DeletePolicy: "foldl DeletePolicy bb ps = foldl apply_op bb (map ODelPolicy ps)"
  by (induction ps arbitrary: bb) simp_all

lemma cpp_builder_ops:
  assumes "GetObjects b = map GenericStatusObject gs" "distinct (map gs_PolicyID gs)" "\<forall>g \<in> set gs. g_ok g"
  shows "cpp_builder enum schema table b m =
    foldl apply_op (NewPoliciesBatchBuilder schema table (GetLeafHubName b)) (cpp_ops enum gs m)"
proof -
  have "dom (\<lambda>p. if p \<in> gs_PolicyID ` set gs then None else m p) = dom m - gs_PolicyID ` set gs"
    by (auto split: if_splits)
  then show ?thesis
    by (simp add: cpp_builder_def assms(1) cpp_objects_ops [OF assms(2,3)] foldl_DeletePolicy cpp_ops_def)
qed

text \<open>The calls, read as a set.\<close>

lemma policy_ops_set:
  assumes "enumerates enum" "finite (GetAllClusters sets)"
  shows "OInsert p c s \<in> set (policy_ops enum g sets) \<longleftrightarrow>
      p = gs_PolicyID g \<and> c \<in> set (clusters_of s g) \<and> c \<notin> GetAllClusters sets"
    and "OUpdCluster p c s \<in> set (policy_ops enum g sets) \<longleftrightarrow>
      p = gs_PolicyID g \<and> c \<in> set (clusters_of s g) \<and> c \<in> GetAllClusters sets \<and> c \<notin> sets s"
    and "ODelCluster p c \<in> set (policy_ops enum g sets) \<longleftrightarrow>
      p = gs_PolicyID g \<and> c \<in> GetAllClusters sets \<and> c \<notin> listed g"
    and "OUpdPolicy p s \<notin> set (policy_ops enum g sets)" and "ODelPolicy p \<notin> set (policy_ops enum g sets)"
  using assms by (cases s; auto simp: policy_ops_def cluster_ops_def Let_def split: if_splits)+

lemma policy_ops_keys:
  "map fst (ins_of (policy_ops enum g sets)) =
     map (Pair (gs_PolicyID g)) (filter (\<lambda>c. c \<notin> GetAllClusters sets)
       (gs_CompliantClusters g @ gs_NonCompliantClusters g @ gs_UnknownComplianceClusters g))"
  "map fst (updc_of (policy_ops enum g sets)) =
     map (Pair (gs_PolicyID g))
       (filter (\<lambda>c. c \<in> GetAllClusters sets \<and> c \<notin> sets Compliant) (gs_CompliantClusters g) @
        filter (\<lambda>c. c \<in> GetAllClusters sets \<and> c \<notin> sets NonCompliant) (gs_NonCompliantClusters g) @
        filter (\<lambda>c. c \<in> GetAllClusters sets \<and> c \<notin> sets Unknown) (gs_UnknownComplianceClusters g))"
proof -
  have "map fst (ins_of (cluster_ops p a ty s cs)) = map (Pair p) (filter (\<lambda>c. c \<notin> a) cs)"
    and "map fst (updc_of (cluster_ops p a ty s cs)) = map (Pair p) (filter (\<lambda>c. c \<in> a \<and> c \<notin> ty) cs)"
    for p a ty s cs by (induction cs) (auto simp: cluster_ops_def)
  then show "map fst (ins_of (policy_ops enum g sets)) =
      map (Pair (gs_PolicyID g)) (filter (\<lambda>c. c \<notin> GetAllClusters sets)
        (gs_CompliantClusters g @ gs_NonCompliantClusters g @ gs_UnknownComplianceClusters g))"
    and "map fst (updc_of (policy_ops enum g sets)) =
      map (Pair (gs_PolicyID g))
        (filter (\<lambda>c. c \<in> GetAllClusters sets \<and> c \<notin> sets Compliant) (gs_CompliantClusters g) @
         filter (\<lambda>c. c \<in> GetAllClusters sets \<and> c \<notin> sets NonCompliant) (gs_NonCompliantClusters g) @
         filter (\<lambda>c. c \<in> GetAllClusters sets \<and> c \<notin> sets Unknown) (gs_UnknownComplianceClusters g))"
    by (simp_all add: policy_ops_def Let_def)
qed

lemma cpp_ops_distinct:
  assumes "distinct (map gs_PolicyID gs)" "\<forall>g \<in> set gs. g_ok g"
  shows "distinct (map fst (ins_of (cpp_ops enum gs m)))" "distinct (map fst (updc_of (cpp_ops enum gs m)))"
proof -
  have "map fst (ins_of (cpp_ops enum gs m)) = concat (map (\<lambda>g. map (Pair (gs_PolicyID g))
      (filter (\<lambda>c. c \<notin> GetAllClusters (sets_for m (gs_PolicyID g)))
        (gs_CompliantClusters g @ gs_NonCompliantClusters g @ gs_UnknownComplianceClusters g))) gs)"
    by (simp add: cpp_ops_def op_lists_concat map_concat comp_def policy_ops_keys)
  then show "distinct (map fst (ins_of (cpp_ops enum gs m)))"
    by (simp only:) (rule distinct_keys [OF assms(1)], use assms(2) in \<open>auto simp: g_ok_def\<close>)
  let ?a = "\<lambda>g. GetAllClusters (sets_for m (gs_PolicyID g))" and ?s = "\<lambda>g. sets_for m (gs_PolicyID g)"
  have "map fst (updc_of (cpp_ops enum gs m)) = concat (map (\<lambda>g. map (Pair (gs_PolicyID g))
      (filter (\<lambda>c. c \<in> ?a g \<and> c \<notin> ?s g Compliant) (gs_CompliantClusters g) @
       filter (\<lambda>c. c \<in> ?a g \<and> c \<notin> ?s g NonCompliant) (gs_NonCompliantClusters g) @
       filter (\<lambda>c. c \<in> ?a g \<and> c \<notin> ?s g Unknown) (gs_UnknownComplianceClusters g))) gs)"
    by (simp add: cpp_ops_def op_lists_concat map_concat comp_def policy_ops_keys)
  then show "distinct (map fst (updc_of (cpp_ops enum gs m)))"
    by (simp only:) (rule distinct_keys [OF assms(1)], use assms(2) in \<open>auto simp: g_ok_def\<close>)
qed

text \<open>What the table holds for a leaf hub, as the sets the reader builds.\<close>

definition hub_rows :: "compliance_table \<Rightarrow> string \<Rightarrow> (string \<times> string \<times> compliance_status) set" where
  "hub_rows t hub = {(p, c, s). \<exists>e. t (p, c, hub) = Some (e, s)}"

lemma sets_for_rows:
  assumes "set rs = hub_rows t hub"
  shows "c \<in> sets_for (sets_of_rows rs) p s \<longleftrightarrow> (\<exists>e. t (p, c, hub) = Some (e, s))"
    and "c \<in> GetAllClusters (sets_for (sets_of_rows rs) p) \<longleftrightarrow> t (p, c, hub) \<noteq> None"
    and "finite (GetAllClusters (sets_for (sets_of_rows rs) p))"
    and "p \<in> dom (sets_of_rows rs) \<longleftrightarrow> (\<exists>c. t (p, c, hub) \<noteq> None)"
    and "finite (dom (sets_of_rows rs))"
proof -
  show rows: "c \<in> sets_for (sets_of_rows rs) p s \<longleftrightarrow> (\<exists>e. t (p, c, hub) = Some (e, s))" for c s
    using assms by (auto simp: sets_for_def sets_of_rows_def hub_rows_def NewPolicyClusterSets_def)
  show all: "c \<in> GetAllClusters (sets_for (sets_of_rows rs) p) \<longleftrightarrow> t (p, c, hub) \<noteq> None" for c
    using rows by (auto simp: GetAllClusters_iff GetClusters_def)
  have "GetAllClusters (sets_for (sets_of_rows rs) p) \<subseteq> (\<lambda>(p, c, s). c) ` set rs"
    unfolding assms by (force simp: all hub_rows_def image_iff)
  then show "finite (GetAllClusters (sets_for (sets_of_rows rs) p))" by (rule finite_subset) simp
  show "p \<in> dom (sets_of_rows rs) \<longleftrightarrow> (\<exists>c. t (p, c, hub) \<noteq> None)"
    using assms by (auto simp: sets_of_rows_def hub_rows_def split: if_splits) blast+
  have "dom (sets_of_rows rs) \<subseteq> fst ` set rs" by (force simp: sets_of_rows_def split: if_splits)
  then show "finite (dom (sets_of_rows rs))" by (rule finite_subset) simp
qed

lemma cpp_ops_set:
  assumes enum: "enumerates enum" and rows: "set rs = hub_rows t hub"
  shows "OInsert p c s \<in> set (cpp_ops enum gs (sets_of_rows rs)) \<longleftrightarrow> reports gs p c s \<and> t (p, c, hub) = None"
    and "OUpdCluster p c s \<in> set (cpp_ops enum gs (sets_of_rows rs)) \<longleftrightarrow>
      reports gs p c s \<and> (\<exists>e s'. t (p, c, hub) = Some (e, s') \<and> s' \<noteq> s)"
    and "ODelCluster p c \<in> set (cpp_ops enum gs (sets_of_rows rs)) \<longleftrightarrow>
      (\<exists>g \<in> set gs. gs_PolicyID g = p \<and> c \<notin> listed g) \<and> t (p, c, hub) \<noteq> None"
    and "ODelPolicy p \<in> set (cpp_ops enum gs (sets_of_rows rs)) \<longleftrightarrow>
      p \<notin> gs_PolicyID ` set gs \<and> (\<exists>c. t (p, c, hub) \<noteq> None)"
    and "OUpdPolicy p s \<notin> set (cpp_ops enum gs (sets_of_rows rs))"
proof -
  have mem: "op \<in> set (cpp_ops enum gs (sets_of_rows rs)) \<longleftrightarrow>
      (\<exists>g \<in> set gs. op \<in> set (policy_ops enum g (sets_for (sets_of_rows rs) (gs_PolicyID g)))) \<or>
      (\<exists>p. op = ODelPolicy p \<and> p \<in> dom (sets_of_rows rs) \<and> p \<notin> gs_PolicyID ` set gs)" for op
    using sets_for_rows(5) [OF rows] enum by (auto simp: cpp_ops_def)
  note S = policy_ops_set [OF enum sets_for_rows(3) [OF rows]]
  show "OInsert p c s \<in> set (cpp_ops enum gs (sets_of_rows rs)) \<longleftrightarrow> reports gs p c s \<and> t (p, c, hub) = None"
    unfolding mem S sets_for_rows(2) [OF rows] by (cases "t (p, c, hub)") (auto simp: reports_def)
  show "OUpdCluster p c s \<in> set (cpp_ops enum gs (sets_of_rows rs)) \<longleftrightarrow>
      reports gs p c s \<and> (\<exists>e s'. t (p, c, hub) = Some (e, s') \<and> s' \<noteq> s)"
    unfolding mem S sets_for_rows(1,2) [OF rows] by (auto simp: reports_def)
  show "ODelCluster p c \<in> set (cpp_ops enum gs (sets_of_rows rs)) \<longleftrightarrow>
      (\<exists>g \<in> set gs. gs_PolicyID g = p \<and> c \<notin> listed g) \<and> t (p, c, hub) \<noteq> None"
    unfolding mem S sets_for_rows(2) [OF rows] by auto
  show "ODelPolicy p \<in> set (cpp_ops enum gs (sets_of_rows rs)) \<longleftrightarrow>
      p \<notin> gs_PolicyID ` set gs \<and> (\<exists>c. t (p, c, hub) \<noteq> None)"
    unfolding mem sets_for_rows(4) [OF rows] using S(5) by auto
  show "OUpdPolicy p s \<notin> set (cpp_ops enum gs (sets_of_rows rs))" unfolding mem using S(4) by auto
qed

text \<open>The rows of a bundle that are well formed: one entry per policy, one status per cluster.\<close>

definition wf_objects :: "policy_generic_status list \<Rightarrow> bool" where
  "wf_objects gs \<longleftrightarrow> distinct (map gs_PolicyID gs) \<and> (\<forall>g \<in> set gs. g_ok g)"

lemma wf_objects_reports:
  assumes "wf_objects gs" "reports gs p c s" "reports gs p c s'"
  shows "s = s'"
proof -
  from assms obtain g h where g: "g \<in> set gs" "gs_PolicyID g = p" "c \<in> set (clusters_of s g)"
    and h: "h \<in> set gs" "gs_PolicyID h = p" "c \<in> set (clusters_of s' h)" by (auto simp: reports_def)
  have "g = h" using assms(1) g h by (auto simp: wf_objects_def distinct_map inj_on_def)
  moreover have "g_ok g" using assms(1) g by (simp add: wf_objects_def)
  ultimately show ?thesis using g h by (cases s; cases s'; auto simp: g_ok_def)
qed

lemma wf_objects_statuses: "wf_objects gs \<Longrightarrow> well_formed_statuses gs"
  using wf_objects_reports by (auto simp: wf_objects_def well_formed_statuses_def unambiguous_def)

lemma no_updp: "(\<And>p s. OUpdPolicy p s \<notin> set ops) \<Longrightarrow> updp_of ops = []"
  using op_lists_set(2) [of _ _ ops] by (metis last_in_set surj_pair)

text \<open>After the batch of calls, the leaf hub's rows are exactly the bundle's reports.\<close>

lemma cpp_effect:
  assumes wf: "wf_objects gs" and enum: "enumerates enum" and rows: "set rs = hub_rows t hub"
  shows "(\<exists>e. ops_effect hub (cpp_ops enum gs (sets_of_rows rs)) t (p, c, hub) = Some (e, s)) \<longleftrightarrow> reports gs p c s"
    and "h \<noteq> hub \<Longrightarrow> ops_effect hub (cpp_ops enum gs (sets_of_rows rs)) t (p, c, h) = t (p, c, h)"
proof -
  let ?ops = "cpp_ops enum gs (sets_of_rows rs)"
  note S = cpp_ops_set [OF enum rows]
  have d: "distinct (map fst (ins_of ?ops))" "distinct (map fst (updc_of ?ops))"
    using cpp_ops_distinct wf by (auto simp: wf_objects_def)
  have ins: "map_of (ins_of ?ops) (p, c) = Some v \<longleftrightarrow> reports gs p c v \<and> t (p, c, hub) = None" for v
    by (simp add: map_of_distinct [OF d(1)] op_lists_set S)
  have upd: "map_of (updc_of ?ops) (p, c) = Some v \<longleftrightarrow> reports gs p c v \<and> (\<exists>e s'. t (p, c, hub) = Some (e, s') \<and> s' \<noteq> v)" for v
    by (simp add: map_of_distinct [OF d(2)] op_lists_set S)
  have updp: "updp_of ?ops = []" by (rule no_updp) (rule cpp_ops_set(5) [OF enum rows])
  have delc: "c \<in> set (delc_of p ?ops) \<longleftrightarrow> (\<exists>g \<in> set gs. gs_PolicyID g = p \<and> c \<notin> listed g) \<and> t (p, c, hub) \<noteq> None"
    and delp: "p \<in> set (delp_of ?ops) \<longleftrightarrow> p \<notin> gs_PolicyID ` set gs \<and> (\<exists>c. t (p, c, hub) \<noteq> None)"
    by (simp_all add: op_lists_set S)
  show "h \<noteq> hub \<Longrightarrow> ops_effect hub ?ops t (p, c, h) = t (p, c, h)" by (simp add: ops_effect_def)
  show "(\<exists>e. ops_effect hub ?ops t (p, c, hub) = Some (e, s)) \<longleftrightarrow> reports gs p c s"
  proof (cases "\<exists>s'. reports gs p c s'")
    case True
    then obtain s' where s': "reports gs p c s'" by blast
    then have uniq: "reports gs p c v \<longleftrightarrow> v = s'" for v using wf_objects_reports [OF wf] by blast
    from s' obtain g where g: "g \<in> set gs" "gs_PolicyID g = p" "c \<in> listed g" by (auto simp: reports_def listed_iff)
    have "c \<in> listed h" if "h \<in> set gs" "gs_PolicyID h = p" for h
      using wf g that by (auto simp: wf_objects_def distinct_map inj_on_def)
    then have nd: "p \<notin> set (delp_of ?ops)" "c \<notin> set (delc_of p ?ops)" using g by (auto simp: delp delc)
    show ?thesis
    proof (cases "t (p, c, hub)")
      case None
      then have "map_of (ins_of ?ops) (p, c) = Some s'" "map_of (updc_of ?ops) (p, c) = None"
        using ins [of s'] upd uniq by (auto simp: not_Some_eq [symmetric] simp del: not_Some_eq)
      then show ?thesis using nd uniq by (auto simp: ops_effect_def updp)
    next
      case (Some es)
      obtain e0 s0 where es: "es = (e0, s0)" by (cases es)
      have "map_of (ins_of ?ops) (p, c) = None" using ins Some by (metis option.distinct(1) option.exhaust)
      moreover have "map_of (updc_of ?ops) (p, c) = (if s0 = s' then None else Some s')"
        using upd Some es uniq by (auto simp: not_Some_eq [symmetric] simp del: not_Some_eq)
      ultimately show ?thesis using nd uniq Some es by (auto simp: ops_effect_def updp)
    qed
  next
    case False
    then have "map_of (ins_of ?ops) (p, c) = None" "map_of (updc_of ?ops) (p, c) = None"
      using ins upd by (auto simp: not_Some_eq [symmetric] simp del: not_Some_eq)
    moreover have "t (p, c, hub) \<noteq> None \<Longrightarrow> p \<in> set (delp_of ?ops) \<or> c \<in> set (delc_of p ?ops)"
      using False by (auto simp: delp delc reports_def listed_iff)
    ultimately show ?thesis using False by (auto simp: ops_effect_def updp split: if_splits)
  qed
qed

lemma cpp_handler:
  assumes pg: "pg_compliance lib exec tbl schema table" and enum: "enumerates enum"
    and b: "GetObjects b = map GenericStatusObject gs" and wf: "wf_objects gs"
    and fit: "\<And>rs. set rs = hub_rows (tbl db) (GetLeafHubName b) \<Longrightarrow> fits (cpp_ops enum gs (sets_of_rows rs))"
  obtains db' where "handleClustersPerPolicyBundle lib enum schema table b db = (None, db')"
    "\<And>p c s. (\<exists>e. tbl db' (p, c, GetLeafHubName b) = Some (e, s)) \<longleftrightarrow> reports gs p c s"
    "\<And>p c h. h \<noteq> GetLeafHubName b \<Longrightarrow> tbl db' (p, c, h) = tbl db (p, c, h)"
proof -
  let ?hub = "GetLeafHubName b"
  obtain rs where rs: "pg_Query lib db (compliance_query schema table) [VStr ?hub] = map row_values rs"
    "set rs = hub_rows (tbl db) ?hub" using pg unfolding pg_compliance_def hub_rows_def by blast
  let ?ops = "cpp_ops enum gs (sets_of_rows rs)"
  have d: "distinct (map gs_PolicyID gs)" "\<forall>g \<in> set gs. g_ok g" using wf by (simp_all add: wf_objects_def)
  have "rep schema table ?hub (cpp_builder enum schema table b (sets_of_rows rs)) ?ops"
    using rep_foldl [OF rep_New, of ?ops schema table ?hub] fit [OF rs(2)] by (simp add: cpp_builder_ops [OF b d])
  moreover have "updp_of ?ops = []" by (rule no_updp) (rule cpp_ops_set(5) [OF enum rs(2)])
  then have "ops_ok ?hub ?ops (tbl db)"
    using fit [OF rs(2)] cpp_ops_distinct [OF d] cpp_ops_set(1) [OF enum rs(2)] by (auto simp: ops_ok_def)
  ultimately obtain db' where db': "SendBatch lib db (policies_Build enum (cpp_builder enum schema table b (sets_of_rows rs))) = (None, db')"
    "tbl db' = ops_effect ?hub ?ops (tbl db)" using batch_effect [OF pg _ _ enum] by blast
  have "handleClustersPerPolicyBundle lib enum schema table b db = (None, db')"
    using db'(1) by (simp add: handleClustersPerPolicyBundle_def GetComplianceStatusByLeafHub_def rs(1)
      buildComplianceClustersSets_spec)
  then show thesis using that [of db'] cpp_effect [OF wf enum rs(2)] db'(2) by simp
qed

section \<open>Complete compliance\<close>

definition st_ok :: "policy_complete_status \<Rightarrow> bool" where
  "st_ok st \<longleftrightarrow> distinct (cs_NonCompliantClusters st @ cs_UnknownComplianceClusters st)"

definition report_ops :: "string \<Rightarrow> string set \<Rightarrow> compliance_status \<Rightarrow> string list \<Rightarrow> policy_op list" where
  "report_ops p from s cs = map (\<lambda>c. OUpdCluster p c s) (filter (\<lambda>c. c \<notin> from) cs)"

lemma report_clusters_ops:
  "report_clusters bb p cs from left s = (foldl apply_op bb (report_ops p from s cs), left - set cs)"
  by (induction cs arbitrary: bb left) (auto simp: report_ops_def)

definition complete_policy_ops ::
    "(string set \<Rightarrow> string list) \<Rightarrow> policy_complete_status \<Rightarrow> policy_clusters_sets \<Rightarrow> policy_op list" where
  "complete_policy_ops enum st sets =
     report_ops (cs_PolicyID st) (sets NonCompliant) NonCompliant (cs_NonCompliantClusters st) @
     report_ops (cs_PolicyID st) (sets Unknown) Unknown (cs_UnknownComplianceClusters st) @
     map (\<lambda>c. OUpdCluster (cs_PolicyID st) c Compliant)
       (enum ((sets NonCompliant \<union> sets Unknown) - set (cs_NonCompliantClusters st) - set (cs_UnknownComplianceClusters st)))"

lemma foldl_UpdateClusterCompliance:
  "foldl (\<lambda>bb c. UpdateClusterCompliance bb p c s) bb cs = foldl apply_op bb (map (\<lambda>c. OUpdCluster p c s) cs)"
  by (induction cs arbitrary: bb) simp_all

lemma foldl_UpdatePolicyCompliance:
  "foldl (\<lambda>bb p. UpdatePolicyCompliance bb p s) bb ps = foldl apply_op bb (map (\<lambda>p. OUpdPolicy p s) ps)"
  by (induction ps arbitrary: bb) simp_all

lemma handlePolicyComplete_ops:
  "handlePolicyCompleteComplianceStatus enum bb st (GetClusters sets NonCompliant) (GetClusters sets Unknown) =
     foldl apply_op bb (complete_policy_ops enum st sets)"
  by (simp add: handlePolicyCompleteComplianceStatus_def Let_def report_clusters_ops complete_policy_ops_def
      foldl_UpdateClusterCompliance GetClusters_def)

lemma complete_objects_ops:
  "distinct (map cs_PolicyID sts) \<Longrightarrow>
    complete_objects enum (map CompleteStatusObject sts) bb m =
      (foldl apply_op bb (concat (map (\<lambda>st. complete_policy_ops enum st (sets_for m (cs_PolicyID st))) sts)),
       (\<lambda>p. if p \<in> cs_PolicyID ` set sts then None else m p))"
proof (induction sts arbitrary: bb m)
  case (Cons st sts)
  let ?m = "m(cs_PolicyID st := None)"
  let ?bb = "foldl apply_op bb (complete_policy_ops enum st (sets_for m (cs_PolicyID st)))"
  have pre: "distinct (map cs_PolicyID sts)" using Cons.prems by auto
  have "sets_for ?m (cs_PolicyID h) = sets_for m (cs_PolicyID h)" if "h \<in> set sts" for h
    using Cons.prems that by (auto simp: sets_for_def image_iff)
  then have ops: "map (\<lambda>h. complete_policy_ops enum h (sets_for ?m (cs_PolicyID h))) sts =
      map (\<lambda>h. complete_policy_ops enum h (sets_for m (cs_PolicyID h))) sts" by simp
  have left: "(\<lambda>p. if p \<in> cs_PolicyID ` set sts then None else ?m p) =
      (\<lambda>p. if p \<in> cs_PolicyID ` set (st # sts) then None else m p)" by auto
  have "complete_objects enum (map CompleteStatusObject (st # sts)) bb m =
      complete_objects enum (map CompleteStatusObject sts) ?bb ?m"
    by (simp add: sets_for_def [symmetric] Let_def handlePolicyComplete_ops)
  also have "\<dots> = (foldl apply_op ?bb (concat (map (\<lambda>h. complete_policy_ops enum h (sets_for m (cs_PolicyID h))) sts)),
      (\<lambda>p. if p \<in> cs_PolicyID ` set (st # sts) then None else m p))"
    unfolding Cons.IH [OF pre] ops left ..
  finally show ?case by simp
qed simp

definition complete_ops ::
    "(string set \<Rightarrow> string list) \<Rightarrow> policy_complete_status list \<Rightarrow> (string \<rightharpoonup> policy_clusters_sets) \<Rightarrow> policy_op list" where
  "complete_ops enum sts m =
     concat (map (\<lambda>st. complete_policy_ops enum st (sets_for m (cs_PolicyID st))) sts) @
     map (\<lambda>p. OUpdPolicy p Compliant) (enum (dom m - cs_PolicyID ` set sts))"

lemma complete_builder_ops:
  assumes "GetObjects b = map CompleteStatusObject sts" "distinct (map cs_PolicyID sts)"
  shows "complete_builder enum schema table b m =
    foldl apply_op (NewPoliciesBatchBuilder schema table (GetLeafHubName b)) (complete_ops enum sts m)"
proof -
  have "dom (\<lambda>p. if p \<in> cs_PolicyID ` set sts then None else m p) = dom m - cs_PolicyID ` set sts"
    by (auto split: if_splits)
  then show ?thesis
    by (simp add: complete_builder_def assms(1) complete_objects_ops [OF assms(2)] foldl_UpdatePolicyCompliance
        complete_ops_def)
qed

text \<open>The status a complete bundle assigns: what it does not list is compliant.\<close>

definition implied :: "policy_complete_status list \<Rightarrow> string \<Rightarrow> string \<Rightarrow> compliance_status" where
  "implied sts p c =
     (if \<exists>st \<in> set sts. cs_PolicyID st = p \<and> c \<in> set (cs_NonCompliantClusters st) then NonCompliant
      else if \<exists>st \<in> set sts. cs_PolicyID st = p \<and> c \<in> set (cs_UnknownComplianceClusters st) then Unknown
      else Compliant)"

definition wf_complete :: "policy_complete_status list \<Rightarrow> bool" where
  "wf_complete sts \<longleftrightarrow> distinct (map cs_PolicyID sts) \<and> (\<forall>st \<in> set sts. st_ok st)"

text \<open>The rows the second query sees.\<close>

definition noncompliant_part :: "compliance_table \<Rightarrow> compliance_table" where
  "noncompliant_part t k = (case t k of Some (e, s) \<Rightarrow> if s = Compliant then None else Some (e, s) | None \<Rightarrow> None)"

lemma noncompliant_part_Some [simp]:
  "noncompliant_part t k = Some (e, s) \<longleftrightarrow> t k = Some (e, s) \<and> s \<noteq> Compliant"
  by (auto simp: noncompliant_part_def split: option.splits if_splits)

lemma complete_ops_distinct:
  assumes "wf_complete sts" "enumerates enum" "set rs = hub_rows (noncompliant_part t) hub"
  shows "distinct (map fst (updc_of (complete_ops enum sts (sets_of_rows rs))))"
proof -
  let ?s = "\<lambda>st. sets_for (sets_of_rows rs) (cs_PolicyID st)"
  let ?left = "\<lambda>st. (?s st NonCompliant \<union> ?s st Unknown) - set (cs_NonCompliantClusters st) - set (cs_UnknownComplianceClusters st)"
  have fin: "finite (?left st)" for st
    using sets_for_rows(3) [OF assms(3), of "cs_PolicyID st"]
    by (rule rev_finite_subset) (auto simp: GetAllClusters_def)
  have en: "set (enum (?left st)) = ?left st" "distinct (enum (?left st))" for st
    using enumerates_set [OF assms(2) fin] enumerates_distinct [OF assms(2) fin] by blast+
  have "map fst (updc_of (complete_ops enum sts (sets_of_rows rs))) =
      concat (map (\<lambda>st. map (Pair (cs_PolicyID st))
        (filter (\<lambda>c. c \<notin> ?s st NonCompliant) (cs_NonCompliantClusters st) @
         filter (\<lambda>c. c \<notin> ?s st Unknown) (cs_UnknownComplianceClusters st) @ enum (?left st))) sts)"
    by (simp add: complete_ops_def op_lists_concat map_concat comp_def complete_policy_ops_def report_ops_def)
  then show ?thesis
    by (simp only:) (rule distinct_keys,
      use assms(1) en in \<open>auto simp: wf_complete_def st_ok_def\<close>)
qed

lemma complete_ops_set:
  assumes enum: "enumerates enum" and rows: "set rs = hub_rows (noncompliant_part t) hub"
  shows "OUpdCluster p c s \<in> set (complete_ops enum sts (sets_of_rows rs)) \<longleftrightarrow>
      (\<exists>st \<in> set sts. cs_PolicyID st = p \<and>
        (s = NonCompliant \<and> c \<in> set (cs_NonCompliantClusters st) \<and> (\<forall>e. t (p, c, hub) \<noteq> Some (e, NonCompliant)) \<or>
         s = Unknown \<and> c \<in> set (cs_UnknownComplianceClusters st) \<and> (\<forall>e. t (p, c, hub) \<noteq> Some (e, Unknown)) \<or>
         s = Compliant \<and> c \<notin> set (cs_NonCompliantClusters st) \<and> c \<notin> set (cs_UnknownComplianceClusters st) \<and>
           (\<exists>e s'. t (p, c, hub) = Some (e, s') \<and> s' \<noteq> Compliant)))"
    and "OUpdPolicy p s \<in> set (complete_ops enum sts (sets_of_rows rs)) \<longleftrightarrow>
      s = Compliant \<and> p \<notin> cs_PolicyID ` set sts \<and> (\<exists>c e s'. t (p, c, hub) = Some (e, s') \<and> s' \<noteq> Compliant)"
    and "OInsert p c s \<notin> set (complete_ops enum sts (sets_of_rows rs))"
    and "ODelPolicy p \<notin> set (complete_ops enum sts (sets_of_rows rs))"
    and "ODelCluster p c \<notin> set (complete_ops enum sts (sets_of_rows rs))"
proof -
  have typed: "c \<in> sets_for (sets_of_rows rs) q s' \<longleftrightarrow> (\<exists>e. t (q, c, hub) = Some (e, s')) \<and> s' \<noteq> Compliant" for q c s'
    using sets_for_rows(1) [OF rows] by auto
  have fin: "finite (sets_for (sets_of_rows rs) q NonCompliant \<union> sets_for (sets_of_rows rs) q Unknown - A - B)" for q A B
    using sets_for_rows(3) [OF rows, of q] by (rule rev_finite_subset) (auto simp: GetAllClusters_def)
  have bad: "(\<exists>e s'. t k = Some (e, s') \<and> s' \<noteq> Compliant) \<longleftrightarrow>
      (\<exists>e. t k = Some (e, NonCompliant)) \<or> (\<exists>e. t k = Some (e, Unknown))" for k
    by (metis compliance_status.exhaust compliance_status.distinct)
  have "p \<in> dom (sets_of_rows rs) \<longleftrightarrow> (\<exists>c e s'. t (p, c, hub) = Some (e, s') \<and> s' \<noteq> Compliant)"
    using sets_for_rows(4) [OF rows, of p] by auto
  then show "OUpdPolicy p s \<in> set (complete_ops enum sts (sets_of_rows rs)) \<longleftrightarrow>
      s = Compliant \<and> p \<notin> cs_PolicyID ` set sts \<and> (\<exists>c e s'. t (p, c, hub) = Some (e, s') \<and> s' \<noteq> Compliant)"
    using sets_for_rows(5) [OF rows] enum by (auto simp: complete_ops_def complete_policy_ops_def report_ops_def)
  show "OInsert p c s \<notin> set (complete_ops enum sts (sets_of_rows rs))"
    "ODelPolicy p \<notin> set (complete_ops enum sts (sets_of_rows rs))"
    "ODelCluster p c \<notin> set (complete_ops enum sts (sets_of_rows rs))"
    by (auto simp: complete_ops_def complete_policy_ops_def report_ops_def)
  have pol: "OUpdCluster p c s \<in> set (complete_policy_ops enum st (sets_for (sets_of_rows rs) (cs_PolicyID st))) \<longleftrightarrow>
      cs_PolicyID st = p \<and>
        (s = NonCompliant \<and> c \<in> set (cs_NonCompliantClusters st) \<and> (\<forall>e. t (p, c, hub) \<noteq> Some (e, NonCompliant)) \<or>
         s = Unknown \<and> c \<in> set (cs_UnknownComplianceClusters st) \<and> (\<forall>e. t (p, c, hub) \<noteq> Some (e, Unknown)) \<or>
         s = Compliant \<and> c \<notin> set (cs_NonCompliantClusters st) \<and> c \<notin> set (cs_UnknownComplianceClusters st) \<and>
           (\<exists>e s'. t (p, c, hub) = Some (e, s') \<and> s' \<noteq> Compliant))" for st
    unfolding complete_policy_ops_def report_ops_def set_append set_map set_filter enumerates_set [OF enum fin] bad
    by (cases s) (auto simp: typed)
  show "OUpdCluster p c s \<in> set (complete_ops enum sts (sets_of_rows rs)) \<longleftrightarrow>
      (\<exists>st \<in> set sts. cs_PolicyID st = p \<and>
        (s = NonCompliant \<and> c \<in> set (cs_NonCompliantClusters st) \<and> (\<forall>e. t (p, c, hub) \<noteq> Some (e, NonCompliant)) \<or>
         s = Unknown \<and> c \<in> set (cs_UnknownComplianceClusters st) \<and> (\<forall>e. t (p, c, hub) \<noteq> Some (e, Unknown)) \<or>
         s = Compliant \<and> c \<notin> set (cs_NonCompliantClusters st) \<and> c \<notin> set (cs_UnknownComplianceClusters st) \<and>
           (\<exists>e s'. t (p, c, hub) = Some (e, s') \<and> s' \<noteq> Compliant)))"
    unfolding pol [symmetric] by (auto simp: complete_ops_def)
qed

lemma no_ops:
  "(\<And>p c s. OInsert p c s \<notin> set ops) \<Longrightarrow> ins_of ops = []"
  "(\<And>p. ODelPolicy p \<notin> set ops) \<Longrightarrow> delp_of ops = []"
  "(\<And>c. ODelCluster p c \<notin> set ops) \<Longrightarrow> delc_of p ops = []"
proof -
  show "ins_of ops = []" if "\<And>p c s. OInsert p c s \<notin> set ops"
    using op_lists_set(1) [of _ _ _ ops] that by (metis last_in_set surj_pair)
  show "delp_of ops = []" if "\<And>p. ODelPolicy p \<notin> set ops"
    using op_lists_set(4) [of _ ops] that by (metis last_in_set)
  show "delc_of p ops = []" if "\<And>c. ODelCluster p c \<notin> set ops"
    using op_lists_set(5) [of _ p ops] that by (metis last_in_set)
qed

lemma updp_distinct:
  assumes "enumerates enum" "finite (dom m)"
  shows "distinct (map fst (updp_of (complete_ops enum sts m)))"
proof -
  have "updp_of (concat (map f sts)) = concat (map (updp_of \<circ> f) sts)" for f
    by (induction sts) simp_all
  moreover have "updp_of (complete_policy_ops enum st x) = []" for st x
    by (rule no_updp) (auto simp: complete_policy_ops_def report_ops_def)
  ultimately have "updp_of (complete_ops enum sts m) = map (\<lambda>p. (p, Compliant)) (enum (dom m - cs_PolicyID ` set sts))"
    by (simp add: complete_ops_def comp_def)
  then show ?thesis using assms by (simp add: comp_def)
qed

lemma complete_effect:
  assumes wf: "wf_complete sts" and enum: "enumerates enum" and rows: "set rs = hub_rows (noncompliant_part t) hub"
  shows "ops_effect hub (complete_ops enum sts (sets_of_rows rs)) t (p, c, hub) =
      map_option (\<lambda>(e, _). (e, implied sts p c)) (t (p, c, hub))"
    and "h \<noteq> hub \<Longrightarrow> ops_effect hub (complete_ops enum sts (sets_of_rows rs)) t (p, c, h) = t (p, c, h)"
proof -
  let ?ops = "complete_ops enum sts (sets_of_rows rs)"
  note S = complete_ops_set [OF enum rows]
  have none: "ins_of ?ops = []" "delp_of ?ops = []" "delc_of p ?ops = []"
    by (rule no_ops, rule S)+
  have updp: "map_of (updp_of ?ops) p = Some v \<longleftrightarrow> v = Compliant \<and> p \<notin> cs_PolicyID ` set sts \<and>
      (\<exists>c e s'. t (p, c, hub) = Some (e, s') \<and> s' \<noteq> Compliant)" for v
    using map_of_distinct [OF updp_distinct [OF enum sets_for_rows(5) [OF rows]], of sts p v] S(2) by (simp add: op_lists_set)
  note updc = map_of_distinct [OF complete_ops_distinct [OF wf enum rows], of "(p, c)", unfolded op_lists_set S(1)]
  show "h \<noteq> hub \<Longrightarrow> ops_effect hub ?ops t (p, c, h) = t (p, c, h)" by (simp add: ops_effect_def)
  show "ops_effect hub ?ops t (p, c, hub) = map_option (\<lambda>(e, _). (e, implied sts p c)) (t (p, c, hub))"
  proof (cases "t (p, c, hub)")
    case None
    then show ?thesis by (simp add: ops_effect_def none split: option.splits)
  next
    case (Some es)
    obtain e0 s0 where t: "t (p, c, hub) = Some (e0, s0)" using Some by (cases es) simp
    show ?thesis
    proof (cases "p \<in> cs_PolicyID ` set sts")
      case True
      then obtain st where st: "st \<in> set sts" "cs_PolicyID st = p" by auto
      have uniq: "x = st" if "x \<in> set sts" "cs_PolicyID x = p" for x
        using wf st that by (auto simp: wf_complete_def distinct_map inj_on_def)
      have ex: "(\<exists>x \<in> set sts. cs_PolicyID x = p \<and> P x) \<longleftrightarrow> P st" for P using st uniq by blast
      have dis: "c \<notin> set (cs_UnknownComplianceClusters st)" if "c \<in> set (cs_NonCompliantClusters st)"
        using wf st that by (auto simp: wf_complete_def st_ok_def)
      have imp: "implied sts p c = (if c \<in> set (cs_NonCompliantClusters st) then NonCompliant
          else if c \<in> set (cs_UnknownComplianceClusters st) then Unknown else Compliant)"
        by (simp add: implied_def ex)
      have "map_of (updp_of ?ops) p = None" using updp True by (cases "map_of (updp_of ?ops) p") auto
      moreover have "map_of (updc_of ?ops) (p, c) = (if s0 = implied sts p c then None else Some (implied sts p c))"
      proof (cases "s0 = implied sts p c")
        case True
        then have "map_of (updc_of ?ops) (p, c) \<noteq> Some v" for v
          unfolding updc ex using dis t by (cases v) (auto simp: imp split: if_splits)
        with True show ?thesis by (cases "map_of (updc_of ?ops) (p, c)") auto
      next
        case False
        then have "map_of (updc_of ?ops) (p, c) = Some (implied sts p c)"
          unfolding updc ex using dis t by (auto simp: imp split: if_splits)
        with False show ?thesis by simp
      qed
      ultimately show ?thesis using t by (auto simp: ops_effect_def none)
    next
      case False
      then have "map_of (updc_of ?ops) (p, c) \<noteq> Some v" for v unfolding updc by auto
      then have "map_of (updc_of ?ops) (p, c) = None" by (cases "map_of (updc_of ?ops) (p, c)") auto
      moreover have "implied sts p c = Compliant" using False by (auto simp: implied_def)
      moreover have "map_of (updp_of ?ops) p = Some Compliant \<or> s0 = Compliant" using updp False t by auto
      moreover have "map_of (updp_of ?ops) p = None \<or> map_of (updp_of ?ops) p = Some Compliant"
        using updp by (cases "map_of (updp_of ?ops) p") auto
      ultimately show ?thesis using t by (auto simp: ops_effect_def none)
    qed
  qed
qed

lemma complete_handler:
  assumes pg: "pg_compliance lib exec tbl schema table" and enum: "enumerates enum"
    and b: "GetObjects b = map CompleteStatusObject sts" and wf: "wf_complete sts"
    and fit: "\<And>rs. set rs = hub_rows (noncompliant_part (tbl db)) (GetLeafHubName b) \<Longrightarrow>
      fits (complete_ops enum sts (sets_of_rows rs))"
  obtains db' where "handleCompleteComplianceBundle lib enum schema table b db = (None, db')"
    "\<And>p c. tbl db' (p, c, GetLeafHubName b) =
       map_option (\<lambda>(e, _). (e, implied sts p c)) (tbl db (p, c, GetLeafHubName b))"
    "\<And>p c h. h \<noteq> GetLeafHubName b \<Longrightarrow> tbl db' (p, c, h) = tbl db (p, c, h)"
proof -
  let ?hub = "GetLeafHubName b"
  obtain rs where rs: "pg_Query lib db (noncompliant_query schema table) [VStr ?hub] = map row_values rs"
    "set rs = {(p, c, s). s \<noteq> Compliant \<and> (\<exists>e. tbl db (p, c, ?hub) = Some (e, s))}"
    using pg unfolding pg_compliance_def by blast
  have rows: "set rs = hub_rows (noncompliant_part (tbl db)) ?hub" using rs(2) by (auto simp: hub_rows_def)
  let ?ops = "complete_ops enum sts (sets_of_rows rs)"
  have d: "distinct (map cs_PolicyID sts)" using wf by (simp add: wf_complete_def)
  have "rep schema table ?hub (complete_builder enum schema table b (sets_of_rows rs)) ?ops"
    using rep_foldl [OF rep_New, of ?ops schema table ?hub] fit [OF rows] by (simp add: complete_builder_ops [OF b d])
  moreover have "ins_of ?ops = []" by (rule no_ops, rule complete_ops_set(3) [OF enum rows])
  then have "ops_ok ?hub ?ops (tbl db)"
    using fit [OF rows] complete_ops_distinct [OF wf enum rows] updp_distinct [OF enum sets_for_rows(5) [OF rows]]
      complete_ops_set(3) [OF enum rows] by (simp add: ops_ok_def)
  ultimately obtain db' where db': "SendBatch lib db (policies_Build enum (complete_builder enum schema table b (sets_of_rows rs))) = (None, db')"
    "tbl db' = ops_effect ?hub ?ops (tbl db)" using batch_effect [OF pg _ _ enum] by blast
  have "handleCompleteComplianceBundle lib enum schema table b db = (None, db')"
    using db'(1) by (simp add: handleCompleteComplianceBundle_def GetNonCompliantClustersByLeafHub_def rs(1)
      buildComplianceClustersSets_spec)
  then show thesis using that [of db'] complete_effect [OF wf enum rows] db'(2) by simp
qed

section \<open>Delta compliance\<close>

definition delta_policy_ops :: "policy_generic_status \<Rightarrow> policy_op list" where
  "delta_policy_ops g =
     map (\<lambda>c. OUpdCluster (gs_PolicyID g) c Compliant) (gs_CompliantClusters g) @
     map (\<lambda>c. OUpdCluster (gs_PolicyID g) c NonCompliant) (gs_NonCompliantClusters g) @
     map (\<lambda>c. OUpdCluster (gs_PolicyID g) c Unknown) (gs_UnknownComplianceClusters g)"

definition delta_ops :: "policy_generic_status list \<Rightarrow> policy_op list" where
  "delta_ops gs = concat (map delta_policy_ops gs)"

lemma delta_objects_ops:
  "delta_objects (map GenericStatusObject gs) bb = foldl apply_op bb (delta_ops gs)"
  by (induction gs arbitrary: bb)
     (simp_all add: delta_ops_def delta_policy_ops_def handleDeltaPolicyComplianceStatus_def update_clusters_def
        foldl_UpdateClusterCompliance)

lemma delta_ops_set:
  "OUpdCluster p c s \<in> set (delta_ops gs) \<longleftrightarrow> reports gs p c s"
  "OInsert p c s \<notin> set (delta_ops gs)" "ODelPolicy p \<notin> set (delta_ops gs)"
  "ODelCluster p c \<notin> set (delta_ops gs)" "OUpdPolicy p s \<notin> set (delta_ops gs)"
  by (cases s; auto simp: delta_ops_def delta_policy_ops_def reports_def)+

lemma delta_ops_distinct: "wf_objects gs \<Longrightarrow> distinct (map fst (updc_of (delta_ops gs)))"
proof -
  assume wf: "wf_objects gs"
  have "map fst (updc_of (delta_ops gs)) = concat (map (\<lambda>g. map (Pair (gs_PolicyID g))
      (gs_CompliantClusters g @ gs_NonCompliantClusters g @ gs_UnknownComplianceClusters g)) gs)"
    by (simp add: delta_ops_def op_lists_concat map_concat comp_def delta_policy_ops_def)
  then show ?thesis
    by (simp only:) (rule distinct_keys, use wf in \<open>auto simp: wf_objects_def g_ok_def\<close>)
qed

text \<open>What a delta does to a table: the rows it reports change their status, no row comes or goes.\<close>

definition reported :: "policy_generic_status list \<Rightarrow> string \<Rightarrow> string \<Rightarrow> compliance_status option" where
  "reported gs p c =
     (if reports gs p c Compliant then Some Compliant
      else if reports gs p c NonCompliant then Some NonCompliant
      else if reports gs p c Unknown then Some Unknown else None)"

definition overlay :: "string \<Rightarrow> policy_generic_status list \<Rightarrow> compliance_table \<Rightarrow> compliance_table" where
  "overlay hub gs t = (\<lambda>(p, c, h). case (if h = hub then reported gs p c else None) of
     None \<Rightarrow> t (p, c, h) | Some s \<Rightarrow> map_option (\<lambda>(e, _). (e, s)) (t (p, c, h)))"

lemma reported_iff: "unambiguous gs \<Longrightarrow> reported gs p c = Some s \<longleftrightarrow> reports gs p c s"
  using unambiguousD [of gs p c s] by (cases s) (auto simp: reported_def)

lemma reported_none: "reported gs p c = None \<longleftrightarrow> (\<forall>s. \<not> reports gs p c s)"
  by (auto simp: reported_def all_compliance_status)

lemma delta_effect:
  assumes wf: "wf_objects gs"
  shows "ops_effect hub (delta_ops gs) t = overlay hub gs t"
proof
  fix k :: "string \<times> string \<times> string"
  obtain p c h where k: "k = (p, c, h)" by (cases k)
  have un: "unambiguous gs" using wf_objects_statuses [OF wf] by (simp add: well_formed_statuses_def)
  have none: "ins_of (delta_ops gs) = []" "delp_of (delta_ops gs) = []" "delc_of p (delta_ops gs) = []"
    "updp_of (delta_ops gs) = []"
    by (rule no_ops, rule delta_ops_set)+ (rule no_updp, rule delta_ops_set)
  have upd: "map_of (updc_of (delta_ops gs)) (p, c) = reported gs p c"
  proof (cases "reported gs p c")
    case None
    then have "map_of (updc_of (delta_ops gs)) (p, c) \<noteq> Some v" for v
      by (simp add: map_of_distinct [OF delta_ops_distinct [OF wf]] op_lists_set delta_ops_set reported_none)
    with None show ?thesis by (cases "map_of (updc_of (delta_ops gs)) (p, c)") auto
  next
    case (Some s)
    then have "map_of (updc_of (delta_ops gs)) (p, c) = Some s"
      by (simp add: map_of_distinct [OF delta_ops_distinct [OF wf]] op_lists_set delta_ops_set reported_iff [OF un])
    with Some show ?thesis by simp
  qed
  show "ops_effect hub (delta_ops gs) t k = overlay hub gs t k"
    by (simp add: k ops_effect_def overlay_def none upd split: option.splits)
qed

lemma delta_handler:
  assumes pg: "pg_compliance lib exec tbl schema table" and enum: "enumerates enum"
    and b: "GetObjects b = map GenericStatusObject gs" and wf: "wf_objects gs" and fit: "fits (delta_ops gs)"
  obtains db' where "handleDeltaComplianceBundle lib enum schema table b db = (None, db')"
    "tbl db' = overlay (GetLeafHubName b) gs (tbl db)"
proof -
  let ?hub = "GetLeafHubName b"
  have "rep schema table ?hub (delta_objects (GetObjects b) (NewPoliciesBatchBuilder schema table ?hub)) (delta_ops gs)"
    using rep_foldl [OF rep_New, of "delta_ops gs" schema table ?hub] fit by (simp add: b delta_objects_ops)
  moreover have "ins_of (delta_ops gs) = []" "updp_of (delta_ops gs) = []"
    by (rule no_ops, rule delta_ops_set) (rule no_updp, rule delta_ops_set)
  then have "ops_ok ?hub (delta_ops gs) (tbl db)"
    using fit delta_ops_distinct [OF wf] delta_ops_set(2) by (simp add: ops_ok_def)
  ultimately obtain db' where "SendBatch lib db (policies_Build enum
      (delta_objects (GetObjects b) (NewPoliciesBatchBuilder schema table ?hub))) = (None, db')"
    "tbl db' = ops_effect ?hub (delta_ops gs) (tbl db)" using batch_effect [OF pg _ _ enum] by blast
  then show thesis using that [of db'] by (simp add: handleDeltaComplianceBundle_def delta_effect [OF wf])
qed

text \<open>Two deltas one after the other do what their merge does.\<close>

lemma overlay_merge:
  assumes "enumerates enum" "wf_objects new" "wf_objects old"
  shows "overlay hub new (overlay hub old t) = overlay hub (inheritObjects enum new old) t"
proof
  fix k :: "string \<times> string \<times> string"
  obtain p c h where k: "k = (p, c, h)" by (cases k)
  have d: "distinct (map gs_PolicyID new)" using assms(2) by (simp add: wf_objects_def)
  note wn = wf_objects_statuses [OF assms(2)] and wo = wf_objects_statuses [OF assms(3)]
  have un: "unambiguous new" "unambiguous old" "unambiguous (inheritObjects enum new old)"
    using wn wo well_formed_inheritObjects [OF assms(1) wn wo] by (simp_all add: well_formed_statuses_def)
  note R = reports_inheritObjects [OF assms(1) d wo]
  have "reported (inheritObjects enum new old) p c =
      (case reported new p c of Some s \<Rightarrow> Some s | None \<Rightarrow> reported old p c)"
  proof (cases "reported new p c")
    case None
    then have "reports (inheritObjects enum new old) p c s \<longleftrightarrow> reports old p c s" for s by (simp add: R reported_none)
    with None show ?thesis by (simp add: reported_def)
  next
    case (Some s)
    then have "reports (inheritObjects enum new old) p c s" using reported_iff [OF un(1)] by (auto simp: R)
    with Some reported_iff [OF un(3)] show ?thesis by simp
  qed
  then show "overlay hub new (overlay hub old t) k = overlay hub (inheritObjects enum new old) t k"
    by (cases "t (p, c, h)") (auto simp: k overlay_def split: option.splits)
qed

lemma g_ok_iff:
  "g_ok g \<longleftrightarrow> (\<forall>s. distinct (clusters_of s g)) \<and> (\<forall>c s t. c \<in> set (clusters_of s g) \<longrightarrow> c \<in> set (clusters_of t g) \<longrightarrow> s = t)"
proof
  show "g_ok g \<Longrightarrow> (\<forall>s. distinct (clusters_of s g)) \<and>
      (\<forall>c s t. c \<in> set (clusters_of s g) \<longrightarrow> c \<in> set (clusters_of t g) \<longrightarrow> s = t)"
    by (auto simp: g_ok_def all_compliance_status)
  assume r: "(\<forall>s. distinct (clusters_of s g)) \<and>
      (\<forall>c s t. c \<in> set (clusters_of s g) \<longrightarrow> c \<in> set (clusters_of t g) \<longrightarrow> s = t)"
  then have "set (clusters_of s g) \<inter> set (clusters_of t g) = {}" if "s \<noteq> t" for s t using that by blast
  from this [of Compliant NonCompliant] this [of Compliant Unknown] this [of NonCompliant Unknown] r
  show "g_ok g" by (auto simp: g_ok_def all_compliance_status)
qed

lemma merged_object_distinct:
  assumes "enumerates enum" shows "distinct (clusters_of s (merged_object enum old g))"
proof -
  have "finite (ps_clusters s (foldl appendNewClusters (newPolicyStatus g) (filter (\<lambda>h. gs_PolicyID h = gs_PolicyID g) old)))"
    by (rule finite_ps_clusters_foldl) simp
  then show ?thesis using assms
    by (cases s) (simp_all add: merged_object_def updatePolicyStatusInBundle_def)
qed

lemma wf_objects_inherit:
  assumes "enumerates enum" "wf_objects new" "wf_objects old"
  shows "wf_objects (inheritObjects enum new old)"
proof -
  note wf = well_formed_inheritObjects [OF assms(1) wf_objects_statuses [OF assms(2)] wf_objects_statuses [OF assms(3)]]
  then have un: "unambiguous (inheritObjects enum new old)" and d: "distinct (map gs_PolicyID (inheritObjects enum new old))"
    by (simp_all add: well_formed_statuses_def)
  have "g_ok g" if g: "g \<in> set (inheritObjects enum new old)" for g
  proof -
    have new: "distinct (map gs_PolicyID new)" using assms(2) by (simp add: wf_objects_def)
    have "distinct (clusters_of s g)" for s
      using g assms(3) merged_object_distinct [OF assms(1)] g_ok_iff by (auto simp: inheritObjects_eq [OF new] wf_objects_def)
    moreover have "s = t" if "c \<in> set (clusters_of s g)" "c \<in> set (clusters_of t g)" for c s t
      using unambiguousD [OF un, of "gs_PolicyID g" c s t] g that by (auto simp: reports_def)
    ultimately show ?thesis by (auto simp: g_ok_iff)
  qed
  with d show ?thesis by (simp add: wf_objects_def)
qed

end
