(* ===== verification/Sample_Database.thy ===== *)
theory Sample_Database
  imports Compliance_Sync Sample_Run
begin

text \<open>
  A small database that behaves as \<open>pg_compliance\<close> asks: the compliance table as an association list, with
  an interpreter for the five kinds of statements the policies builder makes.
\<close>

type_synonym sample_db = "((string \<times> string \<times> string) \<times> (string \<times> compliance_status)) list"

fun insert_rows :: "sql_value list \<Rightarrow> sample_db" where
  "insert_rows (VStr p # VStr c # VStr h # VStr e # VCompliance s # args) = ((p, c, h), (e, s)) # insert_rows args"
| "insert_rows _ = []"

fun policy_rows :: "sql_value list \<Rightarrow> ((string \<times> string) \<times> compliance_status) list" where
  "policy_rows (VStr p # VStr h # VCompliance s # args) = ((p, h), s) # policy_rows args"
| "policy_rows _ = []"

fun cluster_rows :: "sql_value list \<Rightarrow> ((string \<times> string \<times> string) \<times> compliance_status) list" where
  "cluster_rows (VStr p # VStr c # VStr h # VCompliance s # args) = ((p, c, h), s) # cluster_rows args"
| "cluster_rows _ = []"

definition update_rows :: "((string \<times> string \<times> string) \<Rightarrow> compliance_status option) \<Rightarrow> sample_db \<Rightarrow> sample_db" where
  "update_rows f db = map (\<lambda>(k, e, s). (k, e, case f k of Some s' \<Rightarrow> s' | None \<Rightarrow> s)) db"

fun delete_policies :: "sql_value list \<Rightarrow> sample_db \<Rightarrow> sample_db" where
  "delete_policies (VStr h # ps) db = filter (\<lambda>((p, c, h'), _). \<not> (h' = h \<and> VStr p \<in> set ps)) db"
| "delete_policies _ db = db"

fun delete_clusters :: "sql_value list \<Rightarrow> sample_db \<Rightarrow> sample_db" where
  "delete_clusters (VStr p # VStr h # cs) db = filter (\<lambda>((p', c, h'), _). \<not> (h' = h \<and> p' = p \<and> VStr c \<in> set cs)) db"
| "delete_clusters _ db = db"

definition sample_exec :: "sample_db \<Rightarrow> statement \<Rightarrow> sample_db option" where
  "sample_exec db st =
     (let (text, args) = st in
      if has_prefix text ''INSERT'' then Some (insert_rows args @ db)
      else if has_prefix text ''UPDATE'' then
        Some (update_rows (if policy_rows args = [] then map_of (cluster_rows args)
                           else (\<lambda>(p, c, h). map_of (policy_rows args) (p, h))) db)
      else if has_prefix text ''DELETE from status.compliance WHERE id'' then Some (delete_clusters args db)
      else Some (delete_policies args db))"

definition hub_status :: "sample_db \<Rightarrow> string \<Rightarrow> (string \<times> string \<times> compliance_status) list" where
  "hub_status db hub =
     concat (map (\<lambda>(p, c, h). if h = hub then [(p, c, snd (the (map_of db (p, c, h))))] else []) (map fst db))"

definition sample_lib :: "sample_db pg_lib" where
  "sample_lib = \<lparr>
     pg_Query = (\<lambda>db query args. case args of
        [VStr hub] \<Rightarrow> map row_values (if query = compliance_query ''status'' ''compliance'' then hub_status db hub
                       else filter (\<lambda>(p, c, s). s \<noteq> Compliant) (hub_status db hub))
      | _ \<Rightarrow> []),
     pg_QueryRow = (\<lambda>_ _ _. None), pg_Exec = (\<lambda>db _ _. (True, db)),
     pg_SendBatch = (\<lambda>db sts. case exec_all sample_exec db sts of
        Some db' \<Rightarrow> (replicate (length sts) False, db') | None \<Rightarrow> (replicate (length sts) True, db)) \<rparr>"

lemma insert_rows_args: "insert_rows (concat (map (ins_args hub) rs)) = map (\<lambda>((p, c), s). ((p, c, hub), (ErrorNone, s))) rs"
  by (induction rs) (auto simp: ins_args_def)

lemma policy_rows_args: "policy_rows (concat (map (updp_args hub) us)) = map (\<lambda>(p, s). ((p, hub), s)) us"
  by (induction us) (auto simp: updp_args_def)

lemma cluster_rows_args: "cluster_rows (concat (map (updc_args hub) us)) = map (\<lambda>((p, c), s). ((p, c, hub), s)) us"
  by (induction us) (auto simp: updc_args_def)

lemma no_policy_rows: "policy_rows (concat (map (updc_args hub) us)) = []"
  by (cases us) (auto simp: updc_args_def)

lemma map_of_update_rows: "map_of (update_rows f db) k = map_option (\<lambda>(e, s). (e, case f k of Some s' \<Rightarrow> s' | None \<Rightarrow> s)) (map_of db k)"
  by (induction db) (auto simp: update_rows_def)

lemma map_of_filter_keys: "map_of (filter (\<lambda>x. P (fst x)) db) k = (if P k then map_of db k else None)"
  by (induction db) auto

lemma map_of_hub: "map_of (map (\<lambda>((p, c), s). ((p, c, hub), f s)) rs) (p, c, h) =
    (if h = hub then map_option f (map_of rs (p, c)) else None)"
  by (induction rs) auto

lemma map_of_hub_policy: "map_of (map (\<lambda>(p, s). ((p, hub), s)) us) (p, h) = (if h = hub then map_of us p else None)"
  by (induction us) auto

lemma insert_effect: "map_of (insert_rows (concat (map (ins_args hub) rs)) @ db) = t_insert hub rs (map_of db)"
  by (auto simp: fun_eq_iff insert_rows_args t_insert_def map_add_def map_of_hub split: option.splits)

lemma update_effects:
  "map_of (update_rows (\<lambda>(p, c, h). map_of (map (\<lambda>(p, s). ((p, hub), s)) us) (p, h)) db) = t_updp hub us (map_of db)"
  "map_of (update_rows (map_of (map (\<lambda>((p, c), s). ((p, c, hub), s)) vs)) db) = t_updc hub vs (map_of db)"
  by (auto simp: fun_eq_iff t_updp_def t_updc_def map_of_update_rows map_of_hub_policy map_of_hub [where f = id, simplified]
      map_option_case split: option.splits)

lemma delete_effects:
  "map_of (delete_policies (VStr hub # map VStr ps) db) = t_delp hub ps (map_of db)"
  "map_of (delete_clusters (delc_args hub q cs) db) = t_delc hub q cs (map_of db)"
proof -
  have "delete_policies (VStr hub # map VStr ps) db = filter (\<lambda>x. (\<lambda>(p, c, h). \<not> (h = hub \<and> p \<in> set ps)) (fst x)) db"
    by (auto intro!: filter_cong)
  then show "map_of (delete_policies (VStr hub # map VStr ps) db) = t_delp hub ps (map_of db)"
    unfolding t_delp_def by (simp only: map_of_filter_keys fun_eq_iff) auto
  have "delete_clusters (delc_args hub q cs) db =
      filter (\<lambda>x. (\<lambda>(p, c, h). \<not> (h = hub \<and> p = q \<and> c \<in> set cs)) (fst x)) db"
    by (auto simp: delc_args_def intro!: filter_cong)
  then show "map_of (delete_clusters (delc_args hub q cs) db) = t_delc hub q cs (map_of db)"
    unfolding t_delc_def by (simp only: map_of_filter_keys fun_eq_iff) auto
qed

lemma sample_statements: "statement_effects sample_exec map_of ''status'' ''compliance''"
  unfolding statement_effects_def
proof (intro allI impI conjI)
  fix db hub and b :: policies_builder
  assume n: "named ''status'' ''compliance'' hub b"
  show "\<exists>db'. sample_exec db (generateInsertStatement b, bt_insertArgs b) = Some db' \<and> map_of db' = t_insert hub rs (map_of db)"
    if "bt_insertArgs b = concat (map (ins_args hub) rs)" for rs
    using insert_effect [of hub rs db] that by (simp add: sample_exec_def generateInsertStatement_def)
  show "\<exists>db'. sample_exec db (generateUpdatePolicyComplianceStatement b, bt_updateArgs b) = Some db' \<and>
      map_of db' = t_updp hub us (map_of db)" if "us \<noteq> []" "bt_updateArgs b = concat (map (updp_args hub) us)" for us
    using update_effects(1) [of hub us db] that
    by (simp add: sample_exec_def generateUpdatePolicyComplianceStatement_def policy_rows_args)
  show "\<exists>db'. sample_exec db (generateUpdateClusterComplianceStatement b, pb_updateClusterComplianceArgs b) = Some db' \<and>
      map_of db' = t_updc hub us (map_of db)" if "pb_updateClusterComplianceArgs b = concat (map (updc_args hub) us)" for us
    using update_effects(2) [of hub us db] that
    by (simp add: sample_exec_def generateUpdateClusterComplianceStatement_def no_policy_rows cluster_rows_args)
  show "\<exists>db'. sample_exec db (generateDeleteStatement b, bt_deleteArgs b) = Some db' \<and> map_of db' = t_delp hub ps (map_of db)"
    if "bt_deleteArgs b = VStr hub # map VStr ps" for ps
    using delete_effects(1) [of hub ps db] that n by (simp add: sample_exec_def generateDeleteStatement_def named_def)
  show "\<exists>db'. sample_exec db (generateDeleteClusterComplianceStatement b p, delc_args hub p cs) = Some db' \<and>
      map_of db' = t_delc hub p cs (map_of db)" for p cs
    using delete_effects(2) [of hub p cs db] n
    by (simp add: sample_exec_def generateDeleteClusterComplianceStatement_def named_def)
qed

lemma hub_status_set: "set (hub_status db hub) = {(p, c, s). \<exists>e. map_of db (p, c, hub) = Some (e, s)}"
proof -
  have mem: "(p, c, s) \<in> set (hub_status db hub) \<longleftrightarrow>
      (p, c, hub) \<in> fst ` set db \<and> s = snd (the (map_of db (p, c, hub)))" for p c s
    unfolding hub_status_def by (auto split: if_splits)
  have "(p, c, s) \<in> set (hub_status db hub) \<longleftrightarrow> (\<exists>e. map_of db (p, c, hub) = Some (e, s))" for p c s
  proof (cases "map_of db (p, c, hub)")
    case None
    then have "(p, c, hub) \<notin> fst ` set db" by (simp add: map_of_eq_None_iff)
    with None show ?thesis by (simp add: mem)
  next
    case (Some v)
    then have "(p, c, hub) \<in> fst ` set db" by (force dest: map_of_SomeD)
    with Some show ?thesis by (cases v) (auto simp: mem)
  qed
  then show ?thesis by auto
qed

lemma queries_differ: "noncompliant_query ''status'' ''compliance'' \<noteq> compliance_query ''status'' ''compliance''"
  by (simp add: noncompliant_query_def compliance_query_def)

lemma sample_pg: "pg_compliance sample_lib sample_exec map_of ''status'' ''compliance''"
  unfolding pg_compliance_def
proof (intro conjI allI impI)
  show "statement_effects sample_exec map_of ''status'' ''compliance''" by (rule sample_statements)
  show "pg_SendBatch sample_lib db sts = (replicate (length sts) False, db')" if "exec_all sample_exec db sts = Some db'" for db sts db'
    using that by (simp add: sample_lib_def)
  show "\<exists>rs. pg_Query sample_lib db (compliance_query ''status'' ''compliance'') [VStr hub] = map row_values rs \<and>
      set rs = {(p, c, s). \<exists>e. map_of db (p, c, hub) = Some (e, s)}" for db hub
    using hub_status_set by (intro exI [of _ "hub_status db hub"]) (simp add: sample_lib_def)
  show "\<exists>rs. pg_Query sample_lib db (noncompliant_query ''status'' ''compliance'') [VStr hub] = map row_values rs \<and>
      set rs = {(p, c, s). s \<noteq> Compliant \<and> (\<exists>e. map_of db (p, c, hub) = Some (e, s))}" for db hub
    using hub_status_set [of db hub] queries_differ
    by (intro exI [of _ "filter (\<lambda>(p, c, s). s \<noteq> Compliant) (hub_status db hub)"]) (auto simp: sample_lib_def)
qed

end
