(* ===== verification/Database_Properties.thy ===== *)
theory Database_Properties
  imports Sample_Database
begin

text \<open>The properties of the bundle handlers, of the statements they send and of their effect on the tables.\<close>

definition sample_status :: "string \<Rightarrow> string list \<Rightarrow> string list \<Rightarrow> string list \<Rightarrow> policy_generic_status" where
  "sample_status p cs ns us = \<lparr> gs_PolicyID = p, gs_CompliantClusters = cs, gs_NonCompliantClusters = ns,
     gs_UnknownComplianceClusters = us \<rparr>"

definition sample_version :: "bundle_version option" where
  "sample_version = NewBundleVersion 0 1"

lemma sets_of_no_rows [simp]: "sets_of_rows [] = Map.empty"
  by (simp add: fun_eq_iff sets_of_rows_def)

lemmas eval_ops = fits_def cpp_ops_def policy_ops_def cluster_ops_def complete_ops_def complete_policy_ops_def
  report_ops_def delta_ops_def delta_policy_ops_def sets_for_def sample_status_def sample_enum_def
  GetAllClusters_def NewPolicyClusterSets_def op_lists maxColumnsUpdateInStatement_def Let_def

text \<open>C7: on success of the clusters-per-policy handler the rows of the leaf hub are exactly the
  (policy, cluster, status) triples of the bundle, and no row of another hub has changed.\<close>

theorem clusters_per_policy_sync:
  assumes "pg_compliance lib exec tbl schema table" and "enumerates enum"
    and "GetObjects b = map GenericStatusObject gs" and "wf_objects gs"
    and "\<forall>rs. set rs = hub_rows (tbl db) (GetLeafHubName b) \<longrightarrow> fits (cpp_ops enum gs (sets_of_rows rs))"
  shows "\<exists>db'. handleClustersPerPolicyBundle lib enum schema table b db = (None, db') \<and>
    (\<forall>p c s. (\<exists>e. tbl db' (p, c, GetLeafHubName b) = Some (e, s)) \<longleftrightarrow> reports gs p c s) \<and>
    (\<forall>p c h. h \<noteq> GetLeafHubName b \<longrightarrow> tbl db' (p, c, h) = tbl db (p, c, h))"
proof -
  obtain db' where db': "handleClustersPerPolicyBundle lib enum schema table b db = (None, db')"
    "\<And>p c s. (\<exists>e. tbl db' (p, c, GetLeafHubName b) = Some (e, s)) \<longleftrightarrow> reports gs p c s"
    "\<And>p c h. h \<noteq> GetLeafHubName b \<Longrightarrow> tbl db' (p, c, h) = tbl db (p, c, h)"
    by (rule cpp_handler [OF assms(1-4), of db]) (use assms(5) in auto)
  then show ?thesis by (intro exI [of _ db']) simp
qed

theorem clusters_per_policy_sync_witness:
  "\<exists>db'. handleClustersPerPolicyBundle sample_lib sample_enum ''status'' ''compliance''
     (ClustersPerPolicyBundle \<lparr> bb_LeafHubName = ''hub1'', bb_BundleVersion = sample_version \<rparr>
        [sample_status ''p1'' [''c1''] [''c2''] []])
     [((''p1'', ''c1'', ''hub2''), (''none'', Unknown))] = (None, db') \<and>
     (\<exists>e. map_of db' (''p1'', ''c2'', ''hub1'') = Some (e, NonCompliant)) \<and>
     map_of db' (''p1'', ''c1'', ''hub2'') = Some (''none'', Unknown)"
proof -
  let ?gs = "[sample_status ''p1'' [''c1''] [''c2''] []]"
  let ?b = "ClustersPerPolicyBundle \<lparr> bb_LeafHubName = ''hub1'', bb_BundleVersion = sample_version \<rparr> ?gs"
  let ?db = "[((''p1'', ''c1'', ''hub2''), (''none'', Unknown))] :: sample_db"
  have o: "GetObjects ?b = map GenericStatusObject ?gs" by (simp add: GetObjects_defs)
  have w: "wf_objects ?gs" by (simp add: wf_objects_def g_ok_def sample_status_def)
  have "hub_rows (map_of ?db) (GetLeafHubName ?b) = {}" by (auto simp: hub_rows_def)
  moreover have "fits (cpp_ops sample_enum ?gs (sets_of_rows []))"
    by (auto simp: eval_ops)
  ultimately have f: "\<forall>rs. set rs = hub_rows (map_of ?db) (GetLeafHubName ?b) \<longrightarrow> fits (cpp_ops sample_enum ?gs (sets_of_rows rs))"
    by (metis set_empty)
  have "reports ?gs ''p1'' ''c2'' NonCompliant" by (simp add: reports_def sample_status_def)
  moreover obtain db' where db': "handleClustersPerPolicyBundle sample_lib sample_enum ''status'' ''compliance'' ?b ?db = (None, db')"
    "\<forall>p c s. (\<exists>e. map_of db' (p, c, GetLeafHubName ?b) = Some (e, s)) \<longleftrightarrow> reports ?gs p c s"
    "\<forall>p c h. h \<noteq> GetLeafHubName ?b \<longrightarrow> map_of db' (p, c, h) = map_of ?db (p, c, h)"
    by (rule exE [OF clusters_per_policy_sync [where tbl = map_of and db = ?db, OF sample_pg sample_enum_enumerates o w f]]) (elim conjE, rule that)
  ultimately have "\<exists>e. map_of db' (''p1'', ''c2'', ''hub1'') = Some (e, NonCompliant)"
    "map_of db' (''p1'', ''c1'', ''hub2'') = Some (''none'', Unknown)" by simp_all
  with db'(1) show ?thesis by (intro exI [of _ db'] conjI)
qed

text \<open>C8: the complete-compliance handler changes no key of the table: every row of the leaf hub gets the
  status the bundle implies for it (what it does not list is compliant), every other row stays.\<close>

theorem complete_compliance_sync:
  assumes "pg_compliance lib exec tbl schema table" and "enumerates enum"
    and "GetObjects b = map CompleteStatusObject sts" and "wf_complete sts"
    and "\<forall>rs. set rs = hub_rows (noncompliant_part (tbl db)) (GetLeafHubName b) \<longrightarrow>
      fits (complete_ops enum sts (sets_of_rows rs))"
  shows "\<exists>db'. handleCompleteComplianceBundle lib enum schema table b db = (None, db') \<and>
    (\<forall>p c. tbl db' (p, c, GetLeafHubName b) =
       map_option (\<lambda>(e, _). (e, implied sts p c)) (tbl db (p, c, GetLeafHubName b))) \<and>
    (\<forall>p c h. h \<noteq> GetLeafHubName b \<longrightarrow> tbl db' (p, c, h) = tbl db (p, c, h))"
proof -
  obtain db' where db': "handleCompleteComplianceBundle lib enum schema table b db = (None, db')"
    "\<And>p c. tbl db' (p, c, GetLeafHubName b) =
       map_option (\<lambda>(e, _). (e, implied sts p c)) (tbl db (p, c, GetLeafHubName b))"
    "\<And>p c h. h \<noteq> GetLeafHubName b \<Longrightarrow> tbl db' (p, c, h) = tbl db (p, c, h)"
    by (rule complete_handler [OF assms(1-4), of db]) (use assms(5) in auto)
  then show ?thesis by (intro exI [of _ db']) simp
qed

theorem complete_compliance_sync_witness:
  "\<exists>db'. handleCompleteComplianceBundle sample_lib sample_enum ''status'' ''compliance''
     (CompleteComplianceStatusBundle \<lparr> bb_LeafHubName = ''hub1'', bb_BundleVersion = sample_version,
        bb_BaseBundleVersion = sample_version \<rparr>
        [\<lparr> cs_PolicyID = ''p1'', cs_NonCompliantClusters = [''c1''], cs_UnknownComplianceClusters = [] \<rparr>])
     [((''p1'', ''c1'', ''hub1''), (''none'', Compliant))] = (None, db') \<and>
     map_of db' (''p1'', ''c1'', ''hub1'') = Some (''none'', NonCompliant)"
proof -
  let ?sts = "[\<lparr> cs_PolicyID = ''p1'', cs_NonCompliantClusters = [''c1''], cs_UnknownComplianceClusters = [] \<rparr>]"
  let ?b = "CompleteComplianceStatusBundle \<lparr> bb_LeafHubName = ''hub1'', bb_BundleVersion = sample_version,
        bb_BaseBundleVersion = sample_version \<rparr> ?sts"
  let ?db = "[((''p1'', ''c1'', ''hub1''), (''none'', Compliant))] :: sample_db"
  have o: "GetObjects ?b = map CompleteStatusObject ?sts" by (simp add: GetObjects_defs)
  have w: "wf_complete ?sts" by (simp add: wf_complete_def st_ok_def)
  have "hub_rows (noncompliant_part (map_of ?db)) (GetLeafHubName ?b) = {}" by (auto simp: hub_rows_def)
  moreover have "fits (complete_ops sample_enum ?sts (sets_of_rows []))" by (auto simp: eval_ops)
  ultimately have f: "\<forall>rs. set rs = hub_rows (noncompliant_part (map_of ?db)) (GetLeafHubName ?b) \<longrightarrow>
      fits (complete_ops sample_enum ?sts (sets_of_rows rs))" by (metis set_empty)
  have "implied ?sts ''p1'' ''c1'' = NonCompliant" by (simp add: implied_def)
  moreover obtain db' where db': "handleCompleteComplianceBundle sample_lib sample_enum ''status'' ''compliance'' ?b ?db = (None, db')"
    "\<forall>p c. map_of db' (p, c, GetLeafHubName ?b) =
       map_option (\<lambda>(e, _). (e, implied ?sts p c)) (map_of ?db (p, c, GetLeafHubName ?b))"
    by (rule exE [OF complete_compliance_sync [where tbl = map_of and db = ?db, OF sample_pg sample_enum_enumerates o w f]]) (elim conjE, rule that)
  ultimately have "map_of db' (''p1'', ''c1'', ''hub1'') = Some (''none'', NonCompliant)" by simp
  with db'(1) show ?thesis by (intro exI [of _ db'] conjI)
qed

text \<open>C9: processing the delta bundle that conflation made of an old and a new one has the effect of
  processing the old one and then the new one.\<close>

theorem conflated_delta_is_both:
  assumes "pg_compliance lib exec tbl schema table" and "enumerates enum"
    and "wf_objects (db_Objects old)" and "wf_objects (db_Objects new)"
    and "db_LeafHubName old = db_LeafHubName new"
    and "fits (delta_ops (db_Objects old))" and "fits (delta_ops (db_Objects new))"
    and "fits (delta_ops (inheritObjects enum (db_Objects new) (db_Objects old)))"
  shows "\<exists>db1 db2 db'.
    handleDeltaComplianceBundle lib enum schema table (DeltaComplianceStatusBundle old) db = (None, db1) \<and>
    handleDeltaComplianceBundle lib enum schema table (DeltaComplianceStatusBundle new) db1 = (None, db2) \<and>
    handleDeltaComplianceBundle lib enum schema table
      (DeltaComplianceStatusBundle (new\<lparr>db_Objects := inheritObjects enum (db_Objects new) (db_Objects old)\<rparr>)) db = (None, db') \<and>
    tbl db' = tbl db2"
proof -
  let ?m = "inheritObjects enum (db_Objects new) (db_Objects old)"
  let ?new = "new\<lparr>db_Objects := ?m\<rparr>"
  have o: "GetObjects (DeltaComplianceStatusBundle d) = map GenericStatusObject (db_Objects d)" for d
    by (simp add: GetObjects_defs)
  obtain db1 where db1: "handleDeltaComplianceBundle lib enum schema table (DeltaComplianceStatusBundle old) db = (None, db1)"
    "tbl db1 = overlay (db_LeafHubName old) (db_Objects old) (tbl db)"
    by (rule delta_handler [OF assms(1,2) o assms(3,6), of db]) simp
  obtain db2 where db2: "handleDeltaComplianceBundle lib enum schema table (DeltaComplianceStatusBundle new) db1 = (None, db2)"
    "tbl db2 = overlay (db_LeafHubName new) (db_Objects new) (tbl db1)"
    by (rule delta_handler [OF assms(1,2) o assms(4,7), of db1]) simp
  have m: "GetObjects (DeltaComplianceStatusBundle ?new) = map GenericStatusObject ?m"
    by (simp add: GetObjects_defs)
  obtain db' where db': "handleDeltaComplianceBundle lib enum schema table (DeltaComplianceStatusBundle ?new) db = (None, db')"
    "tbl db' = overlay (db_LeafHubName new) ?m (tbl db)"
    by (rule delta_handler [OF assms(1,2) m wf_objects_inherit [OF assms(2,4,3)] assms(8), of db]) simp
  show ?thesis using db1 db2 db' overlay_merge [OF assms(2,4,3)] assms(5) by fastforce
qed

definition sample_delta_of :: "policy_generic_status list \<Rightarrow> delta_bundle" where
  "sample_delta_of gs = \<lparr> db_Objects = gs, db_LeafHubName = ''hub1'', db_BaseBundleVersion = sample_version,
     db_BundleVersion = sample_version \<rparr>"

theorem conflated_delta_is_both_witness:
  "\<exists>db1 db2 db'.
    handleDeltaComplianceBundle sample_lib sample_enum ''status'' ''compliance''
      (DeltaComplianceStatusBundle (sample_delta_of [sample_status ''p1'' [''c1''] [] []])) [] = (None, db1) \<and>
    handleDeltaComplianceBundle sample_lib sample_enum ''status'' ''compliance''
      (DeltaComplianceStatusBundle (sample_delta_of [sample_status ''p1'' [] [''c2''] []])) db1 = (None, db2) \<and>
    handleDeltaComplianceBundle sample_lib sample_enum ''status'' ''compliance''
      (DeltaComplianceStatusBundle (sample_delta_of [sample_status ''p1'' [''c1''] [''c2''] []])) [] = (None, db') \<and>
    map_of db' = map_of db2"
proof -
  let ?o = "sample_delta_of [sample_status ''p1'' [''c1''] [] []]"
  let ?n = "sample_delta_of [sample_status ''p1'' [] [''c2''] []]"
  have w: "wf_objects (db_Objects ?o)" "wf_objects (db_Objects ?n)"
    by (simp_all add: sample_delta_of_def wf_objects_def g_ok_def sample_status_def)
  have h: "db_LeafHubName ?o = db_LeafHubName ?n" by (simp add: sample_delta_of_def)
  have f: "fits (delta_ops (db_Objects ?o))" "fits (delta_ops (db_Objects ?n))"
    by (simp_all add: sample_delta_of_def eval_ops)
  have "db_Objects ?n = [sample_status ''p1'' [] [''c2''] []]" "db_Objects ?o = [sample_status ''p1'' [''c1''] [] []]"
    by (simp_all add: sample_delta_of_def)
  then have i: "inheritObjects sample_enum (db_Objects ?n) (db_Objects ?o) = [sample_status ''p1'' [''c1''] [''c2''] []]"
    by simp code_simp
  then have "fits (delta_ops (inheritObjects sample_enum (db_Objects ?n) (db_Objects ?o)))"
    by (simp add: eval_ops)
  moreover have "?n\<lparr>db_Objects := [sample_status ''p1'' [''c1''] [''c2''] []]\<rparr> = sample_delta_of [sample_status ''p1'' [''c1''] [''c2''] []]"
    by (simp add: sample_delta_of_def)
  ultimately show ?thesis
    using conflated_delta_is_both [OF sample_pg sample_enum_enumerates w h f, of "[]"] unfolding i by auto
qed




lemma generic_New_ok: "CHR ''$'' \<notin> set (schema @ table) \<Longrightarrow> bt_ok 3 3 (NewGenericBatchBuilder schema table hub)"
  by (auto simp: NewGenericBatchBuilder_def newBaseBatchBuilder_def bt_ok_def maxColumnsUpdateInStatement_def
      plain_columns_def db_UUID_def db_Jsonb_def split: if_splits)






definition sample_object :: "string \<Rightarrow> string \<Rightarrow> k8s_object" where
  "sample_object uid ver = \<lparr> obj_Name = uid, obj_Namespace = ''ns'', obj_UID = uid, obj_ResourceVersion = ver,
     obj_Annotations = [], obj_content = '''' \<rparr>"


text \<open>C11: once a further row does not fit, the statement that was filled so far is queued with its
  whole argument list as one argument, for more than one placeholder.\<close>

theorem split_statement_mismatch:
  assumes "bt_ok 3 3 b" and "maxColumnsUpdateInStatement \<le> length (bt_insertArgs b) + 3"
  shows "\<exists>st \<in> set (generic_Build (generic_Insert b key obj)). length (snd st) = 1 \<and> 1 < length (placeholders (fst st))"
proof -
  let ?st = "(generateInsertStatement b, [VSlice (bt_insertArgs b)])"
  have rows: "bt_insertRowsCount b > 0"
    using assms by (auto simp: bt_ok_def maxColumnsUpdateInStatement_def intro: gr0I)
  have "?st \<in> set (generic_Build (generic_Insert b key obj))"
    using assms(2) by (simp add: generic_Build_def base_build_def generic_Insert_def base_insert_def Let_def queue_items_def)
  moreover have "1 < length (placeholders (fst ?st))"
    using insert_stmt_ok [OF assms(1) rows] assms(2)
    by (simp add: stmt_ok_def numbered_def maxColumnsUpdateInStatement_def del: upt_Suc)
  ultimately show ?thesis by force
qed

definition full_builder :: base_builder where
  "full_builder = (NewGenericBatchBuilder ''status'' ''placements'' ''hub1'')
     \<lparr>bt_insertArgs := replicate 65535 (VStr ''x''), bt_insertRowsCount := 21845\<rparr>"

theorem split_statement_mismatch_witness:
  "\<exists>st \<in> set (generic_Build (generic_Insert full_builder ''u1'' (sample_object ''u1'' ''1''))).
     length (snd st) = 1 \<and> 1 < length (placeholders (fst st))"
proof -
  have "bt_ok 3 3 (NewGenericBatchBuilder ''status'' ''placements'' ''hub1'')" by (rule generic_New_ok) simp
  then have "bt_ok 3 3 full_builder" by (simp add: full_builder_def bt_ok_def maxColumnsUpdateInStatement_def)
  moreover have "maxColumnsUpdateInStatement \<le> length (bt_insertArgs full_builder) + 3"
    by (simp add: full_builder_def maxColumnsUpdateInStatement_def)
  ultimately show ?thesis by (rule split_statement_mismatch)
qed

end
