(* ===== verification/Transport_Properties.thy ===== *)
theory Transport_Properties
  imports Committers Sample_Database
begin

text \<open>
  The properties of the transports: what the committers tell the broker, what the consumers accept and
  pass on, and how the set-up of the db syncers fits the pipeline.
\<close>

section \<open>Committers\<close>

lemma mem_at:
  "x \<in> pending_at ms part \<longleftrightarrow> KafkaMetadata False part x \<in> set ms"
  "x \<in> processed_at ms part \<longleftrightarrow> KafkaMetadata True part x \<in> set ms"
  by (simp_all add: pending_at_def processed_at_def)

text \<open>C12: the offset a tick commits for a partition is never past a pending bundle of the partition,
  and past every processed one when none is pending (offsets are 64-bit, so below the maximum).\<close>

theorem kafka_watermark:
  assumes "offsets_to_commit ms part = Some off"
    and "\<forall>p q x. KafkaMetadata p q x \<in> set ms \<longrightarrow> 0 \<le> x \<and> x < 2 ^ 63 - 1"
  shows "(\<forall>x. KafkaMetadata False part x \<in> set ms \<longrightarrow> off \<le> x) \<and>
    ((\<forall>x. KafkaMetadata False part x \<notin> set ms) \<longrightarrow> (\<forall>x. KafkaMetadata True part x \<in> set ms \<longrightarrow> x < off))"
  unfolding mem_at [symmetric]
proof (cases "pending_at ms part = {}")
  case False
  with assms(1) have "off = Min (pending_at ms part)" by (simp add: offsets_to_commit_spec)
  with False show "(\<forall>x. x \<in> pending_at ms part \<longrightarrow> off \<le> x) \<and>
      ((\<forall>x. x \<notin> pending_at ms part) \<longrightarrow> (\<forall>x. x \<in> processed_at ms part \<longrightarrow> x < off))" by auto
next
  case True
  with assms(1) have off: "off = wrap64 (Max (processed_at ms part) + 1)" and ne: "processed_at ms part \<noteq> {}"
    by (auto simp: offsets_to_commit_spec split: if_splits)
  have "Max (processed_at ms part) \<in> processed_at ms part" using ne by simp
  then have "0 \<le> Max (processed_at ms part)" "Max (processed_at ms part) < 2 ^ 63 - 1"
    using assms(2) by (auto simp: mem_at)
  then have "off = Max (processed_at ms part) + 1" by (simp add: off in_int64_def)
  then have "x < off" if "x \<in> processed_at ms part" for x using that Max_ge [of "processed_at ms part" x] by simp
  with True show "(\<forall>x. x \<in> pending_at ms part \<longrightarrow> off \<le> x) \<and>
      ((\<forall>x. x \<notin> pending_at ms part) \<longrightarrow> (\<forall>x. x \<in> processed_at ms part \<longrightarrow> x < off))" by simp
qed

theorem kafka_watermark_witness:
  "offsets_to_commit [KafkaMetadata True 0 9, KafkaMetadata False 0 7, KafkaMetadata False 0 8] 0 = Some 7 \<and> (7::int) \<le> 8"
proof -
  let ?ms = "[KafkaMetadata True 0 9, KafkaMetadata False 0 7, KafkaMetadata False 0 8]"
  have off: "offsets_to_commit ?ms 0 = Some 7" by code_simp
  have "\<forall>p q x. KafkaMetadata p q x \<in> set ?ms \<longrightarrow> 0 \<le> x \<and> x < 2 ^ 63 - 1" by auto
  with off kafka_watermark [OF off] show ?thesis by simp
qed

text \<open>C13: whatever the broker answers, one tick of the Kafka committer only moves committed offsets up,
  and only to the offsets of that tick.\<close>

theorem kafka_commits_grow:
  assumes "periodicCommit client order ms c br = (failed, c', br')" and "kc_commitsMap c part = Some old"
  shows "\<exists>new. kc_commitsMap c' part = Some new \<and> old \<le> new \<and> (new = old \<or> offsets_to_commit ms part = Some new)"
  using commitOffsets_map [of client "offsets_to_commit ms" "order (dom (offsets_to_commit ms))" c br failed c' br' part] assms
  by (auto simp: periodicCommit_def Let_def)

theorem kafka_commits_grow_witness:
  "\<exists>failed c' br'. periodicCommit (\<lambda>topic br part off. (False, br @ [(part, off)])) (\<lambda>_. [0])
      [KafkaMetadata False 0 7] \<lparr> kc_topic = ''status'', kc_commitsMap = [0 \<mapsto> 3] \<rparr> [] = (failed, c', br') \<and>
     (\<exists>new. kc_commitsMap c' 0 = Some new \<and> 3 \<le> new)"
proof -
  let ?c = "\<lparr> kc_topic = ''status'', kc_commitsMap = [0 \<mapsto> 3] \<rparr> :: kafka_committer"
  obtain failed c' br' where r: "periodicCommit (\<lambda>topic br part off. (False, br @ [(part, off)])) (\<lambda>_. [0])
      [KafkaMetadata False 0 7] ?c [] = (failed, c', br')" by (metis prod_cases3)
  from kafka_commits_grow [OF r, of 0 3] r show ?thesis by auto
qed

lemma processed_objects_key:
  "processed_objects m ms key = Some om \<Longrightarrow> m key = Some om \<or>
     SyncServiceMetadata True om \<in> set ms \<and> key = om_ObjectID om @ ''.'' @ om_ObjectType om"
  by (induction m ms rule: processed_objects.induct) (auto split: if_splits)

lemma commitObjects_map:
  "commitObjectsMetadata client objs keys c br = (failed, c', br') \<Longrightarrow>
     c' key = c key \<or> (\<exists>om. objs key = Some om \<and> c' key = Some (om_Version om))"
proof (induction client objs keys c br rule: commitObjectsMetadata.induct)
  case (2 client objs k keys c br)
  show ?case
  proof (cases "objs k")
    case None
    with 2 show ?thesis by simp
  next
    case (Some om)
    show ?thesis
    proof (cases "c k = Some (om_Version om)")
      case True
      with 2(2) [OF Some True] 2(4) Some show ?thesis by simp
    next
      case False
      obtain f br1 where cl: "client br om = (f, br1)" by fastforce
      show ?thesis
      proof (cases f)
        case True
        with 2(4) Some False cl show ?thesis by simp
      next
        case f: False
        have "commitObjectsMetadata client objs keys (c(k \<mapsto> om_Version om)) br1 = (failed, c', br')"
          using 2(4) Some False cl f by simp
        from 2(3) [OF Some False cl [symmetric] _ this] f Some show ?thesis by (cases "key = k") auto
      qed
    qed
  qed
qed simp

text \<open>C14: the sync-service committer marks only objects whose bundle was processed, with their version.\<close>

theorem sync_service_commits_processed:
  assumes "commitMetadata client order ms c br = (failed, c', br')" and "c' key \<noteq> c key"
  shows "\<exists>om. SyncServiceMetadata True om \<in> set ms \<and> key = om_ObjectID om @ ''.'' @ om_ObjectType om \<and>
    c' key = Some (om_Version om)"
proof -
  have "commitObjectsMetadata client (processed_objects Map.empty ms) (order (dom (processed_objects Map.empty ms))) c br =
      (failed, c', br')" using assms(1) by (simp add: commitMetadata_def Let_def)
  from commitObjects_map [OF this, of key] assms(2)
  obtain om where om: "processed_objects Map.empty ms key = Some om" "c' key = Some (om_Version om)" by auto
  from processed_objects_key [OF om(1)] om(2) show ?thesis by (intro exI [of _ om]) simp
qed

definition sample_object_metadata :: object_metadata where
  "sample_object_metadata = \<lparr> om_ObjectID = ''hub1.ControlInfo'', om_ObjectType = ''StatusBundle'', om_Version = ''0.1'',
     om_Description = '''' \<rparr>"

theorem sync_service_commits_processed_witness:
  "\<exists>failed c' br'. commitMetadata (\<lambda>br om. (False, om # br)) (\<lambda>_. [''hub1.ControlInfo.StatusBundle''])
      [SyncServiceMetadata True sample_object_metadata] Map.empty [] = (failed, c', br') \<and>
     c' ''hub1.ControlInfo.StatusBundle'' = Some ''0.1''"
proof -
  let ?key = "''hub1.ControlInfo.StatusBundle''"
  let ?ms = "[SyncServiceMetadata True sample_object_metadata]"
  let ?r = "commitMetadata (\<lambda>br om. (False, om # br)) (\<lambda>_. [?key]) ?ms Map.empty []"
  obtain failed c' br' where r: "?r = (failed, c', br')" by (metis prod_cases3)
  have "fst (snd ?r) ?key \<noteq> Map.empty ?key"
    by (simp add: commitMetadata_def sample_object_metadata_def)
  with r have "c' ?key \<noteq> Map.empty ?key" by simp
  from sync_service_commits_processed [OF r this] r show ?thesis by (simp add: sample_object_metadata_def)
qed

section \<open>Compression\<close>

text \<open>C15: what a compressor made of a payload is restored by the consumer that looks the compressor up by
  its type, through its cache or anew, as long as gzip reads back what it wrote.\<close>

theorem compressed_payload_restored:
  assumes "gzip_ok gz" and "NewCompressor t = Inr c" and "Compress gz c data = Inr z" and "cache_ok m"
  shows "fst (decompressPayload gz m z t) = Inr data"
  unfolding decompressPayload_cache(1) [OF assms(4)] using Decompress_Compress [OF assms(1,3)] assms(2) by simp

definition sample_gzip :: "(string, string) gzip_lib" where
  "sample_gzip = \<lparr> gz_Write = (\<lambda>data. Some (rev data)), gz_CloseWriter = Some, gz_NewReader = Some,
     gz_ReadAll = (\<lambda>r. Some (rev r)), gz_CloseReader = (\<lambda>_. True) \<rparr>"

theorem compressed_payload_restored_witness:
  "fst (decompressPayload sample_gzip Map.empty ''cba'' ''gzip'') = Inr ''abc''"
  by (rule compressed_payload_restored [where c = CompressorGZip])
     (simp_all add: gzip_ok_def sample_gzip_def NewCompressor_def NoOpType_def GZipType_def GZip_Compress_def cache_ok_def)

section \<open>Set-up\<close>

text \<open>C16: the set-up of the db syncers gives the conflation manager valid registrations (priorities that
  index the queue, one handler per bundle type, dependencies of higher priority), and every message
  key the transport accepts leads to a bundle type that has a handler.\<close>

theorem setup_is_consistent:
  assumes "AddTransport2DBSyncers lib enum get NewConsumer (NewConflationManager req) = Inr (config, c, cm)"
  shows "valid_registrations (cm_registrations cm) \<and>
    (\<forall>key r. cs_msgIDToRegistrationMap c key = Some r \<longrightarrow> br_MsgID r = key \<and>
       (\<exists>h \<in> set (cm_registrations cm). reg_bundleType h = GetBundleType (br_CreateBundleFunc r)))"
proof -
  have c: "c = foldl consumer_Register NewConsumer all_create_regs" and "cm = foldl Register (NewConflationManager req) (all_handler_regs lib enum)"
    using assms by (auto simp: AddTransport2DBSyncers_def register_syncers_spec all_create_regs_def all_handler_regs_def
        split: sum.splits)
  then have cm: "cm_registrations cm = all_handler_regs lib enum" by (simp add: Register_all NewConflationManager_def)
  have "\<exists>h \<in> set (all_handler_regs lib enum). reg_bundleType h = bundle_struct (br_CreateBundleFunc r)"
    if "r \<in> set all_create_regs" for r
    using set_types_of_all_handlers [of lib enum] set_registered_types [OF valid_handler_regs, of lib enum] that
    by (metis (no_types, lifting) imageE imageI)
  then show ?thesis using valid_handler_regs consumer_registrations by (simp add: cm c) blast
qed

definition sample_config :: config_spec where
  "sample_config = \<lparr> cfg_AggregationLevel = config_Full, cfg_HoHInSeconds = 60, cfg_LeafHubInSeconds = 60,
     cfg_EnableLocalPolicies = False \<rparr>"

theorem setup_is_consistent_witness:
  "\<exists>c cm. AddTransport2DBSyncers sample_lib sample_enum (\<lambda>_. GetFound sample_config) NewConsumer
      (NewConflationManager False) = Inr (sample_config, c, cm) \<and> valid_registrations (cm_registrations cm)"
proof -
  obtain c cm where "AddTransport2DBSyncers sample_lib sample_enum (\<lambda>_. GetFound sample_config) NewConsumer
      (NewConflationManager False) = Inr (sample_config, c, cm)"
    by (auto simp: AddTransport2DBSyncers_def addConfigController_def register_syncers_spec)
  with setup_is_consistent [OF this] show ?thesis by blast
qed

text \<open>Which bundles the transport passes on under a configuration: the policy bundles of the level of
  aggregation, the local ones when they are enabled (and for compliance the level is full), the
  others always.\<close>

theorem accepted_message_keys:
  "map (\<lambda>r. (br_MsgID r, br_Predicate r config)) all_create_regs =
     (let full = (cfg_AggregationLevel config = ''full''); minimal = (cfg_AggregationLevel config = ''minimal'');
          localp = cfg_EnableLocalPolicies config in
      [(''ManagedClusters'', True), (''ClustersPerPolicy'', full), (''PolicyCompleteCompliance'', full),
       (''PolicyDeltaCompliance'', full), (''MinimalPolicyCompliance'', minimal),
       (''LocalClustersPerPolicy'', full \<and> localp), (''LocalPolicyCompleteCompliance'', full \<and> localp),
       (''PlacementRule'', True), (''Placement'', True), (''PlacementDecision'', True),
       (''SubscriptionStatus'', True), (''SubscriptionReport'', True),
       (''LocalPolicySpec'', localp), (''LocalPlacementRules'', localp), (''ControlInfo'', True)])"
  by (simp add: create_simps msg_keys fullStatusPredicate_def minimalStatusPredicate_def localPredicate_def
      config_Full_def config_Minimal_def Let_def)


end
