(* ===== verification/Interval_Policy.thy ===== *)
theory Interval_Policy
  imports Hoh_Prelude
begin

text \<open>
  \<open>db2transport/intervalpolicy\<close> and the tick of \<open>genericDBToTransportSyncer.periodicSync\<close>: how often a spec
  syncer looks at its table. The exponential backoff is a library; it is the record \<open>backoff_lib\<close>, and
  \<open>doubling\<close> is what its documentation promises for the parameters that the code gives it. Durations are
  nanoseconds. The locale \<open>interval_policy\<close> is the Go interface \<open>IntervalPolicy\<close>.
\<close>

definition baseFactor :: int where "baseFactor = 2"
definition maxInterval :: int where "maxInterval = 60 * 1000000000"
definition consecutiveEvaluationsBeforeNextBackoff :: int where "consecutiveEvaluationsBeforeNextBackoff = 3"

text \<open>\<open>bo_New\<close> builds the backoff from its initial interval, multiplier and maximal interval.\<close>

record 'b backoff_lib =
  bo_New :: "int \<Rightarrow> int \<Rightarrow> int \<Rightarrow> 'b"
  bo_Reset :: "'b \<Rightarrow> 'b"
  bo_NextBackOff :: "'b \<Rightarrow> int \<times> 'b"

record 'b backoff_policy =
  bp_exponentialBackoff :: 'b
  bp_interval :: int
  bp_consecutiveEvaluationsCount :: int

definition NewExponentialBackoffPolicy :: "'b backoff_lib \<Rightarrow> int \<Rightarrow> 'b backoff_policy" where
  "NewExponentialBackoffPolicy lib interval =
     (let exponentialBackoff = bo_Reset lib (bo_New lib interval baseFactor maxInterval);
          (i, exponentialBackoff') = bo_NextBackOff lib exponentialBackoff
      in \<lparr> bp_exponentialBackoff = exponentialBackoff', bp_interval = i, bp_consecutiveEvaluationsCount = 0 \<rparr>)"

definition Evaluate :: "'b backoff_lib \<Rightarrow> 'b backoff_policy \<Rightarrow> 'b backoff_policy" where
  "Evaluate lib p =
     (let p = p\<lparr>bp_consecutiveEvaluationsCount := wrap64 (bp_consecutiveEvaluationsCount p + 1)\<rparr> in
      if bp_consecutiveEvaluationsCount p = consecutiveEvaluationsBeforeNextBackoff
      then (let (i, b) = bo_NextBackOff lib (bp_exponentialBackoff p)
            in p\<lparr>bp_exponentialBackoff := b, bp_interval := i, bp_consecutiveEvaluationsCount := 0\<rparr>)
      else p)"

definition policy_Reset :: "'b backoff_lib \<Rightarrow> 'b backoff_policy \<Rightarrow> 'b backoff_policy" where
  "policy_Reset lib p =
     (let (i, b) = bo_NextBackOff lib (bo_Reset lib (bp_exponentialBackoff p))
      in p\<lparr>bp_exponentialBackoff := b, bp_interval := i, bp_consecutiveEvaluationsCount := 0\<rparr>)"

definition GetInterval :: "'b backoff_policy \<Rightarrow> int" where
  "GetInterval p = bp_interval p"

definition GetMaxInterval :: "'b backoff_policy \<Rightarrow> int" where
  "GetMaxInterval p = maxInterval"

text \<open>What a tick does after its sync: the policy learns whether a sync happened, and the ticker is reset when the
  interval changed.\<close>

definition sync_tick :: "'b backoff_lib \<Rightarrow> bool \<Rightarrow> 'b backoff_policy \<times> int \<Rightarrow> 'b backoff_policy \<times> int" where
  "sync_tick lib synced = (\<lambda>(p, ticker).
     (let currentInterval = GetInterval p;
          p' = (if synced then Evaluate lib p else policy_Reset lib p);
          reevaluatedInterval = GetInterval p'
      in (p', if currentInterval \<noteq> reevaluatedInterval then reevaluatedInterval else ticker)))"

definition start_ticker :: "'b backoff_lib \<Rightarrow> int \<Rightarrow> 'b backoff_policy \<times> int" where
  "start_ticker lib interval =
     (let p = NewExponentialBackoffPolicy lib interval in (p, GetInterval p))"

definition run_ticks :: "'b backoff_lib \<Rightarrow> int \<Rightarrow> bool list \<Rightarrow> 'b backoff_policy \<times> int" where
  "run_ticks lib interval outcomes = foldl (\<lambda>st synced. sync_tick lib synced st) (start_ticker lib interval) outcomes"

section \<open>The interface\<close>

text \<open>An interval policy is described by the number of evaluations since its last reset.\<close>

locale interval_policy =
  fixes evaluate :: "'p \<Rightarrow> 'p" and reset :: "'p \<Rightarrow> 'p" and interval :: "'p \<Rightarrow> int"
    and at_count :: "nat \<Rightarrow> 'p \<Rightarrow> bool" and scheduled :: "nat \<Rightarrow> int"
  assumes evaluate_count: "at_count n p \<Longrightarrow> at_count (Suc n) (evaluate p)"
    and reset_count: "at_count n p \<Longrightarrow> at_count 0 (reset p)"
    and interval_scheduled: "at_count n p \<Longrightarrow> interval p = scheduled n"
begin

definition learn :: "'p \<Rightarrow> bool \<Rightarrow> 'p" where
  "learn p synced = (if synced then evaluate p else reset p)"

definition streak :: "bool list \<Rightarrow> nat" where
  "streak outcomes = length (takeWhile id (rev outcomes))"

lemma streak_snoc: "streak (outcomes @ [b]) = (if b then Suc (streak outcomes) else 0)"
  by (simp add: streak_def)

lemma learn_count: "at_count 0 p \<Longrightarrow> at_count (streak outcomes) (foldl learn p outcomes)"
proof (induction outcomes rule: rev_induct)
  case (snoc b outcomes)
  then show ?case by (auto simp: streak_snoc learn_def evaluate_count intro: reset_count)
qed (simp add: streak_def)

lemma interval_after: "at_count 0 p \<Longrightarrow> interval (foldl learn p outcomes) = scheduled (streak outcomes)"
  by (rule interval_scheduled) (rule learn_count)

end

section \<open>The backoff library\<close>

text \<open>The k-th interval after a reset, while the initial one does not exceed the maximum.\<close>

definition backoff_interval :: "int \<Rightarrow> nat \<Rightarrow> int" where
  "backoff_interval initial k = min maxInterval (initial * 2 ^ k)"

text \<open>The documented behaviour, without randomization: the first interval after a reset is the initial one, and each
  next one is the previous one times the multiplier, at most the maximum. \<open>after k b\<close> says that b is in the
  state that k calls after a reset have left.\<close>

definition doubling :: "'b backoff_lib \<Rightarrow> int \<Rightarrow> (nat \<Rightarrow> 'b \<Rightarrow> bool) \<Rightarrow> bool" where
  "doubling lib initial after \<longleftrightarrow>
     (after 0 (bo_Reset lib (bo_New lib initial baseFactor maxInterval))) \<and>
     (\<forall>k b. after k b \<longrightarrow> after 0 (bo_Reset lib b) \<and>
        fst (bo_NextBackOff lib b) = backoff_interval initial k \<and> after (Suc k) (snd (bo_NextBackOff lib b)))"

text \<open>The state of a policy after n evaluations since the last reset.\<close>

definition policy_at :: "(nat \<Rightarrow> 'b \<Rightarrow> bool) \<Rightarrow> int \<Rightarrow> nat \<Rightarrow> 'b backoff_policy \<Rightarrow> bool" where
  "policy_at after initial n p \<longleftrightarrow>
     after (Suc (n div 3)) (bp_exponentialBackoff p) \<and> bp_interval p = backoff_interval initial (n div 3) \<and>
     bp_consecutiveEvaluationsCount p = int (n mod 3)"

lemma doublingD:
  assumes "doubling lib initial after" and "after k b" and "bo_NextBackOff lib b = (i, b')"
  shows "i = backoff_interval initial k" and "after (Suc k) b'"
  using assms unfolding doubling_def by (metis fst_conv, metis snd_conv)

lemma policy_at_new: "doubling lib initial after \<Longrightarrow> policy_at after initial 0 (NewExponentialBackoffPolicy lib initial)"
  using doublingD [of lib initial after 0 "bo_Reset lib (bo_New lib initial baseFactor maxInterval)"]
  by (auto simp: doubling_def policy_at_def NewExponentialBackoffPolicy_def Let_def split: prod.splits)

lemma policy_at_Reset:
  assumes "doubling lib initial after" and "policy_at after initial n p"
  shows "policy_at after initial 0 (policy_Reset lib p)"
proof -
  have "after 0 (bo_Reset lib (bp_exponentialBackoff p))" using assms by (auto simp: doubling_def policy_at_def)
  from doublingD [OF assms(1) this] show ?thesis
    by (auto simp: policy_at_def policy_Reset_def Let_def split: prod.splits)
qed

lemma policy_at_Evaluate:
  assumes "doubling lib initial after" and "policy_at after initial n p"
  shows "policy_at after initial (Suc n) (Evaluate lib p)"
proof (cases "n mod 3 = 2")
  case True
  then have s: "Suc n mod 3 = 0" "Suc n div 3 = Suc (n div 3)" by presburger+
  have "after (Suc (n div 3)) (bp_exponentialBackoff p)" using assms(2) by (simp add: policy_at_def)
  with assms(1) have "fst (bo_NextBackOff lib (bp_exponentialBackoff p)) = backoff_interval initial (Suc (n div 3))"
    and "after (Suc (Suc (n div 3))) (snd (bo_NextBackOff lib (bp_exponentialBackoff p)))"
    by (auto simp: doubling_def)
  with assms(2) True s show ?thesis
    by (auto simp: policy_at_def Evaluate_def consecutiveEvaluationsBeforeNextBackoff_def Let_def in_int64_def split: prod.splits)
next
  case False
  then have s: "Suc n mod 3 = Suc (n mod 3)" "Suc n div 3 = n div 3" "int (n mod 3) + 1 \<noteq> 3" by presburger+
  have "in_int64 (int (n mod 3) + 1)" by (simp add: in_int64_def)
  with assms(2) s show ?thesis
    by (simp add: policy_at_def Evaluate_def consecutiveEvaluationsBeforeNextBackoff_def Let_def)
qed

lemma policy_at_interval: "policy_at after initial n p \<Longrightarrow> GetInterval p = backoff_interval initial (n div 3)"
  by (simp add: policy_at_def GetInterval_def)

interpretation backoff: interval_policy "Evaluate lib" "policy_Reset lib" GetInterval
    "\<lambda>n p. doubling lib initial after \<and> policy_at after initial n p" "\<lambda>n. backoff_interval initial (n div 3)"
  for lib initial after
  by unfold_locales (auto simp: policy_at_interval intro: policy_at_Evaluate policy_at_Reset)

section \<open>Runs of ticks\<close>

lemma sync_tick_learn:
  "snd st = GetInterval (fst st) \<Longrightarrow>
     fst (sync_tick lib b st) = backoff.learn lib (fst st) b \<and> snd (sync_tick lib b st) = GetInterval (fst (sync_tick lib b st))"
  by (cases st) (auto simp: sync_tick_def backoff.learn_def Let_def)

lemma run_ticks_learn:
  "fst (run_ticks lib initial outcomes) = foldl (backoff.learn lib) (NewExponentialBackoffPolicy lib initial) outcomes \<and>
   snd (run_ticks lib initial outcomes) = GetInterval (fst (run_ticks lib initial outcomes))"
proof (induction outcomes rule: rev_induct)
  case (snoc b outcomes)
  with sync_tick_learn [of "run_ticks lib initial outcomes" lib b] show ?case by (simp add: run_ticks_def)
qed (simp add: run_ticks_def start_ticker_def Let_def)

lemma ticker_after:
  assumes "doubling lib initial after"
  shows "snd (run_ticks lib initial outcomes) = backoff_interval initial (length (takeWhile id (rev outcomes)) div 3)"
  using backoff.interval_after [of lib initial after "NewExponentialBackoffPolicy lib initial" outcomes]
    assms policy_at_new [OF assms] run_ticks_learn [of lib initial outcomes]
  by (simp add: backoff.streak_def)

end
