(* ===== verification/Rest_Lib.thy ===== *)
theory Rest_Lib
  imports Hoh_Prelude
begin

text \<open>
  What the REST API of \<open>src/pkg/nonk8sapi\<close> takes from Go's library and from the services it calls:
  decoded JSON values, HTTP requests and responses, and the record \<open>rest_lib\<close> of the functions that
  are outside the repository (the HTTP client, certificate pools, JSON codecs). A Go \<open>error\<close> is the
  left side of a sum, and \<open>andThen\<close> is the early return on it.
\<close>

section \<open>Early returns\<close>

definition andThen :: "'e + 'a \<Rightarrow> ('a \<Rightarrow> 'e + 'b) \<Rightarrow> 'e + 'b" where
  "andThen r f = (case r of Inl e \<Rightarrow> Inl e | Inr x \<Rightarrow> f x)"

lemma andThen_simps [simp]:
  "andThen (Inl e) f = Inl e"
  "andThen (Inr x) f = f x"
  by (simp_all add: andThen_def)

lemma andThen_Inr_iff: "andThen r f = Inr y \<longleftrightarrow> (\<exists>x. r = Inr x \<and> f x = Inr y)"
  by (cases r) auto

section \<open>Decoded JSON\<close>

text \<open>A value of type \<open>interface{}\<close> as \<open>json.Unmarshal\<close> builds it. An object is a Go map; its entries are
  listed here with distinct keys. A number is kept as its literal, since no code here reads one.\<close>

datatype json =
    JNull
  | JBool bool
  | JNumber string
  | JStr string
  | JArr "json list"
  | JObj "(string \<times> json) list"

section \<open>HTTP\<close>

datatype tls_config = TLSInsecureSkipVerify | TLSRootCAs string

record http_request =
  hr_Method :: string
  hr_URL :: string
  hr_Header :: "(string \<times> string) list"
  hr_Body :: string

text \<open>The body is \<^const>\<open>None\<close> when reading it fails.\<close>

record http_response =
  resp_StatusCode :: int
  resp_Body :: "string option"

definition StatusOK :: int where "StatusOK = 200"

record compile_request =
  cr_Input :: "(string \<times> string) list"
  cr_Query :: string
  cr_Unknowns :: "string list"

record api_user =
  user_Name :: string
  user_Groups :: "string list"

text \<open>The result of decoding a compile response is its field \<open>Result\<close>, a pointer that is nil when the
  response has no result.\<close>

record rest_lib =
  rl_AppendCertsFromPEM :: "string \<Rightarrow> bool"
  rl_ValidRequest :: "http_request \<Rightarrow> bool"
  rl_Do :: "tls_config \<Rightarrow> http_request \<Rightarrow> http_response option"
  rl_MarshalCompileRequest :: "compile_request \<Rightarrow> string option"
  rl_UnmarshalCompileResponse :: "string \<Rightarrow> json option option"
  rl_UnmarshalUser :: "string \<Rightarrow> api_user option"

end
