(* ===== verification/Spec_Transport.thy ===== *)
theory Spec_Transport
  imports Compressor Rest_Lib
begin

text \<open>
  \<open>db2transport/transport\<close>: the message a spec syncer hands over and its two implementations, the kafka producer
  and the sync service. The brokers' clients are arguments: functions from their state and a request to whether it
  failed and the next state. The locale \<open>spec_transport\<close> is what the syncers rely on.
\<close>

definition Broadcast :: string where "Broadcast = []"

record spec_message =
  sm_Destination :: string
  sm_ID :: string
  sm_MsgType :: string
  sm_Version :: string
  sm_Payload :: string

text \<open>The key of a message in both transports: its ID, with the destination in front of it unless it is broadcast.\<close>

definition message_key :: "string \<Rightarrow> string \<Rightarrow> string" where
  "message_key destinationHubName msgID =
     (if destinationHubName \<noteq> Broadcast then destinationHubName @ ''.'' @ msgID else msgID)"

section \<open>Kafka\<close>

definition partition_number :: int where "partition_number = 0"
definition kiloBytesToBytes :: int where "kiloBytesToBytes = 1000"

record kafka_producer =
  kp_topic :: string
  kp_compressor :: compressor_impl

record kafka_record =
  kr_key :: string
  kr_topic :: string
  kr_partition :: int
  kr_headers :: "(string \<times> string) list"
  kr_payload :: string

text \<open>The names of the headers belong to the kafka transport library.\<close>

record header_names =
  hn_CompressionType :: string
  hn_DestinationHub :: string

definition kafka_record_of :: "header_names \<Rightarrow> kafka_producer \<Rightarrow> spec_message \<Rightarrow> string \<Rightarrow> kafka_record" where
  "kafka_record_of hn p msg compressedBytes =
     \<lparr> kr_key = message_key (sm_Destination msg) (sm_ID msg), kr_topic = kp_topic p, kr_partition = partition_number,
       kr_headers = (hn_CompressionType hn, compressor_GetType (kp_compressor p)) #
         (if sm_Destination msg \<noteq> Broadcast then [(hn_DestinationHub hn, sm_Destination msg)] else []),
       kr_payload = compressedBytes \<rparr>"

text \<open>\<open>SendAsync\<close>: every error is only logged.\<close>

definition kafka_SendAsync ::
    "header_names \<Rightarrow> ('w, 'r) gzip_lib \<Rightarrow> (spec_message \<Rightarrow> string option) \<Rightarrow> ('b \<Rightarrow> kafka_record \<Rightarrow> bool \<times> 'b) \<Rightarrow>
     kafka_producer \<Rightarrow> 'b \<Rightarrow> spec_message \<Rightarrow> 'b" where
  "kafka_SendAsync hn gz marshal produceAsync p br msg =
     (case marshal msg of
        None \<Rightarrow> br
      | Some msgBytes \<Rightarrow>
          (case Compress gz (kp_compressor p) msgBytes of
             Inl err \<Rightarrow> br
           | Inr compressedBytes \<Rightarrow> snd (produceAsync br (kafka_record_of hn p msg compressedBytes))))"

section \<open>Sync service\<close>

definition compressionHeader :: string where "compressionHeader = ''Content-Encoding''"
definition syncServiceDestinationTypeEdge :: string where "syncServiceDestinationTypeEdge = ''edge''"

record object_metadata =
  om_ObjectID :: string
  om_ObjectType :: string
  om_Version :: string
  om_Description :: string
  om_DestID :: string
  om_DestType :: string

definition metadata_of :: "compressor_impl \<Rightarrow> spec_message \<Rightarrow> object_metadata" where
  "metadata_of impl msg =
     (let m = \<lparr> om_ObjectID = sm_ID msg, om_ObjectType = sm_MsgType msg, om_Version = sm_Version msg,
                om_Description = compressionHeader @ '':'' @ compressor_GetType impl, om_DestID = [], om_DestType = [] \<rparr>
      in if sm_Destination msg \<noteq> Broadcast
         then m\<lparr>om_ObjectID := message_key (sm_Destination msg) (sm_ID msg), om_DestID := sm_Destination msg,
                om_DestType := syncServiceDestinationTypeEdge\<rparr>
         else m)"

record 'b sync_client =
  sc_UpdateObject :: "'b \<Rightarrow> object_metadata \<Rightarrow> bool \<times> 'b"
  sc_UpdateObjectData :: "'b \<Rightarrow> object_metadata \<Rightarrow> string \<Rightarrow> bool \<times> 'b"

text \<open>One message in the loop of \<open>distributeMessages\<close>.\<close>

definition distribute_message ::
    "('w, 'r) gzip_lib \<Rightarrow> 'b sync_client \<Rightarrow> compressor_impl \<Rightarrow> 'b \<Rightarrow> spec_message \<Rightarrow> 'b" where
  "distribute_message gz client impl br msg =
     (let objectMetaData = metadata_of impl msg in
      case sc_UpdateObject client br objectMetaData of
        (True, br') \<Rightarrow> br'
      | (False, br') \<Rightarrow>
          (case Compress gz impl (sm_Payload msg) of
             Inl err \<Rightarrow> br'
           | Inr compressedBytes \<Rightarrow> snd (sc_UpdateObjectData client br' objectMetaData compressedBytes)))"

text \<open>\<open>SendAsync\<close> puts the message into the channel, from which \<open>distributeMessages\<close> takes them in order.\<close>

record 'b sync_service =
  ss_channel :: "spec_message list"
  ss_broker :: 'b

definition ss_SendAsync :: "'b sync_service \<Rightarrow> spec_message \<Rightarrow> 'b sync_service" where
  "ss_SendAsync s msg = s\<lparr>ss_channel := ss_channel s @ [msg]\<rparr>"

fun distributeMessages ::
    "('w, 'r) gzip_lib \<Rightarrow> 'b sync_client \<Rightarrow> compressor_impl \<Rightarrow> spec_message list \<Rightarrow> 'b \<Rightarrow> 'b" where
  "distributeMessages gz client impl [] br = br"
| "distributeMessages gz client impl (msg # msgs) br =
     distributeMessages gz client impl msgs (distribute_message gz client impl br msg)"

section \<open>Keys\<close>

lemma message_key_inject:
  assumes "CHR ''.'' \<notin> set i" and "CHR ''.'' \<notin> set j"
  shows "message_key d i = message_key e j \<longleftrightarrow> d = e \<and> i = j"
proof -
  have last: "x @ ''.'' @ i = y @ ''.'' @ j \<longleftrightarrow> x = y \<and> i = j" for x y
  proof
    assume eq: "x @ ''.'' @ i = y @ ''.'' @ j"
    from assms have "takeWhile (\<lambda>c. c \<noteq> CHR ''.'') (rev i @ ''.'' @ rev x) = rev i"
      and "takeWhile (\<lambda>c. c \<noteq> CHR ''.'') (rev j @ ''.'' @ rev y) = rev j"
      by (auto simp: takeWhile_append)
    moreover have "rev i @ ''.'' @ rev x = rev j @ ''.'' @ rev y"
      using arg_cong [OF eq, of rev] by (simp only: rev_append rev.simps append_Nil append_assoc)
    ultimately have "i = j" by (metis rev_is_rev_conv)
    with eq show "x = y \<and> i = j" by simp
  qed simp
  have dot: "x @ ''.'' @ y \<noteq> z" if "CHR ''.'' \<notin> set z" for x y z using that by auto
  show ?thesis
    using last [of d e] dot [OF assms(1)] dot [OF assms(2)] assms
    by (auto simp: message_key_def Broadcast_def)
qed

lemma keys_agree:
  "kr_key (kafka_record_of hn p msg bytes) = message_key (sm_Destination msg) (sm_ID msg)"
  "om_ObjectID (metadata_of impl msg) = message_key (sm_Destination msg) (sm_ID msg)"
  by (simp_all add: kafka_record_of_def metadata_of_def message_key_def Let_def)

section \<open>What the syncers rely on\<close>

text \<open>A transport keeps the latest message under each key; \<open>encode\<close> is what it stores for a message, and
  \<open>reliable\<close> the condition that nothing fails.\<close>

locale spec_transport =
  fixes send :: "'s \<Rightarrow> spec_message \<Rightarrow> 's" and latest :: "'s \<Rightarrow> string \<Rightarrow> 'v option"
    and encode :: "spec_message \<Rightarrow> 'v" and reliable :: bool
  assumes send_latest:
    "reliable \<Longrightarrow> latest (send s m) = (latest s)(message_key (sm_Destination m) (sm_ID m) \<mapsto> encode m)"
begin

definition last_for :: "string \<Rightarrow> string \<Rightarrow> spec_message list \<Rightarrow> spec_message option" where
  "last_for d i ms = List.find (\<lambda>m. sm_Destination m = d \<and> sm_ID m = i) (rev ms)"

lemma latest_after:
  assumes "reliable" and "CHR ''.'' \<notin> set i" and "\<forall>m \<in> set ms. CHR ''.'' \<notin> set (sm_ID m)"
  shows "latest (foldl send s ms) (message_key d i) =
     (case last_for d i ms of Some m \<Rightarrow> Some (encode m) | None \<Rightarrow> latest s (message_key d i))"
  using assms(3)
proof (induction ms rule: rev_induct)
  case (snoc m ms)
  have "message_key d i = message_key (sm_Destination m) (sm_ID m) \<longleftrightarrow> sm_Destination m = d \<and> sm_ID m = i"
    using message_key_inject [OF assms(2), of "sm_ID m" d "sm_Destination m"] snoc.prems by auto
  with snoc show ?case by (simp add: last_for_def send_latest [OF assms(1)])
qed (simp add: last_for_def)

end

definition message_bytes ::
    "('w, 'r) gzip_lib \<Rightarrow> (spec_message \<Rightarrow> string option) \<Rightarrow> compressor_impl \<Rightarrow> spec_message \<Rightarrow> string option" where
  "message_bytes gz marshal impl m =
     (case marshal m of None \<Rightarrow> None | Some b \<Rightarrow> (case Compress gz impl b of Inl _ \<Rightarrow> None | Inr z \<Rightarrow> Some z))"

text \<open>A broker that stores every record it is given, as the latest of its key.\<close>

definition kafka_reliable ::
    "('w, 'r) gzip_lib \<Rightarrow> (spec_message \<Rightarrow> string option) \<Rightarrow> ('b \<Rightarrow> kafka_record \<Rightarrow> bool \<times> 'b) \<Rightarrow>
     ('b \<Rightarrow> string \<Rightarrow> kafka_record option) \<Rightarrow> kafka_producer \<Rightarrow> bool" where
  "kafka_reliable gz marshal produceAsync stored p \<longleftrightarrow>
     (\<forall>m. message_bytes gz marshal (kp_compressor p) m \<noteq> None) \<and>
     (\<forall>br r. stored (snd (produceAsync br r)) = (stored br)(kr_key r \<mapsto> r))"

interpretation kafka_transport: spec_transport
    "kafka_SendAsync hn gz marshal produceAsync p" stored
    "\<lambda>m. kafka_record_of hn p m (the (message_bytes gz marshal (kp_compressor p) m))"
    "kafka_reliable gz marshal produceAsync stored p"
  for hn gz marshal produceAsync p stored
proof
  fix s m
  assume rel: "kafka_reliable gz marshal produceAsync stored p"
  then obtain z where "message_bytes gz marshal (kp_compressor p) m = Some z" unfolding kafka_reliable_def by blast
  then have "kafka_SendAsync hn gz marshal produceAsync p s m = snd (produceAsync s (kafka_record_of hn p m z))"
    and "the (message_bytes gz marshal (kp_compressor p) m) = z"
    by (auto simp: kafka_SendAsync_def message_bytes_def split: option.splits sum.splits)
  with rel show "stored (kafka_SendAsync hn gz marshal produceAsync p s m) =
      (stored s)(message_key (sm_Destination m) (sm_ID m) \<mapsto>
        kafka_record_of hn p m (the (message_bytes gz marshal (kp_compressor p) m)))"
    by (simp add: kafka_reliable_def keys_agree)
qed

text \<open>A cloud sync service that takes metadata and then data, and keeps both under the object's ID.\<close>

definition sync_reliable ::
    "('w, 'r) gzip_lib \<Rightarrow> 'b sync_client \<Rightarrow> ('b \<Rightarrow> string \<Rightarrow> (object_metadata \<times> string) option) \<Rightarrow> compressor_impl \<Rightarrow> bool" where
  "sync_reliable gz client stored impl \<longleftrightarrow>
     (\<forall>data. \<exists>z. Compress gz impl data = Inr z) \<and>
     (\<forall>br om data. fst (sc_UpdateObject client br om) = False \<and>
        stored (snd (sc_UpdateObjectData client (snd (sc_UpdateObject client br om)) om data)) =
          (stored br)(om_ObjectID om \<mapsto> (om, data)))"

interpretation sync_transport: spec_transport "distribute_message gz client impl" stored
    "\<lambda>m. (metadata_of impl m, (case Compress gz impl (sm_Payload m) of Inr z \<Rightarrow> z | Inl _ \<Rightarrow> []))"
    "sync_reliable gz client stored impl"
  for gz client impl stored
proof
  fix s and m :: spec_message
  assume rel: "sync_reliable gz client stored impl"
  then obtain z where z: "Compress gz impl (sm_Payload m) = Inr z" unfolding sync_reliable_def by blast
  obtain f br' where u: "sc_UpdateObject client s (metadata_of impl m) = (f, br')" by fastforce
  from rel have up: "\<not> fst (sc_UpdateObject client s (metadata_of impl m))"
    and data: "stored (snd (sc_UpdateObjectData client (snd (sc_UpdateObject client s (metadata_of impl m))) (metadata_of impl m) z)) =
      (stored s)(om_ObjectID (metadata_of impl m) \<mapsto> (metadata_of impl m, z))"
    unfolding sync_reliable_def by blast+
  from up u have "distribute_message gz client impl s m = snd (sc_UpdateObjectData client br' (metadata_of impl m) z)"
    by (simp add: distribute_message_def z Let_def)
  with data u show "stored (distribute_message gz client impl s m) =
      (stored s)(message_key (sm_Destination m) (sm_ID m) \<mapsto>
        (metadata_of impl m, case Compress gz impl (sm_Payload m) of Inl x \<Rightarrow> [] | Inr z \<Rightarrow> z))"
    by (simp add: keys_agree z)
qed

end
