(* ===== verification/Label_Table.thy ===== *)
theory Label_Table
  imports Hoh_Prelude
begin

text \<open>
  The table \<open>spec.managed_clusters_labels\<close>, which the REST API and the labels status watcher write and the
  spec syncer reads. A row asks a leaf hub to set labels on a managed cluster and to remove others. The
  writers of the repository are guarded by the version column. The database is outside the repository: it
  is the record \<open>label_lib\<close> over a database state, and \<open>table_laws\<close> says what the statements that the code
  sends do to the table.
\<close>

type_synonym labels = "string \<rightharpoonup> string"

record label_row =
  lr_labels :: labels
  lr_deleted_label_keys :: "string list"
  lr_version :: int

text \<open>The key of a row: the managed cluster and the leaf hub.\<close>

type_synonym label_table = "string \<times> string \<rightharpoonup> label_row"

section \<open>What a row asks for\<close>

definition apply_patch :: "labels \<Rightarrow> string set \<Rightarrow> labels \<Rightarrow> labels" where
  "apply_patch add remove m = (\<lambda>k. case add k of Some v \<Rightarrow> Some v | None \<Rightarrow> (if k \<in> remove then None else m k))"

definition apply_row :: "label_row \<Rightarrow> labels \<Rightarrow> labels" where
  "apply_row r = apply_patch (lr_labels r) (set (lr_deleted_label_keys r))"

text \<open>No key is both set and removed.\<close>

definition consistent_row :: "label_row \<Rightarrow> bool" where
  "consistent_row r \<longleftrightarrow> dom (lr_labels r) \<inter> set (lr_deleted_label_keys r) = {}"

section \<open>The database\<close>

datatype label_arg = AStr string | AInt int | ALabels labels | AKeys "string list"

text \<open>\<open>ll_Query\<close> gives the rows, or nothing when the query fails. \<open>ll_Exec\<close> gives the number of affected
  rows, or nothing when the statement fails, with the next state.\<close>

record 'db label_lib =
  ll_Query :: "'db \<Rightarrow> string \<Rightarrow> label_arg list \<Rightarrow> label_arg list list option"
  ll_Exec :: "'db \<Rightarrow> string \<Rightarrow> label_arg list \<Rightarrow> nat option \<times> 'db"

definition select_row_query :: string where
  "select_row_query =
     ''SELECT labels, deleted_label_keys, version from spec.managed_clusters_labels WHERE managed_cluster_name = $1 AND leaf_hub_name = $2''"

definition insert_row_query :: string where
  "insert_row_query =
     ''INSERT INTO spec.managed_clusters_labels (leaf_hub_name, managed_cluster_name, labels,'' @ newline_tabs 3 @
     ''deleted_label_keys, version, updated_at) values($1, $2, $3::jsonb, $4::jsonb, 0, now())''"

definition update_row_query :: string where
  "update_row_query =
     ''UPDATE spec.managed_clusters_labels SET'' @ newline_tabs 2 @
     ''labels = $1::jsonb,'' @ newline_tabs 2 @
     ''deleted_label_keys = $2::jsonb,'' @ newline_tabs 2 @
     ''version = version + 1,'' @ newline_tabs 2 @
     ''updated_at = now()'' @ newline_tabs 2 @
     ''WHERE managed_cluster_name=$3 AND leaf_hub_name=$4 AND version=$5''"

definition trim_query :: "string \<Rightarrow> string" where
  "trim_query tableName =
     ''UPDATE spec.'' @ tableName @ '' SET updated_at=now(),deleted_label_keys=$1,'' @ newline_tabs 2 @
     ''version=$2 WHERE leaf_hub_name=$3 AND managed_cluster_name=$4 AND version=$5''"

definition trim_keys_query :: string where
  "trim_keys_query = trim_query ''managed_clusters_labels''"

text \<open>A guarded update: the row changes when it is there with the version that was read.\<close>

definition guarded :: "label_table \<Rightarrow> string \<times> string \<Rightarrow> int \<Rightarrow> (label_row \<Rightarrow> label_row) \<Rightarrow> nat \<times> label_table" where
  "guarded t k v f =
     (case t k of
        Some r \<Rightarrow> (if lr_version r = v then (1, t(k \<mapsto> f r)) else (0, t))
      | None \<Rightarrow> (0, t))"

text \<open>What PostgreSQL does with the statements, for a table with at most one row per key (so a second row
  is refused); an update that would overflow the version column fails.\<close>

definition select_law :: "'db label_lib \<Rightarrow> ('db \<Rightarrow> label_table) \<Rightarrow> bool" where
  "select_law lib tbl \<longleftrightarrow>
     (\<forall>db c h. ll_Query lib db select_row_query [AStr c, AStr h] =
        Some (case tbl db (c, h) of
                None \<Rightarrow> []
              | Some r \<Rightarrow> [[ALabels (lr_labels r), AKeys (lr_deleted_label_keys r), AInt (lr_version r)]]))"

definition update_law :: "'db label_lib \<Rightarrow> ('db \<Rightarrow> label_table) \<Rightarrow> bool" where
  "update_law lib tbl \<longleftrightarrow>
     (\<forall>db c h v ls ks.
        (let (n, db') = ll_Exec lib db update_row_query [ALabels ls, AKeys ks, AStr c, AStr h, AInt v];
             (m, t) = guarded (tbl db) (c, h) v
                (\<lambda>r. r\<lparr>lr_labels := ls, lr_deleted_label_keys := ks, lr_version := v + 1\<rparr>)
         in if m = 1 \<and> \<not> in_int64 (v + 1) then n = None \<and> tbl db' = tbl db else n = Some m \<and> tbl db' = t))"

definition trim_law :: "'db label_lib \<Rightarrow> ('db \<Rightarrow> label_table) \<Rightarrow> bool" where
  "trim_law lib tbl \<longleftrightarrow>
     (\<forall>db c h v v' ks.
        (let (n, db') = ll_Exec lib db trim_keys_query [AKeys ks, AInt v', AStr h, AStr c, AInt v]
         in (\<exists>m. n = Some m \<and> (m, tbl db') =
              guarded (tbl db) (c, h) v (\<lambda>r. r\<lparr>lr_deleted_label_keys := ks, lr_version := v'\<rparr>))))"

definition insert_law :: "'db label_lib \<Rightarrow> ('db \<Rightarrow> label_table) \<Rightarrow> bool" where
  "insert_law lib tbl \<longleftrightarrow>
     (\<forall>db c h ls ks.
        (let (n, db') = ll_Exec lib db insert_row_query [AStr h, AStr c, ALabels ls, AKeys ks]
         in (case tbl db (c, h) of
               Some r \<Rightarrow> n = None \<and> tbl db' = tbl db
             | None \<Rightarrow> n \<noteq> None \<and> tbl db' = (tbl db)((c, h) \<mapsto>
                  \<lparr> lr_labels = ls, lr_deleted_label_keys = ks, lr_version = 0 \<rparr>))))"

definition table_laws :: "'db label_lib \<Rightarrow> ('db \<Rightarrow> label_table) \<Rightarrow> bool" where
  "table_laws lib tbl \<longleftrightarrow> select_law lib tbl \<and> update_law lib tbl \<and> insert_law lib tbl \<and> trim_law lib tbl"

lemma select_lawD:
  "table_laws lib tbl \<Longrightarrow> ll_Query lib db select_row_query [AStr c, AStr h] =
     Some (case tbl db (c, h) of
             None \<Rightarrow> []
           | Some r \<Rightarrow> [[ALabels (lr_labels r), AKeys (lr_deleted_label_keys r), AInt (lr_version r)]])"
  by (simp add: table_laws_def select_law_def)

lemma update_lawD:
  assumes "table_laws lib tbl"
    and "ll_Exec lib db update_row_query [ALabels ls, AKeys ks, AStr c, AStr h, AInt v] = (n, db')"
    and "guarded (tbl db) (c, h) v (\<lambda>r. r\<lparr>lr_labels := ls, lr_deleted_label_keys := ks, lr_version := v + 1\<rparr>) = (m, t)"
  shows "if m = 1 \<and> \<not> in_int64 (v + 1) then n = None \<and> tbl db' = tbl db else n = Some m \<and> tbl db' = t"
proof -
  have "update_law lib tbl" using assms(1) by (simp add: table_laws_def)
  from this [unfolded update_law_def, rule_format, of db ls ks c h v] assms(2,3) show ?thesis by simp
qed

lemma insert_lawD:
  assumes "table_laws lib tbl"
    and "ll_Exec lib db insert_row_query [AStr h, AStr c, ALabels ls, AKeys ks] = (n, db')"
  shows "case tbl db (c, h) of
           Some r \<Rightarrow> n = None \<and> tbl db' = tbl db
         | None \<Rightarrow> n \<noteq> None \<and> tbl db' = (tbl db)((c, h) \<mapsto> \<lparr> lr_labels = ls, lr_deleted_label_keys = ks, lr_version = 0 \<rparr>)"
proof -
  have "insert_law lib tbl" using assms(1) by (simp add: table_laws_def)
  from this [unfolded insert_law_def, rule_format, of db h c ls ks] assms(2) show ?thesis by simp
qed

lemma trim_lawD:
  assumes "table_laws lib tbl"
    and "ll_Exec lib db trim_keys_query [AKeys ks, AInt v', AStr h, AStr c, AInt v] = (n, db')"
  shows "\<exists>m. n = Some m \<and> (m, tbl db') = guarded (tbl db) (c, h) v (\<lambda>r. r\<lparr>lr_deleted_label_keys := ks, lr_version := v'\<rparr>)"
proof -
  have "trim_law lib tbl" using assms(1) by (simp add: table_laws_def)
  from this [unfolded trim_law_def, rule_format, of db ks v' h c v] assms(2) show ?thesis by simp
qed

section \<open>Other writers\<close>

text \<open>What may happen to the table between a read and the write that follows it: other writers may do
  anything, as long as a row that still has its version still has its content.\<close>

definition versioned :: "label_table \<Rightarrow> label_table \<Rightarrow> bool" where
  "versioned t t' \<longleftrightarrow>
     (\<forall>k r r'. t k = Some r \<longrightarrow> t' k = Some r' \<longrightarrow> lr_version r' = lr_version r \<longrightarrow> r' = r)"

lemma versioned_refl [simp]: "versioned t t"
  by (simp add: versioned_def)

lemma versionedD: "versioned t t' \<Longrightarrow> t k = Some r \<Longrightarrow> t' k = Some r' \<Longrightarrow> lr_version r' = lr_version r \<Longrightarrow> r' = r"
  unfolding versioned_def by blast

text \<open>The guarded writers are such other writers.\<close>

lemma versioned_guarded:
  assumes "guarded t k v f = (n, t')" and "\<And>r. lr_version r = v \<Longrightarrow> lr_version (f r) \<noteq> v"
  shows "versioned t t'"
  using assms by (auto simp: guarded_def versioned_def split: option.splits if_splits)

lemma versioned_insert: "t k = None \<Longrightarrow> versioned t (t(k \<mapsto> r))"
  by (auto simp: versioned_def)

text \<open>Patches compose.\<close>

lemma apply_patch_compose:
  "apply_patch add remove (apply_patch add0 remove0 m) =
     apply_patch ((add0 |` (- remove)) ++ add) ((remove0 - dom add) \<union> remove) m"
  by (auto simp: apply_patch_def fun_eq_iff map_add_def restrict_map_def dom_def split: option.splits)

end
