(* ===== verification/Spec_Sync.thy ===== *)
theory Spec_Sync
  imports Interval_Policy Spec_Transport Label_Table Bundles
begin

text \<open>
  The way from the spec tables to the transport: \<open>db2transport/bundle\<close>, the reads of
  \<open>db2transport/db/postgresql\<close> and \<open>db2transport/syncer\<close>. The database is the record \<open>spec_lib\<close>. A sync makes
  several queries, and other processes write in between: each call takes the state of the database at the
  moment it runs. A time is an integer, 0 for Go's zero time.
\<close>

section \<open>Objects bundles\<close>

record objects_bundle =
  ob_Objects :: "k8s_object list"
  ob_DeletedObjects :: "k8s_object list"

definition NewBaseObjectsBundle :: objects_bundle where
  "NewBaseObjectsBundle = \<lparr> ob_Objects = [], ob_DeletedObjects = [] \<rparr>"

text \<open>The annotations are a map; setting a key replaces the entry that was there.\<close>

definition setMetaDataAnnotation :: "k8s_object \<Rightarrow> string \<Rightarrow> string \<Rightarrow> k8s_object" where
  "setMetaDataAnnotation obj key val =
     obj\<lparr>obj_Annotations := (key, val) # filter (\<lambda>a. fst a \<noteq> key) (obj_Annotations obj)\<rparr>"

definition AddObject :: "objects_bundle \<Rightarrow> k8s_object \<Rightarrow> string \<Rightarrow> objects_bundle" where
  "AddObject b obj objectUID =
     b\<lparr>ob_Objects := ob_Objects b @ [setMetaDataAnnotation obj OriginOwnerReferenceAnnotation objectUID]\<rparr>"

definition AddDeletedObject :: "objects_bundle \<Rightarrow> k8s_object \<Rightarrow> objects_bundle" where
  "AddDeletedObject b obj = b\<lparr>ob_DeletedObjects := ob_DeletedObjects b @ [obj]\<rparr>"

section \<open>Reading the spec tables\<close>

text \<open>What scanning the single value of a \<open>MAX\<close> query gives: a time, no row, or another error (of the query, or
  because the value is NULL in an empty table).\<close>

datatype time_scan = ScannedTime int | ScanNoRows | ScanError

datatype spec_error = ErrNoObjects | ErrQuery | ErrScanRow | ErrMarshalBundle

record 'db spec_lib =
  sl_QueryTime :: "'db \<Rightarrow> string \<Rightarrow> time_scan"
  sl_QueryObjects :: "'db \<Rightarrow> string \<Rightarrow> (string \<times> k8s_object \<times> bool) option list option"

definition not_local_condition :: string where
  "not_local_condition = newline_tabs 2 @
     ''payload->'metadata'->'labels'->'hub-of-hubs.open-cluster-management.io/local-resource' IS NULL''"

definition max_query :: "string \<Rightarrow> bool \<Rightarrow> string" where
  "max_query tableName filterLocalResources =
     (if filterLocalResources then ''SELECT MAX(updated_at) FROM spec.'' @ tableName @ '' WHERE'' @ not_local_condition
      else ''SELECT MAX(updated_at) FROM spec.'' @ tableName)"

definition GetLastUpdateTimestamp :: "'db spec_lib \<Rightarrow> 'db \<Rightarrow> string \<Rightarrow> bool \<Rightarrow> spec_error + int" where
  "GetLastUpdateTimestamp lib db tableName filterLocalResources =
     (case sl_QueryTime lib db (max_query tableName filterLocalResources) of
        ScanNoRows \<Rightarrow> Inl ErrNoObjects
      | ScannedTime t \<Rightarrow> Inr t
      | ScanError \<Rightarrow> Inr 0)"

fun objects_rows :: "(string \<times> k8s_object \<times> bool) option list \<Rightarrow> objects_bundle \<Rightarrow> spec_error + objects_bundle" where
  "objects_rows [] b = Inr b"
| "objects_rows (None # rows) b = Inl ErrScanRow"
| "objects_rows (Some (objID, obj, deleted) # rows) b =
     objects_rows rows (if deleted then AddDeletedObject b obj else AddObject b obj objID)"

definition objects_query :: "string \<Rightarrow> string" where
  "objects_query tableName = ''SELECT id,payload,deleted FROM spec.'' @ tableName @ '' WHERE'' @ not_local_condition"

text \<open>\<open>GetObjectsBundle\<close>: the time is read before the rows.\<close>

definition GetObjectsBundle ::
    "'db spec_lib \<Rightarrow> 'db \<Rightarrow> 'db \<Rightarrow> string \<Rightarrow> objects_bundle \<Rightarrow> spec_error + int \<times> objects_bundle" where
  "GetObjectsBundle lib db1 db2 tableName intoBundle =
     andThen (GetLastUpdateTimestamp lib db1 tableName True) (\<lambda>timestamp.
       case sl_QueryObjects lib db2 (objects_query tableName) of
         None \<Rightarrow> Inl ErrQuery
       | Some rows \<Rightarrow> andThen (objects_rows rows intoBundle) (\<lambda>b. Inr (timestamp, b)))"

section \<open>Sending\<close>

definition SpecBundle :: string where "SpecBundle = ''SpecBundle''"

text \<open>\<open>syncToTransport\<close>: the payload is marshalled, the version is the formatted time, and the transport takes it.\<close>

definition syncToTransport ::
    "('t \<Rightarrow> spec_message \<Rightarrow> 't) \<Rightarrow> ('p \<Rightarrow> string option) \<Rightarrow> (int \<Rightarrow> string) \<Rightarrow> 't \<Rightarrow> string \<Rightarrow> string \<Rightarrow> int \<Rightarrow> 'p \<Rightarrow>
     spec_error + 't" where
  "syncToTransport sendAsync marshal formatTime tr destination objID timestamp payload =
     (case marshal payload of
        None \<Rightarrow> Inl ErrMarshalBundle
      | Some payloadBytes \<Rightarrow>
          Inr (sendAsync tr \<lparr> sm_Destination = destination, sm_ID = objID, sm_MsgType = SpecBundle,
                              sm_Version = formatTime timestamp, sm_Payload = payloadBytes \<rparr>))"

text \<open>\<open>syncObjectsBundle\<close>: the result is whether a bundle was sent, with the transport and the time of the last
  sync.\<close>

record 't sync_state =
  sy_transport :: 't
  sy_lastSyncTimestamp :: int

definition syncObjectsBundle ::
    "('t \<Rightarrow> spec_message \<Rightarrow> 't) \<Rightarrow> (objects_bundle \<Rightarrow> string option) \<Rightarrow> (int \<Rightarrow> string) \<Rightarrow> 'db spec_lib \<Rightarrow>
     string \<Rightarrow> string \<Rightarrow> 'db \<Rightarrow> 'db \<Rightarrow> 'db \<Rightarrow> 't sync_state \<Rightarrow> (spec_error + bool) \<times> 't sync_state" where
  "syncObjectsBundle sendAsync marshal formatTime lib transportBundleKey dbTableName db0 db1 db2 st =
     (case GetLastUpdateTimestamp lib db0 dbTableName True of
        Inl err \<Rightarrow> (Inl err, st)
      | Inr lastUpdateTimestamp \<Rightarrow>
          (if \<not> sy_lastSyncTimestamp st < lastUpdateTimestamp then (Inr False, st)
           else (case GetObjectsBundle lib db1 db2 dbTableName NewBaseObjectsBundle of
              Inl err \<Rightarrow> (Inl err, st)
            | Inr (lastUpdateTimestamp, bundleResult) \<Rightarrow>
                (case syncToTransport sendAsync marshal formatTime (sy_transport st) Broadcast transportBundleKey
                        lastUpdateTimestamp bundleResult of
                   Inl err \<Rightarrow> (Inl err, st)
                 | Inr tr \<Rightarrow>
                     (Inr True, \<lparr> sy_transport = tr, sy_lastSyncTimestamp = lastUpdateTimestamp \<rparr>)))))"

section \<open>Labels of managed clusters\<close>

record labels_spec =
  ls_ClusterName :: string
  ls_Labels :: labels
  ls_DeletedLabelKeys :: "string list"
  ls_UpdateTimestamp :: int
  ls_Version :: int

record labels_bundle =
  lb_Objects :: "labels_spec list"
  lb_LeafHubName :: string

definition updated_labels_query :: "string \<Rightarrow> string \<Rightarrow> string" where
  "updated_labels_query tableName timestamp =
     ''SELECT leaf_hub_name,managed_cluster_name,labels,'' @ newline_tabs 2 @
     ''deleted_label_keys,updated_at,version FROM spec.'' @ tableName @
     '' WHERE leaf_hub_name IN (SELECT DISTINCT(leaf_hub_name) '' @ newline_tabs 2 @
     ''from spec.'' @ tableName @ '' WHERE updated_at::timestamp > timestamp '' @ squote @ timestamp @ squote @
     '') AND leaf_hub_name <> '' @ squote @ squote"

text \<open>The loop over the rows: each goes to the bundle of its leaf hub, which is made when it is the first one.\<close>

definition add_to_hub :: "(string \<rightharpoonup> labels_bundle) \<Rightarrow> string \<Rightarrow> labels_spec \<Rightarrow> string \<rightharpoonup> labels_bundle" where
  "add_to_hub m leafHubName spec =
     (let b = (case m leafHubName of Some b \<Rightarrow> b | None \<Rightarrow> \<lparr> lb_Objects = [], lb_LeafHubName = leafHubName \<rparr>)
      in m(leafHubName \<mapsto> b\<lparr>lb_Objects := lb_Objects b @ [spec]\<rparr>))"

fun updated_labels_rows :: "label_arg list list \<Rightarrow> (string \<rightharpoonup> labels_bundle) \<Rightarrow> spec_error + (string \<rightharpoonup> labels_bundle)" where
  "updated_labels_rows [] m = Inr m"
| "updated_labels_rows (row # rows) m =
     (case row of
        [AStr leafHubName, AStr cluster, ALabels ls, AKeys ks, AInt updated, AInt version] \<Rightarrow>
          updated_labels_rows rows (add_to_hub m leafHubName
            \<lparr> ls_ClusterName = cluster, ls_Labels = ls, ls_DeletedLabelKeys = ks, ls_UpdateTimestamp = updated, ls_Version = version \<rparr>)
      | _ \<Rightarrow> Inl ErrScanRow)"

definition GetUpdatedManagedClusterLabelsBundles ::
    "'db label_lib \<Rightarrow> (int \<Rightarrow> string) \<Rightarrow> 'db \<Rightarrow> string \<Rightarrow> int \<Rightarrow> spec_error + (string \<rightharpoonup> labels_bundle)" where
  "GetUpdatedManagedClusterLabelsBundles lib formatRFC3339 db tableName timestamp =
     (case ll_Query lib db (updated_labels_query tableName (formatRFC3339 timestamp)) [] of
        None \<Rightarrow> Inl ErrQuery
      | Some rows \<Rightarrow> updated_labels_rows rows Map.empty)"

text \<open>The loop that sends one bundle per leaf hub; an error ends it, with what was sent before.\<close>

fun send_labels ::
    "('t \<Rightarrow> spec_message \<Rightarrow> 't) \<Rightarrow> (labels_bundle \<Rightarrow> string option) \<Rightarrow> (int \<Rightarrow> string) \<Rightarrow> string \<Rightarrow> int \<Rightarrow>
     (string \<rightharpoonup> labels_bundle) \<Rightarrow> string list \<Rightarrow> 't \<Rightarrow> spec_error option \<times> 't" where
  "send_labels sendAsync marshal formatTime key timestamp m [] tr = (None, tr)"
| "send_labels sendAsync marshal formatTime key timestamp m (hub # hubs) tr =
     (case m hub of
        None \<Rightarrow> send_labels sendAsync marshal formatTime key timestamp m hubs tr
      | Some b \<Rightarrow>
          (case syncToTransport sendAsync marshal formatTime tr hub key timestamp b of
             Inl err \<Rightarrow> (Some err, tr)
           | Inr tr' \<Rightarrow> send_labels sendAsync marshal formatTime key timestamp m hubs tr'))"

definition syncManagedClusterLabelsBundles ::
    "('t \<Rightarrow> spec_message \<Rightarrow> 't) \<Rightarrow> (labels_bundle \<Rightarrow> string option) \<Rightarrow> (int \<Rightarrow> string) \<Rightarrow> (int \<Rightarrow> string) \<Rightarrow>
     'db spec_lib \<Rightarrow> 'db label_lib \<Rightarrow> (string set \<Rightarrow> string list) \<Rightarrow> string \<Rightarrow> string \<Rightarrow> 'db \<Rightarrow> 'db \<Rightarrow> 't sync_state \<Rightarrow>
     (spec_error + bool) \<times> 't sync_state" where
  "syncManagedClusterLabelsBundles sendAsync marshal formatTime formatRFC3339 lib llib enum transportBundleKey dbTableName
     db0 db1 st =
     (case GetLastUpdateTimestamp lib db0 dbTableName False of
        Inl err \<Rightarrow> (Inl err, st)
      | Inr lastUpdateTimestamp \<Rightarrow>
          (if \<not> sy_lastSyncTimestamp st < lastUpdateTimestamp then (Inr False, st)
           else (case GetUpdatedManagedClusterLabelsBundles llib formatRFC3339 db1 dbTableName (sy_lastSyncTimestamp st) of
              Inl err \<Rightarrow> (Inl err, st)
            | Inr m \<Rightarrow>
                (case send_labels sendAsync marshal formatTime transportBundleKey lastUpdateTimestamp m (enum (dom m))
                        (sy_transport st) of
                   (Some err, tr) \<Rightarrow> (Inl err, st\<lparr>sy_transport := tr\<rparr>)
                 | (None, tr) \<Rightarrow> (Inr True, \<lparr> sy_transport = tr, sy_lastSyncTimestamp = lastUpdateTimestamp \<rparr>)))))"

end
