(* ===== verification/Spec_Delivery.thy ===== *)
theory Spec_Delivery
  imports Spec_Sync
begin

text \<open>
  What the spec syncers deliver. \<open>sync_ticks\<close> runs the periodic sync of a table while other processes write to
  it; \<open>spec_table\<close> is what PostgreSQL answers to the two queries, and \<open>later\<close> how the table evolves: a write
  sets the update time of its row past all the times that were there.
\<close>

section \<open>The rows of a bundle\<close>

definition bundle_of :: "(string \<times> k8s_object \<times> bool) list \<Rightarrow> objects_bundle" where
  "bundle_of rows =
     \<lparr> ob_Objects = map (\<lambda>(i, obj, d). setMetaDataAnnotation obj OriginOwnerReferenceAnnotation i)
                      (filter (\<lambda>(i, obj, d). \<not> d) rows),
       ob_DeletedObjects = map (\<lambda>(i, obj, d). obj) (filter (\<lambda>(i, obj, d). d) rows) \<rparr>"

lemma objects_rows_spec:
  "objects_rows (map Some rows) b =
     Inr \<lparr> ob_Objects = ob_Objects b @ ob_Objects (bundle_of rows),
           ob_DeletedObjects = ob_DeletedObjects b @ ob_DeletedObjects (bundle_of rows) \<rparr>"
proof (induction rows arbitrary: b)
  case (Cons r rows)
  then show ?case by (cases r) (simp add: bundle_of_def AddObject_def AddDeletedObject_def)
qed (simp add: bundle_of_def)

lemma objects_rows_new: "objects_rows (map Some rows) NewBaseObjectsBundle = Inr (bundle_of rows)"
  by (simp add: objects_rows_spec NewBaseObjectsBundle_def)

section \<open>Ticks\<close>

text \<open>The states that the three queries of a tick see.\<close>

type_synonym 'db tick = "'db \<times> 'db \<times> 'db"

definition sync_ticks ::
    "('t \<Rightarrow> spec_message \<Rightarrow> 't) \<Rightarrow> (objects_bundle \<Rightarrow> string option) \<Rightarrow> (int \<Rightarrow> string) \<Rightarrow> 'db spec_lib \<Rightarrow> string \<Rightarrow> string \<Rightarrow>
     'db tick list \<Rightarrow> 't sync_state \<Rightarrow> (spec_error + bool) option \<times> 't sync_state" where
  "sync_ticks sendAsync marshal formatTime lib key table ticks st =
     foldl (\<lambda>(r, st) (db0, db1, db2).
        let (r', st') = syncObjectsBundle sendAsync marshal formatTime lib key table db0 db1 db2 st in (Some r', st'))
       (None, st) ticks"

definition start_sync :: "'t \<Rightarrow> 't sync_state" where
  "start_sync tr = \<lparr> sy_transport = tr, sy_lastSyncTimestamp = 0 \<rparr>"

lemma sync_ticks_snoc:
  "sync_ticks sendAsync marshal formatTime lib key table (ticks @ [(db0, db1, db2)]) st =
     (let (r, st') = syncObjectsBundle sendAsync marshal formatTime lib key table db0 db1 db2
                       (snd (sync_ticks sendAsync marshal formatTime lib key table ticks st)) in (Some r, st'))"
  by (simp add: sync_ticks_def split: prod.splits)

section \<open>The database\<close>

text \<open>\<open>content\<close> gives the rows that are not local, \<open>mx\<close> their latest update time.\<close>

definition spec_table ::
    "'db spec_lib \<Rightarrow> string \<Rightarrow> ('db \<Rightarrow> (string \<times> k8s_object \<times> bool) list) \<Rightarrow> ('db \<Rightarrow> int) \<Rightarrow> bool" where
  "spec_table lib table content mx \<longleftrightarrow>
     (\<forall>db. sl_QueryTime lib db (max_query table True) = (if content db = [] then ScanError else ScannedTime (mx db)) \<and>
           sl_QueryObjects lib db (objects_query table) = Some (map Some (content db)) \<and>
           (if content db = [] then mx db = 0 else 0 < mx db))"

definition later :: "('db \<Rightarrow> 'c) \<Rightarrow> ('db \<Rightarrow> int) \<Rightarrow> 'db \<Rightarrow> 'db \<Rightarrow> bool" where
  "later content mx d d' \<longleftrightarrow> content d' = content d \<and> mx d' = mx d \<or> mx d < mx d'"

definition tick_states :: "'db tick list \<Rightarrow> 'db list" where
  "tick_states ticks = concat (map (\<lambda>(a, b, c). [a, b, c]) ticks)"

lemma later_le: "later content mx d d' \<Longrightarrow> mx d \<le> mx d'"
  by (auto simp: later_def)

lemma later_squeeze: "later content mx d d' \<Longrightarrow> mx d' \<le> mx d \<Longrightarrow> content d' = content d"
  by (auto simp: later_def)

lemma GetLastUpdateTimestamp_max:
  "spec_table lib table content mx \<Longrightarrow> GetLastUpdateTimestamp lib db table True = Inr (mx db)"
  unfolding spec_table_def by (drule spec [of _ db]) (auto simp: GetLastUpdateTimestamp_def split: if_splits)

lemma GetObjectsBundle_content:
  "spec_table lib table content mx \<Longrightarrow>
     GetObjectsBundle lib db1 db2 table NewBaseObjectsBundle = Inr (mx db1, bundle_of (content db2))"
  unfolding GetObjectsBundle_def
  by (simp add: GetLastUpdateTimestamp_max objects_rows_new) (simp add: spec_table_def objects_rows_new)

lemma syncObjectsBundle_step:
  assumes "spec_table lib table content mx" and "\<And>b. marshal b = Some (enc b)"
  shows "syncObjectsBundle sendAsync marshal formatTime lib key table db0 db1 db2 st =
     (if sy_lastSyncTimestamp st < mx db0
      then (Inr True, \<lparr> sy_transport = sendAsync (sy_transport st)
              \<lparr> sm_Destination = [], sm_ID = key, sm_MsgType = ''SpecBundle'', sm_Version = formatTime (mx db1),
                sm_Payload = enc (bundle_of (content db2)) \<rparr>, sy_lastSyncTimestamp = mx db1 \<rparr>)
      else (Inr False, st))"
  using assms
  by (simp add: syncObjectsBundle_def GetLastUpdateTimestamp_max GetObjectsBundle_content syncToTransport_def
      Broadcast_def SpecBundle_def)

section \<open>Nothing stays behind\<close>

text \<open>The log of messages as a transport.\<close>

definition log_send :: "spec_message list \<Rightarrow> spec_message \<Rightarrow> spec_message list" where
  "log_send tr m = tr @ [m]"

definition knows :: "('db \<Rightarrow> (string \<times> k8s_object \<times> bool) list) \<Rightarrow> ('db \<Rightarrow> int) \<Rightarrow> (objects_bundle \<Rightarrow> string) \<Rightarrow> 'db list \<Rightarrow>
    spec_message list sync_state \<Rightarrow> bool" where
  "knows content mx enc seen st \<longleftrightarrow>
     (sy_transport st = [] \<and> sy_lastSyncTimestamp st = 0) \<or>
     (\<exists>d1 d2. d1 \<in> set seen \<and> d2 \<in> set seen \<and> later content mx d1 d2 \<and> sy_lastSyncTimestamp st = mx d1 \<and>
        sy_transport st \<noteq> [] \<and> sm_Payload (last (sy_transport st)) = enc (bundle_of (content d2)))"

lemma tick_states_snoc: "tick_states (ticks @ [(a, b, c)]) = tick_states ticks @ [a, b, c]"
  by (simp add: tick_states_def)

lemma knows_ticks:
  assumes tab: "spec_table lib table content mx" and enc: "\<And>b. marshal b = Some (enc b)"
  shows "sorted_wrt (later content mx) (tick_states ticks) \<Longrightarrow>
     knows content mx enc (tick_states ticks) (snd (sync_ticks log_send marshal formatTime lib key table ticks (start_sync [])))"
proof (induction ticks rule: rev_induct)
  case (snoc t ticks)
  obtain db0 db1 db2 where t: "t = (db0, db1, db2)" by (cases t)
  let ?st = "snd (sync_ticks log_send marshal formatTime lib key table ticks (start_sync []))"
  from snoc have "knows content mx enc (tick_states ticks) ?st"
    by (simp add: t tick_states_snoc sorted_wrt_append)
  then have keep: "knows content mx enc (tick_states (ticks @ [t])) ?st"
    unfolding knows_def t tick_states_snoc by auto
  have "later content mx db1 db2" using snoc.prems by (simp add: t tick_states_snoc sorted_wrt_append)
  then have new: "knows content mx enc (tick_states (ticks @ [t]))
      \<lparr> sy_transport = log_send tr m, sy_lastSyncTimestamp = mx db1 \<rparr>" if "sm_Payload m = enc (bundle_of (content db2))" for tr m
    unfolding knows_def t tick_states_snoc using that by (auto simp: log_send_def)
  show ?case
    using keep new by (simp add: t sync_ticks_snoc syncObjectsBundle_step [OF tab enc])
qed (simp add: sync_ticks_def knows_def start_sync_def)

lemma quiet_tick:
  assumes tab: "spec_table lib table content mx" and enc: "\<And>b. marshal b = Some (enc b)"
    and sorted: "sorted_wrt (later content mx) (tick_states (ticks @ [(db0, db1, db2)]))"
    and run: "sync_ticks log_send marshal formatTime lib key table (ticks @ [(db0, db1, db2)]) (start_sync []) = (Some (Inr False), st)"
  shows "if sy_transport st = [] then content db0 = []
         else sm_Payload (last (sy_transport st)) = enc (bundle_of (content db0))"
proof -
  let ?st = "snd (sync_ticks log_send marshal formatTime lib key table ticks (start_sync []))"
  have "sorted_wrt (later content mx) (tick_states ticks)"
    and after: "d \<in> set (tick_states ticks) \<Longrightarrow> later content mx d db0" for d
    using sorted by (auto simp: tick_states_snoc sorted_wrt_append)
  from knows_ticks [OF tab enc this(1)] have k: "knows content mx enc (tick_states ticks) ?st" .
  from run have st: "st = ?st" and small: "\<not> sy_lastSyncTimestamp ?st < mx db0"
    by (auto simp: sync_ticks_snoc syncObjectsBundle_step [OF tab enc] split: if_splits)
  from k show ?thesis unfolding knows_def
  proof
    assume "sy_transport ?st = [] \<and> sy_lastSyncTimestamp ?st = 0"
    with small have "sy_transport ?st = []" "mx db0 \<le> 0" by auto
    moreover have "content db0 = []" using tab [unfolded spec_table_def] \<open>mx db0 \<le> 0\<close> by (meson not_less)
    ultimately show ?thesis by (simp add: st)
  next
    assume "\<exists>d1 d2. d1 \<in> set (tick_states ticks) \<and> d2 \<in> set (tick_states ticks) \<and> later content mx d1 d2 \<and>
      sy_lastSyncTimestamp ?st = mx d1 \<and> sy_transport ?st \<noteq> [] \<and> sm_Payload (last (sy_transport ?st)) = enc (bundle_of (content d2))"
    then obtain d1 d2 where d: "d2 \<in> set (tick_states ticks)" "later content mx d1 d2" "sy_lastSyncTimestamp ?st = mx d1"
      "sy_transport ?st \<noteq> []" "sm_Payload (last (sy_transport ?st)) = enc (bundle_of (content d2))" by blast
    have "mx db0 \<le> mx d2" using small d(3) later_le [OF d(2)] by simp
    with later_squeeze [OF after [OF d(1)]] d(4,5) show ?thesis by (simp add: st)
  qed
qed

text \<open>Any transport gets exactly the messages of the log.\<close>

definition replayed :: "('t \<Rightarrow> spec_message \<Rightarrow> 't) \<Rightarrow> 't \<Rightarrow> spec_message list sync_state \<Rightarrow> 't sync_state" where
  "replayed sendAsync tr st =
     \<lparr> sy_transport = foldl sendAsync tr (sy_transport st), sy_lastSyncTimestamp = sy_lastSyncTimestamp st \<rparr>"

lemma syncObjectsBundle_log:
  "syncObjectsBundle sendAsync marshal formatTime lib key table db0 db1 db2 (replayed sendAsync tr st) =
     map_prod id (replayed sendAsync tr) (syncObjectsBundle log_send marshal formatTime lib key table db0 db1 db2 st)"
  by (auto simp: syncObjectsBundle_def syncToTransport_def replayed_def log_send_def split: sum.splits option.splits)

lemma sync_ticks_log:
  "sync_ticks sendAsync marshal formatTime lib key table ticks (start_sync tr) =
     map_prod id (replayed sendAsync tr) (sync_ticks log_send marshal formatTime lib key table ticks (start_sync []))"
proof (induction ticks rule: rev_induct)
  case (snoc t ticks)
  obtain db0 db1 db2 where t: "t = (db0, db1, db2)" by (cases t)
  have "snd (sync_ticks sendAsync marshal formatTime lib key table ticks (start_sync tr)) =
      replayed sendAsync tr (snd (sync_ticks log_send marshal formatTime lib key table ticks (start_sync [])))"
    by (simp add: snoc)
  then show ?case by (simp add: t sync_ticks_snoc syncObjectsBundle_log Let_def case_prod_beta)
qed (simp add: sync_ticks_def start_sync_def replayed_def)

lemma log_messages:
  "\<forall>m \<in> set (sy_transport (snd (sync_ticks log_send marshal formatTime lib key table ticks (start_sync [])))).
     sm_ID m = key \<and> sm_Destination m = []"
proof (induction ticks rule: rev_induct)
  case (snoc t ticks)
  obtain db0 db1 db2 where t: "t = (db0, db1, db2)" by (cases t)
  from snoc show ?case
    by (auto simp: t sync_ticks_snoc syncObjectsBundle_def syncToTransport_def log_send_def Broadcast_def Let_def
        split: sum.splits option.splits prod.splits if_splits)
qed (simp add: sync_ticks_def start_sync_def)

section \<open>Labels\<close>

definition label_values :: "string \<times> labels_spec \<Rightarrow> label_arg list" where
  "label_values r = (case r of (hub, s) \<Rightarrow>
     [AStr hub, AStr (ls_ClusterName s), ALabels (ls_Labels s), AKeys (ls_DeletedLabelKeys s), AInt (ls_UpdateTimestamp s),
      AInt (ls_Version s)])"

text \<open>The bundles of some rows: one for each leaf hub that has a row, with all of its rows in their order.\<close>

definition hub_bundles :: "(string \<times> labels_spec) list \<Rightarrow> string \<rightharpoonup> labels_bundle" where
  "hub_bundles rows hub =
     (if hub \<in> fst ` set rows
      then Some \<lparr> lb_Objects = map snd (filter (\<lambda>r. fst r = hub) rows), lb_LeafHubName = hub \<rparr> else None)"

lemma hub_bundles_snoc: "hub_bundles (rows @ [(hub, s)]) = add_to_hub (hub_bundles rows) hub s"
proof (rule ext)
  fix h
  have "filter (\<lambda>r. fst r = hub) rows = []" if "hub \<notin> fst ` set rows"
    using that by (auto simp: filter_empty_conv)
  then show "hub_bundles (rows @ [(hub, s)]) h = add_to_hub (hub_bundles rows) hub s h"
    by (cases "h = hub"; cases "hub \<in> fst ` set rows") (simp_all add: hub_bundles_def add_to_hub_def Let_def)
qed

lemma updated_labels_rows_fold:
  "updated_labels_rows (map label_values rows) m = Inr (foldl (\<lambda>m (hub, s). add_to_hub m hub s) m rows)"
proof (induction rows arbitrary: m)
  case (Cons r rows)
  obtain hub s where "r = (hub, s)" by (cases r)
  moreover obtain c l k u v where "s = \<lparr> ls_ClusterName = c, ls_Labels = l, ls_DeletedLabelKeys = k,
      ls_UpdateTimestamp = u, ls_Version = v \<rparr>" by (cases s)
  ultimately show ?case using Cons by (simp add: label_values_def)
qed simp

lemma updated_labels_rows_spec: "updated_labels_rows (map label_values rows) Map.empty = Inr (hub_bundles rows)"
proof -
  have "foldl (\<lambda>m (hub, s). add_to_hub m hub s) Map.empty rows = hub_bundles rows"
  proof (induction rows rule: rev_induct)
    case (snoc r rows)
    then show ?case by (cases r) (simp add: hub_bundles_snoc)
  qed (auto simp: hub_bundles_def)
  then show ?thesis by (simp add: updated_labels_rows_fold)
qed

lemma dom_hub_bundles: "dom (hub_bundles rows) = fst ` set rows"
  unfolding hub_bundles_def dom_def by simp

lemma send_labels_log:
  assumes "\<And>b. marshal b = Some (enc b)" and "set hubs \<subseteq> dom m"
  shows "send_labels log_send marshal formatTime key ts m hubs tr =
     (None, tr @ map (\<lambda>hub. \<lparr> sm_Destination = hub, sm_ID = key, sm_MsgType = ''SpecBundle'', sm_Version = formatTime ts,
                               sm_Payload = enc (the (m hub)) \<rparr>) hubs)"
  using assms(2)
proof (induction hubs arbitrary: tr)
  case (Cons hub hubs)
  then obtain b where "m hub = Some b" by auto
  with Cons assms(1) show ?case by (simp add: syncToTransport_def log_send_def SpecBundle_def)
qed simp

end
