(* ===== verification/Label_Watcher.thy ===== *)
theory Label_Watcher
  imports Spec_Delivery
begin

text \<open>
  \<open>syncer/statuswatcher/managed_cluster_labels_status_watcher.go\<close> and the statements of \<open>postgresql.go\<close> that it uses:
  a pass that drops the label keys that are gone from a cluster's status from the keys to delete, and one
  that fills in the leaf hub of rows that lack it. Spec and status tables are in the same database.
\<close>

definition managedClusterLabelsSpecDBTableName :: string where
  "managedClusterLabelsSpecDBTableName = ''managed_clusters_labels''"
definition managedClusterLabelsStatusDBTableName :: string where
  "managedClusterLabelsStatusDBTableName = ''managed_clusters''"

datatype watcher_error = ErrOptimisticConcurrencyUpdateFailed | ErrUpdate | ErrReadRows | ErrReadStatusRow

section \<open>Statements\<close>

definition deleted_labels_query :: "string \<Rightarrow> string" where
  "deleted_labels_query tableName =
     ''SELECT leaf_hub_name,managed_cluster_name,deleted_label_keys,version '' @ newline_tabs 2 @
     ''FROM spec.'' @ tableName @ '' WHERE deleted_label_keys != '[]' AND leaf_hub_name <> '' @ squote @ squote"

fun deleted_labels_rows :: "label_arg list list \<Rightarrow> (string \<rightharpoonup> labels_bundle) \<Rightarrow> watcher_error + (string \<rightharpoonup> labels_bundle)" where
  "deleted_labels_rows [] m = Inr m"
| "deleted_labels_rows (row # rows) m =
     (case row of
        [AStr leafHubName, AStr cluster, AKeys ks, AInt version] \<Rightarrow>
          deleted_labels_rows rows (add_to_hub m leafHubName
            \<lparr> ls_ClusterName = cluster, ls_Labels = Map.empty, ls_DeletedLabelKeys = ks, ls_UpdateTimestamp = 0, ls_Version = version \<rparr>)
      | _ \<Rightarrow> Inl ErrReadRows)"

definition GetEntriesWithDeletedLabels :: "'db label_lib \<Rightarrow> 'db \<Rightarrow> string \<Rightarrow> watcher_error + (string \<rightharpoonup> labels_bundle)" where
  "GetEntriesWithDeletedLabels lib db tableName =
     (case ll_Query lib db (deleted_labels_query tableName) [] of
        None \<Rightarrow> Inl ErrReadRows
      | Some rows \<Rightarrow> deleted_labels_rows rows Map.empty)"

definition UpdateDeletedLabelKeys ::
    "'db label_lib \<Rightarrow> string \<Rightarrow> int \<Rightarrow> string \<Rightarrow> string \<Rightarrow> string list \<Rightarrow> 'db \<Rightarrow> watcher_error option \<times> 'db" where
  "UpdateDeletedLabelKeys lib tableName readVersion leafHubName managedClusterName deletedLabelKeys db =
     (case ll_Exec lib db (trim_query tableName)
         [AKeys deletedLabelKeys, AInt (wrap64 (readVersion + 1)), AStr leafHubName, AStr managedClusterName, AInt readVersion] of
        (None, db') \<Rightarrow> (Some ErrUpdate, db')
      | (Some n, db') \<Rightarrow> (if n = 0 then Some ErrOptimisticConcurrencyUpdateFailed else None, db'))"

definition missing_hub_query :: "string \<Rightarrow> string" where
  "missing_hub_query tableName =
     ''SELECT managed_cluster_name, version FROM spec.'' @ tableName @ '' WHERE '' @ newline_tabs 2 @
     ''leaf_hub_name = '' @ squote @ squote"

fun missing_hub_rows :: "label_arg list list \<Rightarrow> watcher_error + (string \<times> int) list" where
  "missing_hub_rows [] = Inr []"
| "missing_hub_rows (row # rows) =
     (case row of
        [AStr cluster, AInt version] \<Rightarrow> andThen (missing_hub_rows rows) (\<lambda>entries. Inr ((cluster, version) # entries))
      | _ \<Rightarrow> Inl ErrReadRows)"

definition GetEntriesWithoutLeafHubName :: "'db label_lib \<Rightarrow> 'db \<Rightarrow> string \<Rightarrow> watcher_error + (string \<times> int) list" where
  "GetEntriesWithoutLeafHubName lib db tableName =
     (case ll_Query lib db (missing_hub_query tableName) [] of
        None \<Rightarrow> Inl ErrReadRows
      | Some rows \<Rightarrow> missing_hub_rows rows)"

definition hub_name_query :: "string \<Rightarrow> string" where
  "hub_name_query tableName =
     ''UPDATE spec.'' @ tableName @ '' SET updated_at=now(),leaf_hub_name=$1,version=$2 '' @ newline_tabs 2 @
     ''WHERE managed_cluster_name=$3 AND version=$4''"

definition UpdateLeafHubName ::
    "'db label_lib \<Rightarrow> string \<Rightarrow> int \<Rightarrow> string \<Rightarrow> string \<Rightarrow> 'db \<Rightarrow> watcher_error option \<times> 'db" where
  "UpdateLeafHubName lib tableName readVersion managedClusterName leafHubName db =
     (case ll_Exec lib db (hub_name_query tableName)
         [AStr leafHubName, AInt (wrap64 (readVersion + 1)), AStr managedClusterName, AInt readVersion] of
        (None, db') \<Rightarrow> (Some ErrUpdate, db')
      | (Some n, db') \<Rightarrow> (if n = 0 then Some ErrOptimisticConcurrencyUpdateFailed else None, db'))"

definition labels_status_query :: "string \<Rightarrow> string" where
  "labels_status_query tableName =
     ''SELECT payload->'metadata'->'labels' FROM status.'' @ tableName @ '' WHERE '' @ newline_tabs 2 @
     ''leaf_hub_name=$1 AND payload->'metadata'->>'name'=$2''"

definition GetManagedClusterLabelsStatus ::
    "'db label_lib \<Rightarrow> 'db \<Rightarrow> string \<Rightarrow> string \<Rightarrow> string \<Rightarrow> watcher_error + labels" where
  "GetManagedClusterLabelsStatus lib db tableName leafHubName managedClusterName =
     (case ll_Query lib db (labels_status_query tableName) [AStr leafHubName, AStr managedClusterName] of
        Some ([ALabels ls] # _) \<Rightarrow> Inr ls
      | _ \<Rightarrow> Inl ErrReadStatusRow)"

definition hub_status_query :: "string \<Rightarrow> string" where
  "hub_status_query tableName =
     ''SELECT leaf_hub_name FROM status.'' @ tableName @ '' WHERE '' @ newline_tabs 2 @
     ''payload->'metadata'->>'name'=$1''"

definition GetManagedClusterLeafHubName :: "'db label_lib \<Rightarrow> 'db \<Rightarrow> string \<Rightarrow> string \<Rightarrow> watcher_error + string" where
  "GetManagedClusterLeafHubName lib db tableName managedClusterName =
     (case ll_Query lib db (hub_status_query tableName) [AStr managedClusterName] of
        Some ([AStr hub] # _) \<Rightarrow> Inr hub
      | _ \<Rightarrow> Inl ErrReadStatusRow)"

section \<open>The passes\<close>

text \<open>The body of the inner loop of \<open>trimDeletedLabelsByStatus\<close>: whether the entry was handled without an error.\<close>

definition trim_entry ::
    "'db label_lib \<Rightarrow> string \<Rightarrow> string \<Rightarrow> string \<Rightarrow> labels_spec \<Rightarrow> 'db \<Rightarrow> bool \<times> 'db" where
  "trim_entry lib specTable statusTable leafHubName spec db =
     (case GetManagedClusterLabelsStatus lib db statusTable leafHubName (ls_ClusterName spec) of
        Inl err \<Rightarrow> (False, db)
      | Inr labelsStatus \<Rightarrow>
          (let stillInStatus = filter (\<lambda>key. labelsStatus key \<noteq> None) (ls_DeletedLabelKeys spec) in
           if length stillInStatus = length (ls_DeletedLabelKeys spec) then (True, db)
           else (case UpdateDeletedLabelKeys lib specTable (ls_Version spec) leafHubName (ls_ClusterName spec) stillInStatus db of
                   (Some err, db') \<Rightarrow> (False, db')
                 | (None, db') \<Rightarrow> (True, db'))))"

fun trim_objects ::
    "'db label_lib \<Rightarrow> string \<Rightarrow> string \<Rightarrow> string \<Rightarrow> labels_spec list \<Rightarrow> bool \<times> 'db \<Rightarrow> bool \<times> 'db" where
  "trim_objects lib specTable statusTable leafHubName [] st = st"
| "trim_objects lib specTable statusTable leafHubName (spec # specs) (result, db) =
     (let (ok, db') = trim_entry lib specTable statusTable leafHubName spec db
      in trim_objects lib specTable statusTable leafHubName specs (result \<and> ok, db'))"

definition trimDeletedLabelsByStatus ::
    "'db label_lib \<Rightarrow> (string set \<Rightarrow> string list) \<Rightarrow> string \<Rightarrow> string \<Rightarrow> 'db \<Rightarrow> bool \<times> 'db" where
  "trimDeletedLabelsByStatus lib enum specTable statusTable db =
     (case GetEntriesWithDeletedLabels lib db specTable of
        Inl err \<Rightarrow> (False, db)
      | Inr m \<Rightarrow>
          foldl (\<lambda>st hub. case m hub of
                   None \<Rightarrow> st
                 | Some b \<Rightarrow> trim_objects lib specTable statusTable (lb_LeafHubName b) (lb_Objects b) st)
            (True, db) (enum (dom m)))"

fun fill_entries :: "'db label_lib \<Rightarrow> string \<Rightarrow> string \<Rightarrow> (string \<times> int) list \<Rightarrow> 'db \<Rightarrow> 'db" where
  "fill_entries lib specTable statusTable [] db = db"
| "fill_entries lib specTable statusTable ((cluster, version) # entries) db =
     (case GetManagedClusterLeafHubName lib db statusTable cluster of
        Inl err \<Rightarrow> fill_entries lib specTable statusTable entries db
      | Inr leafHubName \<Rightarrow>
          fill_entries lib specTable statusTable entries
            (snd (UpdateLeafHubName lib specTable version cluster leafHubName db)))"

definition fillMissingLeafHubNames :: "'db label_lib \<Rightarrow> string \<Rightarrow> string \<Rightarrow> 'db \<Rightarrow> 'db" where
  "fillMissingLeafHubNames lib specTable statusTable db =
     (case GetEntriesWithoutLeafHubName lib db specTable of
        Inl err \<Rightarrow> db
      | Inr entries \<Rightarrow> fill_entries lib specTable statusTable entries db)"

section \<open>What a trimming pass does\<close>

text \<open>The row after a pass, by the labels that the status of the cluster has.\<close>

definition trimmed :: "string \<Rightarrow> labels option \<Rightarrow> label_row \<Rightarrow> label_row" where
  "trimmed hub status r =
     (case status of
        None \<Rightarrow> r
      | Some m \<Rightarrow>
          (let still = filter (\<lambda>key. m key \<noteq> None) (lr_deleted_label_keys r) in
           if hub = [] \<or> still = lr_deleted_label_keys r then r
           else r\<lparr>lr_deleted_label_keys := still, lr_version := lr_version r + 1\<rparr>))"

text \<open>For the labels that the cluster has, the row asks for the same after the pass.\<close>

lemma trimmed_same_request: "apply_row (trimmed hub (Some m) r) m = apply_row r m"
  by (auto simp: trimmed_def apply_row_def apply_patch_def Let_def fun_eq_iff split: option.splits)

lemma trimmed_length: "length (filter P xs) = length xs \<longleftrightarrow> filter P xs = xs"
  by (metis length_filter_less filter_id_conv order_less_irrefl)

definition status_law :: "'db label_lib \<Rightarrow> (string \<times> string \<rightharpoonup> labels) \<Rightarrow> bool" where
  "status_law lib status \<longleftrightarrow>
     (\<forall>db c h. ll_Query lib db (labels_status_query managedClusterLabelsStatusDBTableName) [AStr h, AStr c] =
        Some (case status (c, h) of None \<Rightarrow> [] | Some m \<Rightarrow> [[ALabels m]]))"

definition entry_values :: "string \<times> labels_spec \<Rightarrow> label_arg list" where
  "entry_values r = (case r of (hub, s) \<Rightarrow>
     [AStr hub, AStr (ls_ClusterName s), AKeys (ls_DeletedLabelKeys s), AInt (ls_Version s)])"

text \<open>The entries of a table: the rows of a leaf hub that have keys to delete.\<close>

definition entry_of :: "string \<times> string \<Rightarrow> label_row \<Rightarrow> string \<times> labels_spec" where
  "entry_of k r = (snd k, \<lparr> ls_ClusterName = fst k, ls_Labels = Map.empty, ls_DeletedLabelKeys = lr_deleted_label_keys r,
     ls_UpdateTimestamp = 0, ls_Version = lr_version r \<rparr>)"

definition entry_key :: "string \<times> labels_spec \<Rightarrow> string \<times> string" where
  "entry_key e = (ls_ClusterName (snd e), fst e)"

definition entries_law :: "'db label_lib \<Rightarrow> ('db \<Rightarrow> label_table) \<Rightarrow> 'db \<Rightarrow> bool" where
  "entries_law lib tbl db \<longleftrightarrow>
     (\<exists>es. ll_Query lib db (deleted_labels_query managedClusterLabelsSpecDBTableName) [] = Some (map entry_values es) \<and>
        distinct (map entry_key es) \<and>
        set es = {entry_of (c, h) r | c h r. tbl db (c, h) = Some r \<and> h \<noteq> [] \<and> lr_deleted_label_keys r \<noteq> []})"

definition matches :: "label_table \<Rightarrow> string \<times> labels_spec \<Rightarrow> bool" where
  "matches t e \<longleftrightarrow> (\<exists>r. t (entry_key e) = Some r \<and> e = entry_of (entry_key e) r \<and> in_int64 (lr_version r + 1) \<and> fst e \<noteq> [])"

text \<open>A single loop over all entries.\<close>

definition trim_all :: "'db label_lib \<Rightarrow> (string \<times> labels_spec) list \<Rightarrow> bool \<times> 'db \<Rightarrow> bool \<times> 'db" where
  "trim_all lib es st =
     foldl (\<lambda>(result, db) (hub, spec).
        let (ok, db') = trim_entry lib managedClusterLabelsSpecDBTableName managedClusterLabelsStatusDBTableName hub spec db
        in (result \<and> ok, db')) st es"

lemma trim_objects_all:
  "trim_objects lib managedClusterLabelsSpecDBTableName managedClusterLabelsStatusDBTableName hub specs st =
     trim_all lib (map (Pair hub) specs) st"
proof (induction specs arbitrary: st)
  case (Cons spec specs)
  then show ?case by (cases st) (simp add: trim_all_def Let_def split: prod.splits)
qed (simp add: trim_all_def)

lemma trim_all_append: "trim_all lib (xs @ ys) st = trim_all lib ys (trim_all lib xs st)"
  by (simp add: trim_all_def)

lemma trim_entry_effect:
  assumes laws: "table_laws lib tbl" and stat: "status_law lib status" and match: "matches (tbl db) (hub, spec)"
    and run: "trim_entry lib managedClusterLabelsSpecDBTableName managedClusterLabelsStatusDBTableName hub spec db = (ok, db')"
  shows "ok \<longleftrightarrow> status (ls_ClusterName spec, hub) \<noteq> None"
    and "tbl db' = (\<lambda>k. if k = (ls_ClusterName spec, hub) then map_option (trimmed hub (status k)) (tbl db k) else tbl db k)"
proof -
  let ?c = "ls_ClusterName spec" and ?k = "(ls_ClusterName spec, hub)"
  from match obtain r where r: "tbl db ?k = Some r" "ls_DeletedLabelKeys spec = lr_deleted_label_keys r"
    "ls_Version spec = lr_version r" "in_int64 (lr_version r + 1)" "hub \<noteq> []"
    by (auto simp: matches_def entry_key_def entry_of_def) (metis labels_spec.simps)
  have "(ok \<longleftrightarrow> status ?k \<noteq> None) \<and> tbl db' = (tbl db)(?k \<mapsto> trimmed hub (status ?k) r)"
  proof (cases "status ?k")
    case None
    then have "GetManagedClusterLabelsStatus lib db managedClusterLabelsStatusDBTableName hub ?c = Inl ErrReadStatusRow"
      using stat by (simp add: status_law_def GetManagedClusterLabelsStatus_def)
    with run None r(1) show ?thesis by (auto simp: trim_entry_def trimmed_def)
  next
    case (Some m)
    then have q: "GetManagedClusterLabelsStatus lib db managedClusterLabelsStatusDBTableName hub ?c = Inr m"
      using stat by (simp add: status_law_def GetManagedClusterLabelsStatus_def)
    let ?still = "filter (\<lambda>key. m key \<noteq> None) (lr_deleted_label_keys r)"
    show ?thesis
    proof (cases "?still = lr_deleted_label_keys r")
      case True
      then have "length ?still = length (lr_deleted_label_keys r)" by simp
      with run q Some r(1,2) True show ?thesis by (auto simp: trim_entry_def trimmed_def Let_def)
    next
      case False
      then have len: "length ?still \<noteq> length (lr_deleted_label_keys r)" by (simp add: trimmed_length)
      obtain n db1 where ex: "ll_Exec lib db trim_keys_query
          [AKeys ?still, AInt (lr_version r + 1), AStr hub, AStr ?c, AInt (lr_version r)] = (n, db1)"
        by (cases "ll_Exec lib db trim_keys_query
          [AKeys ?still, AInt (lr_version r + 1), AStr hub, AStr ?c, AInt (lr_version r)]")
      from trim_lawD [OF laws ex] r(1) have "n = Some 1"
        and "tbl db1 = (tbl db)(?k \<mapsto> r\<lparr>lr_deleted_label_keys := ?still, lr_version := lr_version r + 1\<rparr>)"
        by (auto simp: guarded_def)
      with run q r len False Some ex show ?thesis
        by (auto simp: trim_entry_def trimmed_def UpdateDeletedLabelKeys_def trim_keys_query_def
            managedClusterLabelsSpecDBTableName_def Let_def)
    qed
  qed
  with r(1) show "ok \<longleftrightarrow> status ?k \<noteq> None"
    and "tbl db' = (\<lambda>k. if k = ?k then map_option (trimmed hub (status k)) (tbl db k) else tbl db k)"
    by (auto simp: fun_eq_iff)
qed

lemma trim_all_effect:
  assumes laws: "table_laws lib tbl" and stat: "status_law lib status"
  shows "distinct (map entry_key es) \<Longrightarrow> \<forall>e \<in> set es. matches (tbl db) e \<Longrightarrow> trim_all lib es (res, db) = (res', db') \<Longrightarrow>
     res' = (res \<and> (\<forall>e \<in> set es. status (entry_key e) \<noteq> None)) \<and>
     tbl db' = (\<lambda>k. if k \<in> entry_key ` set es then map_option (trimmed (snd k) (status k)) (tbl db k) else tbl db k)"
proof (induction es arbitrary: db res)
  case Nil
  then show ?case by (simp add: trim_all_def)
next
  case (Cons e es)
  obtain hub spec where e: "e = (hub, spec)" by (cases e)
  obtain ok db1 where run1: "trim_entry lib managedClusterLabelsSpecDBTableName managedClusterLabelsStatusDBTableName hub spec db = (ok, db1)"
    by fastforce
  have "matches (tbl db) (hub, spec)" using Cons.prems(2) e by simp
  note eff = trim_entry_effect [OF laws stat this run1]
  have key: "entry_key e = (ls_ClusterName spec, hub)" by (simp add: e entry_key_def)
  have run2: "trim_all lib es (res \<and> ok, db1) = (res', db')"
    using Cons.prems(3) run1 by (simp add: e trim_all_def)
  have other: "entry_key x \<noteq> entry_key e" if "x \<in> set es" for x using Cons.prems(1) that by simp (metis imageI)
  have "\<forall>x \<in> set es. matches (tbl db1) x"
    using Cons.prems(2) other unfolding matches_def eff(2) key by auto
  from Cons.IH [OF _ this run2] Cons.prems(1) have ih: "res' = ((res \<and> ok) \<and> (\<forall>e \<in> set es. status (entry_key e) \<noteq> None))"
    "tbl db' = (\<lambda>k. if k \<in> entry_key ` set es then map_option (trimmed (snd k) (status k)) (tbl db1 k) else tbl db1 k)"
    by simp_all
  have "entry_key e \<notin> entry_key ` set es" using Cons.prems(1) by simp
  with ih eff show ?case by (auto simp: key fun_eq_iff)
qed

lemma deleted_labels_rows_fold:
  assumes "\<forall>e \<in> set es. e = entry_of (entry_key e) (r e)"
  shows "deleted_labels_rows (map entry_values es) m = Inr (foldl (\<lambda>m (hub, s). add_to_hub m hub s) m es)"
  using assms
proof (induction es arbitrary: m)
  case (Cons e es)
  then have "e = entry_of (entry_key e) (r e)" by simp
  then obtain c h x where "e = entry_of (c, h) x" by (metis surj_pair)
  with Cons show ?case by (simp add: entry_of_def entry_values_def)
qed simp

lemma foldl_add_to_hub: "foldl (\<lambda>m (hub, s). add_to_hub m hub s) Map.empty rows = hub_bundles rows"
  using updated_labels_rows_spec [of rows] by (simp add: updated_labels_rows_fold)

definition grouped :: "string list \<Rightarrow> (string \<times> 'a) list \<Rightarrow> (string \<times> 'a) list" where
  "grouped hubs es = concat (map (\<lambda>h. filter (\<lambda>e. fst e = h) es) hubs)"

lemma set_grouped: "fst ` set es \<subseteq> set hubs \<Longrightarrow> set (grouped hubs es) = set es"
  by (auto simp: grouped_def)

lemma distinct_grouped: "distinct hubs \<Longrightarrow> distinct (map entry_key es) \<Longrightarrow> distinct (map entry_key (grouped hubs es))"
proof (induction hubs)
  case (Cons h hubs)
  then show ?case
    by (auto simp: grouped_def distinct_map inj_on_def entry_key_def)
qed (simp add: grouped_def)

lemma trim_hubs:
  "foldl (\<lambda>st hub. case hub_bundles es hub of
            None \<Rightarrow> st
          | Some b \<Rightarrow> trim_objects lib managedClusterLabelsSpecDBTableName managedClusterLabelsStatusDBTableName
                        (lb_LeafHubName b) (lb_Objects b) st) st hubs = trim_all lib (grouped hubs es) st"
proof (induction hubs arbitrary: st)
  case (Cons h hubs)
  have pairs: "map (Pair h) (map snd (filter (\<lambda>e. fst e = h) es)) = filter (\<lambda>e. fst e = h) es"
    by (auto simp: comp_def intro!: map_idI)
  have "(case hub_bundles es h of None \<Rightarrow> st | Some b \<Rightarrow> trim_objects lib managedClusterLabelsSpecDBTableName
      managedClusterLabelsStatusDBTableName (lb_LeafHubName b) (lb_Objects b) st) = trim_all lib (filter (\<lambda>e. fst e = h) es) st"
  proof (cases "h \<in> fst ` set es")
    case True
    then show ?thesis using pairs by (simp add: hub_bundles_def trim_objects_all)
  next
    case False
    then have "filter (\<lambda>e. fst e = h) es = []" by (auto simp: filter_empty_conv)
    with False show ?thesis by (simp add: hub_bundles_def trim_all_def)
  qed
  with Cons show ?case by (simp add: grouped_def trim_all_append)
qed (simp add: grouped_def trim_all_def)

lemma trim_pass:
  assumes laws: "table_laws lib tbl" and stat: "status_law lib status" and ents: "entries_law lib tbl db"
    and enum: "enumerates enum" and room: "\<And>k r. tbl db k = Some r \<Longrightarrow> in_int64 (lr_version r + 1)"
    and run: "trimDeletedLabelsByStatus lib enum managedClusterLabelsSpecDBTableName
                managedClusterLabelsStatusDBTableName db = (ok, db')"
  shows "tbl db' = (\<lambda>k. map_option (trimmed (snd k) (status k)) (tbl db k))"
    and "ok \<longleftrightarrow> (\<forall>c h r. tbl db (c, h) = Some r \<and> h \<noteq> [] \<and> lr_deleted_label_keys r \<noteq> [] \<longrightarrow> status (c, h) \<noteq> None)"
proof -
  from ents obtain es where q: "ll_Query lib db (deleted_labels_query managedClusterLabelsSpecDBTableName) [] = Some (map entry_values es)"
    and dist: "distinct (map entry_key es)"
    and es: "set es = {entry_of (c, h) r | c h r. tbl db (c, h) = Some r \<and> h \<noteq> [] \<and> lr_deleted_label_keys r \<noteq> []}"
    unfolding entries_law_def by blast
  have key: "entry_key (entry_of k r) = k" for k r by (simp add: entry_key_def entry_of_def)
  have match: "\<forall>e \<in> set es. matches (tbl db) e"
    using room by (auto simp: es matches_def key) (simp add: entry_of_def)
  then have "\<forall>e \<in> set es. e = entry_of (entry_key e) (the (tbl db (entry_key e)))" by (auto simp: matches_def)
  from deleted_labels_rows_fold [OF this] q
  have m: "GetEntriesWithDeletedLabels lib db managedClusterLabelsSpecDBTableName = Inr (hub_bundles es)"
    by (simp add: GetEntriesWithDeletedLabels_def foldl_add_to_hub)
  let ?hubs = "enum (dom (hub_bundles es))"
  have hubs: "set ?hubs = fst ` set es" "distinct ?hubs"
    using enum by (simp_all add: dom_hub_bundles)
  have all: "trim_all lib (grouped ?hubs es) (True, db) = (ok, db')"
    using run by (simp add: trimDeletedLabelsByStatus_def m trim_hubs)
  have set_es: "set (grouped ?hubs es) = set es" using hubs(1) by (simp add: set_grouped)
  from trim_all_effect [OF laws stat distinct_grouped [OF hubs(2) dist] _ all] match
  have eff: "ok = (\<forall>e \<in> set es. status (entry_key e) \<noteq> None)"
    "tbl db' = (\<lambda>k. if k \<in> entry_key ` set es then map_option (trimmed (snd k) (status k)) (tbl db k) else tbl db k)"
    by (auto simp: set_es)
  have keys: "entry_key ` set es = {(c, h) | c h. \<exists>r. tbl db (c, h) = Some r \<and> h \<noteq> [] \<and> lr_deleted_label_keys r \<noteq> []}"
    by (force simp: es key)
  have idle: "map_option (trimmed (snd k) (status k)) (tbl db k) = tbl db k" if "k \<notin> entry_key ` set es" for k
    using that by (cases k; cases "tbl db k") (auto simp: keys trimmed_def Let_def split: option.splits)
  show "tbl db' = (\<lambda>k. map_option (trimmed (snd k) (status k)) (tbl db k))"
    unfolding eff(2) using idle by (auto simp: fun_eq_iff)
  have "ok = (\<forall>k \<in> entry_key ` set es. status k \<noteq> None)" using eff(1) by simp
  then show "ok \<longleftrightarrow> (\<forall>c h r. tbl db (c, h) = Some r \<and> h \<noteq> [] \<and> lr_deleted_label_keys r \<noteq> [] \<longrightarrow> status (c, h) \<noteq> None)"
    unfolding keys by auto
qed

end
