(* ===== verification/Spec_Syncers.thy ===== *)
theory Spec_Syncers
  imports Label_Watcher
begin

text \<open>
  \<open>db2transport/syncer/dbsyncer\<close> and \<open>syncer/syncers.go\<close>: the syncer of each spec table, and the function that adds
  them to the manager. A syncer is described by the kind of object it creates, its table, its message key and the
  sync function it calls.
\<close>

datatype sync_function = SyncObjectsBundle | SyncManagedClusterLabelsBundles

record spec_syncer =
  sp_kind :: string
  sp_table :: string
  sp_msgKey :: string
  sp_function :: sync_function

definition AddHoHConfigDBToTransportSyncer :: spec_syncer where
  "AddHoHConfigDBToTransportSyncer =
     \<lparr> sp_kind = ''Config'', sp_table = ''configs'', sp_msgKey = ''Config'', sp_function = SyncObjectsBundle \<rparr>"

definition AddPoliciesDBToTransportSyncer :: spec_syncer where
  "AddPoliciesDBToTransportSyncer =
     \<lparr> sp_kind = ''Policy'', sp_table = ''policies'', sp_msgKey = ''Policies'', sp_function = SyncObjectsBundle \<rparr>"

definition AddPlacementRulesDBToTransportSyncer :: spec_syncer where
  "AddPlacementRulesDBToTransportSyncer =
     \<lparr> sp_kind = ''PlacementRule'', sp_table = ''placementrules'', sp_msgKey = ''PlacementRules'', sp_function = SyncObjectsBundle \<rparr>"

definition AddPlacementBindingsDBToTransportSyncer :: spec_syncer where
  "AddPlacementBindingsDBToTransportSyncer =
     \<lparr> sp_kind = ''PlacementBinding'', sp_table = ''placementbindings'', sp_msgKey = ''PlacementBindings'', sp_function = SyncObjectsBundle \<rparr>"

definition AddApplicationsDBToTransportSyncer :: spec_syncer where
  "AddApplicationsDBToTransportSyncer =
     \<lparr> sp_kind = ''Application'', sp_table = ''applications'', sp_msgKey = ''Applications'', sp_function = SyncObjectsBundle \<rparr>"

definition AddSubscriptionsDBToTransportSyncer :: spec_syncer where
  "AddSubscriptionsDBToTransportSyncer =
     \<lparr> sp_kind = ''Subscription'', sp_table = ''subscriptions'', sp_msgKey = ''Subscriptions'', sp_function = SyncObjectsBundle \<rparr>"

definition AddChannelsDBToTransportSyncer :: spec_syncer where
  "AddChannelsDBToTransportSyncer =
     \<lparr> sp_kind = ''Channel'', sp_table = ''channels'', sp_msgKey = ''Channels'', sp_function = SyncObjectsBundle \<rparr>"

definition AddPlacementsDBToTransportSyncer :: spec_syncer where
  "AddPlacementsDBToTransportSyncer =
     \<lparr> sp_kind = ''Placement'', sp_table = ''placements'', sp_msgKey = ''Placements'', sp_function = SyncObjectsBundle \<rparr>"

definition AddManagedClusterSetsDBToTransportSyncer :: spec_syncer where
  "AddManagedClusterSetsDBToTransportSyncer =
     \<lparr> sp_kind = ''ManagedClusterSet'', sp_table = ''managedclustersets'', sp_msgKey = ''ManagedClusterSets'', sp_function = SyncObjectsBundle \<rparr>"

definition AddManagedClusterSetBindingsDBToTransportSyncer :: spec_syncer where
  "AddManagedClusterSetBindingsDBToTransportSyncer =
     \<lparr> sp_kind = ''ManagedClusterSetBinding'', sp_table = ''managedclustersetbindings'', sp_msgKey = ''ManagedClusterSetBindings'', sp_function = SyncObjectsBundle \<rparr>"

definition ManagedClustersLabelsMsgKey :: string where
  "ManagedClustersLabelsMsgKey = ''ManagedClustersLabels''"

definition managedClusterLabelsDBTableName :: string where
  "managedClusterLabelsDBTableName = ''managed_clusters_labels''"

definition AddManagedClusterLabelsDBToTransportSyncer :: spec_syncer where
  "AddManagedClusterLabelsDBToTransportSyncer =
     \<lparr> sp_kind = ''ManagedClusterLabels'', sp_table = managedClusterLabelsDBTableName,
       sp_msgKey = ManagedClustersLabelsMsgKey, sp_function = SyncManagedClusterLabelsBundles \<rparr>"

text \<open>The functions in the order in which they are called.\<close>

definition addDBSyncerFunctions :: "spec_syncer list" where
  "addDBSyncerFunctions =
     [AddHoHConfigDBToTransportSyncer, AddPoliciesDBToTransportSyncer, AddPlacementRulesDBToTransportSyncer,
      AddPlacementBindingsDBToTransportSyncer, AddApplicationsDBToTransportSyncer, AddSubscriptionsDBToTransportSyncer,
      AddChannelsDBToTransportSyncer, AddManagedClusterLabelsDBToTransportSyncer, AddPlacementsDBToTransportSyncer,
      AddManagedClusterSetsDBToTransportSyncer, AddManagedClusterSetBindingsDBToTransportSyncer]"

text \<open>The loop of \<open>AddDB2TransportSyncers\<close>: the manager may refuse a syncer, which ends it.\<close>

fun add_syncers :: "('m \<Rightarrow> spec_syncer \<Rightarrow> 'm option) \<Rightarrow> spec_syncer list \<Rightarrow> 'm \<Rightarrow> bool \<times> 'm" where
  "add_syncers mgrAdd [] mgr = (True, mgr)"
| "add_syncers mgrAdd (s # ss) mgr =
     (case mgrAdd mgr s of None \<Rightarrow> (False, mgr) | Some mgr' \<Rightarrow> add_syncers mgrAdd ss mgr')"

definition AddDB2TransportSyncers :: "('m \<Rightarrow> spec_syncer \<Rightarrow> 'm option) \<Rightarrow> 'm \<Rightarrow> bool \<times> 'm" where
  "AddDB2TransportSyncers mgrAdd mgr = add_syncers mgrAdd addDBSyncerFunctions mgr"

lemma add_syncers_all:
  "add_syncers (\<lambda>m s. Some (m @ [s])) ss m = (True, m @ ss)"
  by (induction ss arbitrary: m) auto

lemmas syncer_defs = addDBSyncerFunctions_def AddHoHConfigDBToTransportSyncer_def AddPoliciesDBToTransportSyncer_def
  AddPlacementRulesDBToTransportSyncer_def AddPlacementBindingsDBToTransportSyncer_def AddApplicationsDBToTransportSyncer_def
  AddSubscriptionsDBToTransportSyncer_def AddChannelsDBToTransportSyncer_def AddManagedClusterLabelsDBToTransportSyncer_def
  AddPlacementsDBToTransportSyncer_def AddManagedClusterSetsDBToTransportSyncer_def
  AddManagedClusterSetBindingsDBToTransportSyncer_def managedClusterLabelsDBTableName_def ManagedClustersLabelsMsgKey_def

text \<open>No two syncers share a table or a message key, and no message key contains a dot.\<close>

lemma syncer_keys_distinct: "distinct (map sp_msgKey addDBSyncerFunctions)" "distinct (map sp_table addDBSyncerFunctions)"
  by (simp_all add: syncer_defs)

lemma syncer_keys_no_dot: "s \<in> set addDBSyncerFunctions \<Longrightarrow> CHR ''.'' \<notin> set (sp_msgKey s)"
  by (auto simp: syncer_defs)

end
