(* ===== verification/Authorization.thy ===== *)
theory Authorization
  imports Rest_Lib
begin

text \<open>
  \<open>managedclusters/authorization.go\<close>: the condition that restricts a user's queries, made from the
  partial evaluation that the policy agent returns. The string builder is the text written to it, so a
  function that writes returns what it appends; log output is left out. The second half gives the
  conditions a meaning: \<open>sql_cond\<close> is the part of SQL the code writes, with its printer and its
  three-valued evaluation.
\<close>

section \<open>Constants and errors\<close>

definition sqlFalse :: string where "sqlFalse = ''FALSE''"
definition sqlTrue :: string where "sqlTrue = ''TRUE''"
definition denyAll :: string where "denyAll = sqlFalse"
definition allowAll :: string where "allowAll = sqlTrue"
definition termTypeRef :: string where "termTypeRef = ''ref''"
definition termTypeString :: string where "termTypeString = ''string''"
definition termTypeVar :: string where "termTypeVar = ''var''"
definition payloadField :: string where "payloadField = ''payload''"
definition negatedAttribute :: string where "negatedAttribute = ''negated''"
definition termsAttribute :: string where "termsAttribute = ''terms''"
definition inputVariable :: string where "inputVariable = ''input''"
definition clusterVariable :: string where "clusterVariable = ''cluster''"
definition opaQuery :: string where "opaQuery = ''data.rbac.clusters.allow == true''"
definition termsArraySize :: nat where "termsArraySize = 3"
definition minReferencedVariablePathSize :: nat where "minReferencedVariablePathSize = 2"

lemmas opa_names = sqlFalse_def sqlTrue_def denyAll_def allowAll_def termTypeRef_def termTypeString_def
  termTypeVar_def payloadField_def negatedAttribute_def termsAttribute_def inputVariable_def clusterVariable_def

datatype auth_error =
    ErrStatusNotOK
  | ErrUnknownOperator
  | ErrUnexpectedTermType
  | ErrUnexpectedArraySize
  | ErrUnexpectedTermsNumber
  | ErrUnexpectedType
  | ErrUnexpectedValue
  | ErrMissingAttribute
  | ErrUnableToAppendCABundle
  | ErrMarshal
  | ErrRequest
  | ErrTransport
  | ErrReadBody
  | ErrUnmarshal

section \<open>Terms\<close>

definition getTermType :: "(string \<times> json) list \<Rightarrow> auth_error + string" where
  "getTermType trm =
     (case map_of trm ''type'' of
        None \<Rightarrow> Inl ErrMissingAttribute
      | Some (JStr s) \<Rightarrow> Inr s
      | Some _ \<Rightarrow> Inl ErrUnexpectedType)"

definition getTermValue :: "(string \<times> json) list \<Rightarrow> auth_error + json" where
  "getTermValue trm = (case map_of trm ''value'' of None \<Rightarrow> Inl ErrMissingAttribute | Some v \<Rightarrow> Inr v)"

definition getTermStringValue :: "json \<Rightarrow> string \<Rightarrow> auth_error + string" where
  "getTermStringValue trm expectedType =
     (case trm of
        JObj termValueMap \<Rightarrow>
          andThen (getTermType termValueMap) (\<lambda>termValueType.
          if termValueType \<noteq> expectedType then Inl ErrUnexpectedTermType
          else andThen (getTermValue termValueMap) (\<lambda>termValueValue.
            case termValueValue of JStr s \<Rightarrow> Inr s | _ \<Rightarrow> Inl ErrUnexpectedType))
      | _ \<Rightarrow> Inl ErrUnexpectedType)"

definition handleStringTerm :: "(string \<times> json) list \<Rightarrow> auth_error + string" where
  "handleStringTerm operandMap =
     andThen (getTermValue operandMap) (\<lambda>termValue.
       case termValue of JStr s \<Rightarrow> Inr (squote @ s @ squote) | _ \<Rightarrow> Inl ErrUnexpectedType)"

text \<open>The loop of \<open>createPostgreSQLJSONPath\<close>; the last part gets the operator that yields text.\<close>

fun json_path_loop :: "string \<Rightarrow> json list \<Rightarrow> auth_error + string" where
  "json_path_loop operand [] = Inr operand"
| "json_path_loop operand (part # parts) =
     andThen (getTermStringValue part termTypeString) (\<lambda>partString.
       json_path_loop
         (operand @ '' '' @ (if parts = [] then ''->>'' else ''->'') @ '' '' @ squote @ partString @ squote) parts)"

definition createPostgreSQLJSONPath :: "json list \<Rightarrow> auth_error + string" where
  "createPostgreSQLJSONPath termValueArray = json_path_loop payloadField termValueArray"

definition handleRefTerm :: "(string \<times> json) list \<Rightarrow> auth_error + string" where
  "handleRefTerm operandMap =
     andThen (getTermValue operandMap) (\<lambda>termValue.
       case termValue of
         JArr termValueArray \<Rightarrow>
           (if length termValueArray < minReferencedVariablePathSize then Inl ErrUnexpectedTermsNumber
            else andThen (getTermStringValue (termValueArray ! 0) termTypeVar) (\<lambda>firstPart.
                 andThen (getTermStringValue (termValueArray ! 1) termTypeString) (\<lambda>secondPart.
                 if firstPart \<noteq> inputVariable \<and> secondPart \<noteq> clusterVariable then Inl ErrUnexpectedValue
                 else createPostgreSQLJSONPath (drop 2 termValueArray))))
       | _ \<Rightarrow> Inl ErrUnexpectedType)"

definition getOperand :: "json \<Rightarrow> auth_error + string" where
  "getOperand trm =
     (case trm of
        JObj operandMap \<Rightarrow>
          andThen (getTermType operandMap) (\<lambda>termType.
            if termType = termTypeString then handleStringTerm operandMap
            else if termType = termTypeRef then handleRefTerm operandMap
            else Inl ErrUnexpectedTermType)
      | _ \<Rightarrow> Inl ErrUnexpectedType)"

definition getOperator :: "json \<Rightarrow> auth_error + string" where
  "getOperator trm =
     (case trm of
        JObj operatorMap \<Rightarrow>
          andThen (getTermType operatorMap) (\<lambda>termType.
          if termType \<noteq> termTypeRef then Inl ErrUnexpectedTermType
          else andThen (getTermValue operatorMap) (\<lambda>termValue.
            case termValue of
              JArr termValueArray \<Rightarrow>
                (if length termValueArray \<noteq> 1 then Inl ErrUnexpectedArraySize
                 else getTermStringValue (termValueArray ! 0) ''var'')
            | _ \<Rightarrow> Inl ErrUnexpectedType))
      | _ \<Rightarrow> Inl ErrUnexpectedType)"

section \<open>Expressions, queries and the filter\<close>

definition getSQLExpression :: "json list \<Rightarrow> auth_error + string" where
  "getSQLExpression terms =
     (if length terms \<noteq> termsArraySize then Inl ErrUnexpectedTermsNumber
      else andThen (getOperator (terms ! 0)) (\<lambda>operator.
        if operator \<noteq> ''eq'' then Inl ErrUnknownOperator
        else andThen (getOperand (terms ! 1)) (\<lambda>firstOperand.
             andThen (getOperand (terms ! 2)) (\<lambda>secondOperand.
             Inr (firstOperand @ '' '' @ ''='' @ '' '' @ secondOperand)))))"

definition handleTermsArray :: "json list \<Rightarrow> bool \<Rightarrow> string" where
  "handleTermsArray terms negated =
     (if negated then ''NOT ('' else []) @
     (case getSQLExpression terms of
        Inr expression \<Rightarrow> expression
      | Inl _ \<Rightarrow> (if negated then sqlTrue else sqlFalse)) @
     (if negated then '')'' else [])"

definition is_negated :: "(string \<times> json) list \<Rightarrow> bool" where
  "is_negated expression =
     (case map_of expression negatedAttribute of Some (JBool convertedNegated) \<Rightarrow> convertedNegated | _ \<Rightarrow> False)"

definition handleExpression :: "json \<Rightarrow> string" where
  "handleExpression rawExpression =
     (case rawExpression of
        JObj expression \<Rightarrow>
          (case map_of expression termsAttribute of
             Some (JArr terms) \<Rightarrow> ''('' @ handleTermsArray terms (is_negated expression) @ '') AND ''
           | _ \<Rightarrow> sqlFalse @ '') '')
      | _ \<Rightarrow> sqlFalse @ '') '')"

definition handleQuery :: "json list \<Rightarrow> string" where
  "handleQuery query =
     (if length query < 1 then []
      else ''('' @ concat (map handleExpression query) @ sqlTrue @ '') OR '')"

text \<open>The loop over the queries; \<^const>\<open>None\<close> is the early return of \<open>allowAll\<close>.\<close>

fun queries_loop :: "nat \<Rightarrow> json list \<Rightarrow> string option" where
  "queries_loop n [] = Some []"
| "queries_loop n (JArr query # rest) =
     (if n = 1 \<and> length query = 0 then None
      else map_option (\<lambda>s. handleQuery query @ s) (queries_loop n rest))"
| "queries_loop n (_ # rest) = queries_loop n rest"

text \<open>The part of \<open>filterByAuthorization\<close> that reads the response. A missing result is a nil dereference.\<close>

definition filter_of_response :: "auth_error + json option \<Rightarrow> string option" where
  "filter_of_response response =
     (case response of
        Inl err \<Rightarrow> Some denyAll
      | Inr None \<Rightarrow> None
      | Inr (Some result) \<Rightarrow>
          Some (case result of
             JObj resultMap \<Rightarrow>
               (case map_of resultMap ''queries'' of
                  Some (JArr queries) \<Rightarrow>
                    (if length queries < 1 then denyAll
                     else (case queries_loop (length queries) queries of
                             None \<Rightarrow> allowAll
                           | Some s \<Rightarrow> s @ sqlFalse))
                | _ \<Rightarrow> denyAll)
           | _ \<Rightarrow> denyAll))"

section \<open>The policy agent\<close>

definition authz_createClient :: "rest_lib \<Rightarrow> string option \<Rightarrow> auth_error + tls_config" where
  "authz_createClient lib authorizationCABundle =
     (case authorizationCABundle of
        None \<Rightarrow> Inr TLSInsecureSkipVerify
      | Some pem \<Rightarrow> (if rl_AppendCertsFromPEM lib pem then Inr (TLSRootCAs pem) else Inl ErrUnableToAppendCABundle))"

text \<open>The groups are not used: \<open>to be implemented later\<close>.\<close>

definition compile_request_for :: "string \<Rightarrow> compile_request" where
  "compile_request_for user =
     \<lparr> cr_Input = [(''user'', user)], cr_Query = opaQuery,
       cr_Unknowns = [inputVariable @ ''.'' @ clusterVariable] \<rparr>"

definition getPartialEvaluation ::
    "rest_lib \<Rightarrow> string \<Rightarrow> string list \<Rightarrow> string \<Rightarrow> string option \<Rightarrow> auth_error + json option" where
  "getPartialEvaluation lib user groups authorizationURL authorizationCABundle =
     (case rl_MarshalCompileRequest lib (compile_request_for user) of
        None \<Rightarrow> Inl ErrMarshal
      | Some jsonCompileRequest \<Rightarrow>
          andThen (authz_createClient lib authorizationCABundle) (\<lambda>client.
          let req = \<lparr> hr_Method = ''POST'', hr_URL = authorizationURL @ ''/v1/compile'', hr_Header = [],
                      hr_Body = jsonCompileRequest \<rparr> in
          if \<not> rl_ValidRequest lib req then Inl ErrRequest
          else (case rl_Do lib client (req\<lparr>hr_Header := [(''Content-Type'', ''application/json'')]\<rparr>) of
             None \<Rightarrow> Inl ErrTransport
           | Some resp \<Rightarrow>
               (if resp_StatusCode resp \<noteq> StatusOK then Inl ErrStatusNotOK
                else (case resp_Body resp of
                   None \<Rightarrow> Inl ErrReadBody
                 | Some body \<Rightarrow>
                     (case rl_UnmarshalCompileResponse lib body of
                        None \<Rightarrow> Inl ErrUnmarshal
                      | Some compileResponse \<Rightarrow> Inr compileResponse))))))"

definition filterByAuthorization ::
    "rest_lib \<Rightarrow> string \<Rightarrow> string list \<Rightarrow> string \<Rightarrow> string option \<Rightarrow> string option" where
  "filterByAuthorization lib user groups authorizationURL authorizationCABundle =
     filter_of_response (getPartialEvaluation lib user groups authorizationURL authorizationCABundle)"

text \<open>What a successful evaluation went through.\<close>

lemma getPartialEvaluation_Inr:
  assumes ev: "getPartialEvaluation lib user groups url ca = Inr res"
  obtains request client body where
    "rl_MarshalCompileRequest lib (compile_request_for user) = Some request"
    "rl_Do lib client \<lparr> hr_Method = ''POST'', hr_URL = url @ ''/v1/compile'',
         hr_Header = [(''Content-Type'', ''application/json'')], hr_Body = request \<rparr> =
       Some \<lparr> resp_StatusCode = StatusOK, resp_Body = Some body \<rparr>"
    "rl_UnmarshalCompileResponse lib body = Some res"
proof -
  obtain request where r: "rl_MarshalCompileRequest lib (compile_request_for user) = Some request"
    using ev by (cases "rl_MarshalCompileRequest lib (compile_request_for user)") (auto simp: getPartialEvaluation_def)
  obtain client where c: "authz_createClient lib ca = Inr client"
    using ev r by (cases "authz_createClient lib ca") (auto simp: getPartialEvaluation_def)
  let ?req = "\<lparr> hr_Method = ''POST'', hr_URL = url @ ''/v1/compile'',
         hr_Header = [(''Content-Type'', ''application/json'')], hr_Body = request \<rparr>"
  obtain resp where d: "rl_Do lib client ?req = Some resp"
    using ev r c by (cases "rl_Do lib client ?req") (simp_all add: getPartialEvaluation_def Let_def split: if_splits)
  have s: "resp_StatusCode resp = StatusOK"
    using ev r c d by (simp add: getPartialEvaluation_def Let_def split: if_splits)
  obtain body where b: "resp_Body resp = Some body"
    using ev r c d s by (cases "resp_Body resp") (simp_all add: getPartialEvaluation_def Let_def split: if_splits)
  have "rl_UnmarshalCompileResponse lib body = Some res"
    using ev r c d s b
    by (cases "rl_UnmarshalCompileResponse lib body") (simp_all add: getPartialEvaluation_def Let_def split: if_splits)
  moreover have "resp = \<lparr> resp_StatusCode = StatusOK, resp_Body = Some body \<rparr>" using s b by (cases resp) simp
  ultimately show ?thesis using that r d by simp
qed

end
