(* ===== verification/Authorization_Filter.thy ===== *)
theory Authorization_Filter
  imports Authorization
begin

text \<open>
  The meaning of the text that \<open>filterByAuthorization\<close> writes. A condition is a disjunction of
  conjunctions, the way SQL reads \<open>OR\<close> and \<open>AND\<close> without parentheses; \<open>show_dnf\<close> prints it and
  \<open>selects\<close> evaluates it on a row in three-valued logic. \<open>filter_cond\<close> is the condition that the
  queries of a partial evaluation stand for, and \<open>filter_text\<close> shows that its text is what the code writes.
\<close>

section \<open>Conditions\<close>

datatype operand = Path "string list" | Lit string | Column string

datatype sql_cond =
    Cmp operand operand
  | CTrue
  | CFalse
  | Paren "sql_cond list list"
  | Negate "sql_cond list list"

text \<open>A row gives the text at a path of its payload, and that of its other columns; NULL is \<^const>\<open>None\<close>.\<close>

record row =
  row_payload :: "string list \<Rightarrow> string option"
  row_column :: "string \<Rightarrow> string option"

fun operand_value :: "row \<Rightarrow> operand \<Rightarrow> string option" where
  "operand_value r (Path p) = row_payload r p"
| "operand_value r (Lit s) = Some s"
| "operand_value r (Column c) = row_column r c"

definition and3 :: "bool option list \<Rightarrow> bool option" where
  "and3 xs = (if Some False \<in> set xs then Some False else if None \<in> set xs then None else Some True)"

definition or3 :: "bool option list \<Rightarrow> bool option" where
  "or3 xs = (if Some True \<in> set xs then Some True else if None \<in> set xs then None else Some False)"

definition eq3 :: "string option \<Rightarrow> string option \<Rightarrow> bool option" where
  "eq3 x y = (case (x, y) of (Some a, Some b) \<Rightarrow> Some (a = b) | _ \<Rightarrow> None)"

fun holds3 :: "row \<Rightarrow> sql_cond \<Rightarrow> bool option" where
  "holds3 r (Cmp a b) = eq3 (operand_value r a) (operand_value r b)"
| "holds3 r CTrue = Some True"
| "holds3 r CFalse = Some False"
| "holds3 r (Paren d) = or3 (map (\<lambda>c. and3 (map (holds3 r) c)) d)"
| "holds3 r (Negate d) = map_option Not (or3 (map (\<lambda>c. and3 (map (holds3 r) c)) d))"

definition selects :: "row \<Rightarrow> sql_cond list list \<Rightarrow> bool" where
  "selects r d \<longleftrightarrow> holds3 r (Paren d) = Some True"

fun joined :: "string \<Rightarrow> string list \<Rightarrow> string" where
  "joined sep [] = []"
| "joined sep [x] = x"
| "joined sep (x # xs) = x @ sep @ joined sep xs"

fun show_path :: "string list \<Rightarrow> string" where
  "show_path [] = []"
| "show_path (k # ks) =
     '' '' @ (if ks = [] then ''->>'' else ''->'') @ '' '' @ squote @ k @ squote @ show_path ks"

fun show_operand :: "operand \<Rightarrow> string" where
  "show_operand (Path p) = payloadField @ show_path p"
| "show_operand (Lit s) = squote @ s @ squote"
| "show_operand (Column c) = c"

fun show_cond :: "sql_cond \<Rightarrow> string" where
  "show_cond (Cmp a b) = show_operand a @ '' = '' @ show_operand b"
| "show_cond CTrue = sqlTrue"
| "show_cond CFalse = sqlFalse"
| "show_cond (Paren d) = ''('' @ joined '' OR '' (map (\<lambda>c. joined '' AND '' (map show_cond c)) d) @ '')''"
| "show_cond (Negate d) = ''NOT ('' @ joined '' OR '' (map (\<lambda>c. joined '' AND '' (map show_cond c)) d) @ '')''"

definition show_dnf :: "sql_cond list list \<Rightarrow> string" where
  "show_dnf d = joined '' OR '' (map (\<lambda>c. joined '' AND '' (map show_cond c)) d)"

section \<open>The condition of a partial evaluation\<close>

text \<open>What a term, an expression and a query of the response stand for; \<^const>\<open>None\<close> is a term the code
  cannot translate.\<close>

fun string_term :: "string \<Rightarrow> json \<Rightarrow> string option" where
  "string_term ty (JObj t) =
     (if map_of t ''type'' = Some (JStr ty)
      then (case map_of t ''value'' of Some (JStr s) \<Rightarrow> Some s | _ \<Rightarrow> None) else None)"
| "string_term ty _ = None"

fun string_terms :: "json list \<Rightarrow> string list option" where
  "string_terms [] = Some []"
| "string_terms (t # ts) = do { s \<leftarrow> string_term termTypeString t; ss \<leftarrow> string_terms ts; Some (s # ss) }"

text \<open>A reference is \<open>input.cluster\<close> followed by the path; the code also takes one whose first or whose
  second part differs.\<close>

definition ref_term :: "json list \<Rightarrow> operand option" where
  "ref_term parts =
     (case parts of
        v # c # ks \<Rightarrow> do {
          first \<leftarrow> string_term termTypeVar v;
          second \<leftarrow> string_term termTypeString c;
          path \<leftarrow> string_terms ks;
          if first = inputVariable \<or> second = clusterVariable then Some (Path path) else None }
      | _ \<Rightarrow> None)"

fun operand_term :: "json \<Rightarrow> operand option" where
  "operand_term (JObj t) =
     (if map_of t ''type'' = Some (JStr termTypeString)
      then (case map_of t ''value'' of Some (JStr s) \<Rightarrow> Some (Lit s) | _ \<Rightarrow> None)
      else if map_of t ''type'' = Some (JStr termTypeRef)
      then (case map_of t ''value'' of Some (JArr parts) \<Rightarrow> ref_term parts | _ \<Rightarrow> None)
      else None)"
| "operand_term _ = None"

fun eq_operator :: "json \<Rightarrow> bool" where
  "eq_operator (JObj t) \<longleftrightarrow>
     map_of t ''type'' = Some (JStr termTypeRef) \<and>
     (case map_of t ''value'' of Some (JArr [v]) \<Rightarrow> string_term termTypeVar v = Some ''eq'' | _ \<Rightarrow> False)"
| "eq_operator _ \<longleftrightarrow> False"

definition comparison :: "json list \<Rightarrow> (operand \<times> operand) option" where
  "comparison terms =
     (case terms of
        [f, x, y] \<Rightarrow> (if eq_operator f then do { a \<leftarrow> operand_term x; b \<leftarrow> operand_term y; Some (a, b) } else None)
      | _ \<Rightarrow> None)"

text \<open>The shape every expression of a response has: an object whose terms are an array.\<close>

fun terms_of :: "json \<Rightarrow> json list option" where
  "terms_of (JObj e) = (case map_of e termsAttribute of Some (JArr ts) \<Rightarrow> Some ts | _ \<Rightarrow> None)"
| "terms_of _ = None"

fun negated_expr :: "json \<Rightarrow> bool" where
  "negated_expr (JObj e) = is_negated e"
| "negated_expr _ = False"

definition expr_cond :: "json \<Rightarrow> sql_cond" where
  "expr_cond e =
     (let neg = negated_expr e;
          inner = (case comparison (the (terms_of e)) of
                     Some (a, b) \<Rightarrow> Cmp a b | None \<Rightarrow> (if neg then CTrue else CFalse))
      in Paren [[if neg then Negate [[inner]] else inner]])"

definition query_cond :: "json list \<Rightarrow> sql_cond" where
  "query_cond q = Paren [map expr_cond q @ [CTrue]]"

fun array_of :: "json \<Rightarrow> json list option" where
  "array_of (JArr xs) = Some xs"
| "array_of _ = None"

definition query_arrays :: "json list \<Rightarrow> json list list" where
  "query_arrays queries = List.map_filter array_of queries"

definition filter_cond :: "json list \<Rightarrow> sql_cond list list" where
  "filter_cond queries =
     (if queries = [JArr []] then [[CTrue]]
      else map (\<lambda>q. [query_cond q]) (filter (\<lambda>q. q \<noteq> []) (query_arrays queries)) @ [[CFalse]])"

definition well_shaped :: "json list \<Rightarrow> bool" where
  "well_shaped queries \<longleftrightarrow> (\<forall>q \<in> set (query_arrays queries). \<forall>e \<in> set q. terms_of e \<noteq> None)"

section \<open>The text of the filter\<close>

lemma getTermStringValue_iff: "getTermStringValue t ty = Inr s \<longleftrightarrow> string_term ty t = Some s"
  by (cases t)
     (auto simp: getTermStringValue_def getTermType_def getTermValue_def split: option.splits json.splits if_splits)

lemma json_path_loop_iff:
  "json_path_loop operand ks = Inr t \<longleftrightarrow> (\<exists>path. string_terms ks = Some path \<and> t = operand @ show_path path)"
proof (induction ks arbitrary: operand)
  case (Cons k ks)
  have empty: "path = [] \<longleftrightarrow> ks = []" if "string_terms ks = Some path" for path
    using that by (cases ks) (auto simp: bind_Some_iff)
  show ?case
    by (auto simp: andThen_Inr_iff getTermStringValue_iff Cons.IH bind_Some_iff empty)
qed auto

lemma ref_array_iff:
  "(if length parts < minReferencedVariablePathSize then Inl ErrUnexpectedTermsNumber
    else andThen (getTermStringValue (parts ! 0) termTypeVar) (\<lambda>firstPart.
         andThen (getTermStringValue (parts ! 1) termTypeString) (\<lambda>secondPart.
         if firstPart \<noteq> inputVariable \<and> secondPart \<noteq> clusterVariable then Inl ErrUnexpectedValue
         else createPostgreSQLJSONPath (drop 2 parts)))) = Inr s \<longleftrightarrow>
   (\<exists>a. ref_term parts = Some a \<and> s = show_operand a)"
proof (cases "\<exists>v c ks. parts = v # c # ks")
  case True
  then obtain v c ks where parts: "parts = v # c # ks" by blast
  have path: "createPostgreSQLJSONPath ks = Inr s \<longleftrightarrow> (\<exists>p. string_terms ks = Some p \<and> s = payloadField @ show_path p)"
    by (simp add: createPostgreSQLJSONPath_def json_path_loop_iff)
  show ?thesis
    by (cases "string_term termTypeVar v"; cases "string_term termTypeString c"; cases "string_terms ks")
       (simp_all add: parts ref_term_def andThen_Inr_iff getTermStringValue_iff minReferencedVariablePathSize_def
          path numeral_2_eq_2)
next
  case False
  then have "length parts < 2" by (cases parts rule: remdups_adj.cases) auto
  with False show ?thesis by (auto simp: ref_term_def minReferencedVariablePathSize_def split: list.splits)
qed

lemma handleRefTerm_iff:
  "handleRefTerm m = Inr s \<longleftrightarrow>
     (\<exists>parts a. map_of m ''value'' = Some (JArr parts) \<and> ref_term parts = Some a \<and> s = show_operand a)"
proof (cases "\<exists>parts. map_of m ''value'' = Some (JArr parts)")
  case True
  then obtain parts where "map_of m ''value'' = Some (JArr parts)" by blast
  then show ?thesis using ref_array_iff [of parts s] by (simp add: handleRefTerm_def getTermValue_def)
next
  case False
  then show ?thesis by (auto simp: handleRefTerm_def getTermValue_def split: option.splits json.splits)
qed

lemma getOperand_iff: "getOperand t = Inr s \<longleftrightarrow> (\<exists>a. operand_term t = Some a \<and> s = show_operand a)"
proof (cases t)
  case (JObj m)
  then show ?thesis
    by (cases "map_of m ''type''")
       (auto simp: getOperand_def getTermType_def handleStringTerm_def getTermValue_def handleRefTerm_iff
          opa_names andThen_Inr_iff split: option.splits json.splits if_splits)
qed (auto simp: getOperand_def)

lemma getOperator_eq: "getOperator t = Inr ''eq'' \<longleftrightarrow> eq_operator t"
proof (cases t)
  case (JObj m)
  then show ?thesis
    by (auto simp: getOperator_def getTermType_def getTermValue_def getTermStringValue_iff termTypeVar_def
        andThen_Inr_iff length_Suc_conv split: option.splits json.splits if_splits list.splits)
qed (auto simp: getOperator_def)

lemma getSQLExpression_iff:
  "getSQLExpression ts = Inr s \<longleftrightarrow>
     (\<exists>a b. comparison ts = Some (a, b) \<and> s = show_cond (Cmp a b))"
proof -
  have "length ts = 3 \<longleftrightarrow> (\<exists>f x y. ts = [f, x, y])"
    by (auto simp: numeral_3_eq_3 length_Suc_conv)
  then show ?thesis
    by (auto simp: getSQLExpression_def termsArraySize_def comparison_def andThen_Inr_iff getOperand_iff
        getOperator_eq bind_Some_iff numeral_2_eq_2 split: list.splits if_splits)
qed

lemma handleTermsArray_text:
  "handleTermsArray ts neg =
     show_cond (let inner = (case comparison ts of Some (a, b) \<Rightarrow> Cmp a b | None \<Rightarrow> (if neg then CTrue else CFalse))
                in if neg then Negate [[inner]] else inner)"
proof (cases "getSQLExpression ts")
  case (Inl err)
  then have "comparison ts = None" using getSQLExpression_iff [of ts] by (cases "comparison ts") auto
  with Inl show ?thesis by (simp add: handleTermsArray_def)
next
  case (Inr s)
  then obtain a b where "comparison ts = Some (a, b)" "s = show_cond (Cmp a b)" using getSQLExpression_iff by blast
  with Inr show ?thesis by (simp add: handleTermsArray_def)
qed

lemma handleExpression_text:
  assumes "terms_of e \<noteq> None"
  shows "handleExpression e = show_cond (expr_cond e) @ '' AND ''"
  using assms
  by (cases e)
     (auto simp: handleExpression_def expr_cond_def handleTermsArray_text Let_def split: option.splits json.splits)

lemma joined_snoc: "joined sep (xs @ [y]) = concat (map (\<lambda>x. x @ sep) xs) @ y"
  by (induction sep xs rule: joined.induct) auto

lemma handleQuery_text:
  assumes "q \<noteq> []" and "\<forall>e \<in> set q. terms_of e \<noteq> None"
  shows "handleQuery q = show_cond (query_cond q) @ '' OR ''"
proof -
  have "map handleExpression q = map (\<lambda>e. show_cond (expr_cond e) @ '' AND '') q"
    using assms(2) by (intro map_cong refl handleExpression_text) auto
  then show ?thesis using assms(1)
    by (simp only: handleQuery_def query_cond_def) (simp add: joined_snoc comp_def)
qed

lemma queries_loop_None: "queries_loop n qs = None \<longleftrightarrow> n = 1 \<and> JArr [] \<in> set qs"
  by (induction n qs rule: queries_loop.induct) auto

lemma queries_loop_Some:
  "well_shaped qs \<Longrightarrow> queries_loop n qs = Some s \<Longrightarrow>
   s = concat (map (\<lambda>q. show_cond (query_cond q) @ '' OR '') (filter (\<lambda>q. q \<noteq> []) (query_arrays qs)))"
proof (induction n qs arbitrary: s rule: queries_loop.induct)
  case (2 n q rest)
  then show ?case
    using handleQuery_text [of q]
    by (auto simp: well_shaped_def query_arrays_def List.map_filter_simps handleQuery_def split: if_splits)
qed (auto simp: well_shaped_def query_arrays_def List.map_filter_simps)

lemma filter_text:
  assumes "well_shaped queries" and "queries \<noteq> []" and "map_of m ''queries'' = Some (JArr queries)"
  shows "filter_of_response (Inr (Some (JObj m))) = Some (show_dnf (filter_cond queries))"
proof (cases "queries = [JArr []]")
  case True
  with assms show ?thesis by (simp add: filter_of_response_def filter_cond_def show_dnf_def allowAll_def)
next
  case False
  have "queries_loop (length queries) queries \<noteq> None"
    using False assms(2) by (cases queries rule: list.exhaust) (auto simp: queries_loop_None)
  then obtain s where s: "queries_loop (length queries) queries = Some s" by auto
  with queries_loop_Some [OF assms(1) s] assms(2,3) False show ?thesis
    by (simp add: filter_of_response_def filter_cond_def show_dnf_def joined_snoc comp_def)
qed

section \<open>The rows the filter selects\<close>

text \<open>When a comparison of a response holds on a row: both sides are there and are equal; when it is
  negated, both sides are there and differ.\<close>

definition expr_holds :: "row \<Rightarrow> json \<Rightarrow> bool" where
  "expr_holds r e =
     (case comparison (the (terms_of e)) of
        None \<Rightarrow> False
      | Some (a, b) \<Rightarrow>
          (case (operand_value r a, operand_value r b) of
             (Some x, Some y) \<Rightarrow> (x = y) \<noteq> negated_expr e
           | _ \<Rightarrow> False))"

definition allowed :: "row \<Rightarrow> json list \<Rightarrow> bool" where
  "allowed r queries \<longleftrightarrow>
     queries = [JArr []] \<or> (\<exists>q. JArr q \<in> set queries \<and> q \<noteq> [] \<and> (\<forall>e \<in> set q. expr_holds r e))"

lemma or3_True: "or3 xs = Some True \<longleftrightarrow> Some True \<in> set xs"
  by (simp add: or3_def)

lemma and3_True: "and3 xs = Some True \<longleftrightarrow> set xs \<subseteq> {Some True}"
  by (auto simp: and3_def) (metis (full_types) not_None_eq)

lemma holds3_expr: "holds3 r (expr_cond e) = Some True \<longleftrightarrow> expr_holds r e"
  by (auto simp: expr_cond_def expr_holds_def Let_def or3_def and3_def eq3_def split: option.splits if_splits)

lemma holds3_query: "holds3 r (query_cond q) = Some True \<longleftrightarrow> (\<forall>e \<in> set q. expr_holds r e)"
  by (auto simp: query_cond_def or3_True and3_True image_subset_iff holds3_expr eq_commute [of "Some True"])

lemma query_arrays_set: "q \<in> set (query_arrays qs) \<longleftrightarrow> JArr q \<in> set qs"
proof (induction qs)
  case (Cons j qs)
  then show ?case by (cases j) (auto simp: query_arrays_def List.map_filter_simps)
qed (simp add: query_arrays_def List.map_filter_simps)

lemma selects_iff: "selects r d \<longleftrightarrow> (\<exists>c \<in> set d. \<forall>a \<in> set c. holds3 r a = Some True)"
  unfolding selects_def holds3.simps or3_True image_iff set_map
  by (auto simp: and3_True image_subset_iff eq_commute [of "Some True"])

lemma selects_filter: "selects r (filter_cond queries) \<longleftrightarrow> allowed r queries"
proof (cases "queries = [JArr []]")
  case False
  then have "selects r (filter_cond queries) \<longleftrightarrow>
      (\<exists>q \<in> set (query_arrays queries). q \<noteq> [] \<and> holds3 r (query_cond q) = Some True)"
    by (auto simp: selects_iff filter_cond_def)
  with False show ?thesis by (auto simp: allowed_def holds3_query query_arrays_set)
qed (simp add: selects_iff filter_cond_def allowed_def)

end
