(* ===== verification/Authentication.thy ===== *)
theory Authentication
  imports Rest_Lib
begin

text \<open>
  \<open>authentication/authentication.go\<close>: the middleware that asks the cluster's API for the user of a
  request. The keys of a gin context that the handlers read are a record; a key that was never set
  makes \<open>MustGet\<close> panic.
\<close>

definition UserKey :: string where "UserKey = ''user''"
definition GroupsKey :: string where "GroupsKey = ''groups''"

datatype ctx_value = CtxString string | CtxStrings "string list"

type_synonym gin_keys = "string \<rightharpoonup> ctx_value"

definition MustGet :: "gin_keys \<Rightarrow> string \<Rightarrow> ctx_value option" where
  "MustGet keys k = keys k"

text \<open>\<open>createClient\<close>; \<^const>\<open>None\<close> is a nil client with an error.\<close>

definition auth_createClient :: "rest_lib \<Rightarrow> string option \<Rightarrow> tls_config option" where
  "auth_createClient lib clusterAPICABundle =
     (case clusterAPICABundle of
        None \<Rightarrow> Some TLSInsecureSkipVerify
      | Some pem \<Rightarrow> (if rl_AppendCertsFromPEM lib pem then Some (TLSRootCAs pem) else None))"

definition user_request :: "string \<Rightarrow> string \<Rightarrow> http_request" where
  "user_request clusterAPIURL authorizationHeader =
     \<lparr> hr_Method = ''GET'', hr_URL = clusterAPIURL @ ''/apis/user.openshift.io/v1/users/~'',
       hr_Header = [(''Authorization'', authorizationHeader)], hr_Body = [] \<rparr>"

text \<open>Both errors before the call are only logged: a nil request panics on its header, a nil client on
  the call. The result is whether a user was set, with the keys.\<close>

definition setAuthenticatedUser ::
    "rest_lib \<Rightarrow> gin_keys \<Rightarrow> string \<Rightarrow> string \<Rightarrow> string option \<Rightarrow> (bool \<times> gin_keys) option" where
  "setAuthenticatedUser lib keys authorizationHeader clusterAPIURL clusterAPICABundle =
     (let req = user_request clusterAPIURL authorizationHeader in
      if \<not> rl_ValidRequest lib (req\<lparr>hr_Header := []\<rparr>) then None
      else (case auth_createClient lib clusterAPICABundle of
         None \<Rightarrow> None
       | Some client \<Rightarrow>
           Some (case rl_Do lib client req of
              None \<Rightarrow> (False, keys)
            | Some resp \<Rightarrow>
                (if resp_StatusCode resp \<noteq> StatusOK then (False, keys)
                 else (case resp_Body resp of
                    None \<Rightarrow> (False, keys)
                  | Some body \<Rightarrow>
                      (case rl_UnmarshalUser lib body of
                         None \<Rightarrow> (False, keys)
                       | Some user \<Rightarrow>
                           (True, keys(UserKey \<mapsto> CtxString (user_Name user),
                                       GroupsKey \<mapsto> CtxStrings (user_Groups user)))))))))"

text \<open>The middleware: abort with 401, or go on to the next handler with the keys set.\<close>

datatype 'a handled = Unauthorized401 | Handled 'a

definition Authentication ::
    "rest_lib \<Rightarrow> string \<Rightarrow> string option \<Rightarrow> string \<Rightarrow> (gin_keys \<Rightarrow> 'a option) \<Rightarrow> 'a handled option" where
  "Authentication lib clusterAPIURL clusterAPICABundle authorizationHeader following = do {
     (ok, keys) \<leftarrow> setAuthenticatedUser lib Map.empty authorizationHeader clusterAPIURL clusterAPICABundle;
     if \<not> ok then Some Unauthorized401 else map_option Handled (following keys) }"

text \<open>The two lines every handler starts with: the user and the groups of the request.\<close>

definition get_user :: "gin_keys \<Rightarrow> string option" where
  "get_user keys =
     map_option (\<lambda>v. case v of CtxString user \<Rightarrow> user | CtxStrings _ \<Rightarrow> ''Unknown'') (MustGet keys UserKey)"

definition get_groups :: "gin_keys \<Rightarrow> string list option" where
  "get_groups keys =
     map_option (\<lambda>v. case v of CtxStrings groups \<Rightarrow> groups | CtxString _ \<Rightarrow> []) (MustGet keys GroupsKey)"

section \<open>Who gets through\<close>

text \<open>The answer of the user API that lets a request pass.\<close>

definition authenticated_as :: "rest_lib \<Rightarrow> string \<Rightarrow> string option \<Rightarrow> string \<Rightarrow> api_user \<Rightarrow> bool" where
  "authenticated_as lib url ca hdr user \<longleftrightarrow>
     (\<exists>client body. auth_createClient lib ca = Some client \<and>
        rl_Do lib client (user_request url hdr) = Some \<lparr> resp_StatusCode = StatusOK, resp_Body = Some body \<rparr> \<and>
        rl_UnmarshalUser lib body = Some user)"

lemma setAuthenticatedUser_True:
  assumes "setAuthenticatedUser lib keys hdr url ca = Some (True, keys')"
  shows "\<exists>user. authenticated_as lib url ca hdr user \<and> get_user keys' = Some (user_Name user) \<and>
                get_groups keys' = Some (user_Groups user)"
proof -
  from assms obtain client resp body user where
    c: "auth_createClient lib ca = Some client" and
    d: "rl_Do lib client (user_request url hdr) = Some resp" and
    s: "resp_StatusCode resp = StatusOK" "resp_Body resp = Some body" and
    u: "rl_UnmarshalUser lib body = Some user" and
    k: "keys' = keys(UserKey \<mapsto> CtxString (user_Name user), GroupsKey \<mapsto> CtxStrings (user_Groups user))"
    by (auto simp: setAuthenticatedUser_def Let_def split: if_splits option.splits)
  from s have "resp = \<lparr> resp_StatusCode = StatusOK, resp_Body = Some body \<rparr>" by (cases resp) simp
  with c d u have "authenticated_as lib url ca hdr user" by (auto simp: authenticated_as_def)
  with k show ?thesis by (auto simp: get_user_def get_groups_def MustGet_def UserKey_def GroupsKey_def)
qed

lemma Authentication_Handled:
  assumes "Authentication lib url ca hdr following = Some (Handled r)"
  shows "\<exists>user keys. authenticated_as lib url ca hdr user \<and> get_user keys = Some (user_Name user) \<and>
           get_groups keys = Some (user_Groups user) \<and> following keys = Some r"
proof -
  from assms obtain keys where set: "setAuthenticatedUser lib Map.empty hdr url ca = Some (True, keys)" and
    run: "following keys = Some r"
    by (auto simp: Authentication_def bind_Some_iff split: if_splits)
  from setAuthenticatedUser_True [OF set] run show ?thesis by blast
qed

end
