(* ===== verification/Label_Patch.thy ===== *)
theory Label_Patch
  imports Label_Table Authorization_Filter Authentication
begin

text \<open>
  \<open>managedclusters/patch.go\<close>: the handler that patches the labels of a managed cluster. A set of keys is
  a Go map to empty structs; the order in which \<open>getKeys\<close> lists it is an argument. The handler runs beside
  other writers of the table: the argument \<open>others\<close> says what they do before each read and before each write.
\<close>

definition optimisticConcurrencyRetryAttempts :: nat where "optimisticConcurrencyRetryAttempts = 5"

datatype patch_error =
    ErrOnlyPatchOfLabelsIsImplemented
  | ErrOnlyAddOrRemoveAreImplemented
  | ErrOptimisticConcurrencyWriteFailed
  | ErrReadLabels
  | ErrScanLabels
  | ErrWriteLabels

record patch =
  patch_Op :: string
  patch_Path :: string
  patch_Value :: string

section \<open>The labels of a request\<close>

definition labels_prefix :: string where "labels_prefix = ''/metadata/labels/''"

fun patches_loop :: "patch list \<Rightarrow> labels \<Rightarrow> string set \<Rightarrow> patch_error + labels \<times> string set" where
  "patches_loop [] labelsToAdd labelsToRemove = Inr (labelsToAdd, labelsToRemove)"
| "patches_loop (aPatch # patches) labelsToAdd labelsToRemove =
     (let rawLabel = trim_prefix (patch_Path aPatch) labels_prefix in
      if rawLabel = patch_Path aPatch then Inl ErrOnlyPatchOfLabelsIsImplemented
      else (let label = replace_first rawLabel ''~1'' ''/'' in
            if patch_Op aPatch = ''add''
            then patches_loop patches (labelsToAdd(label \<mapsto> patch_Value aPatch)) (labelsToRemove - {label})
            else if patch_Op aPatch = ''remove''
            then patches_loop patches (labelsToAdd(label := None)) (insert label labelsToRemove)
            else Inl ErrOnlyAddOrRemoveAreImplemented))"

definition getLabels :: "patch list \<Rightarrow> patch_error + labels \<times> string set" where
  "getLabels patches = patches_loop patches Map.empty {}"

section \<open>Writing a row\<close>

definition getMap :: "string list \<Rightarrow> string set" where
  "getMap aSlice = foldl (\<lambda>m key. insert key m) {} aSlice"

definition getKeys :: "(string set \<Rightarrow> string list) \<Rightarrow> string set \<Rightarrow> string list" where
  "getKeys enum aMap = enum aMap"

definition updateRow ::
    "'db label_lib \<Rightarrow> (string set \<Rightarrow> string list) \<Rightarrow> string \<Rightarrow> string \<Rightarrow> labels \<Rightarrow> labels \<Rightarrow> string set \<Rightarrow> string set \<Rightarrow>
     int \<Rightarrow> 'db \<Rightarrow> patch_error option \<times> 'db" where
  "updateRow lib enum cluster hubCluster labelsToAdd currentLabelsToAdd labelsToRemove currentLabelsToRemove version db =
     (let newLabelsToRemove = {key \<in> currentLabelsToRemove. labelsToAdd key = None} \<union> labelsToRemove;
          newLabelsToAdd = (\<lambda>key. if key \<in> labelsToRemove then None else currentLabelsToAdd key) ++ labelsToAdd
      in case ll_Exec lib db update_row_query
           [ALabels newLabelsToAdd, AKeys (getKeys enum newLabelsToRemove), AStr cluster, AStr hubCluster, AInt version] of
           (None, db') \<Rightarrow> (Some ErrWriteLabels, db')
         | (Some n, db') \<Rightarrow> (if n = 0 then Some ErrOptimisticConcurrencyWriteFailed else None, db'))"

definition updateLabels ::
    "'db label_lib \<Rightarrow> (string set \<Rightarrow> string list) \<Rightarrow> ('db \<Rightarrow> 'db) \<Rightarrow> string \<Rightarrow> string \<Rightarrow> labels \<Rightarrow> string set \<Rightarrow> 'db \<Rightarrow>
     patch_error option \<times> 'db" where
  "updateLabels lib enum others cluster hubCluster labelsToAdd labelsToRemove db =
     (if dom labelsToAdd = {} \<and> labelsToRemove = {} then (None, db)
      else (case ll_Query lib db select_row_query [AStr cluster, AStr hubCluster] of
         None \<Rightarrow> (Some ErrReadLabels, db)
       | Some [] \<Rightarrow>
           (case ll_Exec lib (others db) insert_row_query
                [AStr hubCluster, AStr cluster, ALabels labelsToAdd, AKeys (getKeys enum labelsToRemove)] of
              (None, db') \<Rightarrow> (Some ErrWriteLabels, db')
            | (Some _, db') \<Rightarrow> (None, db'))
       | Some (row # _) \<Rightarrow>
           (case row of
              [ALabels currentLabelsToAdd, AKeys currentLabelsToRemoveSlice, AInt version] \<Rightarrow>
                updateRow lib enum cluster hubCluster labelsToAdd currentLabelsToAdd labelsToRemove
                  (getMap currentLabelsToRemoveSlice) version (others db)
            | _ \<Rightarrow> (Some ErrScanLabels, db))))"

text \<open>The retry loop, counting down; before attempt n the other writers do \<open>fst (others n)\<close>, between its
  read and its write \<open>snd (others n)\<close>. With no attempt left the last error is kept.\<close>

fun retry_update ::
    "'db label_lib \<Rightarrow> (string set \<Rightarrow> string list) \<Rightarrow> (nat \<Rightarrow> ('db \<Rightarrow> 'db) \<times> ('db \<Rightarrow> 'db)) \<Rightarrow> string \<Rightarrow> string \<Rightarrow> labels \<Rightarrow>
     string set \<Rightarrow> nat \<Rightarrow> patch_error option \<Rightarrow> 'db \<Rightarrow> patch_error option \<times> 'db" where
  "retry_update lib enum others cluster hubCluster add remove 0 err db = (err, db)"
| "retry_update lib enum others cluster hubCluster add remove (Suc n) err db =
     (case updateLabels lib enum (snd (others (Suc n))) cluster hubCluster add remove (fst (others (Suc n)) db) of
        (None, db') \<Rightarrow> (None, db')
      | (Some err', db') \<Rightarrow> retry_update lib enum others cluster hubCluster add remove n (Some err') db')"

section \<open>Authorization and the handler\<close>

definition authorization_query :: "string \<Rightarrow> string \<Rightarrow> string \<Rightarrow> string" where
  "authorization_query cluster hubCluster flt =
     ''SELECT COUNT(payload) from status.managed_clusters WHERE payload -> 'metadata' ->> 'name' = '' @ squote @ cluster @
     squote @ '' AND leaf_hub_name = '' @ squote @ hubCluster @ squote @ '' AND '' @ flt"

text \<open>\<open>countRow\<close> runs a query that counts; \<^const>\<open>None\<close> is an error of the query. The result is \<^const>\<open>None\<close>
  when making the filter panics.\<close>

definition isAuthorized ::
    "rest_lib \<Rightarrow> ('db \<Rightarrow> string \<Rightarrow> int option) \<Rightarrow> string \<Rightarrow> string list \<Rightarrow> string \<Rightarrow> string option \<Rightarrow> 'db \<Rightarrow> string \<Rightarrow> string \<Rightarrow>
     bool option" where
  "isAuthorized lib countRow user groups authorizationURL authorizationCABundle db cluster hubCluster = do {
     flt \<leftarrow> filterByAuthorization lib user groups authorizationURL authorizationCABundle;
     Some (case countRow db (authorization_query cluster hubCluster flt) of None \<Rightarrow> False | Some n \<Rightarrow> 0 < n) }"

text \<open>The statuses that the handler writes, in order; gin itself writes 400 when the body does not bind.\<close>

datatype patch_status = Forbidden403 | BadRequest400 | NotImplemented501 | InternalError500

definition Patch ::
    "rest_lib \<Rightarrow> ('db \<Rightarrow> string \<Rightarrow> int option) \<Rightarrow> 'db label_lib \<Rightarrow> (string set \<Rightarrow> string list) \<Rightarrow>
     (nat \<Rightarrow> ('db \<Rightarrow> 'db) \<times> ('db \<Rightarrow> 'db)) \<Rightarrow> string \<Rightarrow> string option \<Rightarrow> string \<Rightarrow> string \<Rightarrow> patch list option \<Rightarrow>
     gin_keys \<Rightarrow> 'db \<Rightarrow> (patch_status list \<times> 'db) option" where
  "Patch rlib countRow lib enum others authorizationURL authorizationCABundle cluster hubCluster body keys db = do {
     user \<leftarrow> get_user keys;
     groups \<leftarrow> get_groups keys;
     authorized \<leftarrow> isAuthorized rlib countRow user groups authorizationURL authorizationCABundle db cluster hubCluster;
     let written = (if authorized then [] else [Forbidden403]);
     Some (case body of
        None \<Rightarrow> (written @ [BadRequest400], db)
      | Some patches \<Rightarrow>
          (case getLabels patches of
             Inl err \<Rightarrow> (written @ [NotImplemented501], db)
           | Inr (labelsToAdd, labelsToRemove) \<Rightarrow>
               (case retry_update lib enum others cluster hubCluster labelsToAdd labelsToRemove
                       optimisticConcurrencyRetryAttempts None db of
                  (None, db') \<Rightarrow> (written, db')
                | (Some err, db') \<Rightarrow> (written @ [InternalError500], db')))) }"

section \<open>What a request asks for\<close>

text \<open>The reference: JSON Patch applies the operations one after the other.\<close>

definition patch_label :: "patch \<Rightarrow> string" where
  "patch_label p = replace_first (trim_prefix (patch_Path p) labels_prefix) ''~1'' ''/''"

definition apply_one :: "labels \<Rightarrow> patch \<Rightarrow> labels" where
  "apply_one m p = m(patch_label p := (if patch_Op p = ''add'' then Some (patch_Value p) else None))"

definition supported :: "patch \<Rightarrow> bool" where
  "supported p \<longleftrightarrow> has_prefix (patch_Path p) labels_prefix \<and> patch_Op p \<in> {''add'', ''remove''}"

definition removed_after :: "string set \<Rightarrow> patch \<Rightarrow> string set" where
  "removed_after r p = (if patch_Op p = ''add'' then r - {patch_label p} else insert (patch_label p) r)"

lemma apply_patch_one: "apply_patch (apply_one a p) (removed_after r p) m = apply_one (apply_patch a r m) p"
  by (auto simp: apply_patch_def apply_one_def removed_after_def fun_eq_iff)

lemma one_disjoint: "dom a \<inter> r = {} \<Longrightarrow> dom (apply_one a p) \<inter> removed_after r p = {}"
  by (auto simp: apply_one_def removed_after_def split: if_splits)

lemma trim_prefix_same: "trim_prefix s labels_prefix = s \<longleftrightarrow> \<not> has_prefix s labels_prefix"
proof
  assume "trim_prefix s labels_prefix = s"
  moreover have "labels_prefix \<noteq> []" by (simp add: labels_prefix_def)
  ultimately show "\<not> has_prefix s labels_prefix"
    by (auto simp: trim_prefix_def has_prefix_iff)
qed (simp add: trim_prefix_def)

lemma patches_loop_Cons:
  "patches_loop (p # ps) a r = Inr x \<longleftrightarrow> supported p \<and> patches_loop ps (apply_one a p) (removed_after r p) = Inr x"
proof (cases "has_prefix (patch_Path p) labels_prefix")
  case True
  then have "trim_prefix (patch_Path p) labels_prefix \<noteq> patch_Path p" by (simp add: trim_prefix_same)
  with True show ?thesis
    by (simp add: Let_def supported_def apply_one_def removed_after_def patch_label_def)
qed (simp add: supported_def trim_prefix_same [THEN iffD2])

lemma patches_loop_Inr:
  "patches_loop ps a r = Inr (a', r') \<Longrightarrow>
     (\<forall>p \<in> set ps. supported p) \<and> apply_patch a' r' m = foldl apply_one (apply_patch a r m) ps \<and>
     (finite r \<longrightarrow> finite r') \<and> (dom a \<inter> r = {} \<longrightarrow> dom a' \<inter> r' = {})"
proof (induction ps arbitrary: a r)
  case (Cons p ps)
  have "finite r \<Longrightarrow> finite (removed_after r p)" by (simp add: removed_after_def)
  with Cons.prems Cons.IH [of "apply_one a p" "removed_after r p"] one_disjoint [of a r p] show ?case
    by (simp only: patches_loop_Cons apply_patch_one) simp
qed simp

lemma getLabels_Inr:
  assumes "getLabels ps = Inr (a, r)"
  shows "apply_patch a r m = foldl apply_one m ps" and "finite r" and "dom a \<inter> r = {}"
    and "p \<in> set ps \<Longrightarrow> supported p"
  using patches_loop_Inr [OF assms [unfolded getLabels_def], of m] by (auto simp: apply_patch_def)

lemma patches_loop_touches:
  "patches_loop ps a r = Inr (a', r') \<Longrightarrow> ps \<noteq> [] \<or> dom a \<noteq> {} \<or> r \<noteq> {} \<Longrightarrow> dom a' \<noteq> {} \<or> r' \<noteq> {}"
proof (induction ps arbitrary: a r)
  case (Cons p ps)
  have "dom (apply_one a p) \<noteq> {} \<or> removed_after r p \<noteq> {}"
    by (auto simp: apply_one_def removed_after_def simp flip: dom_eq_empty_conv)
  with Cons show ?case by (simp only: patches_loop_Cons) blast
qed simp

lemma patches_loop_total: "\<forall>p \<in> set ps. supported p \<Longrightarrow> \<exists>a' r'. patches_loop ps a r = Inr (a', r')"
proof (induction ps arbitrary: a r)
  case (Cons p ps)
  then show ?case by (simp only: patches_loop_Cons) simp
qed simp

section \<open>What an attempt does to the table\<close>

text \<open>The row after a patch: it asks for the labels that the old row asked for, patched; its version is the
  next one; and it stays consistent.\<close>

definition patched :: "labels \<Rightarrow> string set \<Rightarrow> label_row option \<Rightarrow> label_row \<Rightarrow> bool" where
  "patched a r old new \<longleftrightarrow>
     (\<forall>m. apply_row new m = apply_patch a r (case old of None \<Rightarrow> m | Some row \<Rightarrow> apply_row row m)) \<and>
     lr_version new = (case old of None \<Rightarrow> 0 | Some row \<Rightarrow> lr_version row + 1) \<and>
     (dom a \<inter> r = {} \<longrightarrow> (case old of None \<Rightarrow> True | Some row \<Rightarrow> consistent_row row) \<longrightarrow> consistent_row new)"

definition wrote :: "string \<Rightarrow> string \<Rightarrow> labels \<Rightarrow> string set \<Rightarrow> label_table \<Rightarrow> label_table \<Rightarrow> bool" where
  "wrote c h a r t t' \<longleftrightarrow> (\<exists>new. patched a r (t (c, h)) new \<and> t' = t((c, h) \<mapsto> new))"

lemma getMap_set [simp]: "getMap xs = set xs"
proof -
  have "foldl (\<lambda>m k. insert k m) s xs = s \<union> set xs" for s by (induction xs arbitrary: s) auto
  then show ?thesis by (simp add: getMap_def)
qed

lemma patched_update:
  assumes "enumerates enum" and "finite r" and "getKeys enum (newR) = ks"
    and "newR = {k \<in> set (lr_deleted_label_keys row). a k = None} \<union> r"
    and "newA = (\<lambda>k. if k \<in> r then None else lr_labels row k) ++ a"
  shows "patched a r (Some row) (row\<lparr>lr_labels := newA, lr_deleted_label_keys := ks, lr_version := lr_version row + 1\<rparr>)"
proof -
  have "finite newR" using assms(2,4) by simp
  then have ks: "set ks = newR" using assms(1,3) by (auto simp: getKeys_def)
  have "apply_patch newA newR m = apply_patch a r (apply_row row m)" for m
    by (auto simp: assms(4,5) apply_row_def apply_patch_def fun_eq_iff map_add_def split: option.splits)
  moreover have "dom a \<inter> r = {} \<Longrightarrow> consistent_row row \<Longrightarrow> dom newA \<inter> newR = {}"
    by (fastforce simp: assms(4,5) consistent_row_def map_add_def disjoint_iff split: option.splits if_splits)
  ultimately show ?thesis by (simp add: patched_def ks apply_row_def consistent_row_def)
qed

lemma patched_insert:
  assumes "enumerates enum" and "finite r"
  shows "patched a r None \<lparr> lr_labels = a, lr_deleted_label_keys = getKeys enum r, lr_version = 0 \<rparr>"
  using assms by (simp add: patched_def apply_row_def consistent_row_def getKeys_def)

lemma updateRow_effect:
  assumes laws: "table_laws lib tbl" and enum: "enumerates enum" and fin: "finite r"
    and row: "\<And>row'. tbl db (c, h) = Some row' \<Longrightarrow> lr_version row' = lr_version row \<Longrightarrow> row' = row"
    and run: "updateRow lib enum c h a (lr_labels row) r (set (lr_deleted_label_keys row)) (lr_version row) db = (err, db')"
  shows "if err = None then wrote c h a r (tbl db) (tbl db') else tbl db' = tbl db"
proof -
  let ?newR = "{k \<in> set (lr_deleted_label_keys row). a k = None} \<union> r"
  let ?newA = "(\<lambda>k. if k \<in> r then None else lr_labels row k) ++ a"
  let ?ks = "getKeys enum ?newR"
  let ?v = "lr_version row"
  obtain n db1 where ex: "ll_Exec lib db update_row_query [ALabels ?newA, AKeys ?ks, AStr c, AStr h, AInt ?v] = (n, db1)"
    by (cases "ll_Exec lib db update_row_query [ALabels ?newA, AKeys ?ks, AStr c, AStr h, AInt ?v]")
  let ?f = "\<lambda>r. r\<lparr>lr_labels := ?newA, lr_deleted_label_keys := ?ks, lr_version := ?v + 1\<rparr>"
  obtain m t where g: "guarded (tbl db) (c, h) ?v ?f = (m, t)" by (cases "guarded (tbl db) (c, h) ?v ?f")
  have law: "if m = 1 \<and> \<not> in_int64 (?v + 1) then n = None \<and> tbl db1 = tbl db else n = Some m \<and> tbl db1 = t"
    by (rule update_lawD [OF laws ex g])
  have run': "(err, db') = (case n of None \<Rightarrow> (Some ErrWriteLabels, db1)
      | Some n \<Rightarrow> (if n = 0 then Some ErrOptimisticConcurrencyWriteFailed else None, db1))"
    using run ex by (simp add: updateRow_def Let_def split: option.splits)
  show ?thesis
  proof (cases "m = 1")
    case False
    with g have "m = 0 \<and> t = tbl db" by (auto simp: guarded_def split: option.splits if_splits)
    with law run' False show ?thesis by simp
  next
    case True
    with g obtain row' where "tbl db (c, h) = Some row'" "lr_version row' = ?v" "t = (tbl db)((c, h) \<mapsto> ?f row')"
      by (auto simp: guarded_def split: option.splits if_splits)
    with row have old: "tbl db (c, h) = Some row" and t: "t = (tbl db)((c, h) \<mapsto> ?f row)" by auto
    have "patched a r (Some row) (?f row)" by (rule patched_update [OF enum fin refl refl refl])
    then have "wrote c h a r (tbl db) t" unfolding wrote_def using old t by auto
    with law run' True show ?thesis by (auto split: if_splits)
  qed
qed

lemma updateLabels_effect:
  assumes laws: "table_laws lib tbl" and enum: "enumerates enum" and fin: "finite r"
    and others: "versioned (tbl db) (tbl (others db))" and some: "dom a \<noteq> {} \<or> r \<noteq> {}"
    and run: "updateLabels lib enum others c h a r db = (err, db')"
  shows "if err = None then wrote c h a r (tbl (others db)) (tbl db') else tbl db' = tbl (others db)"
proof (cases "tbl db (c, h)")
  have ne: "\<not> (dom a = {} \<and> r = {})" using some by blast
  case None
  then have "ll_Query lib db select_row_query [AStr c, AStr h] = Some []"
    by (simp add: select_lawD [OF laws])
  moreover obtain n db1 where ex: "ll_Exec lib (others db) insert_row_query [AStr h, AStr c, ALabels a, AKeys (getKeys enum r)] = (n, db1)"
    by (cases "ll_Exec lib (others db) insert_row_query [AStr h, AStr c, ALabels a, AKeys (getKeys enum r)]")
  ultimately have run': "(err, db') = (case n of None \<Rightarrow> (Some ErrWriteLabels, db1) | Some _ \<Rightarrow> (None, db1))"
    using run unfolding updateLabels_def if_not_P [OF ne] by (simp split: option.splits)
  have law: "case tbl (others db) (c, h) of Some row \<Rightarrow> n = None \<and> tbl db1 = tbl (others db)
      | None \<Rightarrow> n \<noteq> None \<and> tbl db1 = (tbl (others db))((c, h) \<mapsto> \<lparr> lr_labels = a, lr_deleted_label_keys = getKeys enum r, lr_version = 0 \<rparr>)"
    by (rule insert_lawD [OF laws ex])
  show ?thesis
  proof (cases "tbl (others db) (c, h)")
    case None
    with law run' patched_insert [OF enum fin] show ?thesis by (auto simp: wrote_def split: option.splits)
  next
    case (Some row)
    with law run' show ?thesis by (auto split: option.splits)
  qed
next
  have ne: "\<not> (dom a = {} \<and> r = {})" using some by blast
  case (Some row)
  then have "ll_Query lib db select_row_query [AStr c, AStr h] =
      Some [[ALabels (lr_labels row), AKeys (lr_deleted_label_keys row), AInt (lr_version row)]]"
    by (simp add: select_lawD [OF laws])
  then have run': "updateRow lib enum c h a (lr_labels row) r (set (lr_deleted_label_keys row)) (lr_version row) (others db) = (err, db')"
    using run unfolding updateLabels_def if_not_P [OF ne] by simp
  show ?thesis
    by (rule updateRow_effect [OF laws enum fin _ run']) (rule versionedD [OF others Some])
qed

section \<open>The retry loop beside other writers\<close>

definition others_step :: "('db \<Rightarrow> label_table) \<Rightarrow> (nat \<Rightarrow> ('db \<Rightarrow> 'db) \<times> ('db \<Rightarrow> 'db)) \<Rightarrow> label_table \<Rightarrow> label_table \<Rightarrow> bool" where
  "others_step tbl others t t' \<longleftrightarrow>
     (\<exists>n db. t = tbl db \<and> (t' = tbl (fst (others n) db) \<or> t' = tbl (snd (others n) db)))"

definition others_versioned :: "('db \<Rightarrow> label_table) \<Rightarrow> (nat \<Rightarrow> ('db \<Rightarrow> 'db) \<times> ('db \<Rightarrow> 'db)) \<Rightarrow> bool" where
  "others_versioned tbl others \<longleftrightarrow> (\<forall>n db. versioned (tbl db) (tbl (snd (others n) db)))"

lemma others_steps:
  "(others_step tbl others)\<^sup>*\<^sup>* (tbl db) (tbl (snd (others n) (fst (others n) db)))"
proof (rule rtranclp_trans)
  show "(others_step tbl others)\<^sup>*\<^sup>* (tbl db) (tbl (fst (others n) db))"
    by (rule r_into_rtranclp) (auto simp: others_step_def)
  show "(others_step tbl others)\<^sup>*\<^sup>* (tbl (fst (others n) db)) (tbl (snd (others n) (fst (others n) db)))"
    by (rule r_into_rtranclp) (auto simp: others_step_def)
qed

lemma retry_effect:
  assumes laws: "table_laws lib tbl" and enum: "enumerates enum" and fin: "finite r"
    and others: "others_versioned tbl others" and some: "dom a \<noteq> {} \<or> r \<noteq> {}"
  shows "retry_update lib enum others c h a r n err db = (err', db') \<Longrightarrow> n \<noteq> 0 \<or> err \<noteq> None \<Longrightarrow>
    (if err' = None then \<exists>t. (others_step tbl others)\<^sup>*\<^sup>* (tbl db) t \<and> wrote c h a r t (tbl db')
     else (others_step tbl others)\<^sup>*\<^sup>* (tbl db) (tbl db'))"
proof (induction n arbitrary: err db)
  case (Suc n)
  let ?f = "fst (others (Suc n))" and ?s = "snd (others (Suc n))"
  obtain e db1 where up: "updateLabels lib enum ?s c h a r (?f db) = (e, db1)"
    by (cases "updateLabels lib enum ?s c h a r (?f db)")
  have "versioned (tbl (?f db)) (tbl (?s (?f db)))" using others by (simp add: others_versioned_def)
  from updateLabels_effect [OF laws enum fin this some up]
  have eff: "if e = None then wrote c h a r (tbl (?s (?f db))) (tbl db1) else tbl db1 = tbl (?s (?f db))" .
  note steps = others_steps [of tbl others db "Suc n"]
  show ?case
  proof (cases e)
    case None
    with Suc.prems up have "err' = None" "db' = db1" by simp_all
    with eff None steps show ?thesis by auto
  next
    case (Some x)
    with Suc.prems up have "retry_update lib enum others c h a r n (Some x) db1 = (err', db')" by simp
    from Suc.IH [OF this] eff Some steps show ?thesis
      by (auto split: if_splits intro: rtranclp_trans)
  qed
qed (auto split: if_splits)

text \<open>Without other writers the first attempt succeeds, while the version column has room.\<close>

lemma updateLabels_alone:
  assumes laws: "table_laws lib tbl"
    and room: "\<And>row. tbl db (c, h) = Some row \<Longrightarrow> in_int64 (lr_version row + 1)"
  shows "fst (updateLabels lib enum (\<lambda>db. db) c h a r db) = None"
proof (cases "dom a = {} \<and> r = {}")
  case True
  then show ?thesis by (simp add: updateLabels_def)
next
  case ne: False
  show ?thesis
  proof (cases "tbl db (c, h)")
    case None
    then have "ll_Query lib db select_row_query [AStr c, AStr h] = Some []"
      by (simp add: select_lawD [OF laws])
    moreover obtain n db1 where ex: "ll_Exec lib db insert_row_query [AStr h, AStr c, ALabels a, AKeys (getKeys enum r)] = (n, db1)"
      by (cases "ll_Exec lib db insert_row_query [AStr h, AStr c, ALabels a, AKeys (getKeys enum r)]")
    moreover have "n \<noteq> None" using insert_lawD [OF laws ex] None by simp
    ultimately show ?thesis unfolding updateLabels_def if_not_P [OF ne] by auto
  next
    case (Some row)
    then have q: "ll_Query lib db select_row_query [AStr c, AStr h] =
        Some [[ALabels (lr_labels row), AKeys (lr_deleted_label_keys row), AInt (lr_version row)]]"
      by (simp add: select_lawD [OF laws])
    have "fst (updateRow lib enum c h a (lr_labels row) r R (lr_version row) db) = None" for R
    proof -
      let ?A = "(\<lambda>key. if key \<in> r then None else lr_labels row key) ++ a"
      let ?K = "getKeys enum ({key \<in> R. a key = None} \<union> r)"
      obtain n db1 where ex: "ll_Exec lib db update_row_query [ALabels ?A, AKeys ?K, AStr c, AStr h, AInt (lr_version row)] = (n, db1)"
        by (cases "ll_Exec lib db update_row_query [ALabels ?A, AKeys ?K, AStr c, AStr h, AInt (lr_version row)]")
      have "n = Some 1" using update_lawD [OF laws ex] room [OF Some] Some by (simp add: guarded_def)
      with ex show ?thesis by (simp add: updateRow_def Let_def)
    qed
    then show ?thesis unfolding updateLabels_def if_not_P [OF ne] q by simp
  qed
qed

end
