(* ===== verification/Cluster_List.thy ===== *)
theory Cluster_List
  imports Authorization_Filter Authentication Bundles
begin

text \<open>
  \<open>managedclusters/list.go\<close> and \<open>policies/list_status.go\<close>: listing and watching the managed clusters a user may
  see, and the compliance rows. A failed query leaves a result set without rows: \<open>query_rows\<close>. A row that
  cannot be scanned is \<^const>\<open>None\<close>.
\<close>

definition sqlQuery :: "rest_lib \<Rightarrow> string \<Rightarrow> string list \<Rightarrow> string \<Rightarrow> string option \<Rightarrow> string option" where
  "sqlQuery lib user groups authorizationURL authorizationCABundle =
     map_option (\<lambda>flt. ''SELECT payload FROM status.managed_clusters WHERE TRUE AND '' @ flt @
                   '' ORDER BY payload -> 'metadata' ->> 'name'' @ squote)
       (filterByAuthorization lib user groups authorizationURL authorizationCABundle)"

definition query_rows :: "'a option list option \<Rightarrow> 'a option list" where
  "query_rows r = (case r of None \<Rightarrow> [] | Some rows \<Rightarrow> rows)"

section \<open>Watching\<close>

datatype watch_event = ADDED k8s_object | DELETED string

text \<open>The loop over the rows: the names seen and the events sent.\<close>

fun watch_rows :: "k8s_object option list \<Rightarrow> string set \<Rightarrow> string set \<times> watch_event list" where
  "watch_rows [] added = (added, [])"
| "watch_rows (None # rows) added = watch_rows rows added"
| "watch_rows (Some cluster # rows) added =
     (let (added', events) = watch_rows rows (insert (obj_Name cluster) added) in (added', ADDED cluster # events))"

definition doHandleRowsForWatch ::
    "(string set \<Rightarrow> string list) \<Rightarrow> k8s_object option list option \<Rightarrow> string set \<Rightarrow> watch_event list \<times> string set" where
  "doHandleRowsForWatch enum result previouslyAdded =
     (let (added, events) = watch_rows (query_rows result) {};
          toDelete = enum (previouslyAdded - added);
          previously = foldl (\<lambda>s name. s - {name}) previouslyAdded toDelete;
          toAdd = enum (added - previously)
      in (events @ map DELETED toDelete, foldl (\<lambda>s name. insert name s) previously toAdd))"

text \<open>\<open>sendWatchEvent\<close>: two writes, the second only after the first succeeded; nothing when the event does not
  marshal. The writer is a function from its state and the bytes.\<close>

definition sendWatchEvent ::
    "(watch_event \<Rightarrow> string option) \<Rightarrow> ('w \<Rightarrow> string \<Rightarrow> bool \<times> 'w) \<Rightarrow> 'w \<Rightarrow> watch_event \<Rightarrow> 'w" where
  "sendWatchEvent marshal write w watchEvent =
     (case marshal watchEvent of
        None \<Rightarrow> w
      | Some json \<Rightarrow>
          (case write w json of
             (True, w') \<Rightarrow> w'
           | (False, w') \<Rightarrow> snd (write w' [CHR 0x0A])))"

text \<open>The ticks of one watch, each with the result of its query.\<close>

fun handleRowsForWatch ::
    "(string set \<Rightarrow> string list) \<Rightarrow> k8s_object option list option list \<Rightarrow> string set \<Rightarrow> watch_event list" where
  "handleRowsForWatch enum [] previouslyAdded = []"
| "handleRowsForWatch enum (result # results) previouslyAdded =
     (let (events, previously) = doHandleRowsForWatch enum result previouslyAdded
      in events @ handleRowsForWatch enum results previously)"

section \<open>Listing\<close>

definition shouldReturnAsTable :: "string \<Rightarrow> bool" where
  "shouldReturnAsTable accept =
     (\<exists>accepted \<in> set (split_on (CHR '','') accept). has_prefix accepted ''application/json;as=Table;v=v1;g=meta.k8s.io'')"

fun wrapInList :: "('a \<Rightarrow> 'u option) \<Rightarrow> 'a list \<Rightarrow> 'u list option" where
  "wrapInList convert [] = Some []"
| "wrapInList convert (cluster # clusters) = do {
     item \<leftarrow> convert cluster; items \<leftarrow> wrapInList convert clusters; Some (item # items) }"

datatype 't list_output = WroteInternalError500 | WroteClusters200 "k8s_object list" | WroteTable200 't

text \<open>The table convertor is outside the repository: \<open>newConvertor\<close> may fail, and so may its conversion.\<close>

definition handleRows ::
    "(k8s_object \<Rightarrow> 'u option) \<Rightarrow> ('u list \<Rightarrow> 't option) option \<Rightarrow> string \<Rightarrow> k8s_object option list option \<Rightarrow> 't list_output list" where
  "handleRows convert newConvertor accept result =
     (let errors = (if result = None then [WroteInternalError500] else []);
          managedClusters = List.map_filter id (query_rows result)
      in errors @
         (if shouldReturnAsTable accept then
            (case newConvertor of
               None \<Rightarrow> []
             | Some convertToTable \<Rightarrow>
                 (case wrapInList convert managedClusters of
                    None \<Rightarrow> []
                  | Some items \<Rightarrow> (case convertToTable items of None \<Rightarrow> [] | Some table \<Rightarrow> [WroteTable200 table])))
          else [WroteClusters200 managedClusters]))"

record policy_status_row =
  psr_PolicyId :: string
  psr_ClusterName :: string
  psr_LeafHubName :: string
  psr_ErrorInfo :: string
  psr_Compliance :: string

definition complianceQuerySql :: string where
  "complianceQuerySql = ''SELECT id, cluster_name, leaf_hub_name, error, compliance FROM status.compliance ORDER BY cluster_name''"

datatype policies_output = PoliciesError500 | WrotePolicies200 "policy_status_row list"

definition policies_handleRows :: "policy_status_row option list option \<Rightarrow> policies_output list" where
  "policies_handleRows result =
     (if result = None then [PoliciesError500] else []) @ [WrotePolicies200 (List.map_filter id (query_rows result))]"

section \<open>What a watcher knows\<close>

text \<open>The names a client has after reading events.\<close>

fun client_step :: "string set \<Rightarrow> watch_event \<Rightarrow> string set" where
  "client_step view (ADDED cluster) = insert (obj_Name cluster) view"
| "client_step view (DELETED name) = view - {name}"

definition client_view :: "string set \<Rightarrow> watch_event list \<Rightarrow> string set" where
  "client_view view events = foldl client_step view events"

definition listed :: "k8s_object option list option \<Rightarrow> string set" where
  "listed result = {obj_Name cluster | cluster. Some cluster \<in> set (query_rows result)}"

lemma watch_rows_spec:
  "watch_rows rows added = (added', events) \<Longrightarrow>
     added' = added \<union> {obj_Name c | c. Some c \<in> set rows} \<and>
     foldl client_step view events = view \<union> {obj_Name c | c. Some c \<in> set rows} \<and>
     (\<forall>ev \<in> set events. \<exists>c. ev = ADDED c \<and> Some c \<in> set rows)"
proof (induction rows added arbitrary: added' events view rule: watch_rows.induct)
  case (3 c rows added)
  obtain a es where r: "watch_rows rows (insert (obj_Name c) added) = (a, es)" by fastforce
  with "3.prems" have "added' = a" "events = ADDED c # es" by auto
  with "3.IH" [OF r, of "insert (obj_Name c) view"] show ?case by auto
qed auto

lemma foldl_remove: "foldl (\<lambda>s x. s - {x}) S xs = S - set xs"
  by (induction xs arbitrary: S) auto

lemma foldl_insert: "foldl (\<lambda>s x. insert x s) S xs = S \<union> set xs"
  by (induction xs arbitrary: S) auto

lemma foldl_deleted: "foldl client_step view (map DELETED xs) = view - set xs"
  by (induction xs arbitrary: view) auto

lemma finite_listed: "finite (listed result)"
proof -
  have "listed result \<subseteq> obj_Name ` the ` set (query_rows result)" by (force simp: listed_def)
  then show ?thesis by (rule finite_subset) simp
qed

lemma doHandleRowsForWatch_spec:
  assumes "enumerates enum" and "finite prev"
    and "doHandleRowsForWatch enum result prev = (events, prev')"
  shows "prev' = listed result" and "client_view prev events = listed result"
    and "\<And>name. DELETED name \<in> set events \<longleftrightarrow> name \<in> prev \<and> name \<notin> listed result"
proof -
  obtain added es where r: "watch_rows (query_rows result) {} = (added, es)" by fastforce
  note spec = watch_rows_spec [OF r, of prev]
  then have added: "added = listed result" and view: "foldl client_step prev es = prev \<union> listed result"
    by (auto simp: listed_def)
  have fin: "finite (prev - listed result)" "finite (listed result - (prev - (prev - listed result)))"
    using assms(2) finite_listed by auto
  have prev': "prev' = (prev - (prev - listed result)) \<union> (listed result - (prev - (prev - listed result)))"
    using assms(1,3) r fin by (simp add: doHandleRowsForWatch_def added foldl_remove foldl_insert Let_def)
  then show "prev' = listed result" by blast
  have events: "events = es @ map DELETED (enum (prev - listed result))"
    using assms(3) r by (simp add: doHandleRowsForWatch_def added Let_def)
  show "client_view prev events = listed result"
    using assms(1) fin(1) by (auto simp: client_view_def events view foldl_deleted)
  show "DELETED name \<in> set events \<longleftrightarrow> name \<in> prev \<and> name \<notin> listed result" for name
    using assms(1) fin(1) spec by (auto simp: events)
qed

lemma handleRowsForWatch_view:
  assumes "enumerates enum"
  shows "finite prev \<Longrightarrow> client_view prev (handleRowsForWatch enum results prev) =
           (if results = [] then prev else listed (last results))"
proof (induction results arbitrary: prev)
  case (Cons result results)
  obtain events prev' where r: "doHandleRowsForWatch enum result prev = (events, prev')" by fastforce
  note spec = doHandleRowsForWatch_spec [OF assms Cons.prems r]
  have "finite prev'" using spec(1) finite_listed by simp
  from Cons.IH [OF this] spec r show ?case by (auto simp: client_view_def)
qed (simp add: client_view_def)

end
