(* ===== verification/Rest_Api.thy ===== *)
theory Rest_Api
  imports Label_Patch Cluster_List
begin

text \<open>
  \<open>non_k8s_api.go\<close>: the certificates of the REST server, its routes behind the authentication middleware, and
  the handlers of the routes put together. Reading files and loading the key pair are arguments; listening on
  the socket is not modelled.
\<close>

record api_config =
  cfg_ClusterAPIURL :: string
  cfg_ClusterAPICABundlePath :: string
  cfg_AuthorizationURL :: string
  cfg_AuthorizationCABundlePath :: string
  cfg_ServerCertificatePath :: string
  cfg_ServerKeyPath :: string
  cfg_ServerBasePath :: string

datatype cert_error = ErrFailedToLoadCertificate string

text \<open>The bundles are declared again inside the conditionals, so the variables that are returned stay nil.\<close>

definition readCertificates ::
    "(string \<Rightarrow> string option) \<Rightarrow> (string \<Rightarrow> string \<Rightarrow> 'cert option) \<Rightarrow> api_config \<Rightarrow>
     cert_error + string option \<times> string option \<times> 'cert" where
  "readCertificates readFile loadKeyPair cfg =
     (let clusterAPICABundle = None; authorizationCABundle = None in
      if cfg_ClusterAPICABundlePath cfg \<noteq> [] \<and> readFile (cfg_ClusterAPICABundlePath cfg) = None
      then Inl (ErrFailedToLoadCertificate (cfg_ClusterAPICABundlePath cfg))
      else if cfg_AuthorizationCABundlePath cfg \<noteq> [] \<and> readFile (cfg_AuthorizationCABundlePath cfg) = None
      then Inl (ErrFailedToLoadCertificate (cfg_AuthorizationCABundlePath cfg))
      else (case loadKeyPair (cfg_ServerCertificatePath cfg) (cfg_ServerKeyPath cfg) of
              None \<Rightarrow> Inl (ErrFailedToLoadCertificate
                            (cfg_ServerCertificatePath cfg @ ''/'' @ cfg_ServerKeyPath cfg))
            | Some certificate \<Rightarrow> Inr (clusterAPICABundle, authorizationCABundle, certificate)))"

section \<open>The handlers\<close>

text \<open>\<open>List\<close>: \<open>queryAt n\<close> is the answer of the database to the n-th query of the request, and a watch ends after
  \<open>ticks\<close> of them.\<close>

datatype 't list_response = Watched "watch_event list" | Listed "'t list_output list"

definition List_handler ::
    "rest_lib \<Rightarrow> (nat \<Rightarrow> string \<Rightarrow> k8s_object option list option) \<Rightarrow> (string set \<Rightarrow> string list) \<Rightarrow>
     (k8s_object \<Rightarrow> 'u option) \<Rightarrow> ('u list \<Rightarrow> 't option) option \<Rightarrow> string \<Rightarrow> string option \<Rightarrow> nat option \<Rightarrow> string \<Rightarrow>
     gin_keys \<Rightarrow> 't list_response option" where
  "List_handler lib queryAt enum convert newConvertor authorizationURL authorizationCABundle watch accept keys = do {
     user \<leftarrow> get_user keys;
     groups \<leftarrow> get_groups keys;
     query \<leftarrow> sqlQuery lib user groups authorizationURL authorizationCABundle;
     Some (case watch of
        Some ticks \<Rightarrow> Watched (handleRowsForWatch enum (map (\<lambda>n. queryAt n query) [0..<ticks]) {})
      | None \<Rightarrow> Listed (handleRows convert newConvertor accept (queryAt 0 query))) }"

definition ListStatus ::
    "(string \<Rightarrow> policy_status_row option list option) \<Rightarrow> gin_keys \<Rightarrow> policies_output list option" where
  "ListStatus query keys = do {
     user \<leftarrow> get_user keys;
     groups \<leftarrow> get_groups keys;
     Some (policies_handleRows (query complianceQuerySql)) }"

section \<open>The server\<close>

datatype route =
    GetManagedClusters "nat option" string
  | PatchManagedCluster string string "patch list option"
  | GetPoliciesStatus

datatype 't api_response =
    ClustersResponse "'t list_response"
  | PatchResponse "patch_status list"
  | PoliciesResponse "policies_output list"

record ('db, 'u, 't) api_env =
  env_rest :: rest_lib
  env_labels :: "'db label_lib"
  env_count :: "'db \<Rightarrow> string \<Rightarrow> int option"
  env_clusters :: "'db \<Rightarrow> nat \<Rightarrow> string \<Rightarrow> k8s_object option list option"
  env_policies :: "'db \<Rightarrow> string \<Rightarrow> policy_status_row option list option"
  env_enum :: "string set \<Rightarrow> string list"
  env_others :: "nat \<Rightarrow> ('db \<Rightarrow> 'db) \<times> ('db \<Rightarrow> 'db)"
  env_convert :: "k8s_object \<Rightarrow> 'u option"
  env_table :: "('u list \<Rightarrow> 't option) option"

definition serve_route ::
    "('db, 'u, 't) api_env \<Rightarrow> string \<Rightarrow> string option \<Rightarrow> route \<Rightarrow> 'db \<Rightarrow> gin_keys \<Rightarrow> ('t api_response \<times> 'db) option" where
  "serve_route env authorizationURL authorizationCABundle rt db keys =
     (case rt of
        GetManagedClusters watch accept \<Rightarrow>
          map_option (\<lambda>r. (ClustersResponse r, db))
            (List_handler (env_rest env) (env_clusters env db) (env_enum env) (env_convert env) (env_table env)
               authorizationURL authorizationCABundle watch accept keys)
      | PatchManagedCluster cluster hubCluster body \<Rightarrow>
          map_option (\<lambda>(sts, db'). (PatchResponse sts, db'))
            (Patch (env_rest env) (env_count env) (env_labels env) (env_enum env) (env_others env)
               authorizationURL authorizationCABundle cluster hubCluster body keys db)
      | GetPoliciesStatus \<Rightarrow> map_option (\<lambda>r. (PoliciesResponse r, db)) (ListStatus (env_policies env db) keys))"

text \<open>One request to the server that \<open>AddNonK8sApiServer\<close> sets up: the middleware, then the route.\<close>

definition api_request ::
    "('db, 'u, 't) api_env \<Rightarrow> (string \<Rightarrow> string option) \<Rightarrow> (string \<Rightarrow> string \<Rightarrow> 'cert option) \<Rightarrow> api_config \<Rightarrow>
     string \<Rightarrow> route \<Rightarrow> 'db \<Rightarrow> cert_error + ('t api_response \<times> 'db) handled option" where
  "api_request env readFile loadKeyPair cfg authorizationHeader rt db =
     andThen (readCertificates readFile loadKeyPair cfg) (\<lambda>(clusterAPICABundle, authorizationCABundle, _).
       Inr (Authentication (env_rest env) (cfg_ClusterAPIURL cfg) clusterAPICABundle authorizationHeader
              (serve_route env (cfg_AuthorizationURL cfg) authorizationCABundle rt db)))"

section \<open>Conditions behind a conjunction\<close>

definition conj_prefix :: "sql_cond list \<Rightarrow> sql_cond list list \<Rightarrow> sql_cond list list" where
  "conj_prefix xs d = (xs @ hd d) # tl d"

lemma joined_append: "xs \<noteq> [] \<Longrightarrow> ys \<noteq> [] \<Longrightarrow> joined sep (xs @ ys) = joined sep xs @ sep @ joined sep ys"
proof (induction sep xs rule: joined.induct)
  case (2 sep x)
  then show ?case by (cases ys) auto
qed auto

lemma show_conj_prefix:
  assumes "xs \<noteq> []" and "d \<noteq> []" and "hd d \<noteq> []"
  shows "show_dnf (conj_prefix xs d) = joined '' AND '' (map show_cond xs) @ '' AND '' @ show_dnf d"
proof -
  from assms(2) obtain c cs where d: "d = c # cs" by (cases d) auto
  have "joined '' AND '' (map show_cond (xs @ c)) =
      joined '' AND '' (map show_cond xs) @ '' AND '' @ joined '' AND '' (map show_cond c)"
    using assms(1,3) d by (simp add: joined_append)
  then show ?thesis by (cases cs) (simp_all add: show_dnf_def conj_prefix_def d)
qed

lemma selects_conj_prefix:
  assumes "d \<noteq> []"
  shows "selects r (conj_prefix xs d) \<longleftrightarrow>
     (\<forall>x \<in> set xs. holds3 r x = Some True) \<and> (\<forall>x \<in> set (hd d). holds3 r x = Some True) \<or> selects r (tl d)"
  using assms by (auto simp: selects_iff conj_prefix_def)

lemma filter_cond_shape: "filter_cond qs \<noteq> []" "hd (filter_cond qs) \<noteq> []"
  by (auto simp: filter_cond_def hd_append hd_map)

text \<open>The WHERE clause of a listing starts with a conjunct that is true, so it selects what the filter selects.\<close>

lemma selects_true_prefix: "selects r (conj_prefix [CTrue] (filter_cond qs)) \<longleftrightarrow> selects r (filter_cond qs)"
proof -
  obtain c cs where "filter_cond qs = c # cs" using filter_cond_shape(1) by (cases "filter_cond qs") auto
  then show ?thesis by (simp add: selects_conj_prefix) (simp add: selects_iff)
qed

text \<open>The conjuncts of the authorization query of a patch.\<close>

definition is_cluster :: "string \<Rightarrow> string \<Rightarrow> sql_cond list" where
  "is_cluster c h = [Cmp (Path [''metadata'', ''name'']) (Lit c), Cmp (Column ''leaf_hub_name'') (Lit h)]"

lemma authorization_query_text:
  "authorization_query c h (show_dnf (filter_cond qs)) =
     ''SELECT COUNT(payload) from status.managed_clusters WHERE '' @ show_dnf (conj_prefix (is_cluster c h) (filter_cond qs))"
proof -
  have "is_cluster c h \<noteq> []" by (simp add: is_cluster_def)
  from show_conj_prefix [OF this filter_cond_shape] show ?thesis
    by (simp only:) (simp add: is_cluster_def authorization_query_def payloadField_def squote_def)
qed

lemma sqlQuery_text:
  assumes "filterByAuthorization lib user groups url ca = Some (show_dnf (filter_cond qs))"
  shows "sqlQuery lib user groups url ca =
     Some (''SELECT payload FROM status.managed_clusters WHERE '' @ show_dnf (conj_prefix [CTrue] (filter_cond qs)) @
           '' ORDER BY payload -> 'metadata' ->> 'name'' @ squote)"
  using assms filter_cond_shape [of qs] by (simp add: sqlQuery_def show_conj_prefix sqlTrue_def)

end
