(* ===== verification/Rest_Properties.thy ===== *)
theory Rest_Properties
  imports Rest_Api Sample_Order
begin

text \<open>
  The properties of the REST API. The witnesses run it on a small deployment: a policy agent that gives a fixed
  answer, and a labels table that is its own database.
\<close>

section \<open>A sample deployment\<close>

definition opa_ref :: "string \<Rightarrow> string list \<Rightarrow> json" where
  "opa_ref v ks = JObj [(''type'', JStr ''ref''),
     (''value'', JArr (JObj [(''type'', JStr ''var''), (''value'', JStr v)] #
        map (\<lambda>k. JObj [(''type'', JStr ''string''), (''value'', JStr k)]) ks))]"

definition opa_string :: "string \<Rightarrow> json" where
  "opa_string s = JObj [(''type'', JStr ''string''), (''value'', JStr s)]"

definition opa_label_is :: "string \<Rightarrow> string \<Rightarrow> json" where
  "opa_label_is k v = JObj [(''terms'', JArr
     [opa_ref ''eq'' [], opa_ref ''input'' [''cluster'', ''metadata'', ''labels'', k], opa_string v])]"

definition sample_agent :: "json list \<Rightarrow> rest_lib" where
  "sample_agent queries = \<lparr>
     rl_AppendCertsFromPEM = (\<lambda>_. True), rl_ValidRequest = (\<lambda>_. True),
     rl_Do = (\<lambda>_ _. Some \<lparr> resp_StatusCode = StatusOK, resp_Body = Some ''body'' \<rparr>),
     rl_MarshalCompileRequest = (\<lambda>_. Some ''request''),
     rl_UnmarshalCompileResponse = (\<lambda>_. Some (Some (JObj [(''queries'', JArr queries)]))),
     rl_UnmarshalUser = (\<lambda>_. Some \<lparr> user_Name = ''alice'', user_Groups = [] \<rparr>) \<rparr>"

lemma sample_agent_answer: "getPartialEvaluation (sample_agent queries) user groups url None =
    Inr (Some (JObj [(''queries'', JArr queries)]))"
  by (simp add: getPartialEvaluation_def sample_agent_def authz_createClient_def Let_def)

definition table_exec :: "label_table \<Rightarrow> string \<Rightarrow> label_arg list \<Rightarrow> nat option \<times> label_table" where
  "table_exec t query args =
     (case args of
        [ALabels ls, AKeys ks, AStr c, AStr h, AInt v] \<Rightarrow>
          (let (m, t') = guarded t (c, h) v (\<lambda>r. r\<lparr>lr_labels := ls, lr_deleted_label_keys := ks, lr_version := v + 1\<rparr>)
           in if m = 1 \<and> \<not> in_int64 (v + 1) then (None, t) else (Some m, t'))
      | [AStr h, AStr c, ALabels ls, AKeys ks] \<Rightarrow>
          (case t (c, h) of
             Some r \<Rightarrow> (None, t)
           | None \<Rightarrow> (Some 1, t((c, h) \<mapsto> \<lparr> lr_labels = ls, lr_deleted_label_keys = ks, lr_version = 0 \<rparr>)))
      | [AKeys ks, AInt v', AStr h, AStr c, AInt v] \<Rightarrow>
          (let (m, t') = guarded t (c, h) v (\<lambda>r. r\<lparr>lr_deleted_label_keys := ks, lr_version := v'\<rparr>) in (Some m, t'))
      | _ \<Rightarrow> (None, t))"

definition table_query :: "label_table \<Rightarrow> string \<Rightarrow> label_arg list \<Rightarrow> label_arg list list option" where
  "table_query t query args =
     (case args of
        [AStr c, AStr h] \<Rightarrow>
          Some (case t (c, h) of
             None \<Rightarrow> []
           | Some r \<Rightarrow> [[ALabels (lr_labels r), AKeys (lr_deleted_label_keys r), AInt (lr_version r)]])
      | _ \<Rightarrow> None)"

definition table_lib :: "label_table label_lib" where
  "table_lib = \<lparr> ll_Query = table_query, ll_Exec = table_exec \<rparr>"

lemma table_lib_laws: "table_laws table_lib (\<lambda>t. t)"
  unfolding table_laws_def
  by (intro conjI)
     (auto simp: select_law_def update_law_def insert_law_def trim_law_def table_lib_def table_query_def table_exec_def
        Let_def split: option.splits prod.splits)

section \<open>Who may see what\<close>


lemma label_query_shaped: "well_shaped [JArr [opa_label_is k v]]" "well_shaped [JArr [opa_label_is k v], JArr [opa_label_is k' v']]"
  by (simp_all add: well_shaped_def query_arrays_def List.map_filter_simps opa_label_is_def termsAttribute_def)


text \<open>\<^bold>\<open>C20\<close>. The filter fails closed: it is something else than FALSE only when the policy agent answered the
  request for this user with status 200, and the body decoded to a result with at least one query.\<close>

theorem filter_needs_an_answer:
  assumes "filterByAuthorization lib user groups url ca = Some flt" and "flt \<noteq> ''FALSE''"
  shows "\<exists>client request body m queries.
     rl_MarshalCompileRequest lib (compile_request_for user) = Some request \<and>
     rl_Do lib client \<lparr> hr_Method = ''POST'', hr_URL = url @ ''/v1/compile'',
         hr_Header = [(''Content-Type'', ''application/json'')], hr_Body = request \<rparr> =
       Some \<lparr> resp_StatusCode = 200, resp_Body = Some body \<rparr> \<and>
     rl_UnmarshalCompileResponse lib body = Some (Some (JObj m)) \<and>
     map_of m ''queries'' = Some (JArr queries) \<and> queries \<noteq> []"
proof -
  from assms obtain m queries where ev: "getPartialEvaluation lib user groups url ca = Inr (Some (JObj m))"
    and q: "map_of m ''queries'' = Some (JArr queries)" "queries \<noteq> []"
    by (auto simp: filterByAuthorization_def filter_of_response_def denyAll_def sqlFalse_def
        split: sum.splits option.splits json.splits if_splits)
  from getPartialEvaluation_Inr [OF ev] obtain request client body where
    "rl_MarshalCompileRequest lib (compile_request_for user) = Some request"
    "rl_Do lib client \<lparr> hr_Method = ''POST'', hr_URL = url @ ''/v1/compile'',
         hr_Header = [(''Content-Type'', ''application/json'')], hr_Body = request \<rparr> =
       Some \<lparr> resp_StatusCode = StatusOK, resp_Body = Some body \<rparr>"
    "rl_UnmarshalCompileResponse lib body = Some (Some (JObj m))" .
  with q show ?thesis unfolding StatusOK_def by blast
qed

theorem filter_needs_an_answer_witness:
  "\<exists>client request body m queries.
     rl_MarshalCompileRequest (sample_agent [JArr []]) (compile_request_for ''alice'') = Some request \<and>
     rl_Do (sample_agent [JArr []]) client \<lparr> hr_Method = ''POST'', hr_URL = ''http://opa'' @ ''/v1/compile'',
         hr_Header = [(''Content-Type'', ''application/json'')], hr_Body = request \<rparr> =
       Some \<lparr> resp_StatusCode = 200, resp_Body = Some body \<rparr> \<and>
     rl_UnmarshalCompileResponse (sample_agent [JArr []]) body = Some (Some (JObj m)) \<and>
     map_of m ''queries'' = Some (JArr queries) \<and> queries \<noteq> []"
proof (rule filter_needs_an_answer)
  show "filterByAuthorization (sample_agent [JArr []]) ''alice'' [] ''http://opa'' None = Some ''TRUE''"
    by (simp add: filterByAuthorization_def sample_agent_answer filter_of_response_def allowAll_def sqlTrue_def)
qed simp

text \<open>An expression that is not an object with a terms array makes the filter text close a parenthesis that
  was never opened, so that the query it ends up in is not valid SQL; the code means FALSE for such an
  expression.\<close>

theorem malformed_expression_text:
  assumes "getPartialEvaluation lib user groups url ca = Inr (Some (JObj m))"
    and "map_of m ''queries'' = Some (JArr [JArr [e]])" and "terms_of e = None"
  shows "filterByAuthorization lib user groups url ca = Some ''(FALSE) TRUE) OR FALSE''"
proof -
  have "handleExpression e = ''FALSE) ''"
    using assms(3) by (cases e) (auto simp: handleExpression_def sqlFalse_def split: option.splits json.splits)
  with assms(1,2) show ?thesis
    by (simp add: filterByAuthorization_def filter_of_response_def handleQuery_def sqlTrue_def sqlFalse_def)
qed

theorem malformed_expression_text_witness:
  "filterByAuthorization (sample_agent [JArr [JNull]]) ''alice'' [] ''http://opa'' None = Some ''(FALSE) TRUE) OR FALSE''"
  by (rule malformed_expression_text [OF sample_agent_answer, where e = JNull]) simp_all


definition sample_cluster :: "string \<Rightarrow> k8s_object" where
  "sample_cluster n = \<lparr> obj_Name = n, obj_Namespace = [], obj_UID = ''uid'', obj_ResourceVersion = ''1'',
     obj_Annotations = [], obj_content = [] \<rparr>"


definition sample_config :: api_config where
  "sample_config = \<lparr> cfg_ClusterAPIURL = ''https://api'', cfg_ClusterAPICABundlePath = ''/ca.crt'',
     cfg_AuthorizationURL = ''https://opa'', cfg_AuthorizationCABundlePath = ''/ca.crt'',
     cfg_ServerCertificatePath = ''/tls.crt'', cfg_ServerKeyPath = ''/tls.key'', cfg_ServerBasePath = ''/'' \<rparr>"


lemma sample_keys: "get_user [UserKey \<mapsto> CtxString u, GroupsKey \<mapsto> CtxStrings g] = Some u"
  "get_groups [UserKey \<mapsto> CtxString u, GroupsKey \<mapsto> CtxStrings g] = Some g"
  by (simp_all add: get_user_def get_groups_def MustGet_def UserKey_def GroupsKey_def)


section \<open>Patching labels\<close>

text \<open>\<^bold>\<open>C23\<close>. A patch request that reports no error has been applied once, whatever other versioned writers did
  between its reads and writes: there is a state of the table, reached from the initial one by the other writers
  alone, from which the final table differs in the row of this cluster only; the new row asks for the labels that
  the old row asked for (or for the given ones, when there was no row) with the operations of the request applied
  one after the other, as JSON Patch says, and its version is the next one.\<close>

theorem patch_applied_once:
  assumes "table_laws lib tbl" and "enumerates enum" and "others_versioned tbl others" and "ops \<noteq> []"
    and "Patch rlib countRow lib enum others url ca cluster hub (Some ops) keys db = Some (sts, db')"
    and "NotImplemented501 \<notin> set sts" and "InternalError500 \<notin> set sts"
  shows "\<exists>t new. (others_step tbl others)\<^sup>*\<^sup>* (tbl db) t \<and> tbl db' = t((cluster, hub) \<mapsto> new) \<and>
     (\<forall>m. apply_row new m =
        foldl apply_one (case t (cluster, hub) of None \<Rightarrow> m | Some old \<Rightarrow> apply_row old m) ops) \<and>
     lr_version new = (case t (cluster, hub) of None \<Rightarrow> 0 | Some old \<Rightarrow> lr_version old + 1) \<and>
     ((\<forall>old. t (cluster, hub) = Some old \<longrightarrow> consistent_row old) \<longrightarrow> consistent_row new)"
proof -
  from assms(5,6) obtain a r where lab: "getLabels ops = Inr (a, r)"
    by (cases "getLabels ops") (auto simp: Patch_def bind_Some_iff)
  obtain e db1 where retry: "retry_update lib enum others cluster hub a r optimisticConcurrencyRetryAttempts None db = (e, db1)"
    by fastforce
  with assms(5,7) lab have "e = None" "db1 = db'"
    by (auto simp: Patch_def bind_Some_iff Let_def split: option.splits)
  note props = getLabels_Inr [OF lab]
  have some: "dom a \<noteq> {} \<or> r \<noteq> {}"
    using patches_loop_touches [of ops Map.empty "{}" a r] lab assms(4) by (simp add: getLabels_def)
  from retry_effect [OF assms(1,2) props(2) assms(3) some retry] \<open>e = None\<close> \<open>db1 = db'\<close>
  obtain t new where "(others_step tbl others)\<^sup>*\<^sup>* (tbl db) t" and "tbl db' = t((cluster, hub) \<mapsto> new)"
    and "patched a r (t (cluster, hub)) new"
    by (auto simp: wrote_def optimisticConcurrencyRetryAttempts_def)
  with props show ?thesis
    unfolding patched_def by (intro exI [of _ t] exI [of _ new]) (auto split: option.splits)
qed

text \<open>The sample: another writer bumps the version of the row between the first read and the first write, so
  the first attempt fails and the second succeeds.\<close>

definition bump :: "label_table \<Rightarrow> label_table" where
  "bump t = (case t (''c1'', ''h1'') of
     None \<Rightarrow> t
   | Some r \<Rightarrow> t((''c1'', ''h1'') \<mapsto> r\<lparr>lr_labels := [''tier'' \<mapsto> ''gold''], lr_version := lr_version r + 1\<rparr>))"

definition sample_others :: "nat \<Rightarrow> (label_table \<Rightarrow> label_table) \<times> (label_table \<Rightarrow> label_table)" where
  "sample_others n = (\<lambda>t. t, if n = 5 then bump else (\<lambda>t. t))"

lemma sample_others_versioned: "others_versioned (\<lambda>t. t) sample_others"
  by (auto simp: others_versioned_def sample_others_def bump_def versioned_def split: option.splits)

definition sample_ops :: "patch list" where
  "sample_ops = [\<lparr> patch_Op = ''add'', patch_Path = ''/metadata/labels/app~1name'', patch_Value = ''web'' \<rparr>,
     \<lparr> patch_Op = ''remove'', patch_Path = ''/metadata/labels/env'', patch_Value = [] \<rparr>]"

definition sample_table :: label_table where
  "sample_table = [(''c1'', ''h1'') \<mapsto> \<lparr> lr_labels = [''env'' \<mapsto> ''dev''], lr_deleted_label_keys = [], lr_version = 3 \<rparr>]"

lemma sample_getLabels: "getLabels sample_ops = Inr ([''app/name'' \<mapsto> ''web''], {''env''})"
  by (simp add: getLabels_def sample_ops_def trim_prefix_def labels_prefix_def Let_def)

lemma sample_retry:
  "retry_update table_lib sample_enum sample_others ''c1'' ''h1'' [''app/name'' \<mapsto> ''web''] {''env''} 5 None sample_table =
     (None, [(''c1'', ''h1'') \<mapsto> \<lparr> lr_labels = [''tier'' \<mapsto> ''gold'', ''app/name'' \<mapsto> ''web''],
        lr_deleted_label_keys = [''env''], lr_version = 5 \<rparr>])"
  by (simp add: eval_nat_numeral updateLabels_def updateRow_def table_lib_def table_query_def table_exec_def
      sample_others_def sample_table_def bump_def guarded_def getKeys_def sample_enum_def in_int64_def Let_def fun_eq_iff)

lemma sample_keys_Patch:
  "Patch (sample_agent [JArr []]) (\<lambda>_ _. Some n) table_lib sample_enum sample_others ''https://opa'' None ''c1'' ''h1''
     (Some sample_ops) [UserKey \<mapsto> CtxString ''alice'', GroupsKey \<mapsto> CtxStrings []] sample_table =
   Some (if 0 < n then [] else [Forbidden403], [(''c1'', ''h1'') \<mapsto> \<lparr> lr_labels = [''tier'' \<mapsto> ''gold'', ''app/name'' \<mapsto> ''web''],
        lr_deleted_label_keys = [''env''], lr_version = 5 \<rparr>])"
  using sample_retry
  by (simp add: Patch_def sample_keys isAuthorized_def filterByAuthorization_def sample_agent_answer filter_of_response_def
      sample_getLabels optimisticConcurrencyRetryAttempts_def Let_def)

theorem patch_applied_once_witness:
  "\<exists>t db' new. (others_step (\<lambda>t. t) sample_others)\<^sup>*\<^sup>* sample_table t \<and> db' = t((''c1'', ''h1'') \<mapsto> new) \<and>
     Patch (sample_agent [JArr []]) (\<lambda>_ _. Some 1) table_lib sample_enum sample_others ''https://opa'' None ''c1'' ''h1''
       (Some sample_ops) [UserKey \<mapsto> CtxString ''alice'', GroupsKey \<mapsto> CtxStrings []] sample_table = Some ([], db') \<and>
     (\<forall>m. apply_row new m =
        foldl apply_one (case t (''c1'', ''h1'') of None \<Rightarrow> m | Some old \<Rightarrow> apply_row old m) sample_ops)"
proof -
  let ?db' = "[(''c1'', ''h1'') \<mapsto> \<lparr> lr_labels = [''tier'' \<mapsto> ''gold'', ''app/name'' \<mapsto> ''web''],
        lr_deleted_label_keys = [''env''], lr_version = 5 \<rparr>]"
  have run: "Patch (sample_agent [JArr []]) (\<lambda>_ _. Some 1) table_lib sample_enum sample_others ''https://opa'' None ''c1'' ''h1''
       (Some sample_ops) [UserKey \<mapsto> CtxString ''alice'', GroupsKey \<mapsto> CtxStrings []] sample_table = Some ([], ?db')"
    using sample_keys_Patch [of 1] by simp
  have "sample_ops \<noteq> []" by (simp add: sample_ops_def)
  from patch_applied_once [OF table_lib_laws sample_enum_enumerates sample_others_versioned this run] run
  show ?thesis by auto
qed

text \<open>\<^bold>\<open>C24\<close>. The answer of the authorization check does not matter for what a patch does: with any two answers the
  handler leaves the same state of the database behind, and the refusal is only written to the response.\<close>

theorem refused_patch_is_applied:
  assumes "Patch rlib (\<lambda>_ _. Some 1) lib enum others url ca cluster hub body keys db = Some (sts, db')"
  shows "Patch rlib (\<lambda>_ _. Some 0) lib enum others url ca cluster hub body keys db = Some (Forbidden403 # sts, db')"
  using assms
  by (auto simp: Patch_def isAuthorized_def bind_Some_iff Let_def
      split: option.splits sum.splits prod.splits)

theorem refused_patch_is_applied_witness:
  "\<exists>db'. db' \<noteq> sample_table \<and>
     Patch (sample_agent [JArr []]) (\<lambda>_ _. Some 0) table_lib sample_enum sample_others ''https://opa'' None ''c1'' ''h1''
       (Some sample_ops) [UserKey \<mapsto> CtxString ''alice'', GroupsKey \<mapsto> CtxStrings []] sample_table = Some ([Forbidden403], db')"
proof -
  have "Patch (sample_agent [JArr []]) (\<lambda>_ _. Some 1) table_lib sample_enum sample_others ''https://opa'' None ''c1'' ''h1''
       (Some sample_ops) [UserKey \<mapsto> CtxString ''alice'', GroupsKey \<mapsto> CtxStrings []] sample_table =
     Some ([], [(''c1'', ''h1'') \<mapsto> \<lparr> lr_labels = [''tier'' \<mapsto> ''gold'', ''app/name'' \<mapsto> ''web''],
        lr_deleted_label_keys = [''env''], lr_version = 5 \<rparr>])"
    using sample_keys_Patch [of 1] by simp
  from refused_patch_is_applied [OF this] show ?thesis
    by (intro exI conjI) (rule notI, drule fun_cong [of _ _ "(''c1'', ''h1'')"], simp_all add: sample_table_def)
qed

text \<open>\<^bold>\<open>C25\<close>. The authorization check of a patch puts the filter behind AND without parentheses: when the
  policy agent gives the non-empty queries q1 to qn and the database reads the text as SQL does, the check succeeds
  when the cluster is allowed by q1, and also when any row of the table is allowed by one of q2 to qn.\<close>

theorem patch_check_reads_any_row:
  assumes "filterByAuthorization rlib user groups url ca = Some (show_dnf (filter_cond (map JArr (q # qs))))"
    and "[] \<notin> set (q # qs)"
    and "countRow db (''SELECT COUNT(payload) from status.managed_clusters WHERE '' @
           show_dnf (conj_prefix (is_cluster cluster hub) (filter_cond (map JArr (q # qs))))) =
         Some (int (length (filter (\<lambda>row. selects row
           (conj_prefix (is_cluster cluster hub) (filter_cond (map JArr (q # qs))))) rows)))"
  shows "isAuthorized rlib countRow user groups url ca db cluster hub = Some (\<exists>row \<in> set rows.
           row_payload row [''metadata'', ''name''] = Some cluster \<and> row_column row ''leaf_hub_name'' = Some hub \<and>
             (\<forall>e \<in> set q. expr_holds row e)
           \<or> (\<exists>q' \<in> set qs. \<forall>e \<in> set q'. expr_holds row e))"
proof -
  have arrays: "query_arrays (map JArr xs) = xs" for xs
    by (induction xs) (simp_all add: query_arrays_def List.map_filter_simps)
  have shape: "filter_cond (map JArr (q # qs)) = [query_cond q] # map (\<lambda>q. [query_cond q]) qs @ [[CFalse]]"
  proof -
    have "filter (\<lambda>q. q \<noteq> []) (q # qs) = q # qs" using assms(2) by (intro filter_True) auto
    moreover have "map JArr (q # qs) \<noteq> [JArr []]" using assms(2) by auto
    ultimately show ?thesis by (simp only: filter_cond_def arrays) simp
  qed
  have sel: "selects row (conj_prefix (is_cluster cluster hub) (filter_cond (map JArr (q # qs)))) \<longleftrightarrow>
      row_payload row [''metadata'', ''name''] = Some cluster \<and> row_column row ''leaf_hub_name'' = Some hub \<and>
        (\<forall>e \<in> set q. expr_holds row e) \<or> (\<exists>q' \<in> set qs. \<forall>e \<in> set q'. expr_holds row e)" for row
    unfolding shape
    by (auto simp: conj_prefix_def holds3_query is_cluster_def eq3_def selects_iff split: option.splits)
  have "0 < length (filter (\<lambda>row. selects row (conj_prefix (is_cluster cluster hub) (filter_cond (map JArr (q # qs))))) rows) \<longleftrightarrow>
      (\<exists>row \<in> set rows. selects row (conj_prefix (is_cluster cluster hub) (filter_cond (map JArr (q # qs)))))"
    by (auto simp: filter_empty_conv)
  with assms(1,3) sel show ?thesis
    by (simp add: isAuthorized_def authorization_query_text)
qed

definition sample_row :: "string \<Rightarrow> string \<Rightarrow> row" where
  "sample_row name env = \<lparr>
     row_payload = (\<lambda>p. if p = [''metadata'', ''name''] then Some name
                        else if p = [''metadata'', ''labels'', ''env''] then Some env else None),
     row_column = (\<lambda>_. Some ''h1'') \<rparr>"

text \<open>The user may see clusters of the environments dev and test; c1 is in production, and c2 in test.\<close>

theorem patch_check_reads_any_row_witness:
  "\<exists>countRow. isAuthorized (sample_agent [JArr [opa_label_is ''env'' ''dev''], JArr [opa_label_is ''env'' ''test'']])
     countRow ''alice'' [] ''https://opa'' None sample_table ''c1'' ''h1'' = Some True \<and>
   \<not> allowed (sample_row ''c1'' ''prod'') [JArr [opa_label_is ''env'' ''dev''], JArr [opa_label_is ''env'' ''test'']]"
proof -
  let ?q = "\<lambda>e. [opa_label_is ''env'' e]"
  let ?qs = "map JArr [?q ''dev'', ?q ''test'']"
  let ?rows = "[sample_row ''c1'' ''prod'', sample_row ''c2'' ''test'']"
  let ?d = "conj_prefix (is_cluster ''c1'' ''h1'') (filter_cond ?qs)"
  let ?count = "\<lambda>_ _. Some (int (length (filter (\<lambda>row. selects row ?d) ?rows)))"
  have flt: "filterByAuthorization (sample_agent ?qs) ''alice'' [] ''https://opa'' None = Some (show_dnf (filter_cond ?qs))"
    using filter_text [of ?qs "[(''queries'', JArr ?qs)]"] label_query_shaped(2)
    by (simp add: filterByAuthorization_def sample_agent_answer)
  have holds: "expr_holds (sample_row n e) (opa_label_is ''env'' e') \<longleftrightarrow> e = e'" for n e e'
    by (simp add: expr_holds_def opa_label_is_def opa_ref_def opa_string_def termsAttribute_def termTypeRef_def
        termTypeString_def termTypeVar_def comparison_def ref_term_def inputVariable_def is_negated_def
        negatedAttribute_def sample_row_def)
  from patch_check_reads_any_row [OF flt, of ?count sample_table "''c1''" "''h1''" ?rows]
  have "isAuthorized (sample_agent ?qs) ?count ''alice'' [] ''https://opa'' None sample_table ''c1'' ''h1'' = Some True"
    by (simp add: holds)
  moreover have "\<not> allowed (sample_row ''c1'' ''prod'') ?qs"
    by (auto simp: allowed_def holds)
  ultimately show ?thesis by (intro exI conjI) simp_all
qed

section \<open>Watching and serving\<close>

text \<open>\<^bold>\<open>C26\<close>. After every tick of a watch the names that the client holds, adding on ADDED and removing on DELETED,
  are exactly the names in the result of the last query. This includes a query that failed, which leaves the
  client with no cluster.\<close>

theorem watch_follows_the_listing:
  assumes "enumerates enum" and "results \<noteq> []"
  shows "client_view {} (handleRowsForWatch enum results {}) = listed (last results) \<and>
         (last results = None \<longrightarrow> client_view {} (handleRowsForWatch enum results {}) = {})"
  using handleRowsForWatch_view [OF assms(1), of "{}" results] assms(2) by (simp add: listed_def query_rows_def)

theorem watch_follows_the_listing_witness:
  "client_view {} (handleRowsForWatch sample_enum
     [Some [Some (sample_cluster ''c1''), Some (sample_cluster ''c2'')], Some [None, Some (sample_cluster ''c2'')]] {}) = {''c2''}"
  using watch_follows_the_listing [OF sample_enum_enumerates, of "[Some [Some (sample_cluster ''c1''), Some (sample_cluster ''c2'')],
      Some [None, Some (sample_cluster ''c2'')]]"]
  by (auto simp: listed_def query_rows_def sample_cluster_def)

text \<open>The certificate bundles of the configuration are read but never used: when the server comes up, the
  clients for the user API and for the policy agent skip the verification of certificates.\<close>

theorem certificates_are_not_verified:
  assumes "readCertificates readFile loadKeyPair cfg = Inr (clusterBundle, authorizationBundle, certificate)"
  shows "auth_createClient lib clusterBundle = Some TLSInsecureSkipVerify \<and>
         authz_createClient lib authorizationBundle = Inr TLSInsecureSkipVerify"
  using assms
  by (auto simp: readCertificates_def Let_def auth_createClient_def authz_createClient_def split: if_splits option.splits)

theorem certificates_are_not_verified_witness:
  "\<exists>a b. readCertificates (\<lambda>_. Some ''pem'') (\<lambda>_ _. Some ''cert'') sample_config = Inr (a, b, ''cert'') \<and>
     auth_createClient (sample_agent []) a = Some TLSInsecureSkipVerify \<and>
     authz_createClient (sample_agent []) b = Inr TLSInsecureSkipVerify"
proof -
  have "readCertificates (\<lambda>_. Some ''pem'') (\<lambda>_ _. Some ''cert'') sample_config = Inr (None, None, ''cert'')"
    by (simp add: readCertificates_def sample_config_def)
  with certificates_are_not_verified [OF this, of "sample_agent []"] show ?thesis by blast
qed

end
