(* ===== verification/Spec_Properties.thy ===== *)
theory Spec_Properties
  imports Spec_Syncers Rest_Properties
begin

text \<open>
  The properties of the spec syncers: how often they run, what they deliver, and what the labels watcher does to the
  table that the REST API writes.
\<close>

section \<open>Intervals\<close>





section \<open>Delivery\<close>





definition sample_producer :: kafka_producer where
  "sample_producer = \<lparr> kp_topic = ''spec'', kp_compressor = CompressorNoOp \<rparr>"



definition sample_headers :: header_names where
  "sample_headers = \<lparr> hn_CompressionType = ''compression'', hn_DestinationHub = ''destination'' \<rparr>"





text \<open>\<^bold>\<open>C30\<close>. When a labels sync succeeds, it has handed over one message for each leaf hub of the rows that the
  database returned, addressed to that leaf hub, and the message carries all of the returned rows of the leaf
  hub in their order.\<close>

theorem labels_sync_messages:
  assumes "sl_QueryTime lib db0 (max_query table False) = ScannedTime t" and "previous < t"
    and "ll_Query llib db1 (updated_labels_query table (formatRFC3339 previous)) [] = Some (map label_values rows)"
    and "\<And>b. marshal b = Some (enc b)" and "enumerates enum"
  shows "\<exists>hubs. distinct hubs \<and> set hubs = fst ` set rows \<and>
     syncManagedClusterLabelsBundles log_send marshal formatTime formatRFC3339 lib llib enum key table db0 db1
         \<lparr> sy_transport = sent, sy_lastSyncTimestamp = previous \<rparr> =
       (Inr True, \<lparr> sy_transport = sent @ map (\<lambda>hub.
           \<lparr> sm_Destination = hub, sm_ID = key, sm_MsgType = ''SpecBundle'', sm_Version = formatTime t,
             sm_Payload = enc \<lparr> lb_Objects = map snd (filter (\<lambda>r. fst r = hub) rows), lb_LeafHubName = hub \<rparr> \<rparr>) hubs,
         sy_lastSyncTimestamp = t \<rparr>)"
proof -
  let ?hubs = "enum (dom (hub_bundles rows))"
  have hubs: "set ?hubs = fst ` set rows" "distinct ?hubs" using assms(5) by (simp_all add: dom_hub_bundles)
  have "send_labels log_send marshal formatTime key t (hub_bundles rows) ?hubs sent =
     (None, sent @ map (\<lambda>hub. \<lparr> sm_Destination = hub, sm_ID = key, sm_MsgType = ''SpecBundle'', sm_Version = formatTime t,
        sm_Payload = enc (the (hub_bundles rows hub)) \<rparr>) ?hubs)"
    using hubs(1) by (intro send_labels_log [OF assms(4)]) (simp add: dom_hub_bundles)
  moreover have "map (\<lambda>hub. \<lparr> sm_Destination = hub, sm_ID = key, sm_MsgType = ''SpecBundle'', sm_Version = formatTime t,
        sm_Payload = enc (the (hub_bundles rows hub)) \<rparr>) ?hubs =
      map (\<lambda>hub. \<lparr> sm_Destination = hub, sm_ID = key, sm_MsgType = ''SpecBundle'', sm_Version = formatTime t,
        sm_Payload = enc \<lparr> lb_Objects = map snd (filter (\<lambda>r. fst r = hub) rows), lb_LeafHubName = hub \<rparr> \<rparr>) ?hubs"
    using hubs(1) by (auto simp: hub_bundles_def)
  ultimately show ?thesis using hubs assms(1,2,3)
    by (intro exI [of _ ?hubs])
       (simp add: syncManagedClusterLabelsBundles_def GetLastUpdateTimestamp_def GetUpdatedManagedClusterLabelsBundles_def
          updated_labels_rows_spec)
qed

definition sample_labels_spec :: "string \<Rightarrow> labels_spec" where
  "sample_labels_spec c = \<lparr> ls_ClusterName = c, ls_Labels = Map.empty, ls_DeletedLabelKeys = [''env''],
     ls_UpdateTimestamp = 5, ls_Version = 1 \<rparr>"

definition sample_label_rows :: "(string \<times> labels_spec) list" where
  "sample_label_rows = [(''h1'', sample_labels_spec ''c1''), (''h2'', sample_labels_spec ''c2''), (''h1'', sample_labels_spec ''c3'')]"

definition sample_label_lib :: "unit label_lib" where
  "sample_label_lib = \<lparr> ll_Query = (\<lambda>_ _ _. Some (map label_values sample_label_rows)), ll_Exec = (\<lambda>db _ _. (None, db)) \<rparr>"

definition cluster_names :: "labels_bundle \<Rightarrow> string" where
  "cluster_names b = concat (map ls_ClusterName (lb_Objects b))"

theorem labels_sync_messages_witness:
  "\<exists>hubs. distinct hubs \<and> set hubs = {''h1'', ''h2''} \<and>
     syncManagedClusterLabelsBundles log_send (\<lambda>b. Some (cluster_names b)) (\<lambda>_. ''t'') (\<lambda>_. ''t'')
         \<lparr> sl_QueryTime = (\<lambda>_ _. ScannedTime 5), sl_QueryObjects = (\<lambda>_ _. None) \<rparr> sample_label_lib sample_enum
         ''ManagedClustersLabels'' ''managed_clusters_labels'' () () \<lparr> sy_transport = [], sy_lastSyncTimestamp = 0 \<rparr> =
       (Inr True, \<lparr> sy_transport = map (\<lambda>hub.
           \<lparr> sm_Destination = hub, sm_ID = ''ManagedClustersLabels'', sm_MsgType = ''SpecBundle'', sm_Version = ''t'',
             sm_Payload = if hub = ''h1'' then ''c1c3'' else ''c2'' \<rparr>) hubs, sy_lastSyncTimestamp = 5 \<rparr>)"
proof -
  let ?lib = "\<lparr> sl_QueryTime = (\<lambda>_ _. ScannedTime 5), sl_QueryObjects = (\<lambda>_ _. None) \<rparr> :: unit spec_lib"
  have t: "sl_QueryTime ?lib () (max_query ''managed_clusters_labels'' False) = ScannedTime 5" by simp
  have q: "ll_Query sample_label_lib () (updated_labels_query ''managed_clusters_labels'' ''t'') [] = Some (map label_values sample_label_rows)"
    by (simp add: sample_label_lib_def)
  from labels_sync_messages [OF t _ q _ sample_enum_enumerates, of 0 "\<lambda>b. Some (cluster_names b)" cluster_names
      "\<lambda>_. ''t''" "''ManagedClustersLabels''" "[]"]
  obtain hubs where h: "distinct hubs" "set hubs = {''h1'', ''h2''}" and
    run: "syncManagedClusterLabelsBundles log_send (\<lambda>b. Some (cluster_names b)) (\<lambda>_. ''t'') (\<lambda>_. ''t'') ?lib sample_label_lib
      sample_enum ''ManagedClustersLabels'' ''managed_clusters_labels'' () () \<lparr> sy_transport = [], sy_lastSyncTimestamp = 0 \<rparr> =
      (Inr True, \<lparr> sy_transport = map (\<lambda>hub.
           \<lparr> sm_Destination = hub, sm_ID = ''ManagedClustersLabels'', sm_MsgType = ''SpecBundle'', sm_Version = ''t'',
             sm_Payload = cluster_names \<lparr> lb_Objects = map snd (filter (\<lambda>r. fst r = hub) sample_label_rows), lb_LeafHubName = hub \<rparr> \<rparr>) hubs,
         sy_lastSyncTimestamp = 5 \<rparr>)"
    by (auto simp: sample_label_rows_def)
  have "cluster_names \<lparr> lb_Objects = map snd (filter (\<lambda>r. fst r = hub) sample_label_rows), lb_LeafHubName = hub \<rparr> =
      (if hub = ''h1'' then ''c1c3'' else ''c2'')" if "hub \<in> set hubs" for hub
    using that h(2) by (auto simp: cluster_names_def sample_label_rows_def sample_labels_spec_def)
  with run h show ?thesis by (intro exI [of _ hubs] conjI) (simp_all cong: map_cong)
qed

section \<open>The labels table\<close>

text \<open>\<^bold>\<open>C31\<close>. A trimming pass, with no other writer beside it, removes from every row with a leaf hub exactly the
  keys to delete that the cluster's status no longer has, and moves the version of the rows it changes; rows whose
  cluster has no status, rows without a leaf hub and rows with nothing to trim stay as they are. What a row asks
  for, applied to the labels that the cluster has, does not change. The pass reports success exactly when every
  row with keys to delete has a status.\<close>

theorem trimming_pass:
  assumes "table_laws lib tbl" and "status_law lib status" and "entries_law lib tbl db" and "enumerates enum"
    and "\<And>k r. tbl db k = Some r \<Longrightarrow> in_int64 (lr_version r + 1)"
    and "trimDeletedLabelsByStatus lib enum ''managed_clusters_labels'' ''managed_clusters'' db = (ok, db')"
  shows "tbl db' = (\<lambda>k. map_option (trimmed (snd k) (status k)) (tbl db k)) \<and>
     (\<forall>k m r r'. status k = Some m \<longrightarrow> tbl db k = Some r \<longrightarrow> tbl db' k = Some r' \<longrightarrow> apply_row r' m = apply_row r m) \<and>
     (ok \<longleftrightarrow> (\<forall>c h r. tbl db (c, h) = Some r \<and> h \<noteq> [] \<and> lr_deleted_label_keys r \<noteq> [] \<longrightarrow> status (c, h) \<noteq> None))"
proof -
  have run: "trimDeletedLabelsByStatus lib enum managedClusterLabelsSpecDBTableName managedClusterLabelsStatusDBTableName db = (ok, db')"
    using assms(6) by (simp add: managedClusterLabelsSpecDBTableName_def managedClusterLabelsStatusDBTableName_def)
  note pass = trim_pass [OF assms(1-5) run]
  then show ?thesis using trimmed_same_request by auto
qed

definition trim_table :: label_table where
  "trim_table = [(''c1'', ''h1'') \<mapsto> \<lparr> lr_labels = Map.empty, lr_deleted_label_keys = [''env'', ''tier''], lr_version = 3 \<rparr>]"

definition trim_lib :: "label_table label_lib" where
  "trim_lib = table_lib\<lparr>ll_Query := (\<lambda>t query args.
     if args = [] then Some [[AStr ''h1'', AStr ''c1'', AKeys [''env'', ''tier''], AInt 3]]
     else if query = labels_status_query managedClusterLabelsStatusDBTableName then Some [[ALabels [''env'' \<mapsto> ''dev'']]]
     else table_query t query args)\<rparr>"

lemma trim_lib_laws: "table_laws trim_lib (\<lambda>t. t)"
proof -
  have "select_row_query \<noteq> labels_status_query managedClusterLabelsStatusDBTableName"
    by (simp add: select_row_query_def labels_status_query_def)
  then have "select_law trim_lib (\<lambda>t. t)" by (auto simp: select_law_def trim_lib_def table_query_def)
  then show ?thesis using table_lib_laws
    by (simp add: table_laws_def update_law_def insert_law_def trim_law_def trim_lib_def)
qed

theorem trimming_pass_witness:
  "\<exists>db'. trimDeletedLabelsByStatus trim_lib sample_enum ''managed_clusters_labels'' ''managed_clusters'' trim_table = (True, db') \<and>
     db' (''c1'', ''h1'') = Some \<lparr> lr_labels = Map.empty, lr_deleted_label_keys = [''env''], lr_version = 4 \<rparr>"
proof -
  let ?status = "\<lambda>k :: string \<times> string. Some [''env'' \<mapsto> ''dev'']"
  have "status_law trim_lib ?status" by (simp add: status_law_def trim_lib_def)
  moreover have "entries_law trim_lib (\<lambda>t. t) trim_table"
    unfolding entries_law_def
    by (rule exI [of _ "[entry_of (''c1'', ''h1'') \<lparr> lr_labels = Map.empty, lr_deleted_label_keys = [''env'', ''tier''], lr_version = 3 \<rparr>]"])
       (auto simp: trim_lib_def entry_of_def entry_values_def trim_table_def)
  moreover have "in_int64 (lr_version r + 1)" if "trim_table k = Some r" for k r
    using that by (auto simp: trim_table_def in_int64_def split: if_splits)
  moreover obtain ok db' where run:
    "trimDeletedLabelsByStatus trim_lib sample_enum ''managed_clusters_labels'' ''managed_clusters'' trim_table = (ok, db')"
    by fastforce
  ultimately have "db' = (\<lambda>k. map_option (trimmed (snd k) (?status k)) (trim_table k)) \<and> ok"
    using trimming_pass [OF trim_lib_laws, of ?status trim_table sample_enum ok db'] sample_enum_enumerates by simp
  with run show ?thesis by (simp add: trim_table_def trimmed_def)
qed

text \<open>A trim that comes too late is refused: when the row is gone or has another version than the one that
  was read, the update reports the optimistic concurrency error and leaves the table as it is, so it cannot undo
  a patch that was written in between.\<close>

theorem stale_trim_is_refused:
  assumes "table_laws lib tbl" and "\<And>r. tbl db (cluster, hub) = Some r \<Longrightarrow> lr_version r \<noteq> readVersion"
    and "UpdateDeletedLabelKeys lib ''managed_clusters_labels'' readVersion hub cluster ks db = (err, db')"
  shows "err = Some ErrOptimisticConcurrencyUpdateFailed \<and> tbl db' = tbl db"
proof -
  obtain n db1 where ex: "ll_Exec lib db trim_keys_query [AKeys ks, AInt (wrap64 (readVersion + 1)), AStr hub, AStr cluster, AInt readVersion] = (n, db1)"
    by (cases "ll_Exec lib db trim_keys_query [AKeys ks, AInt (wrap64 (readVersion + 1)), AStr hub, AStr cluster, AInt readVersion]")
  from trim_lawD [OF assms(1) ex] assms(2) have "n = Some 0" "tbl db1 = tbl db"
    by (auto simp: guarded_def split: option.splits if_splits)
  with ex assms(3) show ?thesis by (simp add: UpdateDeletedLabelKeys_def trim_keys_query_def)
qed

theorem stale_trim_is_refused_witness:
  "fst (UpdateDeletedLabelKeys table_lib ''managed_clusters_labels'' 2 ''h1'' ''c1'' [] sample_table) =
     Some ErrOptimisticConcurrencyUpdateFailed"
proof -
  obtain err db' where run: "UpdateDeletedLabelKeys table_lib ''managed_clusters_labels'' 2 ''h1'' ''c1'' [] sample_table = (err, db')"
    by fastforce
  have "lr_version r \<noteq> 2" if "sample_table (''c1'', ''h1'') = Some r" for r
    using that by (auto simp: sample_table_def)
  from stale_trim_is_refused [OF table_lib_laws this run] run show ?thesis by simp
qed

section \<open>Message keys\<close>

text \<open>\<^bold>\<open>C33\<close>. Messages of different spec syncers, or of the labels syncer for different leaf hubs, never share a key of
  the broker, in either transport: the keys agree exactly when the syncer and the destination do.\<close>

theorem spec_messages_do_not_collide:
  assumes "s \<in> set addDBSyncerFunctions" and "s' \<in> set addDBSyncerFunctions"
    and "sm_ID m = sp_msgKey s" and "sm_ID m' = sp_msgKey s'"
  shows "(kr_key (kafka_record_of hn p m bytes) = kr_key (kafka_record_of hn p m' bytes') \<longleftrightarrow>
            sm_Destination m = sm_Destination m' \<and> s = s') \<and>
         (om_ObjectID (metadata_of impl m) = om_ObjectID (metadata_of impl m') \<longleftrightarrow>
            sm_Destination m = sm_Destination m' \<and> s = s')"
proof -
  have "sp_msgKey s = sp_msgKey s' \<longleftrightarrow> s = s'"
    using syncer_keys_distinct(1) assms(1,2) by (auto simp: distinct_map inj_on_def)
  moreover have "message_key (sm_Destination m) (sm_ID m) = message_key (sm_Destination m') (sm_ID m') \<longleftrightarrow>
      sm_Destination m = sm_Destination m' \<and> sm_ID m = sm_ID m'"
    using assms syncer_keys_no_dot by (intro message_key_inject) auto
  ultimately show ?thesis using assms(3,4) by (simp add: keys_agree)
qed

theorem spec_messages_do_not_collide_witness:
  "kr_key (kafka_record_of sample_headers sample_producer
      \<lparr> sm_Destination = ''hub.1'', sm_ID = ''Policies'', sm_MsgType = [], sm_Version = [], sm_Payload = [] \<rparr> []) \<noteq>
   kr_key (kafka_record_of sample_headers sample_producer
      \<lparr> sm_Destination = ''hub'', sm_ID = ''Policies'', sm_MsgType = [], sm_Version = [], sm_Payload = [] \<rparr> [])"
proof -
  have "AddPoliciesDBToTransportSyncer \<in> set addDBSyncerFunctions" "sp_msgKey AddPoliciesDBToTransportSyncer = ''Policies''"
    by (simp add: addDBSyncerFunctions_def, simp add: AddPoliciesDBToTransportSyncer_def)
  then show ?thesis
    using spec_messages_do_not_collide [of AddPoliciesDBToTransportSyncer AddPoliciesDBToTransportSyncer
      "\<lparr> sm_Destination = ''hub.1'', sm_ID = ''Policies'', sm_MsgType = [], sm_Version = [], sm_Payload = [] \<rparr>"
      "\<lparr> sm_Destination = ''hub'', sm_ID = ''Policies'', sm_MsgType = [], sm_Version = [], sm_Payload = [] \<rparr>"] by simp
qed

end
