(* ===== verification/K8s_Client.thy ===== *)
theory K8s_Client
  imports Hoh_Prelude
begin

text \<open>
  The Kubernetes client of \<open>controller-runtime\<close> as the reconcilers of \<open>src/pkg/specsyncer/spec2db\<close> and the
  syncers of \<open>src/pkg/statussyncer/db2status\<close> call it. The API server is outside the repository: its state is
  the type parameter \<open>'k\<close> and every call is a field of the record \<open>k8s_client\<close>. A call that reads or writes
  takes an object of the Go type it is about (\<open>'o\<close>).
\<close>

section \<open>The calls\<close>

text \<open>\<open>errors.IsNotFound\<close> tells the first error from all others.\<close>

datatype client_error = ErrNotFound | ErrClient

text \<open>\<open>Get\<close> fills the object it is given; \<open>Update\<close> sends an object and fills it with the server's reply;
  \<open>Patch\<close> sends the difference of an object (first) to an original (second), a JSON merge patch.\<close>

record ('k, 'o) k8s_client =
  kc_Get :: "'k \<Rightarrow> string \<times> string \<Rightarrow> 'o \<Rightarrow> client_error + 'o"
  kc_Update :: "'k \<Rightarrow> 'o \<Rightarrow> (client_error + 'o) \<times> 'k"
  kc_Create :: "'k \<Rightarrow> 'o \<Rightarrow> client_error option \<times> 'k"
  kc_Patch :: "'k \<Rightarrow> 'o \<Rightarrow> 'o \<Rightarrow> client_error option \<times> 'k"
  kc_StatusPatch :: "'k \<Rightarrow> 'o \<Rightarrow> 'o \<Rightarrow> client_error option \<times> 'k"

section \<open>What the calls are documented to do\<close>

text \<open>The objects of one type that the server holds, by name and namespace.\<close>

type_synonym 'o hub = "string \<times> string \<rightharpoonup> 'o"

text \<open>\<open>Get\<close> answers with the object the server holds, or that there is none, or fails otherwise.\<close>

definition get_law :: "('k, 'o) k8s_client \<Rightarrow> ('k \<Rightarrow> 'o hub) \<Rightarrow> 'o \<Rightarrow> bool" where
  "get_law client hub into \<longleftrightarrow>
     (\<forall>k key. case kc_Get client k key into of
        Inr o1 \<Rightarrow> hub k key = Some o1
      | Inl ErrNotFound \<Rightarrow> hub k key = None
      | Inl ErrClient \<Rightarrow> True)"

lemma get_lawD:
  assumes "get_law client hub into"
  shows "kc_Get client k key into = Inr o1 \<Longrightarrow> hub k key = Some o1"
    and "kc_Get client k key into = Inl ErrNotFound \<Longrightarrow> hub k key = None"
  using assms [unfolded get_law_def, rule_format, of k key] by auto

text \<open>The value of a field after a merge patch: a field that does not differ from the original is not part of the patch.\<close>

definition merge_field :: "'f \<Rightarrow> 'f \<Rightarrow> 'f \<Rightarrow> 'f" where
  "merge_field cur new original = (if new = original then cur else new)"

text \<open>A patch that is accepted changes the object under its key, field by field (which fields a patch can reach depends on
  the call); a patch that is refused, or of an object that is gone, changes nothing.\<close>

definition patch_law ::
  "('k \<Rightarrow> 'o \<Rightarrow> 'o \<Rightarrow> client_error option \<times> 'k) \<Rightarrow> ('k \<Rightarrow> 'o hub) \<Rightarrow> ('o \<Rightarrow> string \<times> string) \<Rightarrow> ('o \<Rightarrow> 'o \<Rightarrow> 'o \<Rightarrow> 'o) \<Rightarrow>
   bool" where
  "patch_law patch hub key_of merged \<longleftrightarrow>
     (\<forall>k new original e k'. patch k new original = (e, k') \<longrightarrow>
        (case e of
           None \<Rightarrow> \<exists>cur. hub k (key_of new) = Some cur \<and> hub k' = (hub k)(key_of new \<mapsto> merged cur new original)
         | Some ErrNotFound \<Rightarrow> hub k (key_of new) = None \<and> hub k' = hub k
         | Some ErrClient \<Rightarrow> hub k' = hub k))"

lemma patch_lawD:
  assumes "patch_law patch hub key_of merged" and "patch k new original = (e, k')"
  shows "e = None \<Longrightarrow> \<exists>cur. hub k (key_of new) = Some cur \<and> hub k' = (hub k)(key_of new \<mapsto> merged cur new original)"
    and "e = Some ErrNotFound \<Longrightarrow> hub k (key_of new) = None \<and> hub k' = hub k"
    and "e = Some ErrClient \<Longrightarrow> hub k' = hub k"
  using assms(1) [unfolded patch_law_def, rule_format, OF assms(2)] by auto

end
