(* ===== verification/Spec_Objects.thy ===== *)
theory Spec_Objects
  imports K8s_Client
begin

text \<open>
  The custom resources that \<open>src/pkg/specsyncer/spec2db/controller\<close> copies into the database, and what that
  package defines for each of them: how its status is cleaned and when two instances count as equal. A
  \<open>client.Object\<close> is the record \<open>spec_object\<close>: its metadata, and a body with one constructor per Go type, on which
  a type assertion is a case distinction. The resource types come from other repositories; their parts that the
  code only compares or erases are uninterpreted strings, with the empty string for Go's zero value.
\<close>

section \<open>Instances\<close>

datatype spec_body =
    PolicyCR (policy_Spec: string) (policy_PolicyTemplates: "string list") (policy_Status: string)
  | PlacementRuleCR (placementRule_Spec: string) (placementRule_Status: string)
  | PlacementBindingCR (binding_PlacementRef: string) (binding_Subjects: string) (binding_Status: string)
  | ConfigCR (config_Spec: string) (config_Status: string)
  | ApplicationCR (application_Spec: string) (application_Status: string)
  | SubscriptionCR (subscription_Spec: string) (subscription_Status: string)
  | ChannelCR (channel_Spec: string) (channel_Status: string)
  | ManagedClusterSetCR (clusterSet_Spec: string) (clusterSet_Status: string)
  | ManagedClusterSetBindingCR (setBinding_Spec: string)
  | PlacementCR (placement_Spec: string) (placement_Status: string)

record spec_object =
  so_Name :: string
  so_Namespace :: string
  so_UID :: string
  so_ResourceVersion :: string
  so_Generation :: int
  so_ClusterName :: string
  so_ManagedFields :: "string list"
  so_Finalizers :: "string list"
  so_OwnerReferences :: "string list"
  so_DeletionTimestamp :: "int option"
  so_Annotations :: "string \<rightharpoonup> string"
  so_Labels :: "string \<rightharpoonup> string"
  so_Body :: spec_body

text \<open>\<open>&T{}\<close>: an instance with every field at its zero value.\<close>

definition zero_instance :: "spec_body \<Rightarrow> spec_object" where
  "zero_instance body =
     \<lparr> so_Name = [], so_Namespace = [], so_UID = [], so_ResourceVersion = [], so_Generation = 0, so_ClusterName = [],
       so_ManagedFields = [], so_Finalizers = [], so_OwnerReferences = [], so_DeletionTimestamp = None,
       so_Annotations = Map.empty, so_Labels = Map.empty, so_Body = body \<rparr>"

section \<open>Cleaning the status\<close>

text \<open>Each function panics on an instance of another type.\<close>

definition cleanPolicyStatus :: "spec_object \<Rightarrow> spec_object option" where
  "cleanPolicyStatus instance =
     (case so_Body instance of
        PolicyCR s ts st \<Rightarrow> Some (instance\<lparr>so_Body := PolicyCR s ts []\<rparr>) | _ \<Rightarrow> None)"

definition cleanPlacementRuleStatus :: "spec_object \<Rightarrow> spec_object option" where
  "cleanPlacementRuleStatus instance =
     (case so_Body instance of
        PlacementRuleCR s st \<Rightarrow> Some (instance\<lparr>so_Body := PlacementRuleCR s []\<rparr>) | _ \<Rightarrow> None)"

definition cleanPlacementBindingStatus :: "spec_object \<Rightarrow> spec_object option" where
  "cleanPlacementBindingStatus instance =
     (case so_Body instance of
        PlacementBindingCR r s st \<Rightarrow> Some (instance\<lparr>so_Body := PlacementBindingCR r s []\<rparr>) | _ \<Rightarrow> None)"

definition cleanConfigStatus :: "spec_object \<Rightarrow> spec_object option" where
  "cleanConfigStatus instance =
     (case so_Body instance of
        ConfigCR s st \<Rightarrow> Some (instance\<lparr>so_Body := ConfigCR s []\<rparr>) | _ \<Rightarrow> None)"

definition cleanApplicationStatus :: "spec_object \<Rightarrow> spec_object option" where
  "cleanApplicationStatus instance =
     (case so_Body instance of
        ApplicationCR s st \<Rightarrow> Some (instance\<lparr>so_Body := ApplicationCR s []\<rparr>) | _ \<Rightarrow> None)"

definition cleanSubscriptionStatus :: "spec_object \<Rightarrow> spec_object option" where
  "cleanSubscriptionStatus instance =
     (case so_Body instance of
        SubscriptionCR s st \<Rightarrow> Some (instance\<lparr>so_Body := SubscriptionCR s []\<rparr>) | _ \<Rightarrow> None)"

definition cleanChannelStatus :: "spec_object \<Rightarrow> spec_object option" where
  "cleanChannelStatus instance =
     (case so_Body instance of
        ChannelCR s st \<Rightarrow> Some (instance\<lparr>so_Body := ChannelCR s []\<rparr>) | _ \<Rightarrow> None)"

definition cleanManagedClusterSetStatus :: "spec_object \<Rightarrow> spec_object option" where
  "cleanManagedClusterSetStatus instance =
     (case so_Body instance of
        ManagedClusterSetCR s st \<Rightarrow> Some (instance\<lparr>so_Body := ManagedClusterSetCR s []\<rparr>) | _ \<Rightarrow> None)"

definition cleanManagedClusterSetBindingsStatus :: "spec_object \<Rightarrow> spec_object option" where
  "cleanManagedClusterSetBindingsStatus instance =
     (case so_Body instance of ManagedClusterSetBindingCR s \<Rightarrow> Some instance | _ \<Rightarrow> None)"

definition cleanPlacementStatus :: "spec_object \<Rightarrow> spec_object option" where
  "cleanPlacementStatus instance =
     (case so_Body instance of
        PlacementCR s st \<Rightarrow> Some (instance\<lparr>so_Body := PlacementCR s []\<rparr>) | _ \<Rightarrow> None)"

section \<open>Comparing instances\<close>

text \<open>\<open>equality.Semantic.DeepEqual\<close> of the API machinery, on a part of a resource and on a string map, and
  \<open>CompareSpecAndAnnotation\<close> of the policy propagator.\<close>

record equality_lib =
  el_DeepEqual :: "string \<Rightarrow> string \<Rightarrow> bool"
  el_DeepEqualMap :: "(string \<rightharpoonup> string) \<Rightarrow> (string \<rightharpoonup> string) \<Rightarrow> bool"
  el_CompareSpecAndAnnotation :: "spec_object \<Rightarrow> spec_object \<Rightarrow> bool"

definition metadata_equal :: "equality_lib \<Rightarrow> spec_object \<Rightarrow> spec_object \<Rightarrow> bool" where
  "metadata_equal eq instance1 instance2 \<longleftrightarrow>
     el_DeepEqualMap eq (so_Annotations instance1) (so_Annotations instance2) \<and>
     el_DeepEqualMap eq (so_Labels instance1) (so_Labels instance2)"

definition withoutTemplates :: "spec_object \<Rightarrow> spec_object" where
  "withoutTemplates policy =
     (case so_Body policy of PolicyCR s ts st \<Rightarrow> policy\<lparr>so_Body := PolicyCR s [] st\<rparr> | _ \<Rightarrow> policy)"

definition arePoliciesEqual :: "equality_lib \<Rightarrow> spec_object \<Rightarrow> spec_object \<Rightarrow> bool" where
  "arePoliciesEqual eq instance1 instance2 =
     (if is_PolicyCR (so_Body instance1) \<and> is_PolicyCR (so_Body instance2)
      then let policy1WithoutTemplates = withoutTemplates instance1;
               policy2WithoutTemplates = withoutTemplates instance2;
               labelsMatch = el_DeepEqualMap eq (so_Labels instance1) (so_Labels instance2)
           in el_CompareSpecAndAnnotation eq policy1WithoutTemplates policy2WithoutTemplates \<and> labelsMatch
      else False)"

definition arePlacementRulesEqual :: "equality_lib \<Rightarrow> spec_object \<Rightarrow> spec_object \<Rightarrow> bool" where
  "arePlacementRulesEqual eq instance1 instance2 =
     (case (so_Body instance1, so_Body instance2) of
        (PlacementRuleCR s1 st1, PlacementRuleCR s2 st2) \<Rightarrow> el_DeepEqual eq s1 s2 \<and> metadata_equal eq instance1 instance2
      | _ \<Rightarrow> False)"

definition arePlacementBindingsEqual :: "equality_lib \<Rightarrow> spec_object \<Rightarrow> spec_object \<Rightarrow> bool" where
  "arePlacementBindingsEqual eq instance1 instance2 =
     (case (so_Body instance1, so_Body instance2) of
        (PlacementBindingCR r1 s1 st1, PlacementBindingCR r2 s2 st2) \<Rightarrow>
          el_DeepEqual eq r1 r2 \<and> el_DeepEqual eq s1 s2 \<and> metadata_equal eq instance1 instance2
      | _ \<Rightarrow> False)"

definition areConfigsEqual :: "equality_lib \<Rightarrow> spec_object \<Rightarrow> spec_object \<Rightarrow> bool" where
  "areConfigsEqual eq instance1 instance2 =
     (case (so_Body instance1, so_Body instance2) of
        (ConfigCR s1 st1, ConfigCR s2 st2) \<Rightarrow> el_DeepEqual eq s1 s2 \<and> metadata_equal eq instance1 instance2
      | _ \<Rightarrow> False)"

definition areApplicationsEqual :: "equality_lib \<Rightarrow> spec_object \<Rightarrow> spec_object \<Rightarrow> bool" where
  "areApplicationsEqual eq instance1 instance2 =
     (case (so_Body instance1, so_Body instance2) of
        (ApplicationCR s1 st1, ApplicationCR s2 st2) \<Rightarrow> el_DeepEqual eq s1 s2 \<and> metadata_equal eq instance1 instance2
      | _ \<Rightarrow> False)"

definition areSubscriptionsEqual :: "equality_lib \<Rightarrow> spec_object \<Rightarrow> spec_object \<Rightarrow> bool" where
  "areSubscriptionsEqual eq instance1 instance2 =
     (case (so_Body instance1, so_Body instance2) of
        (SubscriptionCR s1 st1, SubscriptionCR s2 st2) \<Rightarrow> el_DeepEqual eq s1 s2 \<and> metadata_equal eq instance1 instance2
      | _ \<Rightarrow> False)"

definition areChannelsEqual :: "equality_lib \<Rightarrow> spec_object \<Rightarrow> spec_object \<Rightarrow> bool" where
  "areChannelsEqual eq instance1 instance2 =
     (case (so_Body instance1, so_Body instance2) of
        (ChannelCR s1 st1, ChannelCR s2 st2) \<Rightarrow> el_DeepEqual eq s1 s2 \<and> metadata_equal eq instance1 instance2
      | _ \<Rightarrow> False)"

definition areManagedClusterSetsEqual :: "equality_lib \<Rightarrow> spec_object \<Rightarrow> spec_object \<Rightarrow> bool" where
  "areManagedClusterSetsEqual eq instance1 instance2 =
     (case (so_Body instance1, so_Body instance2) of
        (ManagedClusterSetCR s1 st1, ManagedClusterSetCR s2 st2) \<Rightarrow>
          el_DeepEqual eq s1 s2 \<and> metadata_equal eq instance1 instance2
      | _ \<Rightarrow> False)"

definition areManagedClusterSetBindingsEqual :: "equality_lib \<Rightarrow> spec_object \<Rightarrow> spec_object \<Rightarrow> bool" where
  "areManagedClusterSetBindingsEqual eq instance1 instance2 =
     (case (so_Body instance1, so_Body instance2) of
        (ManagedClusterSetBindingCR s1, ManagedClusterSetBindingCR s2) \<Rightarrow>
          el_DeepEqual eq s1 s2 \<and> metadata_equal eq instance1 instance2
      | _ \<Rightarrow> False)"

definition arePlacementsEqual :: "equality_lib \<Rightarrow> spec_object \<Rightarrow> spec_object \<Rightarrow> bool" where
  "arePlacementsEqual eq instance1 instance2 =
     (case (so_Body instance1, so_Body instance2) of
        (PlacementCR s1 st1, PlacementCR s2 st2) \<Rightarrow> el_DeepEqual eq s1 s2 \<and> metadata_equal eq instance1 instance2
      | _ \<Rightarrow> False)"

end
