(* ===== verification/Spec_Reconciler.thy ===== *)
theory Spec_Reconciler
  imports Spec_Objects
begin

text \<open>
  \<open>spec2db/controller/generic_spec_to_db_reconciler.go\<close>, the reads and writes of single spec objects of
  \<open>db2transport/db/postgresql/postgresql.go\<close> that it calls, the controllers of the ten resource types and
  \<open>spec2db/controllers.go\<close>. A run of \<open>Reconcile\<close> takes the states of the API server and of the database and
  returns them; \<^const>\<open>None\<close> is a panic.
\<close>

section \<open>Spec objects in the database\<close>

datatype row_scan = ScannedObject spec_object | RowMissing | RowFailed

datatype store_arg = TextArg string | ObjectArg spec_object

text \<open>\<open>QueryRow(..).Scan\<close> decodes the payload into an instance of the type it is given; \<open>Exec\<close> tells whether
  the statement was accepted.\<close>

record 'db store_lib =
  st_QueryRow :: "'db \<Rightarrow> string \<Rightarrow> string \<Rightarrow> spec_object \<Rightarrow> row_scan"
  st_Exec :: "'db \<Rightarrow> string \<Rightarrow> store_arg list \<Rightarrow> bool \<times> 'db"

definition select_spec_query :: "string \<Rightarrow> string" where
  "select_spec_query tableName = ''SELECT payload FROM spec.'' @ tableName @ '' WHERE id = $1''"

definition insert_spec_query :: "string \<Rightarrow> string" where
  "insert_spec_query tableName = ''INSERT INTO spec.'' @ tableName @ '' (id,payload) values($1, $2::jsonb)''"

definition update_spec_query :: "string \<Rightarrow> string" where
  "update_spec_query tableName = ''UPDATE spec.'' @ tableName @ '' SET payload = $1 WHERE id = $2''"

definition delete_spec_query :: "string \<Rightarrow> string" where
  "delete_spec_query tableName =
     ''UPDATE spec.'' @ tableName @ '' SET deleted = true WHERE payload -> 'metadata' ->> 'name' = $1 AND'' @
     newline_tabs 3 @ ''payload -> 'metadata' ->> 'namespace' = $2 AND deleted = false''"

definition delete_cluster_scoped_query :: "string \<Rightarrow> string" where
  "delete_cluster_scoped_query tableName =
     ''UPDATE spec.'' @ tableName @ '' SET deleted = true WHERE payload -> 'metadata' ->> 'name' = $1 AND'' @
     newline_tabs 3 @ ''payload -> 'metadata' ->> 'namespace' IS NULL AND deleted = false''"

definition QuerySpecObject :: "'db store_lib \<Rightarrow> 'db \<Rightarrow> string \<Rightarrow> string \<Rightarrow> spec_object \<Rightarrow> row_scan" where
  "QuerySpecObject lib db tableName objUID object = st_QueryRow lib db (select_spec_query tableName) objUID object"

definition InsertSpecObject :: "'db store_lib \<Rightarrow> 'db \<Rightarrow> string \<Rightarrow> string \<Rightarrow> spec_object \<Rightarrow> bool \<times> 'db" where
  "InsertSpecObject lib db tableName objUID object =
     st_Exec lib db (insert_spec_query tableName) [TextArg objUID, ObjectArg object]"

definition UpdateSpecObject :: "'db store_lib \<Rightarrow> 'db \<Rightarrow> string \<Rightarrow> string \<Rightarrow> spec_object \<Rightarrow> bool \<times> 'db" where
  "UpdateSpecObject lib db tableName objUID object =
     st_Exec lib db (update_spec_query tableName) [ObjectArg object, TextArg objUID]"

definition DeleteSpecObject :: "'db store_lib \<Rightarrow> 'db \<Rightarrow> string \<Rightarrow> string \<Rightarrow> string \<Rightarrow> bool \<times> 'db" where
  "DeleteSpecObject lib db tableName name namespace =
     (if namespace \<noteq> [] then st_Exec lib db (delete_spec_query tableName) [TextArg name, TextArg namespace]
      else st_Exec lib db (delete_cluster_scoped_query tableName) [TextArg name])"

section \<open>The reconciler\<close>

text \<open>\<open>controllerutil\<close>'s functions on the list of finalizers.\<close>

record finalizer_lib =
  fl_ContainsFinalizer :: "string list \<Rightarrow> string \<Rightarrow> bool"
  fl_AddFinalizer :: "string list \<Rightarrow> string \<Rightarrow> string list"
  fl_RemoveFinalizer :: "string list \<Rightarrow> string \<Rightarrow> string list"

record ('k, 'db) reconciler_env =
  re_client :: "('k, spec_object) k8s_client"
  re_specDB :: "'db store_lib"
  re_finalizers :: finalizer_lib

record genericSpecToDBReconciler =
  gr_tableName :: string
  gr_finalizerName :: string
  gr_createInstance :: spec_object
  gr_cleanStatus :: "spec_object \<Rightarrow> spec_object option"
  gr_areEqual :: "spec_object \<Rightarrow> spec_object \<Rightarrow> bool"

definition spec_requeuePeriodSeconds :: nat where "spec_requeuePeriodSeconds = 5"

definition hohCleanupFinalizer :: string where
  "hohCleanupFinalizer = ''hub-of-hubs.open-cluster-management.io/resource-cleanup''"

datatype reconcile_error =
  ErrGetInstance | ErrDeleteRows | ErrRemoveFinalizer | ErrAddFinalizer | ErrQueryRow | ErrInsertRow | ErrUpdateRow

text \<open>\<open>ctrl.Result\<close>: empty, or requeue after a number of seconds.\<close>

datatype ctrl_result = EmptyResult | RequeueAfter nat

definition isInstanceBeingDeleted :: "spec_object \<Rightarrow> bool" where
  "isInstanceBeingDeleted instance \<longleftrightarrow> so_DeletionTimestamp instance \<noteq> None"

definition deleteFromTheDatabase ::
  "('k, 'db) reconciler_env \<Rightarrow> genericSpecToDBReconciler \<Rightarrow> string \<Rightarrow> string \<Rightarrow> 'db \<Rightarrow> reconcile_error option \<times> 'db" where
  "deleteFromTheDatabase env r name namespace db =
     (case DeleteSpecObject (re_specDB env) db (gr_tableName r) name namespace of
        (ok, db') \<Rightarrow> (if ok then None else Some ErrDeleteRows, db'))"

definition removeFinalizerAndDelete ::
  "('k, 'db) reconciler_env \<Rightarrow> genericSpecToDBReconciler \<Rightarrow> spec_object \<Rightarrow> 'k \<Rightarrow> 'db \<Rightarrow>
   reconcile_error option \<times> 'k \<times> 'db" where
  "removeFinalizerAndDelete env r instance k db =
     (if \<not> fl_ContainsFinalizer (re_finalizers env) (so_Finalizers instance) (gr_finalizerName r) then (None, k, db)
      else case deleteFromTheDatabase env r (so_Name instance) (so_Namespace instance) db of
        (Some e, db') \<Rightarrow> (Some e, k, db')
      | (None, db') \<Rightarrow>
          (case kc_Update (re_client env) k (instance\<lparr>so_Finalizers :=
                  fl_RemoveFinalizer (re_finalizers env) (so_Finalizers instance) (gr_finalizerName r)\<rparr>) of
             (Inl _, k') \<Rightarrow> (Some ErrRemoveFinalizer, k', db')
           | (Inr _, k') \<Rightarrow> (None, k', db')))"

text \<open>The update fills the instance with the server's reply; a refused one leaves it as it was sent.\<close>

definition addFinalizer ::
  "('k, 'db) reconciler_env \<Rightarrow> genericSpecToDBReconciler \<Rightarrow> spec_object \<Rightarrow> 'k \<Rightarrow> reconcile_error option \<times> spec_object \<times> 'k" where
  "addFinalizer env r instance k =
     (if fl_ContainsFinalizer (re_finalizers env) (so_Finalizers instance) (gr_finalizerName r) then (None, instance, k)
      else let instance1 = instance\<lparr>so_Finalizers :=
                 fl_AddFinalizer (re_finalizers env) (so_Finalizers instance) (gr_finalizerName r)\<rparr>
           in case kc_Update (re_client env) k instance1 of
                (Inl _, k') \<Rightarrow> (Some ErrAddFinalizer, instance1, k')
              | (Inr reply, k') \<Rightarrow> (None, reply, k'))"

definition lastAppliedAnnotation :: string where
  "lastAppliedAnnotation = ''kubectl.kubernetes.io/last-applied-configuration''"

definition cleanInstance :: "genericSpecToDBReconciler \<Rightarrow> spec_object \<Rightarrow> spec_object option" where
  "cleanInstance r instance =
     gr_cleanStatus r (instance\<lparr>so_UID := [], so_ResourceVersion := [], so_ManagedFields := [], so_Finalizers := [],
       so_Generation := 0, so_OwnerReferences := [], so_ClusterName := [],
       so_Annotations := (so_Annotations instance)(lastAppliedAnnotation := None)\<rparr>)"

text \<open>The UID and the cleaned instance, if there is one to store, and the error.\<close>

definition processCR ::
  "('k, 'db) reconciler_env \<Rightarrow> genericSpecToDBReconciler \<Rightarrow> string \<times> string \<Rightarrow> 'k \<Rightarrow> 'db \<Rightarrow>
   ((string \<times> spec_object option \<times> reconcile_error option) \<times> 'k \<times> 'db) option" where
  "processCR env r request k db =
     (case kc_Get (re_client env) k request (gr_createInstance r) of
        Inl ErrNotFound \<Rightarrow>
          (case deleteFromTheDatabase env r (fst request) (snd request) db of
             (e, db') \<Rightarrow> Some (([], None, e), k, db'))
      | Inl ErrClient \<Rightarrow> Some (([], None, Some ErrGetInstance), k, db)
      | Inr instance \<Rightarrow>
          (if isInstanceBeingDeleted instance
           then case removeFinalizerAndDelete env r instance k db of
                  (e, k', db') \<Rightarrow> Some (([], None, e), k', db')
           else case addFinalizer env r instance k of
                  (e, instance1, k') \<Rightarrow> do {
                    cleaned \<leftarrow> cleanInstance r instance1;
                    Some ((so_UID instance1, Some cleaned, e), k', db) }))"

definition processInstanceInTheDatabase ::
  "('k, 'db) reconciler_env \<Rightarrow> genericSpecToDBReconciler \<Rightarrow> spec_object \<Rightarrow> string \<Rightarrow> 'db \<Rightarrow> (reconcile_error + spec_object) \<times> 'db" where
  "processInstanceInTheDatabase env r instance instanceUID db =
     (case QuerySpecObject (re_specDB env) db (gr_tableName r) instanceUID (gr_createInstance r) of
        RowMissing \<Rightarrow>
          (case InsertSpecObject (re_specDB env) db (gr_tableName r) instanceUID instance of
             (ok, db') \<Rightarrow> (if ok then Inr instance else Inl ErrInsertRow, db'))
      | RowFailed \<Rightarrow> (Inl ErrQueryRow, db)
      | ScannedObject instanceInTheDatabase \<Rightarrow> (Inr instanceInTheDatabase, db))"

definition Reconcile ::
  "('k, 'db) reconciler_env \<Rightarrow> genericSpecToDBReconciler \<Rightarrow> string \<times> string \<Rightarrow> 'k \<Rightarrow> 'db \<Rightarrow>
   ((ctrl_result \<times> reconcile_error option) \<times> 'k \<times> 'db) option" where
  "Reconcile env r request k db = do {
     ((instanceUID, inst, err), k1, db1) \<leftarrow> processCR env r request k db;
     (case err of
        Some e \<Rightarrow> Some ((RequeueAfter spec_requeuePeriodSeconds, Some e), k1, db1)
      | None \<Rightarrow>
          (case inst of
             None \<Rightarrow> Some ((EmptyResult, None), k1, db1)
           | Some instance \<Rightarrow>
               (case processInstanceInTheDatabase env r instance instanceUID db1 of
                  (Inl e, db2) \<Rightarrow> Some ((RequeueAfter spec_requeuePeriodSeconds, Some e), k1, db2)
                | (Inr instanceInTheDatabase, db2) \<Rightarrow>
                    (if \<not> gr_areEqual r instance instanceInTheDatabase
                     then case UpdateSpecObject (re_specDB env) db2 (gr_tableName r) instanceUID instance of
                            (ok, db3) \<Rightarrow> Some ((EmptyResult, if ok then None else Some ErrUpdateRow), k1, db3)
                     else Some ((EmptyResult, None), k1, db2))))) }"

section \<open>The controllers\<close>

text \<open>The event filter of a controller: the selector of objects without a label, or a condition on the namespace.\<close>

datatype event_filter = AllObjects | LabelDoesNotExist string | NamespaceIs string | NamespaceIsNot string

record spec_controller =
  sc_EventFilter :: event_filter
  sc_Reconciler :: genericSpecToDBReconciler

fun passes_filter :: "event_filter \<Rightarrow> spec_object \<Rightarrow> bool" where
  "passes_filter AllObjects object = True"
| "passes_filter (LabelDoesNotExist key) object = (so_Labels object key = None)"
| "passes_filter (NamespaceIs namespace) object = (so_Namespace object = namespace)"
| "passes_filter (NamespaceIsNot namespace) object = (so_Namespace object \<noteq> namespace)"

definition HubOfHubsLocalResource :: string where
  "HubOfHubsLocalResource = ''hub-of-hubs.open-cluster-management.io/local-resource''"

definition hohSystemNamespace :: string where "hohSystemNamespace = ''hoh-system''"

definition AddPolicyController :: "equality_lib \<Rightarrow> spec_controller" where
  "AddPolicyController eq = \<lparr> sc_EventFilter = LabelDoesNotExist HubOfHubsLocalResource,
     sc_Reconciler = \<lparr> gr_tableName = ''policies'', gr_finalizerName = hohCleanupFinalizer,
       gr_createInstance = zero_instance (PolicyCR [] [] []), gr_cleanStatus = cleanPolicyStatus,
       gr_areEqual = arePoliciesEqual eq \<rparr> \<rparr>"

definition AddPlacementRuleController :: "equality_lib \<Rightarrow> spec_controller" where
  "AddPlacementRuleController eq = \<lparr> sc_EventFilter = LabelDoesNotExist HubOfHubsLocalResource,
     sc_Reconciler = \<lparr> gr_tableName = ''placementrules'', gr_finalizerName = hohCleanupFinalizer,
       gr_createInstance = zero_instance (PlacementRuleCR [] []), gr_cleanStatus = cleanPlacementRuleStatus,
       gr_areEqual = arePlacementRulesEqual eq \<rparr> \<rparr>"

definition AddPlacementBindingController :: "equality_lib \<Rightarrow> spec_controller" where
  "AddPlacementBindingController eq = \<lparr> sc_EventFilter = LabelDoesNotExist HubOfHubsLocalResource,
     sc_Reconciler = \<lparr> gr_tableName = ''placementbindings'', gr_finalizerName = hohCleanupFinalizer,
       gr_createInstance = zero_instance (PlacementBindingCR [] [] []), gr_cleanStatus = cleanPlacementBindingStatus,
       gr_areEqual = arePlacementBindingsEqual eq \<rparr> \<rparr>"

definition AddHubOfHubsConfigController :: "equality_lib \<Rightarrow> spec_controller" where
  "AddHubOfHubsConfigController eq = \<lparr> sc_EventFilter = NamespaceIs hohSystemNamespace,
     sc_Reconciler = \<lparr> gr_tableName = ''configs'', gr_finalizerName = hohCleanupFinalizer,
       gr_createInstance = zero_instance (ConfigCR [] []), gr_cleanStatus = cleanConfigStatus,
       gr_areEqual = areConfigsEqual eq \<rparr> \<rparr>"

definition AddApplicationController :: "equality_lib \<Rightarrow> spec_controller" where
  "AddApplicationController eq = \<lparr> sc_EventFilter = AllObjects,
     sc_Reconciler = \<lparr> gr_tableName = ''applications'', gr_finalizerName = hohCleanupFinalizer,
       gr_createInstance = zero_instance (ApplicationCR [] []), gr_cleanStatus = cleanApplicationStatus,
       gr_areEqual = areApplicationsEqual eq \<rparr> \<rparr>"

definition AddSubscriptionController :: "equality_lib \<Rightarrow> spec_controller" where
  "AddSubscriptionController eq = \<lparr> sc_EventFilter = NamespaceIsNot ''open-cluster-management'',
     sc_Reconciler = \<lparr> gr_tableName = ''subscriptions'', gr_finalizerName = hohCleanupFinalizer,
       gr_createInstance = zero_instance (SubscriptionCR [] []), gr_cleanStatus = cleanSubscriptionStatus,
       gr_areEqual = areSubscriptionsEqual eq \<rparr> \<rparr>"

definition AddChannelController :: "equality_lib \<Rightarrow> spec_controller" where
  "AddChannelController eq = \<lparr> sc_EventFilter = NamespaceIsNot ''open-cluster-management'',
     sc_Reconciler = \<lparr> gr_tableName = ''channels'', gr_finalizerName = hohCleanupFinalizer,
       gr_createInstance = zero_instance (ChannelCR [] []), gr_cleanStatus = cleanChannelStatus,
       gr_areEqual = areChannelsEqual eq \<rparr> \<rparr>"

definition AddManagedClusterSetController :: "equality_lib \<Rightarrow> spec_controller" where
  "AddManagedClusterSetController eq = \<lparr> sc_EventFilter = AllObjects,
     sc_Reconciler = \<lparr> gr_tableName = ''managedclustersets'', gr_finalizerName = hohCleanupFinalizer,
       gr_createInstance = zero_instance (ManagedClusterSetCR [] []), gr_cleanStatus = cleanManagedClusterSetStatus,
       gr_areEqual = areManagedClusterSetsEqual eq \<rparr> \<rparr>"

definition AddManagedClusterSetBindingController :: "equality_lib \<Rightarrow> spec_controller" where
  "AddManagedClusterSetBindingController eq = \<lparr> sc_EventFilter = AllObjects,
     sc_Reconciler = \<lparr> gr_tableName = ''managedclustersetbindings'', gr_finalizerName = hohCleanupFinalizer,
       gr_createInstance = zero_instance (ManagedClusterSetBindingCR []), gr_cleanStatus = cleanManagedClusterSetBindingsStatus,
       gr_areEqual = areManagedClusterSetBindingsEqual eq \<rparr> \<rparr>"

definition AddPlacementController :: "equality_lib \<Rightarrow> spec_controller" where
  "AddPlacementController eq = \<lparr> sc_EventFilter = AllObjects,
     sc_Reconciler = \<lparr> gr_tableName = ''placements'', gr_finalizerName = hohCleanupFinalizer,
       gr_createInstance = zero_instance (PlacementCR [] []), gr_cleanStatus = cleanPlacementStatus,
       gr_areEqual = arePlacementsEqual eq \<rparr> \<rparr>"

definition addControllerFunctions :: "equality_lib \<Rightarrow> spec_controller list" where
  "addControllerFunctions eq =
     [AddPolicyController eq, AddPlacementRuleController eq, AddPlacementBindingController eq,
      AddHubOfHubsConfigController eq, AddApplicationController eq, AddSubscriptionController eq, AddChannelController eq,
      AddManagedClusterSetController eq, AddManagedClusterSetBindingController eq, AddPlacementController eq]"

text \<open>The controller builder is a parameter; \<^const>\<open>None\<close> is its error. The first error ends the loop.\<close>

fun add_controllers :: "('m \<Rightarrow> spec_controller \<Rightarrow> 'm option) \<Rightarrow> spec_controller list \<Rightarrow> 'm \<Rightarrow> bool \<times> 'm" where
  "add_controllers add [] mgr = (True, mgr)"
| "add_controllers add (c # cs) mgr =
     (case add mgr c of None \<Rightarrow> (False, mgr) | Some mgr' \<Rightarrow> add_controllers add cs mgr')"

definition AddSpec2DBControllers :: "('m \<Rightarrow> spec_controller \<Rightarrow> 'm option) \<Rightarrow> equality_lib \<Rightarrow> 'm \<Rightarrow> bool \<times> 'm" where
  "AddSpec2DBControllers add eq mgr = add_controllers add (addControllerFunctions eq) mgr"

end
