(* ===== verification/Reconciler_Invariant.thy ===== *)
theory Reconciler_Invariant
  imports Spec_Reconciler
begin

text \<open>
  What the API server, the database and \<open>controllerutil\<close> are documented to do with the calls of the reconciler, and
  what follows for a run of \<open>Reconcile\<close> and for any sequence of runs and changes on the hub: a row that is not
  marked as deleted always has its object on the hub, held there by the cleanup finalizer.
\<close>

section \<open>The calls\<close>

definition object_key :: "spec_object \<Rightarrow> string \<times> string" where
  "object_key ob = (so_Name ob, so_Namespace ob)"

definition finalizer_laws :: "finalizer_lib \<Rightarrow> bool" where
  "finalizer_laws fl \<longleftrightarrow>
     (\<forall>fs f. fl_ContainsFinalizer fl fs f = (f \<in> set fs)) \<and>
     (\<forall>fs f. set (fl_AddFinalizer fl fs f) = insert f (set fs)) \<and>
     (\<forall>fs f. set (fl_RemoveFinalizer fl fs f) = set fs - {f})"

lemma finalizer_lawsD:
  assumes "finalizer_laws fl"
  shows "fl_ContainsFinalizer fl fs f = (f \<in> set fs)" "set (fl_AddFinalizer fl fs f) = insert f (set fs)"
    "set (fl_RemoveFinalizer fl fs f) = set fs - {f}"
  using assms by (simp_all add: finalizer_laws_def)

text \<open>What the server makes of an accepted update: an object that is being deleted and has no finalizer left is
  removed; otherwise the object is stored with bookkeeping fields of the server's choice.\<close>

definition stored_update :: "spec_object hub \<Rightarrow> spec_object \<Rightarrow> spec_object \<Rightarrow> spec_object hub \<Rightarrow> bool" where
  "stored_update h ob reply h' \<longleftrightarrow>
     (\<exists>rv g mf. reply = ob\<lparr>so_ResourceVersion := rv, so_Generation := g, so_ManagedFields := mf\<rparr>) \<and>
     h' = (if so_Finalizers ob = [] \<and> so_DeletionTimestamp ob \<noteq> None then h(object_key ob := None)
           else h(object_key ob \<mapsto> reply))"

text \<open>An update whose call fails may still have been stored.\<close>

definition update_call_law :: "('k, spec_object) k8s_client \<Rightarrow> ('k \<Rightarrow> spec_object hub) \<Rightarrow> bool" where
  "update_call_law client hub \<longleftrightarrow>
     (\<forall>k ob res k'. kc_Update client k ob = (res, k') \<longrightarrow>
        (case res of
           Inr reply \<Rightarrow> stored_update (hub k) ob reply (hub k')
         | Inl e \<Rightarrow> hub k' = hub k \<or> (\<exists>reply. stored_update (hub k) ob reply (hub k'))))"

definition hub_laws :: "('k, spec_object) k8s_client \<Rightarrow> ('k \<Rightarrow> spec_object hub) \<Rightarrow> spec_object \<Rightarrow> bool" where
  "hub_laws client hub into \<longleftrightarrow>
     get_law client hub into \<and> update_call_law client hub \<and>
     (\<forall>k key ob. hub k key = Some ob \<longrightarrow> object_key ob = key)"

type_synonym object_table = "string \<rightharpoonup> spec_object \<times> bool"

definition mark_deleted :: "string \<times> string \<Rightarrow> object_table \<Rightarrow> object_table" where
  "mark_deleted key t = (\<lambda>uid. map_option (\<lambda>(ob, deleted). (ob, deleted \<or> object_key ob = key)) (t uid))"

definition set_payload :: "string \<Rightarrow> spec_object \<Rightarrow> object_table \<Rightarrow> object_table" where
  "set_payload uid ob t = (case t uid of None \<Rightarrow> t | Some (_, deleted) \<Rightarrow> t(uid \<mapsto> (ob, deleted)))"

text \<open>A statement that is reported as failed may have been executed.\<close>

definition executed :: "bool \<Rightarrow> object_table \<Rightarrow> object_table \<Rightarrow> object_table \<Rightarrow> bool" where
  "executed ok t t1 t' \<longleftrightarrow> t' = t1 \<or> (\<not> ok \<and> t' = t)"

definition query_law :: "'db store_lib \<Rightarrow> ('db \<Rightarrow> object_table) \<Rightarrow> string \<Rightarrow> spec_object \<Rightarrow> bool" where
  "query_law lib tbl tableName into \<longleftrightarrow>
     (\<forall>db uid. case QuerySpecObject lib db tableName uid into of
        ScannedObject ob \<Rightarrow> (\<exists>deleted. tbl db uid = Some (ob, deleted))
      | RowMissing \<Rightarrow> tbl db uid = None
      | RowFailed \<Rightarrow> True)"

definition insert_row_law :: "'db store_lib \<Rightarrow> ('db \<Rightarrow> object_table) \<Rightarrow> string \<Rightarrow> bool" where
  "insert_row_law lib tbl tableName \<longleftrightarrow>
     (\<forall>db uid ob ok db'. InsertSpecObject lib db tableName uid ob = (ok, db') \<longrightarrow>
        (if tbl db uid = None then executed ok (tbl db) ((tbl db)(uid \<mapsto> (ob, False))) (tbl db')
         else \<not> ok \<and> tbl db' = tbl db))"

definition update_row_law :: "'db store_lib \<Rightarrow> ('db \<Rightarrow> object_table) \<Rightarrow> string \<Rightarrow> bool" where
  "update_row_law lib tbl tableName \<longleftrightarrow>
     (\<forall>db uid ob ok db'. UpdateSpecObject lib db tableName uid ob = (ok, db') \<longrightarrow>
        executed ok (tbl db) (set_payload uid ob (tbl db)) (tbl db'))"

definition delete_row_law :: "'db store_lib \<Rightarrow> ('db \<Rightarrow> object_table) \<Rightarrow> string \<Rightarrow> bool" where
  "delete_row_law lib tbl tableName \<longleftrightarrow>
     (\<forall>db name namespace ok db'. DeleteSpecObject lib db tableName name namespace = (ok, db') \<longrightarrow>
        executed ok (tbl db) (mark_deleted (name, namespace) (tbl db)) (tbl db'))"

definition store_laws :: "'db store_lib \<Rightarrow> ('db \<Rightarrow> object_table) \<Rightarrow> string \<Rightarrow> spec_object \<Rightarrow> bool" where
  "store_laws lib tbl tableName into \<longleftrightarrow>
     query_law lib tbl tableName into \<and> insert_row_law lib tbl tableName \<and>
     update_row_law lib tbl tableName \<and> delete_row_law lib tbl tableName"

lemma query_lawD:
  assumes "store_laws lib tbl tableName into"
  shows "QuerySpecObject lib db tableName uid into = ScannedObject ob \<Longrightarrow> \<exists>deleted. tbl db uid = Some (ob, deleted)"
    and "QuerySpecObject lib db tableName uid into = RowMissing \<Longrightarrow> tbl db uid = None"
proof -
  have law: "query_law lib tbl tableName into" using assms by (simp add: store_laws_def)
  note law [unfolded query_law_def, rule_format, of db uid]
  then show "QuerySpecObject lib db tableName uid into = ScannedObject ob \<Longrightarrow> \<exists>deleted. tbl db uid = Some (ob, deleted)"
    and "QuerySpecObject lib db tableName uid into = RowMissing \<Longrightarrow> tbl db uid = None" by auto
qed

lemma insert_specD:
  assumes "store_laws lib tbl tableName into" and "InsertSpecObject lib db tableName uid ob = (ok, db')" and "tbl db uid = None"
  shows "executed ok (tbl db) ((tbl db)(uid \<mapsto> (ob, False))) (tbl db')"
proof -
  have law: "insert_row_law lib tbl tableName" using assms(1) by (simp add: store_laws_def)
  from law [unfolded insert_row_law_def, rule_format, OF assms(2)] assms(3) show ?thesis by simp
qed

lemma update_specD:
  assumes "store_laws lib tbl tableName into" and "UpdateSpecObject lib db tableName uid ob = (ok, db')"
  shows "executed ok (tbl db) (set_payload uid ob (tbl db)) (tbl db')"
proof -
  have law: "update_row_law lib tbl tableName" using assms(1) by (simp add: store_laws_def)
  from law [unfolded update_row_law_def, rule_format, OF assms(2)] show ?thesis .
qed

lemma delete_specD:
  assumes "store_laws lib tbl tableName into" and "DeleteSpecObject lib db tableName name namespace = (ok, db')"
  shows "executed ok (tbl db) (mark_deleted (name, namespace) (tbl db)) (tbl db')"
proof -
  have law: "delete_row_law lib tbl tableName" using assms(1) by (simp add: store_laws_def)
  from law [unfolded delete_row_law_def, rule_format, OF assms(2)] show ?thesis .
qed

text \<open>The environment of a reconciler, with the table it works on.\<close>

definition env_laws ::
  "('k, 'db) reconciler_env \<Rightarrow> genericSpecToDBReconciler \<Rightarrow> ('k \<Rightarrow> spec_object hub) \<Rightarrow> ('db \<Rightarrow> object_table) \<Rightarrow> bool" where
  "env_laws env r hub tbl \<longleftrightarrow>
     hub_laws (re_client env) hub (gr_createInstance r) \<and>
     store_laws (re_specDB env) tbl (gr_tableName r) (gr_createInstance r) \<and>
     finalizer_laws (re_finalizers env)"

lemma env_lawsD:
  assumes "env_laws env r hub tbl"
  shows "get_law (re_client env) hub (gr_createInstance r)" "update_call_law (re_client env) hub"
    "hub k key = Some ob \<Longrightarrow> object_key ob = key"
    "store_laws (re_specDB env) tbl (gr_tableName r) (gr_createInstance r)" "finalizer_laws (re_finalizers env)"
  using assms unfolding env_laws_def hub_laws_def by blast+

lemma update_callD:
  assumes "update_call_law client hub" and "kc_Update client k ob = (res, k')"
  shows "res = Inr reply \<Longrightarrow> stored_update (hub k) ob reply (hub k')"
    and "hub k' = hub k \<or> (\<exists>reply. stored_update (hub k) ob reply (hub k'))"
  using assms(1) [unfolded update_call_law_def, rule_format, OF assms(2)] by (auto split: sum.splits)

section \<open>A run keeps the live rows on the hub\<close>

definition rows_on_hub :: "string \<Rightarrow> spec_object hub \<Rightarrow> object_table \<Rightarrow> bool" where
  "rows_on_hub finalizer h t \<longleftrightarrow>
     (\<forall>uid ob. t uid = Some (ob, False) \<longrightarrow> (\<exists>c. h (object_key ob) = Some c \<and> finalizer \<in> set (so_Finalizers c)))"

lemma rows_on_hubD:
  "rows_on_hub f h t \<Longrightarrow> t uid = Some (ob, False) \<Longrightarrow> \<exists>c. h (object_key ob) = Some c \<and> f \<in> set (so_Finalizers c)"
  unfolding rows_on_hub_def by blast

lemma mark_deleted_live: "mark_deleted key t uid = Some (ob, False) \<longleftrightarrow> t uid = Some (ob, False) \<and> object_key ob \<noteq> key"
  by (auto simp: mark_deleted_def)

lemma rows_mark_deleted: "rows_on_hub f h t \<Longrightarrow> rows_on_hub f h (mark_deleted key t)"
  by (auto simp: rows_on_hub_def mark_deleted_live)

lemma rows_mark_deleted_without:
  assumes "rows_on_hub f h t" and "\<And>key'. key' \<noteq> key \<Longrightarrow> h' key' = h key'"
  shows "rows_on_hub f h' (mark_deleted key t)"
  using assms by (auto simp: rows_on_hub_def mark_deleted_live)

lemma rows_insert:
  assumes "rows_on_hub f h t" and "h (object_key ob) = Some c" and "f \<in> set (so_Finalizers c)"
  shows "rows_on_hub f h (t(uid \<mapsto> (ob, deleted)))"
  using assms by (auto simp: rows_on_hub_def)

lemma rows_set_payload:
  assumes "rows_on_hub f h t" and "h (object_key ob) = Some c" and "f \<in> set (so_Finalizers c)"
  shows "rows_on_hub f h (set_payload uid ob t)"
  using assms rows_insert [OF assms] by (auto simp: set_payload_def split: option.splits)

lemma rows_more_finalizers:
  assumes "rows_on_hub f h t" and "h' = h(key \<mapsto> ob)" and "f \<in> set (so_Finalizers ob)"
  shows "rows_on_hub f h' t"
  using assms by (auto simp: rows_on_hub_def)

lemma executed_cases:
  assumes "executed ok t t1 t'" and "P t" and "P t1"
  shows "P t'"
  using assms by (auto simp: executed_def)

lemma stored_update_other:
  "stored_update h ob reply h' \<Longrightarrow> key \<noteq> object_key ob \<Longrightarrow> h' key = h key"
  by (auto simp: stored_update_def split: if_splits)

lemma stored_update_live:
  "stored_update h ob reply h' \<Longrightarrow> so_DeletionTimestamp ob = None \<Longrightarrow>
   h' = h(object_key ob \<mapsto> reply) \<and> so_Finalizers reply = so_Finalizers ob \<and> object_key reply = object_key ob \<and> so_UID reply = so_UID ob"
  by (auto simp: stored_update_def object_key_def)

text \<open>Only \<open>cleanStatus\<close> may change more than the metadata that \<open>cleanInstance\<close> erases; none of the ten changes
  the key of an object.\<close>

definition keeps_key :: "genericSpecToDBReconciler \<Rightarrow> bool" where
  "keeps_key r \<longleftrightarrow> (\<forall>ob ob'. gr_cleanStatus r ob = Some ob' \<longrightarrow> object_key ob' = object_key ob)"

lemma cleanInstance_key: "keeps_key r \<Longrightarrow> cleanInstance r ob = Some c \<Longrightarrow> object_key c = object_key ob"
  unfolding cleanInstance_def keeps_key_def by (fastforce simp: object_key_def)

lemma deleteFromTheDatabase_ok:
  assumes "env_laws env r hub tbl" and "deleteFromTheDatabase env r name namespace db = (e, db')"
  shows "executed (e = None) (tbl db) (mark_deleted (name, namespace) (tbl db)) (tbl db')"
  using assms(2) delete_specD [OF env_lawsD(4) [OF assms(1)]]
  by (auto simp: deleteFromTheDatabase_def split: prod.splits if_splits)

lemma removeFinalizerAndDelete_ok:
  assumes laws: "env_laws env r hub tbl" and rows: "rows_on_hub (gr_finalizerName r) (hub k) (tbl db)"
    and run: "removeFinalizerAndDelete env r ob k db = (e, k', db')"
  shows "rows_on_hub (gr_finalizerName r) (hub k') (tbl db')"
proof (cases "fl_ContainsFinalizer (re_finalizers env) (so_Finalizers ob) (gr_finalizerName r)")
  case True
  obtain e1 db1 where del: "deleteFromTheDatabase env r (so_Name ob) (so_Namespace ob) db = (e1, db1)" by fastforce
  note ex = deleteFromTheDatabase_ok [OF laws del]
  show ?thesis
  proof (cases e1)
    case None
    let ?ob = "ob\<lparr>so_Finalizers := fl_RemoveFinalizer (re_finalizers env) (so_Finalizers ob) (gr_finalizerName r)\<rparr>"
    obtain res k1 where upd: "kc_Update (re_client env) k ?ob = (res, k1)" by fastforce
    have eq: "k' = k1" "db' = db1" using run True del None upd by (auto simp: removeFinalizerAndDelete_def split: sum.splits)
    have t: "tbl db1 = mark_deleted (object_key ob) (tbl db)" using ex None by (simp add: executed_def object_key_def)
    have key': "object_key ?ob = object_key ob" by (simp add: object_key_def)
    have "hub k1 key = hub k key" if "key \<noteq> object_key ob" for key
      using update_callD(2) [OF env_lawsD(2) [OF laws] upd] that stored_update_other key' by metis
    then show ?thesis unfolding eq t by (rule rows_mark_deleted_without [OF rows])
  next
    case (Some x)
    then have eq: "k' = k" "db' = db1" using run True del by (simp_all add: removeFinalizerAndDelete_def)
    show ?thesis unfolding eq by (rule executed_cases [OF ex rows rows_mark_deleted [OF rows]])
  qed
qed (use run rows in \<open>simp add: removeFinalizerAndDelete_def\<close>)

text \<open>The instance that \<open>addFinalizer\<close> leaves differs from the one it was given in bookkeeping fields only.\<close>

definition same_instance :: "spec_object \<Rightarrow> spec_object \<Rightarrow> bool" where
  "same_instance ob ob' \<longleftrightarrow>
     (\<exists>fs rv g mf. ob' = ob\<lparr>so_Finalizers := fs, so_ResourceVersion := rv, so_Generation := g, so_ManagedFields := mf\<rparr>)"

lemma same_instanceD:
  assumes "same_instance ob ob'"
  shows "object_key ob' = object_key ob" "so_UID ob' = so_UID ob" "cleanInstance r ob' = cleanInstance r ob"
  using assms by (auto simp: same_instance_def object_key_def cleanInstance_def)

lemma same_instance_refl: "same_instance ob ob"
  unfolding same_instance_def by (rule exI [of _ "so_Finalizers ob"], rule exI [of _ "so_ResourceVersion ob"],
    rule exI [of _ "so_Generation ob"], rule exI [of _ "so_ManagedFields ob"]) simp

lemma addFinalizer_ok:
  assumes laws: "env_laws env r hub tbl" and rows: "rows_on_hub (gr_finalizerName r) (hub k) t"
    and ob: "hub k (object_key ob) = Some ob" "\<not> isInstanceBeingDeleted ob"
    and run: "addFinalizer env r ob k = (e, ob', k')"
  shows "rows_on_hub (gr_finalizerName r) (hub k') t" and "same_instance ob ob'"
    and "e = None \<Longrightarrow> \<exists>c. hub k' (object_key ob) = Some c \<and> gr_finalizerName r \<in> set (so_Finalizers c) \<and> same_instance ob c"
proof -
  let ?f = "gr_finalizerName r"
  note fl = finalizer_lawsD [OF env_lawsD(5) [OF laws]]
  let ?ob = "ob\<lparr>so_Finalizers := fl_AddFinalizer (re_finalizers env) (so_Finalizers ob) ?f\<rparr>"
  have "rows_on_hub ?f (hub k') t \<and> same_instance ob ob' \<and>
    (e = None \<longrightarrow> (\<exists>c. hub k' (object_key ob) = Some c \<and> ?f \<in> set (so_Finalizers c) \<and> same_instance ob c))"
  proof (cases "fl_ContainsFinalizer (re_finalizers env) (so_Finalizers ob) ?f")
    case True
    then show ?thesis using run rows ob fl by (auto simp: addFinalizer_def same_instance_refl)
  next
    case False
    obtain res k1 where upd: "kc_Update (re_client env) k ?ob = (res, k1)" by fastforce
    note calls = update_callD [OF env_lawsD(2) [OF laws] upd]
    have live: "so_DeletionTimestamp ?ob = None" using ob(2) by (simp add: isInstanceBeingDeleted_def)
    have stored: "rows_on_hub ?f (hub k1) t \<and> hub k1 (object_key ob) = Some reply \<and> ?f \<in> set (so_Finalizers reply)"
      if "stored_update (hub k) ?ob reply (hub k1)" for reply
    proof -
      have "object_key ?ob = object_key ob" by (simp add: object_key_def)
      with stored_update_live [OF that live] have "hub k1 = (hub k)(object_key ob \<mapsto> reply)" "?f \<in> set (so_Finalizers reply)"
        by (simp_all add: fl)
      then show ?thesis using rows_more_finalizers [OF rows] by simp
    qed
    have k': "k' = k1" using run False upd by (auto simp: addFinalizer_def split: sum.splits)
    have rows1: "rows_on_hub ?f (hub k1) t" using calls(2) stored rows by auto
    show ?thesis
    proof (cases res)
      case (Inl x)
      then have "ob' = ?ob" "e \<noteq> None" using run False upd by (auto simp: addFinalizer_def)
      moreover have "same_instance ob ?ob" unfolding same_instance_def
        by (rule exI [of _ "so_Finalizers ?ob"], rule exI [of _ "so_ResourceVersion ob"],
            rule exI [of _ "so_Generation ob"], rule exI [of _ "so_ManagedFields ob"]) simp
      ultimately show ?thesis using rows1 by (auto simp: k')
    next
      case (Inr reply)
      then have "ob' = reply" using run False upd by (auto simp: addFinalizer_def)
      moreover have "stored_update (hub k) ?ob reply (hub k1)" by (rule calls(1) [OF Inr])
      moreover from this have "same_instance ob reply" by (auto simp: stored_update_def same_instance_def)
      ultimately show ?thesis using stored by (simp add: k')
    qed
  qed
  then show "rows_on_hub ?f (hub k') t" "same_instance ob ob'"
    "e = None \<Longrightarrow> \<exists>c. hub k' (object_key ob) = Some c \<and> ?f \<in> set (so_Finalizers c) \<and> same_instance ob c" by blast+
qed

section \<open>Whole runs\<close>

lemma processInstance_ok:
  assumes laws: "env_laws env r hub tbl" and rows: "rows_on_hub f h (tbl db)"
    and c: "h (object_key ob) = Some c" "f \<in> set (so_Finalizers c)"
    and run: "processInstanceInTheDatabase env r ob uid db = (res, db')"
  shows "rows_on_hub f h (tbl db')"
proof (cases "QuerySpecObject (re_specDB env) db (gr_tableName r) uid (gr_createInstance r)")
  case RowMissing
  note store = env_lawsD(4) [OF laws]
  obtain ok db1 where ins: "InsertSpecObject (re_specDB env) db (gr_tableName r) uid ob = (ok, db1)" by fastforce
  have "db' = db1" using run RowMissing ins by (simp add: processInstanceInTheDatabase_def)
  with executed_cases [OF insert_specD [OF store ins query_lawD(2) [OF store RowMissing]] rows rows_insert [OF rows c]]
  show ?thesis by simp
qed (use run rows in \<open>simp_all add: processInstanceInTheDatabase_def\<close>)

lemma Reconcile_ok:
  assumes laws: "env_laws env r hub tbl" and key: "keeps_key r"
    and rows: "rows_on_hub (gr_finalizerName r) (hub k) (tbl db)"
    and run: "Reconcile env r request k db = Some (res, k', db')"
  shows "rows_on_hub (gr_finalizerName r) (hub k') (tbl db')"
proof (cases "kc_Get (re_client env) k request (gr_createInstance r)")
  case (Inl err)
  obtain e db1 where del: "deleteFromTheDatabase env r (fst request) (snd request) db = (e, db1)" by fastforce
  have "k' = k" "db' = db \<or> db' = db1"
    using run Inl del by (auto simp: Reconcile_def processCR_def split: client_error.splits option.splits)
  with executed_cases [OF deleteFromTheDatabase_ok [OF laws del] rows rows_mark_deleted [OF rows]] rows
  show ?thesis by auto
next
  case (Inr ob)
  have hub: "hub k request = Some ob" by (rule get_lawD(1) [OF env_lawsD(1) [OF laws] Inr])
  then have req: "object_key ob = request" by (rule env_lawsD(3) [OF laws])
  show ?thesis
  proof (cases "isInstanceBeingDeleted ob")
    case True
    obtain e k1 db1 where rem: "removeFinalizerAndDelete env r ob k db = (e, k1, db1)" by (metis prod_cases3)
    have "k' = k1" "db' = db1"
      using run Inr True rem by (auto simp: Reconcile_def processCR_def split: option.splits)
    then show ?thesis using removeFinalizerAndDelete_ok [OF laws rows rem] by simp
  next
    case False
    obtain e ob1 k1 where add: "addFinalizer env r ob k = (e, ob1, k1)" by (metis prod_cases3)
    note fin = addFinalizer_ok [OF laws rows _ False add, unfolded req, OF hub]
    obtain c where clean: "cleanInstance r ob1 = Some c"
      using run Inr False add by (cases "cleanInstance r ob1") (auto simp: Reconcile_def processCR_def)
    show ?thesis
    proof (cases e)
      case (Some x)
      then show ?thesis using run Inr False add clean fin(1) by (simp add: Reconcile_def processCR_def)
    next
      case None
      have ckey: "object_key c = request"
        using cleanInstance_key [OF key clean] same_instanceD(1) [OF fin(2)] req by simp
      obtain h where h: "hub k1 (object_key c) = Some h" "gr_finalizerName r \<in> set (so_Finalizers h)"
        using fin(3) [OF None] ckey by auto
      obtain q db2 where proc: "processInstanceInTheDatabase env r c (so_UID ob1) db = (q, db2)" by fastforce
      have rows2: "rows_on_hub (gr_finalizerName r) (hub k1) (tbl db2)"
        by (rule processInstance_ok [OF laws fin(1) h proc])
      obtain ok db3 where upd: "UpdateSpecObject (re_specDB env) db2 (gr_tableName r) (so_UID ob1) c = (ok, db3)" by fastforce
      have "k' = k1" "db' = db2 \<or> db' = db3"
        using run Inr False add clean None proc upd by (auto simp: Reconcile_def processCR_def split: sum.splits if_splits)
      with executed_cases [OF update_specD [OF env_lawsD(4) [OF laws] upd] rows2 rows_set_payload [OF rows2 h]] rows2
      show ?thesis by auto
    qed
  qed
qed

section \<open>Convergence\<close>

text \<open>The steps of a run on an instance that is not being deleted.\<close>

lemma Reconcile_live:
  assumes "kc_Get (re_client env) k request (gr_createInstance r) = Inr ob" and "\<not> isInstanceBeingDeleted ob"
    and "addFinalizer env r ob k = (None, ob1, k1)" and "cleanInstance r ob1 = Some c"
  shows "Reconcile env r request k db =
    (case processInstanceInTheDatabase env r c (so_UID ob1) db of
       (Inl e, db2) \<Rightarrow> Some ((RequeueAfter spec_requeuePeriodSeconds, Some e), k1, db2)
     | (Inr stored, db2) \<Rightarrow>
         (if \<not> gr_areEqual r c stored
          then case UpdateSpecObject (re_specDB env) db2 (gr_tableName r) (so_UID ob1) c of
                 (ok, db3) \<Rightarrow> Some ((EmptyResult, if ok then None else Some ErrUpdateRow), k1, db3)
          else Some ((EmptyResult, None), k1, db2)))"
  using assms by (simp add: Reconcile_def processCR_def)

lemma processInstance_stores:
  assumes laws: "env_laws env r hub tbl" and refl: "gr_areEqual r c c"
    and proc: "processInstanceInTheDatabase env r c uid db = (Inr stored, db2)"
  shows "\<exists>deleted. tbl db2 uid = Some (stored, deleted) \<and> (tbl db uid = None \<longrightarrow> stored = c \<and> \<not> deleted)"
    and "uid' \<noteq> uid \<Longrightarrow> tbl db2 uid' = tbl db uid'"
proof -
  note store = env_lawsD(4) [OF laws]
  have "(\<exists>deleted. tbl db2 uid = Some (stored, deleted) \<and> (tbl db uid = None \<longrightarrow> stored = c \<and> \<not> deleted)) \<and>
    (\<forall>uid'. uid' \<noteq> uid \<longrightarrow> tbl db2 uid' = tbl db uid')"
  proof (cases "QuerySpecObject (re_specDB env) db (gr_tableName r) uid (gr_createInstance r)")
    case (ScannedObject ob)
    then show ?thesis using proc query_lawD(1) [OF store ScannedObject] by (auto simp: processInstanceInTheDatabase_def)
  next
    case RowMissing
    obtain ok db1 where ins: "InsertSpecObject (re_specDB env) db (gr_tableName r) uid c = (ok, db1)" by fastforce
    have ok: "ok" "db2 = db1" "stored = c"
      using proc RowMissing ins by (auto simp: processInstanceInTheDatabase_def split: if_splits)
    then show ?thesis using insert_specD [OF store ins query_lawD(2) [OF store RowMissing]] by (auto simp: executed_def)
  next
    case RowFailed
    then show ?thesis using proc by (simp add: processInstanceInTheDatabase_def)
  qed
  then show "\<exists>deleted. tbl db2 uid = Some (stored, deleted) \<and> (tbl db uid = None \<longrightarrow> stored = c \<and> \<not> deleted)"
    and "uid' \<noteq> uid \<Longrightarrow> tbl db2 uid' = tbl db uid'" by blast+
qed

text \<open>The row after an error-free run.\<close>

definition row_current :: "genericSpecToDBReconciler \<Rightarrow> spec_object \<Rightarrow> object_table \<Rightarrow> object_table \<Rightarrow> bool" where
  "row_current r ob t t' \<longleftrightarrow>
     (\<exists>c stored deleted. cleanInstance r ob = Some c \<and> t' (so_UID ob) = Some (stored, deleted) \<and> gr_areEqual r c stored \<and>
        (t (so_UID ob) = None \<longrightarrow> stored = c \<and> \<not> deleted)) \<and>
     (\<forall>uid. uid \<noteq> so_UID ob \<longrightarrow> t' uid = t uid)"

lemma Reconcile_stores:
  assumes laws: "env_laws env r hub tbl" and refl: "\<forall>c. cleanInstance r ob = Some c \<longrightarrow> gr_areEqual r c c"
    and get: "kc_Get (re_client env) k request (gr_createInstance r) = Inr ob" and live: "\<not> isInstanceBeingDeleted ob"
    and run: "Reconcile env r request k db = Some ((res, None), k', db')"
  shows "row_current r ob (tbl db) (tbl db')"
    and "\<exists>c. hub k' request = Some c \<and> gr_finalizerName r \<in> set (so_Finalizers c) \<and> same_instance ob c"
proof -
  have hub: "hub k request = Some ob" by (rule get_lawD(1) [OF env_lawsD(1) [OF laws] get])
  then have req: "object_key ob = request" by (rule env_lawsD(3) [OF laws])
  have none: "rows_on_hub (gr_finalizerName r) (hub k) Map.empty" by (simp add: rows_on_hub_def)
  obtain e ob1 k1 where add: "addFinalizer env r ob k = (e, ob1, k1)" by (metis prod_cases3)
  note fin = addFinalizer_ok [OF laws none _ live add, unfolded req, OF hub]
  obtain c where clean: "cleanInstance r ob1 = Some c"
    using run get live add by (cases "cleanInstance r ob1") (auto simp: Reconcile_def processCR_def)
  have e: "e = None" using run get live add clean by (cases e) (auto simp: Reconcile_def processCR_def)
  note steps = Reconcile_live [OF get live add [unfolded e] clean, of db]
  obtain q db2 where proc: "processInstanceInTheDatabase env r c (so_UID ob1) db = (q, db2)" by fastforce
  obtain stored where q: "q = Inr stored" using run steps proc by (cases q) auto
  obtain ok db3 where upd: "UpdateSpecObject (re_specDB env) db2 (gr_tableName r) (so_UID ob1) c = (ok, db3)" by fastforce
  have uid: "so_UID ob1 = so_UID ob" and clean0: "cleanInstance r ob = Some c"
    using same_instanceD [OF fin(2)] clean by auto
  note ins = processInstance_stores [OF laws refl [rule_format, OF clean0] proc [unfolded q uid]]
  have k': "k' = k1" using run steps proc q upd by (auto split: if_splits)
  show "\<exists>c. hub k' request = Some c \<and> gr_finalizerName r \<in> set (so_Finalizers c) \<and> same_instance ob c"
    unfolding k' using fin(3) [OF e] req by simp
  show "row_current r ob (tbl db) (tbl db')"
  proof (cases "gr_areEqual r c stored")
    case True
    then have "db' = db2" using run steps proc q by simp
    then show ?thesis using ins True clean0 by (auto simp: row_current_def)
  next
    case False
    then have "db' = db3" ok using run steps proc q upd by (auto split: if_splits)
    moreover from this have "tbl db3 = set_payload (so_UID ob) c (tbl db2)"
      using update_specD [OF env_lawsD(4) [OF laws] upd] by (simp add: executed_def uid)
    ultimately show ?thesis using ins refl [rule_format, OF clean0] clean0 by (auto simp: row_current_def set_payload_def)
  qed
qed

text \<open>A further run on the state that an error-free run leaves writes nothing.\<close>

lemma Reconcile_settled:
  assumes laws: "env_laws env r hub tbl"
    and row: "cleanInstance r ob = Some c" "tbl db (so_UID ob) = Some (stored, deleted)" "gr_areEqual r c stored"
    and cur: "hub k request = Some ob'" "gr_finalizerName r \<in> set (so_Finalizers ob')" "same_instance ob ob'"
    and live: "\<not> isInstanceBeingDeleted ob"
    and run: "Reconcile env r request k db = Some (res, k', db')"
  shows "k' = k \<and> db' = db"
proof (cases "kc_Get (re_client env) k request (gr_createInstance r)")
  case (Inl e)
  then have "e = ErrClient" using cur(1) get_lawD(2) [OF env_lawsD(1) [OF laws]] by (cases e) auto
  then show ?thesis using run Inl by (simp add: Reconcile_def processCR_def)
next
  case (Inr ob2)
  then have ob2: "ob2 = ob'" using cur(1) get_lawD(1) [OF env_lawsD(1) [OF laws] Inr] by simp
  have live': "\<not> isInstanceBeingDeleted ob2" using live cur(3) ob2 by (auto simp: isInstanceBeingDeleted_def same_instance_def)
  have add: "addFinalizer env r ob2 k = (None, ob2, k)"
    using cur(2) ob2 finalizer_lawsD(1) [OF env_lawsD(5) [OF laws]] by (simp add: addFinalizer_def)
  have same: "cleanInstance r ob2 = Some c" "so_UID ob2 = so_UID ob" using same_instanceD [OF cur(3)] row(1) ob2 by simp_all
  note steps = Reconcile_live [OF Inr live' add same(1), of db, unfolded same(2)]
  show ?thesis
  proof (cases "QuerySpecObject (re_specDB env) db (gr_tableName r) (so_UID ob) (gr_createInstance r)")
    case (ScannedObject ob3)
    then have "ob3 = stored" using query_lawD(1) [OF env_lawsD(4) [OF laws] ScannedObject] row(2) by simp
    then show ?thesis using run steps row(3) ScannedObject by (simp add: processInstanceInTheDatabase_def)
  next
    case RowMissing
    then show ?thesis using query_lawD(2) [OF env_lawsD(4) [OF laws] RowMissing] row(2) by simp
  next
    case RowFailed
    then show ?thesis using run steps by (simp add: processInstanceInTheDatabase_def)
  qed
qed

section \<open>Sequences of runs\<close>

text \<open>What may happen to the objects of the type between two runs: users create, change and delete objects. The server
  keeps an object that has a finalizer, and nobody else takes this one away.\<close>

definition hub_change :: "string \<Rightarrow> spec_object hub \<Rightarrow> spec_object hub \<Rightarrow> bool" where
  "hub_change finalizer h h' \<longleftrightarrow>
     (\<forall>key c. h key = Some c \<longrightarrow> finalizer \<in> set (so_Finalizers c) \<longrightarrow>
        (\<exists>c'. h' key = Some c' \<and> finalizer \<in> set (so_Finalizers c')))"

inductive spec_step ::
  "('k, 'db) reconciler_env \<Rightarrow> genericSpecToDBReconciler \<Rightarrow> ('k \<Rightarrow> spec_object hub) \<Rightarrow> 'k \<times> 'db \<Rightarrow> 'k \<times> 'db \<Rightarrow> bool"
  for env r hub where
  reconciled: "Reconcile env r request k db = Some (res, k', db') \<Longrightarrow> spec_step env r hub (k, db) (k', db')"
| hub_changed: "hub_change (gr_finalizerName r) (hub k) (hub k') \<Longrightarrow> spec_step env r hub (k, db) (k', db)"

inductive_cases spec_stepE: "spec_step env r hub s s'"

lemma rows_hub_change: "rows_on_hub f h t \<Longrightarrow> hub_change f h h' \<Longrightarrow> rows_on_hub f h' t"
  unfolding rows_on_hub_def hub_change_def by blast

lemma spec_step_keeps:
  assumes "env_laws env r hub tbl" and "keeps_key r" and "spec_step env r hub (k, db) (k', db')"
    and "rows_on_hub (gr_finalizerName r) (hub k) (tbl db)"
  shows "rows_on_hub (gr_finalizerName r) (hub k') (tbl db')"
  using assms(3)
proof (cases rule: spec_step.cases)
  case (reconciled request res)
  then show ?thesis using Reconcile_ok [OF assms(1,2,4)] by blast
next
  case hub_changed
  then show ?thesis using rows_hub_change [OF assms(4)] by blast
qed

lemma spec_steps_keep:
  assumes "env_laws env r hub tbl" and "keeps_key r" and "(spec_step env r hub)\<^sup>*\<^sup>* s s'"
    and "rows_on_hub (gr_finalizerName r) (hub (fst s)) (tbl (snd s))"
  shows "rows_on_hub (gr_finalizerName r) (hub (fst s')) (tbl (snd s'))"
  using assms(3)
proof (induction rule: rtranclp_induct)
  case base
  show ?case by (rule assms(4))
next
  case (step y z)
  then show ?case using spec_step_keeps [OF assms(1,2), of "fst y" "snd y" "fst z" "snd z"] by simp
qed

section \<open>The ten controllers\<close>

lemmas controller_defs =
  AddPolicyController_def AddPlacementRuleController_def AddPlacementBindingController_def AddHubOfHubsConfigController_def
  AddApplicationController_def AddSubscriptionController_def AddChannelController_def AddManagedClusterSetController_def
  AddManagedClusterSetBindingController_def AddPlacementController_def

lemmas clean_status_defs =
  cleanPolicyStatus_def cleanPlacementRuleStatus_def cleanPlacementBindingStatus_def cleanConfigStatus_def
  cleanApplicationStatus_def cleanSubscriptionStatus_def cleanChannelStatus_def cleanManagedClusterSetStatus_def
  cleanManagedClusterSetBindingsStatus_def cleanPlacementStatus_def

lemmas are_equal_defs =
  arePoliciesEqual_def arePlacementRulesEqual_def arePlacementBindingsEqual_def areConfigsEqual_def areApplicationsEqual_def
  areSubscriptionsEqual_def areChannelsEqual_def areManagedClusterSetsEqual_def areManagedClusterSetBindingsEqual_def
  arePlacementsEqual_def

lemma controllers_keep_key: "ct \<in> set (addControllerFunctions eq) \<Longrightarrow> keeps_key (sc_Reconciler ct)"
  unfolding addControllerFunctions_def keeps_key_def
  by (auto simp: controller_defs clean_status_defs object_key_def split: spec_body.splits)

text \<open>The comparison functions of the libraries hold of two copies of the same value.\<close>

definition reflexive_equality :: "equality_lib \<Rightarrow> bool" where
  "reflexive_equality eq \<longleftrightarrow>
     (\<forall>x. el_DeepEqual eq x x) \<and> (\<forall>m. el_DeepEqualMap eq m m) \<and> (\<forall>ob. el_CompareSpecAndAnnotation eq ob ob)"

lemma reflexive_equalityD [simp]:
  "reflexive_equality eq \<Longrightarrow> el_DeepEqual eq x x" "reflexive_equality eq \<Longrightarrow> el_DeepEqualMap eq m m"
  "reflexive_equality eq \<Longrightarrow> el_CompareSpecAndAnnotation eq ob ob"
  by (simp_all add: reflexive_equality_def)

lemma cleaned_equals_itself:
  assumes "reflexive_equality eq" and "ct \<in> set (addControllerFunctions eq)"
    and "cleanInstance (sc_Reconciler ct) ob = Some c"
  shows "gr_areEqual (sc_Reconciler ct) c c"
proof -
  have "\<exists>ob'. gr_cleanStatus (sc_Reconciler ct) ob' = Some c" using assms(3) unfolding cleanInstance_def by blast
  then show ?thesis using assms(1,2) unfolding addControllerFunctions_def
    by (auto simp: controller_defs clean_status_defs are_equal_defs metadata_equal_def split: spec_body.splits)
qed

end
