(* ===== verification/Reconcile_Properties.thy ===== *)
theory Reconcile_Properties
  imports Reconciler_Invariant
begin

text \<open>
  The properties of the reconcilers that copy custom resources into the database: the invariant of any history, what
  an error-free run leaves, and the one change of a policy that never reaches the database.
\<close>

section \<open>A sample environment\<close>

text \<open>An API server and a database that accept every call. The server answers with well-named objects only.\<close>

definition sample_hub :: "spec_object hub \<Rightarrow> spec_object hub" where
  "sample_hub k key = (case k key of None \<Rightarrow> None | Some ob \<Rightarrow> (if object_key ob = key then Some ob else None))"

definition sample_client :: "(spec_object hub, spec_object) k8s_client" where
  "sample_client =
     \<lparr> kc_Get = (\<lambda>k key into. case sample_hub k key of None \<Rightarrow> Inl ErrNotFound | Some ob \<Rightarrow> Inr ob),
       kc_Update = (\<lambda>k ob. (Inr ob,
         if so_Finalizers ob = [] \<and> so_DeletionTimestamp ob \<noteq> None then k(object_key ob := None) else k(object_key ob \<mapsto> ob))),
       kc_Create = (\<lambda>k ob. (None, k(object_key ob \<mapsto> ob))),
       kc_Patch = (\<lambda>k ob original. (None, k(object_key ob \<mapsto> ob))),
       kc_StatusPatch = (\<lambda>k ob original. (None, k(object_key ob \<mapsto> ob))) \<rparr>"

fun sample_store_exec :: "object_table \<Rightarrow> string \<Rightarrow> store_arg list \<Rightarrow> bool \<times> object_table" where
  "sample_store_exec t q [TextArg uid, ObjectArg ob] = (if t uid = None then (True, t(uid \<mapsto> (ob, False))) else (False, t))"
| "sample_store_exec t q [ObjectArg ob, TextArg uid] = (True, set_payload uid ob t)"
| "sample_store_exec t q [TextArg name, TextArg namespace] = (True, mark_deleted (name, namespace) t)"
| "sample_store_exec t q [TextArg name] = (True, mark_deleted (name, []) t)"
| "sample_store_exec t q args = (False, t)"

definition sample_store :: "object_table store_lib" where
  "sample_store =
     \<lparr> st_QueryRow = (\<lambda>t q uid into. case t uid of None \<Rightarrow> RowMissing | Some (ob, deleted) \<Rightarrow> ScannedObject ob),
       st_Exec = sample_store_exec \<rparr>"

definition sample_finalizers :: finalizer_lib where
  "sample_finalizers =
     \<lparr> fl_ContainsFinalizer = (\<lambda>fs f. f \<in> set fs), fl_AddFinalizer = (\<lambda>fs f. fs @ [f]),
       fl_RemoveFinalizer = (\<lambda>fs f. filter (\<lambda>g. g \<noteq> f) fs) \<rparr>"

definition sample_reconciler_env :: "(spec_object hub, object_table) reconciler_env" where
  "sample_reconciler_env = \<lparr> re_client = sample_client, re_specDB = sample_store, re_finalizers = sample_finalizers \<rparr>"

definition sample_eq :: equality_lib where
  "sample_eq =
     \<lparr> el_DeepEqual = (=), el_DeepEqualMap = (\<lambda>m n. True),
       el_CompareSpecAndAnnotation = (\<lambda>p q. so_Body p = so_Body q) \<rparr>"

definition sample_policy :: spec_object where
  "sample_policy = (zero_instance (PolicyCR ''spec'' [''template''] ''status''))
     \<lparr>so_Name := ''p'', so_Namespace := ''ns'', so_UID := ''u'', so_ResourceVersion := ''7''\<rparr>"

lemma sample_reflexive: "reflexive_equality sample_eq"
  by (simp add: reflexive_equality_def sample_eq_def)

lemma sample_hub_upd:
  "sample_hub (k(key := None)) = (sample_hub k)(key := None)"
  "sample_hub (k(object_key ob \<mapsto> ob)) = (sample_hub k)(object_key ob \<mapsto> ob)"
  by (rule ext, simp add: sample_hub_def)+

lemma sample_laws: "env_laws sample_reconciler_env r sample_hub (\<lambda>t. t)"
proof -
  have get: "get_law sample_client sample_hub into" for into
    by (auto simp: get_law_def sample_client_def split: option.splits)
  have upd: "update_call_law sample_client sample_hub"
  proof -
    have "\<exists>rv g mf. ob = ob\<lparr>so_ResourceVersion := rv, so_Generation := g, so_ManagedFields := mf\<rparr>" for ob :: spec_object
      by (rule exI [of _ "so_ResourceVersion ob"], rule exI [of _ "so_Generation ob"],
          rule exI [of _ "so_ManagedFields ob"]) simp
    then show ?thesis
      by (auto simp: update_call_law_def stored_update_def sample_client_def sample_hub_upd)
  qed
  have named: "sample_hub k key = Some ob \<Longrightarrow> object_key ob = key" for k key ob
    by (auto simp: sample_hub_def split: option.splits if_splits)
  have store: "store_laws sample_store (\<lambda>t. t) tableName into" for tableName into
    by (auto simp: store_laws_def query_law_def insert_row_law_def update_row_law_def delete_row_law_def executed_def
        QuerySpecObject_def InsertSpecObject_def UpdateSpecObject_def DeleteSpecObject_def sample_store_def
        split: option.splits if_splits)
  have "finalizer_laws sample_finalizers" by (auto simp: finalizer_laws_def sample_finalizers_def)
  then show ?thesis using get upd named store by (auto simp: env_laws_def hub_laws_def sample_reconciler_env_def)
qed

text \<open>The run that stores the sample policy.\<close>

definition sample_before :: "spec_object hub" where "sample_before = [(''p'', ''ns'') \<mapsto> sample_policy]"

definition sample_guarded :: spec_object where
  "sample_guarded = sample_policy\<lparr>so_Finalizers := [hohCleanupFinalizer]\<rparr>"

definition sample_cleaned :: spec_object where
  "sample_cleaned = (zero_instance (PolicyCR ''spec'' [''template''] []))\<lparr>so_Name := ''p'', so_Namespace := ''ns''\<rparr>"

lemmas sample_defs =
  sample_reconciler_env_def sample_client_def sample_store_def sample_finalizers_def sample_hub_def sample_before_def sample_policy_def
  sample_guarded_def sample_cleaned_def zero_instance_def object_key_def

lemma sample_clean:
  "cleanInstance (sc_Reconciler (AddPolicyController sample_eq)) sample_policy = Some sample_cleaned"
  "cleanInstance (sc_Reconciler (AddPolicyController sample_eq)) sample_guarded = Some sample_cleaned"
  by (simp_all add: cleanInstance_def AddPolicyController_def cleanPolicyStatus_def sample_defs fun_eq_iff)

lemma sample_run:
  "Reconcile sample_reconciler_env (sc_Reconciler (AddPolicyController sample_eq)) (''p'', ''ns'') sample_before Map.empty =
     Some ((EmptyResult, None), sample_before((''p'', ''ns'') \<mapsto> sample_guarded), [''u'' \<mapsto> (sample_cleaned, False)])"
proof -
  let ?r = "sc_Reconciler (AddPolicyController sample_eq)"
  have get: "kc_Get (re_client sample_reconciler_env) sample_before (''p'', ''ns'') (gr_createInstance ?r) = Inr sample_policy"
    by (simp add: sample_defs)
  have add: "addFinalizer sample_reconciler_env ?r sample_policy sample_before =
      (None, sample_guarded, sample_before((''p'', ''ns'') \<mapsto> sample_guarded))"
    by (simp add: addFinalizer_def AddPolicyController_def sample_defs Let_def)
  have uid: "so_UID sample_guarded = ''u''" and live: "\<not> isInstanceBeingDeleted sample_policy"
    by (simp_all add: isInstanceBeingDeleted_def sample_defs)
  have proc: "processInstanceInTheDatabase sample_reconciler_env ?r sample_cleaned ''u'' Map.empty =
      (Inr sample_cleaned, [''u'' \<mapsto> (sample_cleaned, False)])"
    by (simp add: processInstanceInTheDatabase_def QuerySpecObject_def InsertSpecObject_def sample_reconciler_env_def sample_store_def)
  have eq: "gr_areEqual ?r sample_cleaned sample_cleaned"
    by (rule cleaned_equals_itself [OF sample_reflexive _ sample_clean(1)]) (simp add: addControllerFunctions_def)
  show ?thesis by (simp add: Reconcile_live [OF get live add sample_clean(2)] uid proc eq)
qed

section \<open>The invariant\<close>

text \<open>
  C34. Take any of the ten controllers, a database whose table starts empty, and any sequence of runs of
  \<open>Reconcile\<close> (with whatever calls failing) and of changes on the hub. A row that is not marked as deleted then always
  has its object on the hub, and that object carries the cleanup finalizer. So the object cannot disappear before its
  rows are marked, and when the finalizer is gone no live row of the object is left.
\<close>

theorem live_rows_stay_on_hub:
  assumes "ct \<in> set (addControllerFunctions eq)" and "env_laws env (sc_Reconciler ct) hub tbl"
    and "(spec_step env (sc_Reconciler ct) hub)\<^sup>*\<^sup>* (k0, db0) (k, db)" and "tbl db0 = Map.empty"
    and "tbl db uid = Some (ob, False)"
  shows "\<exists>c. hub k (so_Name ob, so_Namespace ob) = Some c \<and> hohCleanupFinalizer \<in> set (so_Finalizers c)"
proof -
  have "gr_finalizerName (sc_Reconciler ct) = hohCleanupFinalizer"
    using assms(1) unfolding addControllerFunctions_def by (auto simp: controller_defs)
  moreover have "rows_on_hub (gr_finalizerName (sc_Reconciler ct)) (hub k) (tbl db)"
    using spec_steps_keep [OF assms(2) controllers_keep_key [OF assms(1)] assms(3)] assms(4) by (simp add: rows_on_hub_def)
  ultimately have "rows_on_hub hohCleanupFinalizer (hub k) (tbl db)" by simp
  from rows_on_hubD [OF this, of uid ob] assms(5) show ?thesis by (simp add: object_key_def)
qed

theorem live_rows_stay_on_hub_witness:
  "\<exists>c. sample_hub (sample_before((''p'', ''ns'') \<mapsto> sample_guarded)) (''p'', ''ns'') = Some c \<and>
       hohCleanupFinalizer \<in> set (so_Finalizers c)"
proof -
  let ?ct = "AddPolicyController sample_eq"
  have "(spec_step sample_reconciler_env (sc_Reconciler ?ct) sample_hub)\<^sup>*\<^sup>* (sample_before, Map.empty)
      (sample_before((''p'', ''ns'') \<mapsto> sample_guarded), [''u'' \<mapsto> (sample_cleaned, False)])"
    by (rule r_into_rtranclp, rule spec_step.reconciled [OF sample_run])
  from live_rows_stay_on_hub [OF _ sample_laws this, of sample_eq "''u''" sample_cleaned]
  show ?thesis by (simp add: addControllerFunctions_def sample_cleaned_def)
qed

section \<open>Convergence\<close>



section \<open>Policy templates\<close>

text \<open>
  C36. The comparison of policies leaves out their templates. When the row of a policy differs from the policy on the hub
  in the templates only, no run of \<open>Reconcile\<close> ever writes the new templates: every run leaves the database as it is.
\<close>

theorem template_change_is_not_stored:
  assumes "reflexive_equality eq" and "env_laws env (sc_Reconciler (AddPolicyController eq)) hub tbl"
    and "hub k request = Some ob" and "hohCleanupFinalizer \<in> set (so_Finalizers ob)" and "\<not> isInstanceBeingDeleted ob"
    and "cleanInstance (sc_Reconciler (AddPolicyController eq)) ob = Some c"
    and "so_Body c = PolicyCR s newTemplates []"
    and "tbl db (so_UID ob) = Some (c\<lparr>so_Body := PolicyCR s oldTemplates []\<rparr>, deleted)"
    and "Reconcile env (sc_Reconciler (AddPolicyController eq)) request k db = Some (res, k', db')"
  shows "db' = db"
proof -
  let ?stored = "c\<lparr>so_Body := PolicyCR s oldTemplates []\<rparr>"
  have "withoutTemplates ?stored = withoutTemplates c" using assms(7) by (simp add: withoutTemplates_def)
  then have "arePoliciesEqual eq c ?stored" using assms(1,7) by (simp add: arePoliciesEqual_def)
  then have equal: "gr_areEqual (sc_Reconciler (AddPolicyController eq)) c ?stored" by (simp add: AddPolicyController_def)
  have "gr_finalizerName (sc_Reconciler (AddPolicyController eq)) \<in> set (so_Finalizers ob)"
    using assms(4) by (simp add: AddPolicyController_def)
  from Reconcile_settled [OF assms(2,6,8) equal assms(3) this same_instance_refl assms(5,9)] show ?thesis by simp
qed

theorem template_change_is_not_stored_witness:
  "\<exists>res k'. Reconcile sample_reconciler_env (sc_Reconciler (AddPolicyController sample_eq)) (''p'', ''ns'')
       [(''p'', ''ns'') \<mapsto> sample_guarded] [''u'' \<mapsto> (sample_cleaned\<lparr>so_Body := PolicyCR ''spec'' [''old''] []\<rparr>, False)] =
     Some (res, k', [''u'' \<mapsto> (sample_cleaned\<lparr>so_Body := PolicyCR ''spec'' [''old''] []\<rparr>, False)])"
proof -
  let ?r = "sc_Reconciler (AddPolicyController sample_eq)"
  let ?k = "[(''p'', ''ns'') \<mapsto> sample_guarded] :: spec_object hub"
  let ?t = "[''u'' \<mapsto> (sample_cleaned\<lparr>so_Body := PolicyCR ''spec'' [''old''] []\<rparr>, False)] :: object_table"
  have live: "\<not> isInstanceBeingDeleted sample_guarded" by (simp add: isInstanceBeingDeleted_def sample_defs)
  have hub: "sample_hub ?k (''p'', ''ns'') = Some sample_guarded" by (simp add: sample_defs)
  have fin: "hohCleanupFinalizer \<in> set (so_Finalizers sample_guarded)" by (simp add: sample_guarded_def)
  have body: "so_Body sample_cleaned = PolicyCR ''spec'' [''template''] []" by (simp add: sample_defs)
  have row: "?t (so_UID sample_guarded) = Some (sample_cleaned\<lparr>so_Body := PolicyCR ''spec'' [''old''] []\<rparr>, False)"
    by (simp add: sample_guarded_def sample_policy_def)
  have get: "kc_Get (re_client sample_reconciler_env) ?k (''p'', ''ns'') (gr_createInstance ?r) = Inr sample_guarded"
    using hub by (simp add: sample_reconciler_env_def sample_client_def)
  have add: "addFinalizer sample_reconciler_env ?r sample_guarded ?k = (None, sample_guarded, ?k)"
    by (simp add: addFinalizer_def AddPolicyController_def sample_defs)
  obtain res k' db' where run: "Reconcile sample_reconciler_env ?r (''p'', ''ns'') ?k ?t = Some (res, k', db')"
    using Reconcile_live [OF get live add sample_clean(2), of ?t] by (auto split: prod.splits sum.splits if_splits)
  with template_change_is_not_stored [OF sample_reflexive sample_laws hub fin live sample_clean(2) body row run]
  show ?thesis by blast
qed

end
