(* ===== verification/Status_Aggregation.thy ===== *)
theory Status_Aggregation
  imports K8s_Client
begin

text \<open>
  \<open>src/pkg/statussyncer/db2status\<close>, first part: the periodic syncer, the helpers, and the syncers that aggregate the
  status rows of policies, placement rules, placements and placement decisions into the custom resources on the hub of
  hubs. A syncer reads the rows of a spec table and starts one goroutine per row; it is modelled as the list of those
  goroutines, in the order in which they are started, and each of them as a step on the state of the API server. The
  database is read through a record of query functions, for one state of the database.
\<close>

section \<open>Queries\<close>

text \<open>A row of text columns (\<^const>\<open>None\<close> for NULL), and a row with one payload column, which is decoded into the Go type of
  the variable (\<^const>\<open>None\<close> if that fails). A query that fails gives \<^const>\<open>None\<close>.\<close>

type_synonym text_query = "string \<Rightarrow> string list \<Rightarrow> string option list list option"
type_synonym 'o payload_query = "string \<Rightarrow> string list \<Rightarrow> 'o option list option"

fun scan2 :: "string option list \<Rightarrow> (string \<times> string) option" where
  "scan2 [Some x, Some y] = Some (x, y)"
| "scan2 _ = None"

fun scan3 :: "string option list \<Rightarrow> (string \<times> string \<times> string) option" where
  "scan3 [Some x, Some y, Some z] = Some (x, y, z)"
| "scan3 _ = None"

definition spec_names_query :: "string \<Rightarrow> string" where
  "spec_names_query tableName =
     ''SELECT payload->'metadata'->>'name', payload->'metadata'->>'namespace' '' @ newline_tabs 2 @
     ''FROM spec.'' @ tableName @ '' WHERE deleted = FALSE''"

definition spec_ids_query :: "string \<Rightarrow> string" where
  "spec_ids_query tableName =
     ''SELECT id, payload->'metadata'->>'name', payload->'metadata'->>'namespace' '' @ newline_tabs 2 @
     ''FROM spec.'' @ tableName @ '' WHERE deleted = FALSE''"

definition status_payload_query :: "string \<Rightarrow> string" where
  "status_payload_query tableName =
     ''SELECT payload FROM status.'' @ tableName @ newline_tabs 3 @
     ''WHERE payload->'metadata'->>'name'=$1 AND payload->'metadata'->>'namespace'=$2''"

definition decision_payload_query :: "string \<Rightarrow> string" where
  "decision_payload_query tableName =
     ''SELECT payload FROM status.'' @ tableName @ newline_tabs 3 @
     ''WHERE payload->'metadata'->>'name' like $1 AND payload->'metadata'->>'namespace'=$2''"

definition placementKind :: string where "placementKind = ''Placement''"
definition subscriptionKind :: string where "subscriptionKind = ''Subscription''"
definition appsv1APIGroup :: string where "appsv1APIGroup = ''apps.open-cluster-management.io/v1''"
definition clusterv1beta1APIGroup :: string where "clusterv1beta1APIGroup = ''cluster.open-cluster-management.io/v1beta1''"
definition placementsSpecTableName :: string where "placementsSpecTableName = ''placements''"
definition placementsStatusTableName :: string where "placementsStatusTableName = ''placements''"
definition placementDecisionsStatusTableName :: string where "placementDecisionsStatusTableName = ''placementdecisions''"
definition subscriptionsSpecTableName :: string where "subscriptionsSpecTableName = ''subscriptions''"
definition subscriptionStatusesTableName :: string where "subscriptionStatusesTableName = ''subscription_statuses''"
definition subscriptionReportsStatusTableName :: string where "subscriptionReportsStatusTableName = ''subscription_reports''"

section \<open>The periodic syncer\<close>

text \<open>Contexts are numbered in the order of their creation. A tick cancels the context of the previous tick and makes a new
  one, which it hands to the sync function; the end of the loop cancels the last one.\<close>

record periodic_state =
  ps_cancelFunc :: "nat option"
  ps_contexts :: nat
  ps_cancelled :: "nat set"

definition periodic_init :: periodic_state where
  "periodic_init = \<lparr> ps_cancelFunc = None, ps_contexts = 0, ps_cancelled = {} \<rparr>"

definition cancel_current :: "periodic_state \<Rightarrow> periodic_state" where
  "cancel_current s = (case ps_cancelFunc s of None \<Rightarrow> s | Some c \<Rightarrow> s\<lparr>ps_cancelled := insert c (ps_cancelled s)\<rparr>)"

definition periodic_tick :: "periodic_state \<Rightarrow> nat \<times> periodic_state" where
  "periodic_tick s =
     (let s1 = cancel_current s; ctxWithTimeout = ps_contexts s1
      in (ctxWithTimeout, s1\<lparr>ps_cancelFunc := Some ctxWithTimeout, ps_contexts := ps_contexts s1 + 1\<rparr>))"

text \<open>\<open>periodicSync\<close> for a number of ticks before the stop signal: the contexts handed out, and the state at the end.\<close>

fun periodicSync :: "nat \<Rightarrow> periodic_state \<Rightarrow> nat list \<times> periodic_state" where
  "periodicSync 0 s = ([], cancel_current s)"
| "periodicSync (Suc n) s =
     (case periodic_tick s of (ctx, s1) \<Rightarrow> (case periodicSync n s1 of (ctxs, s2) \<Rightarrow> (ctx # ctxs, s2)))"

section \<open>Helpers\<close>

record owner_reference =
  or_APIVersion :: string
  or_Controller :: bool
  or_BlockOwnerDeletion :: bool
  or_Kind :: string
  or_Name :: string
  or_UID :: string

record meta_object =
  mo_Name :: string
  mo_Namespace :: string
  mo_ResourceVersion :: string
  mo_Annotations :: "string \<rightharpoonup> string"
  mo_Labels :: "string \<rightharpoonup> string"
  mo_OwnerReferences :: "owner_reference list"

definition createK8sResource ::
  "('k, 'a meta_object_scheme) k8s_client \<Rightarrow> 'k \<Rightarrow> 'a meta_object_scheme option \<Rightarrow> client_error option \<times> 'k" where
  "createK8sResource client k resource =
     (case resource of None \<Rightarrow> (None, k) | Some res \<Rightarrow> kc_Create client k (res\<lparr>mo_ResourceVersion := []\<rparr>))"

definition setOwnerReference :: "'a meta_object_scheme \<Rightarrow> owner_reference \<Rightarrow> 'a meta_object_scheme" where
  "setOwnerReference resource ownerReference = resource\<lparr>mo_OwnerReferences := [ownerReference]\<rparr>"

definition createOwnerReference :: "string \<Rightarrow> string \<Rightarrow> string \<Rightarrow> string \<Rightarrow> owner_reference" where
  "createOwnerReference apiVersion kind name uid =
     \<lparr> or_APIVersion = apiVersion, or_Controller = True, or_BlockOwnerDeletion = True, or_Kind = kind, or_Name = name, or_UID = uid \<rparr>"

text \<open>The errors of a handler, which it logs.\<close>

datatype handler_error = ErrReadStatus | ErrGetResource | ErrCreateResource | ErrUpdateResource

text \<open>A refused patch is an error, unless the object is gone.\<close>

definition ignore_not_found :: "client_error option \<Rightarrow> handler_error option" where
  "ignore_not_found e = (if e = None \<or> e = Some ErrNotFound then None else Some ErrUpdateResource)"

section \<open>Policies\<close>

text \<open>\<open>policyv1.ComplianceState\<close>; \<open>NoState\<close> is the empty string, Go's zero value.\<close>

datatype compliance_state = NoState | StateCompliant | StateNonCompliant

record cluster_compliance =
  cc_ComplianceState :: compliance_state
  cc_ClusterName :: string
  cc_ClusterNamespace :: string

record policy_placement =
  pp_PlacementBinding :: string
  pp_PlacementRule :: string

record policy_object = meta_object +
  po_UID :: string
  po_Placement :: "policy_placement list"
  po_Status :: "cluster_compliance list"
  po_ComplianceState :: compliance_state
  po_content :: string

definition dbEnumCompliant :: string where "dbEnumCompliant = ''compliant''"
definition dbEnumNonCompliant :: string where "dbEnumNonCompliant = ''non_compliant''"
definition policiesSpecTableName :: string where "policiesSpecTableName = ''policies''"
definition complianceStatusTableName :: string where "complianceStatusTableName = ''compliance''"

definition compliance_rows_query :: string where
  "compliance_rows_query =
     ''SELECT cluster_name,leaf_hub_name,compliance FROM status.'' @ complianceStatusTableName @ newline_tabs 3 @
     ''WHERE id=$1 ORDER BY leaf_hub_name, cluster_name''"

definition dbEnumToPolicyComplianceStateMap :: "string \<rightharpoonup> compliance_state" where
  "dbEnumToPolicyComplianceStateMap = [dbEnumCompliant \<mapsto> StateCompliant, dbEnumNonCompliant \<mapsto> StateNonCompliant]"

text \<open>Indexing a Go map with a key it does not have gives the zero value.\<close>

definition state_of :: "(string \<rightharpoonup> compliance_state) \<Rightarrow> string \<Rightarrow> compliance_state" where
  "state_of m complianceInDB = (case m complianceInDB of None \<Rightarrow> NoState | Some s \<Rightarrow> s)"

fun compliance_statuses ::
  "(string \<rightharpoonup> compliance_state) \<Rightarrow> string option list list \<Rightarrow> cluster_compliance list \<Rightarrow> bool \<Rightarrow>
   (cluster_compliance list \<times> bool) option" where
  "compliance_statuses m [] acc hasNonCompliantClusters = Some (acc, hasNonCompliantClusters)"
| "compliance_statuses m (row # rows) acc hasNonCompliantClusters =
     (case scan3 row of
        None \<Rightarrow> None
      | Some (clusterName, leafHubName, complianceInDB) \<Rightarrow>
          (let compliance = state_of m complianceInDB
           in compliance_statuses m rows
                (acc @ [\<lparr> cc_ComplianceState = compliance, cc_ClusterName = clusterName, cc_ClusterNamespace = clusterName \<rparr>])
                (hasNonCompliantClusters \<or> compliance = StateNonCompliant)))"

definition getComplianceStatus ::
  "text_query \<Rightarrow> (string \<rightharpoonup> compliance_state) \<Rightarrow> policy_object \<Rightarrow> (cluster_compliance list \<times> bool) option" where
  "getComplianceStatus query m policy =
     (case query compliance_rows_query [po_UID policy] of
        None \<Rightarrow> None
      | Some rows \<Rightarrow> compliance_statuses m rows [] False)"

definition updated_policy :: "policy_object \<Rightarrow> cluster_compliance list \<Rightarrow> bool \<Rightarrow> policy_object" where
  "updated_policy policy compliancePerClusterStatuses hasNonCompliantClusters =
     policy\<lparr>po_Status := compliancePerClusterStatuses,
       po_ComplianceState :=
         (if hasNonCompliantClusters then StateNonCompliant
          else if length compliancePerClusterStatuses > 0 then StateCompliant
          else NoState)\<rparr>"

definition updateComplianceStatus ::
  "('k, policy_object) k8s_client \<Rightarrow> policy_object \<Rightarrow> cluster_compliance list \<Rightarrow> bool \<Rightarrow> 'k \<Rightarrow> handler_error option \<times> 'k" where
  "updateComplianceStatus client policy compliancePerClusterStatuses hasNonCompliantClusters k =
     (case kc_StatusPatch client k (updated_policy policy compliancePerClusterStatuses hasNonCompliantClusters) policy of
        (e, k') \<Rightarrow> (ignore_not_found e, k'))"

definition handlePolicy ::
  "text_query \<Rightarrow> ('k, policy_object) k8s_client \<Rightarrow> (string \<rightharpoonup> compliance_state) \<Rightarrow> policy_object \<Rightarrow> 'k \<Rightarrow>
   handler_error option \<times> 'k" where
  "handlePolicy query client m policy k =
     (case getComplianceStatus query m policy of
        None \<Rightarrow> (Some ErrReadStatus, k)
      | Some (statuses, hasNonCompliantClusters) \<Rightarrow>
          updateComplianceStatus client policy statuses hasNonCompliantClusters k)"

text \<open>The goroutines that a tick starts. \<open>Get\<close> is called in the loop; a row that cannot be read, or whose policy is not
  there, is skipped.\<close>

fun policy_jobs :: "('k, policy_object) k8s_client \<Rightarrow> 'k \<Rightarrow> policy_object \<Rightarrow> string option list list \<Rightarrow> policy_object list" where
  "policy_jobs client k zero [] = []"
| "policy_jobs client k zero (row # rows) =
     (case scan3 row of
        None \<Rightarrow> policy_jobs client k zero rows
      | Some (uid, name, namespace) \<Rightarrow>
          (case kc_Get client k (name, namespace) zero of
             Inl e \<Rightarrow> policy_jobs client k zero rows
           | Inr instance \<Rightarrow> instance # policy_jobs client k zero rows))"

definition zero_policy :: policy_object where
  "zero_policy = \<lparr> mo_Name = [], mo_Namespace = [], mo_ResourceVersion = [], mo_Annotations = Map.empty, mo_Labels = Map.empty,
     mo_OwnerReferences = [], po_UID = [], po_Placement = [], po_Status = [], po_ComplianceState = NoState, po_content = [] \<rparr>"

definition syncPolicies :: "text_query \<Rightarrow> ('k, policy_object) k8s_client \<Rightarrow> 'k \<Rightarrow> policy_object list" where
  "syncPolicies query client k =
     (case query (spec_ids_query policiesSpecTableName) [] of
        None \<Rightarrow> []
      | Some rows \<Rightarrow> policy_jobs client k zero_policy rows)"

end
