(* ===== verification/Placement_Aggregation.thy ===== *)
theory Placement_Aggregation
  imports Status_Aggregation
begin

text \<open>
  \<open>src/pkg/statussyncer/db2status\<close>, second part: placement rules, placements and placement decisions. The decisions of a
  status are uninterpreted strings.
\<close>

section \<open>Jobs by name\<close>

text \<open>The loops over the spec tables, without and with the UID; a row that cannot be read is skipped.\<close>

fun named_rows :: "string option list list \<Rightarrow> (string \<times> string) list" where
  "named_rows [] = []"
| "named_rows (row # rows) =
     (case scan2 row of None \<Rightarrow> named_rows rows | Some nn \<Rightarrow> nn # named_rows rows)"

fun identified_rows :: "string option list list \<Rightarrow> (string \<times> string \<times> string) list" where
  "identified_rows [] = []"
| "identified_rows (row # rows) =
     (case scan3 row of None \<Rightarrow> identified_rows rows | Some job \<Rightarrow> job # identified_rows rows)"

section \<open>Placement rules\<close>

record placement_rule = meta_object +
  prule_Decisions :: "string list"
  prule_content :: string

definition placementRulesSpecTableName :: string where "placementRulesSpecTableName = ''placementrules''"
definition placementrRulesStatusTableName :: string where "placementrRulesStatusTableName = ''placementrules''"

definition zero_placement_rule :: placement_rule where
  "zero_placement_rule = \<lparr> mo_Name = [], mo_Namespace = [], mo_ResourceVersion = [], mo_Annotations = Map.empty,
     mo_Labels = Map.empty, mo_OwnerReferences = [], prule_Decisions = [], prule_content = [] \<rparr>"

definition syncPlacementRules :: "text_query \<Rightarrow> (string \<times> string) list" where
  "syncPlacementRules query =
     (case query (spec_names_query placementRulesSpecTableName) [] of None \<Rightarrow> [] | Some rows \<Rightarrow> named_rows rows)"

fun merge_rule_decisions :: "placement_rule option list \<Rightarrow> string list \<Rightarrow> bool \<Rightarrow> (string list \<times> bool) option" where
  "merge_rule_decisions [] decisions statusEntriesFound = Some (decisions, statusEntriesFound)"
| "merge_rule_decisions (None # rows) decisions statusEntriesFound = None"
| "merge_rule_decisions (Some leafHubPlacementRule # rows) decisions statusEntriesFound =
     merge_rule_decisions rows (decisions @ prule_Decisions leafHubPlacementRule) True"

definition getPlacementRuleStatus :: "placement_rule payload_query \<Rightarrow> string \<Rightarrow> string \<Rightarrow> (string list \<times> bool) option" where
  "getPlacementRuleStatus query placementRuleName placementRuleNamespace =
     (case query (status_payload_query placementrRulesStatusTableName) [placementRuleName, placementRuleNamespace] of
        None \<Rightarrow> None
      | Some rows \<Rightarrow> merge_rule_decisions rows [] False)"

definition updatePlacementRuleStatus ::
  "('k, placement_rule) k8s_client \<Rightarrow> string \<Rightarrow> string \<Rightarrow> string list \<Rightarrow> 'k \<Rightarrow> handler_error option \<times> 'k" where
  "updatePlacementRuleStatus client placementRuleName placementRuleNamespace decisions k =
     (case kc_Get client k (placementRuleName, placementRuleNamespace) zero_placement_rule of
        Inl ErrNotFound \<Rightarrow> (None, k)
      | Inl ErrClient \<Rightarrow> (Some ErrGetResource, k)
      | Inr deployedPlacementRule \<Rightarrow>
          (case kc_StatusPatch client k (deployedPlacementRule\<lparr>prule_Decisions := decisions\<rparr>) deployedPlacementRule of
             (e, k') \<Rightarrow> (ignore_not_found e, k')))"

definition handlePlacementRuleStatus ::
  "placement_rule payload_query \<Rightarrow> ('k, placement_rule) k8s_client \<Rightarrow> string \<times> string \<Rightarrow> 'k \<Rightarrow> handler_error option \<times> 'k" where
  "handlePlacementRuleStatus query client job k =
     (case getPlacementRuleStatus query (fst job) (snd job) of
        None \<Rightarrow> (Some ErrReadStatus, k)
      | Some (decisions, statusEntriesFound) \<Rightarrow>
          (if \<not> statusEntriesFound then (None, k)
           else updatePlacementRuleStatus client (fst job) (snd job) decisions k))"

section \<open>Placements\<close>

text \<open>\<open>NumberOfSelectedClusters\<close> is an \<open>int32\<close>.\<close>

record placement_object = meta_object +
  plc_NumberOfSelectedClusters :: "32 word"
  plc_content :: string

definition zero_placement :: placement_object where
  "zero_placement = \<lparr> mo_Name = [], mo_Namespace = [], mo_ResourceVersion = [], mo_Annotations = Map.empty,
     mo_Labels = Map.empty, mo_OwnerReferences = [], plc_NumberOfSelectedClusters = 0, plc_content = [] \<rparr>"

definition syncPlacements :: "text_query \<Rightarrow> (string \<times> string) list" where
  "syncPlacements query =
     (case query (spec_names_query placementsSpecTableName) [] of None \<Rightarrow> [] | Some rows \<Rightarrow> named_rows rows)"

fun sum_selected :: "placement_object option list \<Rightarrow> 32 word \<Rightarrow> bool \<Rightarrow> (32 word \<times> bool) option" where
  "sum_selected [] n statusEntriesFound = Some (n, statusEntriesFound)"
| "sum_selected (None # rows) n statusEntriesFound = None"
| "sum_selected (Some leafHubPlacement # rows) n statusEntriesFound =
     sum_selected rows (n + plc_NumberOfSelectedClusters leafHubPlacement) True"

definition getPlacementStatus :: "placement_object payload_query \<Rightarrow> string \<Rightarrow> string \<Rightarrow> (32 word \<times> bool) option" where
  "getPlacementStatus query placementName placementNamespace =
     (case query (status_payload_query placementsStatusTableName) [placementName, placementNamespace] of
        None \<Rightarrow> None
      | Some rows \<Rightarrow> sum_selected rows 0 False)"

definition updatePlacementStatus ::
  "('k, placement_object) k8s_client \<Rightarrow> string \<Rightarrow> string \<Rightarrow> 32 word \<Rightarrow> 'k \<Rightarrow> handler_error option \<times> 'k" where
  "updatePlacementStatus client placementName placementNamespace n k =
     (case kc_Get client k (placementName, placementNamespace) zero_placement of
        Inl ErrNotFound \<Rightarrow> (None, k)
      | Inl ErrClient \<Rightarrow> (Some ErrGetResource, k)
      | Inr deployedPlacement \<Rightarrow>
          (case kc_StatusPatch client k (deployedPlacement\<lparr>plc_NumberOfSelectedClusters := n\<rparr>) deployedPlacement of
             (e, k') \<Rightarrow> (ignore_not_found e, k')))"

definition handlePlacementStatus ::
  "placement_object payload_query \<Rightarrow> ('k, placement_object) k8s_client \<Rightarrow> string \<times> string \<Rightarrow> 'k \<Rightarrow> handler_error option \<times> 'k" where
  "handlePlacementStatus query client job k =
     (case getPlacementStatus query (fst job) (snd job) of
        None \<Rightarrow> (Some ErrReadStatus, k)
      | Some (n, statusEntriesFound) \<Rightarrow>
          (if \<not> statusEntriesFound then (None, k)
           else updatePlacementStatus client (fst job) (snd job) n k))"

section \<open>Placement decisions\<close>

record placement_decision = meta_object +
  pdec_Decisions :: "string list"
  pdec_content :: string

definition zero_placement_decision :: placement_decision where
  "zero_placement_decision = \<lparr> mo_Name = [], mo_Namespace = [], mo_ResourceVersion = [], mo_Annotations = Map.empty,
     mo_Labels = Map.empty, mo_OwnerReferences = [], pdec_Decisions = [], pdec_content = [] \<rparr>"

definition syncPlacementDecisions :: "text_query \<Rightarrow> (string \<times> string \<times> string) list" where
  "syncPlacementDecisions query =
     (case query (spec_ids_query placementsSpecTableName) [] of None \<Rightarrow> [] | Some rows \<Rightarrow> identified_rows rows)"

text \<open>\<open>placementLabel\<close> is the constant \<open>PlacementLabel\<close> of the cluster API, an argument here; a missing label reads as the
  empty string. \<^const>\<open>None\<close> outside is the failure to decode a row, \<^const>\<open>None\<close> inside the nil pointer.\<close>

definition label_of :: "'a meta_object_scheme \<Rightarrow> string \<Rightarrow> string" where
  "label_of ob key = (case mo_Labels ob key of None \<Rightarrow> [] | Some v \<Rightarrow> v)"

fun merge_decisions ::
  "string \<Rightarrow> string \<Rightarrow> placement_decision option list \<Rightarrow> placement_decision option \<Rightarrow> placement_decision option option" where
  "merge_decisions placementLabel placementName [] aggregated = Some aggregated"
| "merge_decisions placementLabel placementName (None # rows) aggregated = None"
| "merge_decisions placementLabel placementName (Some leafHubPlacementDecision # rows) aggregated =
     (if label_of leafHubPlacementDecision placementLabel \<noteq> placementName
      then merge_decisions placementLabel placementName rows aggregated
      else case aggregated of
        None \<Rightarrow> merge_decisions placementLabel placementName rows (Some leafHubPlacementDecision)
      | Some agg \<Rightarrow> merge_decisions placementLabel placementName rows
          (Some (agg\<lparr>pdec_Decisions := pdec_Decisions agg @ pdec_Decisions leafHubPlacementDecision\<rparr>)))"

definition getAggregatedPlacementDecisions ::
  "placement_decision payload_query \<Rightarrow> string \<Rightarrow> string \<Rightarrow> string \<Rightarrow> placement_decision option option" where
  "getAggregatedPlacementDecisions query placementLabel placementName placementNamespace =
     (case query (decision_payload_query placementDecisionsStatusTableName) [placementName @ ''%'', placementNamespace] of
        None \<Rightarrow> None
      | Some rows \<Rightarrow> merge_decisions placementLabel placementName rows None)"

definition updatePlacementDecision ::
  "('k, placement_decision) k8s_client \<Rightarrow> placement_decision \<Rightarrow> 'k \<Rightarrow> handler_error option \<times> 'k" where
  "updatePlacementDecision client aggregated k =
     (case kc_Get client k (mo_Name aggregated, mo_Namespace aggregated) zero_placement_decision of
        Inl ErrNotFound \<Rightarrow>
          (case createK8sResource client k (Some aggregated) of
             (e, k') \<Rightarrow> (if e = None then None else Some ErrCreateResource, k'))
      | Inl ErrClient \<Rightarrow> (Some ErrGetResource, k)
      | Inr deployed \<Rightarrow>
          (case kc_StatusPatch client k (deployed\<lparr>pdec_Decisions := pdec_Decisions aggregated\<rparr>) deployed of
             (e, k') \<Rightarrow> (ignore_not_found e, k')))"

definition handlePlacementDecision ::
  "placement_decision payload_query \<Rightarrow> ('k, placement_decision) k8s_client \<Rightarrow> string \<Rightarrow> string \<times> string \<times> string \<Rightarrow> 'k \<Rightarrow>
   handler_error option \<times> 'k" where
  "handlePlacementDecision query client placementLabel job k =
     (case job of (specPlacementUID, placementName, placementNamespace) \<Rightarrow>
        (case getAggregatedPlacementDecisions query placementLabel placementName placementNamespace of
           None \<Rightarrow> (Some ErrReadStatus, k)
         | Some None \<Rightarrow> (None, k)
         | Some (Some placementDecision) \<Rightarrow>
             updatePlacementDecision client
               (setOwnerReference placementDecision
                  (createOwnerReference clusterv1beta1APIGroup placementKind placementName specPlacementUID)) k))"

end
