(* ===== verification/Subscription_Aggregation.thy ===== *)
theory Subscription_Aggregation
  imports Placement_Aggregation
begin

text \<open>
  \<open>src/pkg/statussyncer/db2status\<close>, third part: the syncers of subscription statuses and subscription reports, and the
  list of all syncers. A report carries its counts as decimal strings, which the syncer adds up.
\<close>

section \<open>Subscription statuses\<close>

record subscription_status = meta_object +
  sst_Statuses :: "string list"
  sst_content :: string

definition zero_subscription_status :: subscription_status where
  "zero_subscription_status = \<lparr> mo_Name = [], mo_Namespace = [], mo_ResourceVersion = [], mo_Annotations = Map.empty,
     mo_Labels = Map.empty, mo_OwnerReferences = [], sst_Statuses = [], sst_content = [] \<rparr>"

definition syncSubscriptionStatuses :: "text_query \<Rightarrow> (string \<times> string \<times> string) list" where
  "syncSubscriptionStatuses query =
     (case query (spec_ids_query subscriptionsSpecTableName) [] of None \<Rightarrow> [] | Some rows \<Rightarrow> identified_rows rows)"

text \<open>\<open>annotationHosting\<close> is the constant \<open>AnnotationHosting\<close> of the subscription API.\<close>

definition cleanSubscriptionStatusObject :: "string \<Rightarrow> subscription_status \<Rightarrow> subscription_status" where
  "cleanSubscriptionStatusObject annotationHosting subscriptionStatus =
     subscriptionStatus\<lparr>mo_Annotations := Map.empty,
       mo_Labels := [annotationHosting \<mapsto> mo_Namespace subscriptionStatus @ ''.'' @ mo_Name subscriptionStatus]\<rparr>"

fun merge_statuses ::
  "string \<Rightarrow> subscription_status option list \<Rightarrow> subscription_status option \<Rightarrow> subscription_status option option" where
  "merge_statuses annotationHosting [] aggregated = Some aggregated"
| "merge_statuses annotationHosting (None # rows) aggregated = None"
| "merge_statuses annotationHosting (Some leafHubSubscriptionStatus # rows) aggregated =
     (case aggregated of
        None \<Rightarrow> merge_statuses annotationHosting rows (Some (cleanSubscriptionStatusObject annotationHosting leafHubSubscriptionStatus))
      | Some agg \<Rightarrow> merge_statuses annotationHosting rows
          (Some (agg\<lparr>sst_Statuses := sst_Statuses agg @ sst_Statuses leafHubSubscriptionStatus\<rparr>)))"

definition getAggregatedSubscriptionStatuses ::
  "subscription_status payload_query \<Rightarrow> string \<Rightarrow> string \<Rightarrow> string \<Rightarrow> subscription_status option option" where
  "getAggregatedSubscriptionStatuses query annotationHosting subscriptionName subscriptionNamespace =
     (case query (status_payload_query subscriptionStatusesTableName) [subscriptionName, subscriptionNamespace] of
        None \<Rightarrow> None
      | Some rows \<Rightarrow> merge_statuses annotationHosting rows None)"

definition updateSubscriptionStatus ::
  "('k, subscription_status) k8s_client \<Rightarrow> subscription_status \<Rightarrow> 'k \<Rightarrow> handler_error option \<times> 'k" where
  "updateSubscriptionStatus client aggregated k =
     (case kc_Get client k (mo_Name aggregated, mo_Namespace aggregated) zero_subscription_status of
        Inl ErrNotFound \<Rightarrow>
          (case createK8sResource client k (Some aggregated) of
             (e, k') \<Rightarrow> (if e = None then None else Some ErrCreateResource, k'))
      | Inl ErrClient \<Rightarrow> (Some ErrGetResource, k)
      | Inr deployed \<Rightarrow>
          (case kc_Patch client k (deployed\<lparr>sst_Statuses := sst_Statuses aggregated\<rparr>) deployed of
             (e, k') \<Rightarrow> (ignore_not_found e, k')))"

definition handleSubscriptionStatus ::
  "subscription_status payload_query \<Rightarrow> ('k, subscription_status) k8s_client \<Rightarrow> string \<Rightarrow> string \<times> string \<times> string \<Rightarrow> 'k \<Rightarrow>
   handler_error option \<times> 'k" where
  "handleSubscriptionStatus query client annotationHosting job k =
     (case job of (specSubscriptionUID, subscriptionName, subscriptionNamespace) \<Rightarrow>
        (case getAggregatedSubscriptionStatuses query annotationHosting subscriptionName subscriptionNamespace of
           None \<Rightarrow> (Some ErrReadStatus, k)
         | Some None \<Rightarrow> (None, k)
         | Some (Some subscriptionStatus) \<Rightarrow>
             updateSubscriptionStatus client
               (setOwnerReference subscriptionStatus
                  (createOwnerReference appsv1APIGroup subscriptionKind subscriptionName specSubscriptionUID)) k))"

section \<open>Adding decimal strings\<close>

text \<open>\<open>strconv.Atoi\<close>: an optional sign and at least one digit, within the range of a 64-bit \<open>int\<close>.\<close>

definition is_decimal :: "string \<Rightarrow> bool" where
  "is_decimal s \<longleftrightarrow> s \<noteq> [] \<and> list_all (\<lambda>c. 48 \<le> (of_char c :: nat) \<and> (of_char c :: nat) < 58) s"

definition in_range :: "int \<Rightarrow> int option" where
  "in_range n = (if in_int64 n then Some n else None)"

definition atoi :: "string \<Rightarrow> int option" where
  "atoi s =
     (case s of
        [] \<Rightarrow> None
      | c # cs \<Rightarrow>
          (if c = CHR ''-'' then (if is_decimal cs then in_range (- int (digit_value cs)) else None)
           else if c = CHR ''+'' then (if is_decimal cs then in_range (int (digit_value cs)) else None)
           else if is_decimal s then in_range (int (digit_value s)) else None))"

definition stringToInt :: "string \<Rightarrow> int" where
  "stringToInt numberString = (case atoi numberString of Some number \<Rightarrow> number | None \<Rightarrow> 0)"

definition add :: "string \<Rightarrow> string \<Rightarrow> string" where
  "add number1 number2 = itoa (wrap64 (stringToInt number1 + stringToInt number2))"

section \<open>Subscription reports\<close>

record report_summary =
  rs_Deployed :: string
  rs_InProgress :: string
  rs_Failed :: string
  rs_PropagationFailed :: string
  rs_Clusters :: string

record subscription_report = meta_object +
  srep_Summary :: report_summary
  srep_Results :: "string list"
  srep_content :: string

definition zero_subscription_report :: subscription_report where
  "zero_subscription_report = \<lparr> mo_Name = [], mo_Namespace = [], mo_ResourceVersion = [], mo_Annotations = Map.empty,
     mo_Labels = Map.empty, mo_OwnerReferences = [],
     srep_Summary = \<lparr> rs_Deployed = [], rs_InProgress = [], rs_Failed = [], rs_PropagationFailed = [], rs_Clusters = [] \<rparr>,
     srep_Results = [], srep_content = [] \<rparr>"

definition syncSubscriptionReports :: "text_query \<Rightarrow> (string \<times> string \<times> string) list" where
  "syncSubscriptionReports query =
     (case query (spec_ids_query subscriptionsSpecTableName) [] of None \<Rightarrow> [] | Some rows \<Rightarrow> identified_rows rows)"

definition cleanSubscriptionReportObject :: "string \<Rightarrow> subscription_report \<Rightarrow> subscription_report" where
  "cleanSubscriptionReportObject annotationHosting subscriptionReport =
     subscriptionReport\<lparr>mo_Annotations := Map.empty,
       mo_Labels := [annotationHosting \<mapsto> mo_Namespace subscriptionReport @ ''.'' @ mo_Name subscriptionReport]\<rparr>"

definition updateSubscriptionReportSummary :: "report_summary \<Rightarrow> report_summary \<Rightarrow> report_summary" where
  "updateSubscriptionReportSummary aggregatedSummary reportSummary =
     \<lparr> rs_Deployed = add (rs_Deployed aggregatedSummary) (rs_Deployed reportSummary),
       rs_InProgress = add (rs_InProgress aggregatedSummary) (rs_InProgress reportSummary),
       rs_Failed = add (rs_Failed aggregatedSummary) (rs_Failed reportSummary),
       rs_PropagationFailed = add (rs_PropagationFailed aggregatedSummary) (rs_PropagationFailed reportSummary),
       rs_Clusters = add (rs_Clusters aggregatedSummary) (rs_Clusters reportSummary) \<rparr>"

fun merge_reports ::
  "string \<Rightarrow> subscription_report option list \<Rightarrow> subscription_report option \<Rightarrow> subscription_report option option" where
  "merge_reports annotationHosting [] aggregated = Some aggregated"
| "merge_reports annotationHosting (None # rows) aggregated = None"
| "merge_reports annotationHosting (Some leafHubSubscriptionReport # rows) aggregated =
     (case aggregated of
        None \<Rightarrow> merge_reports annotationHosting rows (Some (cleanSubscriptionReportObject annotationHosting leafHubSubscriptionReport))
      | Some agg \<Rightarrow> merge_reports annotationHosting rows
          (Some (agg\<lparr>srep_Summary := updateSubscriptionReportSummary (srep_Summary agg) (srep_Summary leafHubSubscriptionReport),
                     srep_Results := srep_Results agg @ srep_Results leafHubSubscriptionReport\<rparr>)))"

definition getAggregatedSubscriptionReport ::
  "subscription_report payload_query \<Rightarrow> string \<Rightarrow> string \<Rightarrow> string \<Rightarrow> subscription_report option option" where
  "getAggregatedSubscriptionReport query annotationHosting subscriptionName subscriptionNamespace =
     (case query (status_payload_query subscriptionReportsStatusTableName) [subscriptionName, subscriptionNamespace] of
        None \<Rightarrow> None
      | Some rows \<Rightarrow> merge_reports annotationHosting rows None)"

text \<open>Here an object that is gone when the patch arrives is an error, too.\<close>

definition updateSubscriptionReport ::
  "('k, subscription_report) k8s_client \<Rightarrow> subscription_report \<Rightarrow> 'k \<Rightarrow> handler_error option \<times> 'k" where
  "updateSubscriptionReport client aggregated k =
     (case kc_Get client k (mo_Name aggregated, mo_Namespace aggregated) zero_subscription_report of
        Inl ErrNotFound \<Rightarrow>
          (case createK8sResource client k (Some aggregated) of
             (e, k') \<Rightarrow> (if e = None then None else Some ErrCreateResource, k'))
      | Inl ErrClient \<Rightarrow> (Some ErrGetResource, k)
      | Inr deployed \<Rightarrow>
          (case kc_Patch client k (deployed\<lparr>srep_Summary := srep_Summary aggregated, srep_Results := srep_Results aggregated\<rparr>)
                  deployed of
             (e, k') \<Rightarrow> (if e = None then None else Some ErrUpdateResource, k')))"

definition handleSubscriptionReport ::
  "subscription_report payload_query \<Rightarrow> ('k, subscription_report) k8s_client \<Rightarrow> string \<Rightarrow> string \<times> string \<times> string \<Rightarrow> 'k \<Rightarrow>
   handler_error option \<times> 'k" where
  "handleSubscriptionReport query client annotationHosting job k =
     (case job of (specSubscriptionUID, subscriptionName, subscriptionNamespace) \<Rightarrow>
        (case getAggregatedSubscriptionReport query annotationHosting subscriptionName subscriptionNamespace of
           None \<Rightarrow> (Some ErrReadStatus, k)
         | Some None \<Rightarrow> (None, k)
         | Some (Some subscriptionReport) \<Rightarrow>
             updateSubscriptionReport client
               (setOwnerReference subscriptionReport
                  (createOwnerReference appsv1APIGroup subscriptionKind subscriptionName specSubscriptionUID)) k))"

section \<open>All syncers\<close>

text \<open>The runnables added to the manager: the interval of the ticker, and the function that a tick calls.\<close>

datatype status_sync_function =
    SyncPolicies "string \<rightharpoonup> compliance_state"
  | SyncPlacementRules | SyncPlacements | SyncPlacementDecisions | SyncSubscriptionStatuses | SyncSubscriptionReports

record genericDBSyncer =
  gs_statusSyncInterval :: int
  gs_statusSyncFunc :: status_sync_function

definition AddPolicyDBSyncer :: "int \<Rightarrow> genericDBSyncer" where
  "AddPolicyDBSyncer statusSyncInterval = \<lparr> gs_statusSyncInterval = statusSyncInterval,
     gs_statusSyncFunc = SyncPolicies [dbEnumCompliant \<mapsto> StateCompliant, dbEnumNonCompliant \<mapsto> StateNonCompliant] \<rparr>"

definition AddPlacementRuleStatusDBSyncer :: "int \<Rightarrow> genericDBSyncer" where
  "AddPlacementRuleStatusDBSyncer statusSyncInterval =
     \<lparr> gs_statusSyncInterval = statusSyncInterval, gs_statusSyncFunc = SyncPlacementRules \<rparr>"

definition AddPlacementStatusDBSyncer :: "int \<Rightarrow> genericDBSyncer" where
  "AddPlacementStatusDBSyncer statusSyncInterval =
     \<lparr> gs_statusSyncInterval = statusSyncInterval, gs_statusSyncFunc = SyncPlacements \<rparr>"

definition AddPlacementDecisionDBSyncer :: "int \<Rightarrow> genericDBSyncer" where
  "AddPlacementDecisionDBSyncer statusSyncInterval =
     \<lparr> gs_statusSyncInterval = statusSyncInterval, gs_statusSyncFunc = SyncPlacementDecisions \<rparr>"

definition AddSubscriptionStatusStatusDBSyncer :: "int \<Rightarrow> genericDBSyncer" where
  "AddSubscriptionStatusStatusDBSyncer statusSyncInterval =
     \<lparr> gs_statusSyncInterval = statusSyncInterval, gs_statusSyncFunc = SyncSubscriptionStatuses \<rparr>"

definition AddSubscriptionReportDBSyncer :: "int \<Rightarrow> genericDBSyncer" where
  "AddSubscriptionReportDBSyncer statusSyncInterval =
     \<lparr> gs_statusSyncInterval = statusSyncInterval, gs_statusSyncFunc = SyncSubscriptionReports \<rparr>"

definition status_syncers :: "int \<Rightarrow> genericDBSyncer list" where
  "status_syncers statusSyncInterval =
     map (\<lambda>addDBSyncerFunction. addDBSyncerFunction statusSyncInterval)
       [AddPolicyDBSyncer, AddPlacementRuleStatusDBSyncer, AddPlacementStatusDBSyncer, AddPlacementDecisionDBSyncer,
        AddSubscriptionStatusStatusDBSyncer, AddSubscriptionReportDBSyncer]"

text \<open>\<open>mgr.Add\<close> is a parameter; \<^const>\<open>None\<close> is its error, which ends the loop.\<close>

fun add_status_syncers :: "('m \<Rightarrow> genericDBSyncer \<Rightarrow> 'm option) \<Rightarrow> genericDBSyncer list \<Rightarrow> 'm \<Rightarrow> bool \<times> 'm" where
  "add_status_syncers mgr_Add [] mgr = (True, mgr)"
| "add_status_syncers mgr_Add (s # ss) mgr =
     (case mgr_Add mgr s of None \<Rightarrow> (False, mgr) | Some mgr' \<Rightarrow> add_status_syncers mgr_Add ss mgr')"

definition AddDBSyncers :: "('m \<Rightarrow> genericDBSyncer \<Rightarrow> 'm option) \<Rightarrow> int \<Rightarrow> 'm \<Rightarrow> bool \<times> 'm" where
  "AddDBSyncers mgr_Add statusSyncInterval mgr = add_status_syncers mgr_Add (status_syncers statusSyncInterval) mgr"

end
