(* ===== verification/Status_Effects.thy ===== *)
theory Status_Effects
  imports Subscription_Aggregation "HOL-Library.Multiset"
begin

text \<open>
  What the syncers of \<open>db2status\<close> compute and what they do to the hub: the aggregated status of a policy, the
  interleavings of the goroutines of one tick, the arithmetic on decimal strings, and the merges of the other resources.
\<close>

section \<open>One live context\<close>

definition periodic_inv :: "periodic_state \<Rightarrow> bool" where
  "periodic_inv s \<longleftrightarrow>
     {c. c < ps_contexts s \<and> c \<notin> ps_cancelled s} \<subseteq> set_option (ps_cancelFunc s) \<and>
     (\<forall>c \<in> set_option (ps_cancelFunc s). c < ps_contexts s)"

lemma periodic_inv_init: "periodic_inv periodic_init"
  by (simp add: periodic_inv_def periodic_init_def)

lemma periodic_inv_cancel: "periodic_inv s \<Longrightarrow> periodic_inv (cancel_current s)"
  by (auto simp: periodic_inv_def cancel_current_def split: option.splits)

lemma cancel_current_all: "periodic_inv s \<Longrightarrow> c < ps_contexts s \<Longrightarrow> c \<in> ps_cancelled (cancel_current s)"
  by (auto simp: periodic_inv_def cancel_current_def split: option.splits)

lemma periodic_inv_tick:
  assumes "periodic_inv s" and "periodic_tick s = (ctx, s')"
  shows "periodic_inv s'" and "{c. c < ps_contexts s' \<and> c \<notin> ps_cancelled s'} \<subseteq> {ctx}"
proof -
  have ctxs: "ps_contexts (cancel_current s) = ps_contexts s" by (simp add: cancel_current_def split: option.splits)
  show "{c. c < ps_contexts s' \<and> c \<notin> ps_cancelled s'} \<subseteq> {ctx}"
    using assms cancel_current_all [OF assms(1)] by (auto simp: periodic_tick_def Let_def ctxs less_Suc_eq)
  with assms show "periodic_inv s'" by (auto simp: periodic_inv_def periodic_tick_def Let_def)
qed

section \<open>Goroutines of a tick\<close>

text \<open>The handlers of a tick, in the order in which they act on the hub.\<close>

definition run_handlers :: "('j \<Rightarrow> 'k \<Rightarrow> 'e \<times> 'k) \<Rightarrow> 'j list \<Rightarrow> 'k \<Rightarrow> 'k" where
  "run_handlers handle js k = fold (\<lambda>j k. snd (handle j k)) js k"

lemma run_handlers_invariant:
  assumes "P k" and "\<And>j k. j \<in> set js \<Longrightarrow> P k \<Longrightarrow> P (snd (handle j k))"
  shows "P (run_handlers handle js k)"
  using assms unfolding run_handlers_def
proof (induction js arbitrary: k)
  case (Cons j js)
  have "P (snd (handle j k))" by (rule Cons.prems(2)) (simp_all add: Cons.prems(1))
  then show ?case using Cons.IH [of "snd (handle j k)"] Cons.prems(2) by simp
qed simp

lemma run_handlers_reaches:
  assumes "j \<in> set js" and "P k" and "\<And>j k. j \<in> set js \<Longrightarrow> P k \<Longrightarrow> P (snd (handle j k))"
    and "\<And>k. P k \<Longrightarrow> Q (snd (handle j k))" and "\<And>j' k. j' \<in> set js \<Longrightarrow> P k \<Longrightarrow> Q k \<Longrightarrow> Q (snd (handle j' k))"
  shows "Q (run_handlers handle js k)"
proof -
  obtain xs ys where js: "js = xs @ j # ys" using split_list [OF assms(1)] by blast
  let ?k = "run_handlers handle xs k"
  have "P ?k" by (rule run_handlers_invariant [where P = P, OF assms(2)]) (rule assms(3), simp_all add: js)
  then have "P (snd (handle j ?k)) \<and> Q (snd (handle j ?k))" using assms(3) [OF assms(1)] assms(4) by blast
  then have "P (run_handlers handle ys (snd (handle j ?k))) \<and> Q (run_handlers handle ys (snd (handle j ?k)))"
    by (rule run_handlers_invariant [where P = "\<lambda>k. P k \<and> Q k"]) (use assms(3,5) js in auto)
  then show ?thesis by (simp add: run_handlers_def js)
qed

section \<open>The status of a policy\<close>

text \<open>The abstract status: one entry per row of the compliance table, in their order, and the overall state.\<close>

type_synonym compliance_row = "string \<times> string \<times> string"

definition compliance_values :: "compliance_row \<Rightarrow> string option list" where
  "compliance_values r = (case r of (clusterName, leafHubName, compliance) \<Rightarrow> [Some clusterName, Some leafHubName, Some compliance])"

definition row_status :: "compliance_row \<Rightarrow> cluster_compliance" where
  "row_status r = (case r of (clusterName, leafHubName, compliance) \<Rightarrow>
     \<lparr> cc_ComplianceState = (if compliance = dbEnumCompliant then StateCompliant
          else if compliance = dbEnumNonCompliant then StateNonCompliant else NoState),
       cc_ClusterName = clusterName, cc_ClusterNamespace = clusterName \<rparr>)"

definition overall_state :: "compliance_row list \<Rightarrow> compliance_state" where
  "overall_state rows =
     (if \<exists>r \<in> set rows. snd (snd r) = dbEnumNonCompliant then StateNonCompliant
      else if rows = [] then NoState else StateCompliant)"

definition with_status :: "compliance_row list \<Rightarrow> policy_object \<Rightarrow> policy_object" where
  "with_status rows policy = policy\<lparr>po_Status := map row_status rows, po_ComplianceState := overall_state rows\<rparr>"

lemma scan3_compliance_values [simp]: "scan3 (compliance_values r) = Some r"
  by (cases r) (simp add: compliance_values_def)

lemma state_of_row:
  "state_of dbEnumToPolicyComplianceStateMap c =
     (if c = dbEnumCompliant then StateCompliant else if c = dbEnumNonCompliant then StateNonCompliant else NoState)"
  by (simp add: state_of_def dbEnumToPolicyComplianceStateMap_def dbEnumCompliant_def dbEnumNonCompliant_def)

lemma compliance_statuses_rows:
  "compliance_statuses dbEnumToPolicyComplianceStateMap (map compliance_values rows) acc found =
     Some (acc @ map row_status rows, found \<or> (\<exists>r \<in> set rows. snd (snd r) = dbEnumNonCompliant))"
proof (induction rows arbitrary: acc found)
  case (Cons r rows)
  obtain c h s where r: "r = (c, h, s)" by (metis prod_cases3)
  have "dbEnumCompliant \<noteq> dbEnumNonCompliant" by (simp add: dbEnumCompliant_def dbEnumNonCompliant_def)
  then have found: "(state_of dbEnumToPolicyComplianceStateMap s = StateNonCompliant) = (s = dbEnumNonCompliant)"
    by (simp add: state_of_row)
  show ?case by (simp add: r Cons.IH Let_def found) (auto simp: row_status_def state_of_row)
qed simp

definition rows_law :: "text_query \<Rightarrow> (string \<Rightarrow> compliance_row list) \<Rightarrow> bool" where
  "rows_law query rows_of \<longleftrightarrow> (\<forall>uid. query compliance_rows_query [uid] = Some (map compliance_values (rows_of uid)))"

lemma getComplianceStatus_rows:
  assumes "rows_law query rows_of"
  shows "getComplianceStatus query dbEnumToPolicyComplianceStateMap p =
    Some (map row_status (rows_of (po_UID p)), \<exists>r \<in> set (rows_of (po_UID p)). snd (snd r) = dbEnumNonCompliant)"
  using assms by (simp add: getComplianceStatus_def rows_law_def compliance_statuses_rows)

lemma updated_policy_status:
  "updated_policy p (map row_status rows) (\<exists>r \<in> set rows. snd (snd r) = dbEnumNonCompliant) = with_status rows p"
  by (simp add: updated_policy_def with_status_def overall_state_def)

lemma handlePolicy_rows:
  assumes "rows_law query rows_of"
  shows "handlePolicy query client dbEnumToPolicyComplianceStateMap p k =
    (case kc_StatusPatch client k (with_status (rows_of (po_UID p)) p) p of (e, k') \<Rightarrow> (ignore_not_found e, k'))"
  unfolding handlePolicy_def getComplianceStatus_rows [OF assms] updateComplianceStatus_def
  by (simp add: updated_policy_status)

text \<open>A status patch changes the status of a policy and nothing else.\<close>

definition meta_key :: "'a meta_object_scheme \<Rightarrow> string \<times> string" where
  "meta_key ob = (mo_Name ob, mo_Namespace ob)"

definition policy_patched :: "policy_object \<Rightarrow> policy_object \<Rightarrow> policy_object \<Rightarrow> policy_object" where
  "policy_patched cur new original =
     cur\<lparr>po_Placement := merge_field (po_Placement cur) (po_Placement new) (po_Placement original),
         po_Status := merge_field (po_Status cur) (po_Status new) (po_Status original),
         po_ComplianceState := merge_field (po_ComplianceState cur) (po_ComplianceState new) (po_ComplianceState original)\<rparr>"

definition policy_hub_laws :: "('k, policy_object) k8s_client \<Rightarrow> ('k \<Rightarrow> policy_object hub) \<Rightarrow> bool" where
  "policy_hub_laws client hub \<longleftrightarrow>
     get_law client hub zero_policy \<and> patch_law (kc_StatusPatch client) hub meta_key policy_patched \<and>
     (\<forall>k key p. hub k key = Some p \<longrightarrow> meta_key p = key)"

lemma policy_hub_lawsD:
  assumes "policy_hub_laws client hub"
  shows "get_law client hub zero_policy" "patch_law (kc_StatusPatch client) hub meta_key policy_patched"
    "hub k key = Some p \<Longrightarrow> meta_key p = key"
  using assms unfolding policy_hub_laws_def by blast+

text \<open>In a state that a tick can reach, every policy is as it was or has its aggregated status.\<close>

definition statuses_between ::
  "(string \<Rightarrow> compliance_row list) \<Rightarrow> policy_object hub \<Rightarrow> policy_object hub \<Rightarrow> bool" where
  "statuses_between rows_of h0 h \<longleftrightarrow>
     (\<forall>key. h key = h0 key \<or> (\<exists>p. h0 key = Some p \<and> h key = Some (with_status (rows_of (po_UID p)) p)))"

lemma policy_patched_status:
  "policy_patched p (with_status rows p) p = with_status rows p"
  "policy_patched (with_status rows p) (with_status rows p) p = with_status rows p"
  by (simp_all add: policy_patched_def with_status_def merge_field_def)

lemma meta_key_with_status [simp]: "meta_key (with_status rows p) = meta_key p"
  by (simp add: meta_key_def with_status_def)

lemma ignore_not_found_None: "e \<noteq> Some ErrClient \<Longrightarrow> ignore_not_found e = None"
proof (cases e)
  case (Some x)
  assume "e \<noteq> Some ErrClient"
  with Some show ?thesis by (cases x) (simp_all add: ignore_not_found_def)
qed (simp add: ignore_not_found_def)

lemma handlePolicy_effect:
  assumes laws: "policy_hub_laws client hub" and rows: "rows_law query rows_of"
    and p: "before (meta_key p) = Some p" and between: "statuses_between rows_of before (hub k)"
    and run: "handlePolicy query client dbEnumToPolicyComplianceStateMap p k = (e, k')"
  shows "hub k' = hub k \<and> e \<noteq> None \<or> hub k' = (hub k)(meta_key p \<mapsto> with_status (rows_of (po_UID p)) p)"
proof -
  let ?new = "with_status (rows_of (po_UID p)) p"
  obtain pe k1 where patch: "kc_StatusPatch client k ?new p = (pe, k1)" by fastforce
  have eq: "k' = k1" "e = ignore_not_found pe" using run patch by (simp_all add: handlePolicy_rows [OF rows])
  note laws = patch_lawD [OF policy_hub_lawsD(2) [OF laws] patch, unfolded meta_key_with_status]
  have cur: "hub k (meta_key p) = Some p \<or> hub k (meta_key p) = Some ?new"
    using between [unfolded statuses_between_def, rule_format, of "meta_key p"] p by auto
  show ?thesis
  proof (cases pe)
    case None
    then obtain c where c: "hub k (meta_key p) = Some c" "hub k1 = (hub k)(meta_key p \<mapsto> policy_patched c ?new p)"
      using laws(1) by blast
    have "c = p \<or> c = ?new" using c(1) cur by auto
    then have "policy_patched c ?new p = ?new" using policy_patched_status by metis
    then show ?thesis using c(2) eq by simp
  next
    case (Some x)
    then show ?thesis using laws(2,3) cur eq by (cases x) (auto simp: ignore_not_found_def)
  qed
qed

lemma statuses_between_upd:
  assumes "statuses_between rows_of before h" and "before (meta_key p) = Some p"
  shows "statuses_between rows_of before (h(meta_key p \<mapsto> with_status (rows_of (po_UID p)) p))"
  using assms by (auto simp: statuses_between_def)

text \<open>The goroutines are started for policies that are on the hub.\<close>

lemma policy_jobs_on_hub:
  assumes "policy_hub_laws client hub" and "p \<in> set (policy_jobs client k zero_policy rows)"
  shows "hub k (meta_key p) = Some p"
  using assms(2)
proof (induction rows)
  case (Cons row rows)
  show ?case
  proof (cases "scan3 row")
    case (Some job)
    then obtain uid name ns where job: "scan3 row = Some (uid, name, ns)" by (metis prod_cases3)
    show ?thesis
    proof (cases "kc_Get client k (name, ns) zero_policy")
      case (Inr q)
      have "hub k (name, ns) = Some q" by (rule get_lawD(1) [OF policy_hub_lawsD(1) [OF assms(1)] Inr])
      moreover from this have "meta_key q = (name, ns)" by (rule policy_hub_lawsD(3) [OF assms(1)])
      ultimately show ?thesis using Cons job Inr by auto
    qed (use Cons job in auto)
  qed (use Cons in auto)
qed simp

lemma syncPolicies_on_hub:
  assumes "policy_hub_laws client hub" and "p \<in> set (syncPolicies query client k)"
  shows "hub k (meta_key p) = Some p"
  using assms(2) policy_jobs_on_hub [OF assms(1)] by (auto simp: syncPolicies_def split: option.splits)

section \<open>Decimal strings\<close>

lemma digits_decimal: "is_decimal (digits n)"
  using digits_range by (auto simp: is_decimal_def list_all_iff)

lemma digits_sign: "digits n = c # cs \<Longrightarrow> c \<noteq> CHR ''-'' \<and> c \<noteq> CHR ''+''"
  using digits_range [of c n] by auto

text \<open>The round trip of \<open>strconv\<close>.\<close>

lemma atoi_itoa: "in_int64 n \<Longrightarrow> atoi (itoa n) = Some n"
proof (cases "n < 0")
  case True
  assume "in_int64 n"
  with True show ?thesis by (simp add: atoi_def itoa_def digits_decimal in_range_def)
next
  case False
  assume n: "in_int64 n"
  obtain c cs where d: "digits (nat n) = c # cs" using digits_ne by (metis neq_Nil_conv)
  have "digit_value (c # cs) = nat n" "is_decimal (c # cs)" using d digit_value_digits digits_decimal by metis+
  with False n d digits_sign [OF d] show ?thesis by (simp add: atoi_def itoa_def in_range_def)
qed

lemma stringToInt_range [simp]: "in_int64 (stringToInt s)"
proof -
  have "atoi s = Some n \<Longrightarrow> in_int64 n" for n
    by (auto simp: atoi_def in_range_def split: list.splits if_splits)
  moreover have "in_int64 0" by (simp add: in_int64_def)
  ultimately show ?thesis by (auto simp: stringToInt_def split: option.splits)
qed

lemma stringToInt_itoa: "in_int64 n \<Longrightarrow> stringToInt (itoa n) = n"
  by (simp add: stringToInt_def atoi_itoa)

lemma stringToInt_add: "stringToInt (add x y) = wrap64 (stringToInt x + stringToInt y)"
  by (simp add: add_def stringToInt_itoa)

lemma wrap64_add: "wrap64 (wrap64 a + b) = wrap64 (a + b)"
proof -
  have "((a + 2 ^ 63) mod 2 ^ 64 - 2 ^ 63 + b + 2 ^ 63) mod 2 ^ 64 = (a + b + 2 ^ 63) mod (2 ^ 64 :: int)"
    using mod_add_left_eq [of "a + 2 ^ 63" "2 ^ 64" b] by (simp add: algebra_simps)
  then show ?thesis unfolding wrap64_def by (simp add: algebra_simps)
qed

lemma foldl_add: "stringToInt (foldl add x ys) = wrap64 (stringToInt x + (\<Sum>y\<leftarrow>ys. stringToInt y))"
proof (induction ys arbitrary: x)
  case (Cons y ys)
  then show ?case by (simp add: stringToInt_add wrap64_add add.assoc)
qed simp

section \<open>Subscription reports\<close>

definition summary_fields :: "(report_summary \<Rightarrow> string) list" where
  "summary_fields = [rs_Deployed, rs_InProgress, rs_Failed, rs_PropagationFailed, rs_Clusters]"

lemma summary_field_fold:
  "f \<in> set summary_fields \<Longrightarrow>
   f (foldl updateSubscriptionReportSummary summary ss) = foldl add (f summary) (map f ss)"
proof (induction ss arbitrary: summary)
  case (Cons s' ss)
  have "f (updateSubscriptionReportSummary summary s') = add (f summary) (f s')"
    using Cons.prems by (auto simp: summary_fields_def updateSubscriptionReportSummary_def)
  then show ?case using Cons by simp
qed simp

lemma merge_reports_fold:
  "merge_reports h (map Some rs) (Some agg) =
     Some (Some (agg\<lparr>srep_Summary := foldl updateSubscriptionReportSummary (srep_Summary agg) (map srep_Summary rs),
                     srep_Results := srep_Results agg @ concat (map srep_Results rs)\<rparr>))"
  by (induction rs arbitrary: agg) simp_all

section \<open>Placements\<close>

lemma merge_rule_decisions_fold:
  "merge_rule_decisions (map Some rs) ds found = Some (ds @ concat (map prule_Decisions rs), found \<or> rs \<noteq> [])"
  by (induction rs arbitrary: ds found) auto

lemma sum_selected_fold:
  "sum_selected (map Some ps) n found = Some (n + (\<Sum>p\<leftarrow>ps. plc_NumberOfSelectedClusters p), found \<or> ps \<noteq> [])"
  by (induction ps arbitrary: n found) (auto simp: algebra_simps)

text \<open>The decisions that belong to a placement.\<close>

definition decisions_for :: "string \<Rightarrow> string \<Rightarrow> placement_decision list \<Rightarrow> placement_decision list" where
  "decisions_for placementLabel placementName ds = filter (\<lambda>d. label_of d placementLabel = placementName) ds"

lemma merge_decisions_Some:
  "merge_decisions l n (map Some ds) (Some agg) =
     Some (Some (agg\<lparr>pdec_Decisions := pdec_Decisions agg @ concat (map pdec_Decisions (decisions_for l n ds))\<rparr>))"
  by (induction ds arbitrary: agg) (simp_all add: decisions_for_def)

lemma merge_decisions_None:
  "merge_decisions l n (map Some ds) None =
     Some (case decisions_for l n ds of
             [] \<Rightarrow> None
           | d # ds' \<Rightarrow> Some (d\<lparr>pdec_Decisions := concat (map pdec_Decisions (d # ds'))\<rparr>))"
proof (induction ds)
  case (Cons d ds)
  then show ?case by (cases "label_of d l = n") (simp_all add: decisions_for_def merge_decisions_Some)
qed (simp add: decisions_for_def)

lemma mset_concat_cong: "mset xs = mset ys \<Longrightarrow> mset (concat (map f xs)) = mset (concat (map f ys))"
  by (simp add: mset_concat flip: sum_mset_sum_list mset_map) (metis mset_map sum_mset_sum_list)

lemma mset_decisions_for: "mset xs = mset ys \<Longrightarrow> mset (decisions_for l n xs) = mset (decisions_for l n ys)"
  by (simp add: decisions_for_def)

text \<open>An \<open>int32\<close> sum is the sum of the numbers as long as that sum fits.\<close>

lemma sint_sum_list:
  fixes ws :: "32 word list"
  assumes "- (2 ^ 31) \<le> (\<Sum>w\<leftarrow>ws. sint w)" and "(\<Sum>w\<leftarrow>ws. sint w) < 2 ^ 31"
  shows "sint (sum_list ws) = (\<Sum>w\<leftarrow>ws. sint w)"
proof -
  have "sum_list ws = of_int (\<Sum>w\<leftarrow>ws. sint w)" by (induction ws) simp_all
  then show ?thesis using assms signed_take_bit_int_eq_self [of 31 "\<Sum>w\<leftarrow>ws. sint w"]
    by (simp add: sint_sbintrunc')
qed

definition placement_patched :: "placement_object \<Rightarrow> placement_object \<Rightarrow> placement_object \<Rightarrow> placement_object" where
  "placement_patched cur new original =
     cur\<lparr>plc_NumberOfSelectedClusters := merge_field (plc_NumberOfSelectedClusters cur) (plc_NumberOfSelectedClusters new)
           (plc_NumberOfSelectedClusters original)\<rparr>"

definition placement_hub_laws :: "('k, placement_object) k8s_client \<Rightarrow> ('k \<Rightarrow> placement_object hub) \<Rightarrow> bool" where
  "placement_hub_laws client hub \<longleftrightarrow>
     get_law client hub zero_placement \<and> patch_law (kc_StatusPatch client) hub meta_key placement_patched \<and>
     (\<forall>k key p. hub k key = Some p \<longrightarrow> meta_key p = key)"

lemma placement_hub_lawsD:
  assumes "placement_hub_laws client hub"
  shows "get_law client hub zero_placement" "patch_law (kc_StatusPatch client) hub meta_key placement_patched"
    "hub k key = Some p \<Longrightarrow> meta_key p = key"
  using assms unfolding placement_hub_laws_def by blast+

lemma updatePlacementStatus_effect:
  assumes laws: "placement_hub_laws client hub" and cur: "hub k (name, namespace) = Some p"
    and run: "updatePlacementStatus client name namespace n k = (None, k')"
  shows "hub k' = (hub k)((name, namespace) \<mapsto> p\<lparr>plc_NumberOfSelectedClusters := n\<rparr>)"
proof (cases "kc_Get client k (name, namespace) zero_placement")
  case (Inl e)
  then show ?thesis using run cur get_lawD(2) [OF placement_hub_lawsD(1) [OF laws]]
    by (cases e) (auto simp: updatePlacementStatus_def)
next
  case (Inr q)
  then have q: "q = p" using get_lawD(1) [OF placement_hub_lawsD(1) [OF laws] Inr] cur by simp
  let ?new = "p\<lparr>plc_NumberOfSelectedClusters := n\<rparr>"
  have key: "meta_key ?new = (name, namespace)"
    using placement_hub_lawsD(3) [OF laws cur] by (simp add: meta_key_def)
  obtain e k1 where patch: "kc_StatusPatch client k ?new p = (e, k1)" by fastforce
  have e: "k' = k1" "ignore_not_found e = None" using run Inr q patch by (simp_all add: updatePlacementStatus_def)
  note patched = patch_lawD [OF placement_hub_lawsD(2) [OF laws] patch, unfolded key]
  have "e = None" using e(2) patched(2) cur by (auto simp: ignore_not_found_def split: if_splits)
  then show ?thesis using patched(1) cur e(1) by (auto simp: placement_patched_def merge_field_def)
qed

end
