(* ===== verification/Sample_Policies.thy ===== *)
theory Sample_Policies
  imports Status_Effects
begin

text \<open>An API server that holds policies and accepts every call, and one status row table, for the witnesses.\<close>

section \<open>A sample hub\<close>

definition named_policies :: "policy_object hub \<Rightarrow> policy_object hub" where
  "named_policies k key = (case k key of None \<Rightarrow> None | Some p \<Rightarrow> (if meta_key p = key then Some p else None))"

definition sample_policy_client :: "(policy_object hub, policy_object) k8s_client" where
  "sample_policy_client =
     \<lparr> kc_Get = (\<lambda>k key into. case named_policies k key of None \<Rightarrow> Inl ErrNotFound | Some p \<Rightarrow> Inr p),
       kc_Update = (\<lambda>k p. (Inr p, k)), kc_Create = (\<lambda>k p. (None, k)), kc_Patch = (\<lambda>k p original. (None, k)),
       kc_StatusPatch = (\<lambda>k p original. case named_policies k (meta_key p) of
          None \<Rightarrow> (Some ErrNotFound, k)
        | Some cur \<Rightarrow> (None, k(meta_key p \<mapsto> policy_patched cur p original))) \<rparr>"

definition sample_rows :: "string \<Rightarrow> compliance_row list" where
  "sample_rows uid = (if uid = ''u1'' then [(''c1'', ''hub1'', ''compliant''), (''c2'', ''hub2'', ''unknown'')] else [])"

definition sample_query :: text_query where
  "sample_query q args =
     (if q = spec_ids_query policiesSpecTableName \<and> args = [] then Some [[Some ''u1'', Some ''p1'', Some ''ns'']]
      else if q = compliance_rows_query then Some (map compliance_values (sample_rows (hd args))) else None)"

definition sample_tick_policy :: policy_object where
  "sample_tick_policy = zero_policy\<lparr>mo_Name := ''p1'', mo_Namespace := ''ns'', po_UID := ''u1''\<rparr>"

lemma compliance_query_differs: "compliance_rows_query \<noteq> spec_ids_query policiesSpecTableName"
  by (simp add: compliance_rows_query_def spec_ids_query_def)

lemma named_policies_upd:
  "meta_key p = key \<Longrightarrow> named_policies (k(key \<mapsto> p)) = (named_policies k)(key \<mapsto> p)"
  by (rule ext) (simp add: named_policies_def)

lemma sample_policy_laws: "policy_hub_laws sample_policy_client named_policies"
proof -
  have named: "named_policies k key = Some p \<Longrightarrow> meta_key p = key" for k key p
    by (auto simp: named_policies_def split: option.splits if_splits)
  have get: "get_law sample_policy_client named_policies zero_policy"
    by (auto simp: get_law_def sample_policy_client_def split: option.splits)
  have "meta_key (policy_patched cur p original) = meta_key cur" for cur p original by (simp add: meta_key_def policy_patched_def)
  then have "patch_law (kc_StatusPatch sample_policy_client) named_policies meta_key policy_patched"
    by (auto simp: patch_law_def sample_policy_client_def named_policies_upd dest: named split: option.splits)
  then show ?thesis using named get by (auto simp: policy_hub_laws_def)
qed

lemma sample_rows_law: "rows_law sample_query sample_rows"
  by (simp add: rows_law_def sample_query_def)

lemma sample_jobs:
  "syncPolicies sample_query sample_policy_client [(''p1'', ''ns'') \<mapsto> sample_tick_policy] = [sample_tick_policy]"
  by (simp add: syncPolicies_def sample_query_def sample_policy_client_def named_policies_def sample_tick_policy_def meta_key_def)

end
