(* ===== verification/Status_Properties.thy ===== *)
theory Status_Properties
  imports Sample_Policies
begin

text \<open>
  The properties of the syncers that write aggregated status to the custom resources on the hub of hubs.
\<close>

section \<open>Policies\<close>



section \<open>Subscription reports\<close>

text \<open>
  C38. The aggregated report of a subscription: its name is that of the first report, its results are the results of all
  reports in the order of the rows, and each of its five counts, read as a number, is the sum of the counts of all reports
  (a count that is not a number counts as zero) in 64-bit arithmetic, although the counts travel as decimal strings.
\<close>

theorem subscription_report_totals:
  assumes "query (status_payload_query subscriptionReportsStatusTableName) [name, namespace] = Some (map Some (r # rs))"
  shows "\<exists>agg. getAggregatedSubscriptionReport query annotationHosting name namespace = Some (Some agg) \<and>
      mo_Name agg = mo_Name r \<and> mo_Namespace agg = mo_Namespace r \<and>
      srep_Results agg = concat (map srep_Results (r # rs)) \<and>
      (\<forall>f \<in> set summary_fields. stringToInt (f (srep_Summary agg)) = wrap64 (\<Sum>x\<leftarrow>r # rs. stringToInt (f (srep_Summary x))))"
proof -
  let ?r = "cleanSubscriptionReportObject annotationHosting r"
  let ?agg = "?r\<lparr>srep_Summary := foldl updateSubscriptionReportSummary (srep_Summary ?r) (map srep_Summary rs),
    srep_Results := srep_Results ?r @ concat (map srep_Results rs)\<rparr>"
  have clean: "srep_Summary ?r = srep_Summary r" "srep_Results ?r = srep_Results r" "mo_Name ?r = mo_Name r"
    "mo_Namespace ?r = mo_Namespace r" by (simp_all add: cleanSubscriptionReportObject_def)
  have "getAggregatedSubscriptionReport query annotationHosting name namespace = Some (Some ?agg)"
    using assms by (simp add: getAggregatedSubscriptionReport_def merge_reports_fold)
  moreover have "stringToInt (f (srep_Summary ?agg)) = wrap64 (\<Sum>x\<leftarrow>r # rs. stringToInt (f (srep_Summary x)))"
    if "f \<in> set summary_fields" for f
    using summary_field_fold [OF that] by (simp add: clean foldl_add comp_def)
  ultimately show ?thesis using clean by (intro exI [of _ ?agg]) simp
qed

definition sample_report :: "string \<Rightarrow> string \<Rightarrow> subscription_report" where
  "sample_report result n = zero_subscription_report\<lparr>mo_Name := ''s'', mo_Namespace := ''ns'', srep_Results := [result],
     srep_Summary := \<lparr> rs_Deployed = n, rs_InProgress = ''0'', rs_Failed = ''x'', rs_PropagationFailed = [], rs_Clusters = n \<rparr>\<rparr>"

theorem subscription_report_totals_witness:
  "\<exists>agg. getAggregatedSubscriptionReport (\<lambda>q args. Some [Some (sample_report ''a'' ''3''), Some (sample_report ''b'' ''-5'')])
       ''hosting'' ''s'' ''ns'' = Some (Some agg) \<and>
     srep_Results agg = [''a'', ''b''] \<and> stringToInt (rs_Deployed (srep_Summary agg)) = - 2"
proof -
  let ?q = "\<lambda>(q :: string) (args :: string list). Some [Some (sample_report ''a'' ''3''), Some (sample_report ''b'' ''-5'')]"
  have "?q (status_payload_query subscriptionReportsStatusTableName) [''s'', ''ns''] =
      Some (map Some (sample_report ''a'' ''3'' # [sample_report ''b'' ''-5'']))" by simp
  from subscription_report_totals [where query = ?q, OF this, of "''hosting''"]
  obtain agg where agg: "getAggregatedSubscriptionReport ?q ''hosting'' ''s'' ''ns'' = Some (Some agg)"
      "srep_Results agg = concat (map srep_Results [sample_report ''a'' ''3'', sample_report ''b'' ''-5''])"
      "\<forall>f \<in> set summary_fields. stringToInt (f (srep_Summary agg)) =
         wrap64 (\<Sum>x\<leftarrow>[sample_report ''a'' ''3'', sample_report ''b'' ''-5'']. stringToInt (f (srep_Summary x)))"
    by blast
  have "srep_Results agg = [''a'', ''b'']" unfolding agg(2) by (simp add: sample_report_def)
  moreover have "stringToInt ''3'' = 3" "stringToInt ''-5'' = - 5" by code_simp+
  moreover have "rs_Deployed \<in> set summary_fields" by (simp add: summary_fields_def)
  ultimately have "stringToInt (rs_Deployed (srep_Summary agg)) = wrap64 (- 2) \<and> srep_Results agg = [''a'', ''b'']"
    using agg(3) by (simp add: sample_report_def)
  then show ?thesis using agg(1) by (intro exI [of _ agg]) (simp add: wrap64_def)
qed

section \<open>Placements\<close>

text \<open>
  C39. A run of the placement handler that finds status rows and returns without an error sets the number of selected
  clusters of the placement on the hub to the \<open>int32\<close> sum of the numbers of all leaf hubs, and changes nothing else on the
  hub. The number is the true total whenever that total fits into 32 bits.
\<close>

theorem placement_count_is_sum:
  assumes "placement_hub_laws client hub" and "hub k (name, namespace) = Some p" and "ps \<noteq> []"
    and "query (status_payload_query placementsStatusTableName) [name, namespace] = Some (map Some ps)"
    and "handlePlacementStatus query client (name, namespace) k = (None, k')"
  shows "\<exists>n. hub k' = (hub k)((name, namespace) \<mapsto> p\<lparr>plc_NumberOfSelectedClusters := n\<rparr>) \<and>
      n = (\<Sum>q\<leftarrow>ps. plc_NumberOfSelectedClusters q) \<and>
      ((\<Sum>q\<leftarrow>ps. sint (plc_NumberOfSelectedClusters q)) \<in> {- (2 ^ 31) ..< 2 ^ 31} \<longrightarrow>
         sint n = (\<Sum>q\<leftarrow>ps. sint (plc_NumberOfSelectedClusters q)))"
proof -
  let ?n = "\<Sum>q\<leftarrow>ps. plc_NumberOfSelectedClusters q"
  have "getPlacementStatus query name namespace = Some (?n, True)"
    using assms(3,4) by (simp add: getPlacementStatus_def sum_selected_fold)
  then have "updatePlacementStatus client name namespace ?n k = (None, k')"
    using assms(5) by (simp add: handlePlacementStatus_def)
  from updatePlacementStatus_effect [OF assms(1,2) this]
  show ?thesis using sint_sum_list [of "map plc_NumberOfSelectedClusters ps"] by (auto simp: comp_def)
qed

definition named_placements :: "placement_object hub \<Rightarrow> placement_object hub" where
  "named_placements k key = (case k key of None \<Rightarrow> None | Some p \<Rightarrow> (if meta_key p = key then Some p else None))"

definition sample_placement_client :: "(placement_object hub, placement_object) k8s_client" where
  "sample_placement_client =
     \<lparr> kc_Get = (\<lambda>k key into. case named_placements k key of None \<Rightarrow> Inl ErrNotFound | Some p \<Rightarrow> Inr p),
       kc_Update = (\<lambda>k p. (Inr p, k)), kc_Create = (\<lambda>k p. (None, k)), kc_Patch = (\<lambda>k p original. (None, k)),
       kc_StatusPatch = (\<lambda>k p original. case named_placements k (meta_key p) of
          None \<Rightarrow> (Some ErrNotFound, k)
        | Some cur \<Rightarrow> (None, k(meta_key p \<mapsto> placement_patched cur p original))) \<rparr>"

definition sample_placement :: "32 word \<Rightarrow> placement_object" where
  "sample_placement n = zero_placement\<lparr>mo_Name := ''pl'', mo_Namespace := ''ns'', plc_NumberOfSelectedClusters := n\<rparr>"

lemma named_placements_upd:
  "meta_key p = key \<Longrightarrow> named_placements (k(key \<mapsto> p)) = (named_placements k)(key \<mapsto> p)"
  by (rule ext) (simp add: named_placements_def)

lemma sample_placement_laws: "placement_hub_laws sample_placement_client named_placements"
proof -
  have named: "named_placements k key = Some p \<Longrightarrow> meta_key p = key" for k key p
    by (auto simp: named_placements_def split: option.splits if_splits)
  have get: "get_law sample_placement_client named_placements zero_placement"
    by (auto simp: get_law_def sample_placement_client_def split: option.splits)
  have "meta_key (placement_patched cur p original) = meta_key cur" for cur p original by (simp add: meta_key_def placement_patched_def)
  then have "patch_law (kc_StatusPatch sample_placement_client) named_placements meta_key placement_patched"
    by (auto simp: patch_law_def sample_placement_client_def named_placements_upd dest: named split: option.splits)
  then show ?thesis using named get by (auto simp: placement_hub_laws_def)
qed

theorem placement_count_is_sum_witness:
  "\<exists>k'. handlePlacementStatus (\<lambda>q args. Some [Some (sample_placement 3), Some (sample_placement 4)]) sample_placement_client
      (''pl'', ''ns'') [(''pl'', ''ns'') \<mapsto> sample_placement 0] = (None, k') \<and>
    named_placements k' (''pl'', ''ns'') = Some (sample_placement 7)"
proof -
  let ?q = "\<lambda>(q :: string) (args :: string list). Some [Some (sample_placement 3), Some (sample_placement 4)]"
  let ?k = "[(''pl'', ''ns'') \<mapsto> sample_placement 0] :: placement_object hub"
  have hub: "named_placements ?k (''pl'', ''ns'') = Some (sample_placement 0)"
    by (simp add: named_placements_def sample_placement_def meta_key_def)
  have rows: "?q (status_payload_query placementsStatusTableName) [''pl'', ''ns''] =
      Some (map Some [sample_placement 3, sample_placement 4])" by simp
  obtain k' where run: "handlePlacementStatus ?q sample_placement_client (''pl'', ''ns'') ?k = (None, k')"
    by (simp add: handlePlacementStatus_def getPlacementStatus_def updatePlacementStatus_def sample_placement_client_def
        named_placements_def sample_placement_def meta_key_def ignore_not_found_def)
  from placement_count_is_sum [where query = ?q, OF sample_placement_laws hub _ rows run]
  have "named_placements k' (''pl'', ''ns'') = Some (sample_placement 7)" by (auto simp: sample_placement_def)
  with run show ?thesis by blast
qed

section \<open>Placement decisions\<close>

text \<open>
  C40. The rows of placement decisions are read in no particular order. In whichever order they come, the aggregated
  placement decision of a placement has the decisions of exactly those rows whose label names the placement, each as often
  as the rows have it. Its name is that of the first such row: two ticks that read the same rows in different orders may
  write to two different objects.
\<close>

theorem decisions_independent_of_order:
  assumes "query1 (decision_payload_query placementDecisionsStatusTableName) [name @ ''%'', namespace] = Some (map Some ds1)"
    and "query2 (decision_payload_query placementDecisionsStatusTableName) [name @ ''%'', namespace] = Some (map Some ds2)"
    and "mset ds1 = mset ds2" and "decisions_for placementLabel name ds1 \<noteq> []"
  shows "\<exists>agg1 agg2. getAggregatedPlacementDecisions query1 placementLabel name namespace = Some (Some agg1) \<and>
      getAggregatedPlacementDecisions query2 placementLabel name namespace = Some (Some agg2) \<and>
      mset (pdec_Decisions agg1) = mset (concat (map pdec_Decisions (decisions_for placementLabel name ds1))) \<and>
      mset (pdec_Decisions agg2) = mset (pdec_Decisions agg1) \<and>
      mo_Name agg1 = mo_Name (hd (decisions_for placementLabel name ds1)) \<and>
      mo_Name agg2 = mo_Name (hd (decisions_for placementLabel name ds2))"
proof -
  let ?f = "decisions_for placementLabel name"
  have same: "mset (?f ds2) = mset (?f ds1)" by (rule mset_decisions_for [OF assms(3) [symmetric]])
  then have ne: "?f ds2 \<noteq> []" using assms(4) by (metis mset_zero_iff)
  have one: "getAggregatedPlacementDecisions query placementLabel name namespace =
      Some (Some ((hd (?f ds))\<lparr>pdec_Decisions := concat (map pdec_Decisions (?f ds))\<rparr>))"
    if "query (decision_payload_query placementDecisionsStatusTableName) [name @ ''%'', namespace] = Some (map Some ds)"
      and "?f ds \<noteq> []" for query ds
    using that by (simp add: getAggregatedPlacementDecisions_def merge_decisions_None split: list.splits)
  from mset_concat_cong [OF same, of pdec_Decisions] one [of query1 ds1] assms(1,4) one [of query2 ds2] assms(2) ne
  show ?thesis by simp
qed

definition sample_decision :: "string \<Rightarrow> string \<Rightarrow> placement_decision" where
  "sample_decision name cluster = zero_placement_decision\<lparr>mo_Name := name, mo_Namespace := ''ns'',
     mo_Labels := [''label'' \<mapsto> ''pl''], pdec_Decisions := [cluster]\<rparr>"

theorem decisions_independent_of_order_witness:
  "\<exists>agg1 agg2.
     getAggregatedPlacementDecisions (\<lambda>q args. Some (map Some [sample_decision ''pl-1'' ''a'', sample_decision ''pl-2'' ''b'']))
       ''label'' ''pl'' ''ns'' = Some (Some agg1) \<and>
     getAggregatedPlacementDecisions (\<lambda>q args. Some (map Some [sample_decision ''pl-2'' ''b'', sample_decision ''pl-1'' ''a'']))
       ''label'' ''pl'' ''ns'' = Some (Some agg2) \<and>
     mset (pdec_Decisions agg1) = {#''a'', ''b''#} \<and> mset (pdec_Decisions agg2) = {#''a'', ''b''#} \<and>
     mo_Name agg1 = ''pl-1'' \<and> mo_Name agg2 = ''pl-2''"
proof -
  let ?d1 = "sample_decision ''pl-1'' ''a''" and ?d2 = "sample_decision ''pl-2'' ''b''"
  have all: "decisions_for ''label'' ''pl'' [?d1, ?d2] = [?d1, ?d2]" "decisions_for ''label'' ''pl'' [?d2, ?d1] = [?d2, ?d1]"
    by (simp_all add: decisions_for_def sample_decision_def label_of_def)
  have fields: "pdec_Decisions (sample_decision n c) = [c]" "mo_Name (sample_decision n c) = n" for n c
    by (simp_all add: sample_decision_def)
  have same: "mset [?d1, ?d2] = mset [?d2, ?d1]" by (simp add: add_mset_commute)
  have ne: "decisions_for ''label'' ''pl'' [?d1, ?d2] \<noteq> []" by (simp add: all)
  from decisions_independent_of_order [where ?query1.0 = "\<lambda>q args. Some (map Some [?d1, ?d2])" and
      ?query2.0 = "\<lambda>q args. Some (map Some [?d2, ?d1])" and namespace = "''ns''", OF refl refl same ne]
  obtain agg1 agg2 where
      agg: "getAggregatedPlacementDecisions (\<lambda>q args. Some (map Some [?d1, ?d2])) ''label'' ''pl'' ''ns'' = Some (Some agg1)"
        "getAggregatedPlacementDecisions (\<lambda>q args. Some (map Some [?d2, ?d1])) ''label'' ''pl'' ''ns'' = Some (Some agg2)"
      and content: "mset (pdec_Decisions agg1) = mset (concat (map pdec_Decisions [?d1, ?d2]))"
        "mset (pdec_Decisions agg2) = mset (pdec_Decisions agg1)" "mo_Name agg1 = mo_Name (hd [?d1, ?d2])"
        "mo_Name agg2 = mo_Name (hd [?d2, ?d1])"
    unfolding all by blast
  show ?thesis by (rule exI [of _ agg1], rule exI [of _ agg2], intro conjI, fact agg(1), fact agg(2))
    (simp_all add: content fields)
qed

end
