(* ===== verification/Process_Setup.thy ===== *)
theory Process_Setup
  imports Compressor Rest_Api
begin

text \<open>
  \<open>src/cmd/manager/main.go\<close>: the flags and their defaults, the choice of the transports, and the life of the process from
  \<open>doMain\<close> to its exit code. Parsing the command line, opening connections and the calls of the controller runtime are the
  fields of the record \<open>main_env\<close>; what the process starts, adds and stops is a list of events in their order. Durations are
  nanoseconds.
\<close>

section \<open>Configuration\<close>

definition kafkaTransportTypeName :: string where "kafkaTransportTypeName = ''kafka''"
definition syncServiceTransportTypeName :: string where "syncServiceTransportTypeName = ''sync-service''"
definition leaderElectionLockName :: string where "leaderElectionLockName = ''hub-of-hubs-manager-lock''"
definition metricsHost :: string where "metricsHost = ''0.0.0.0''"
definition metricsPort :: nat where "metricsPort = 8384"
definition MaxMessageSizeLimit :: int where "MaxMessageSizeLimit = 987"

record syncerConfig =
  sy_specSyncInterval :: int
  sy_statusSyncInterval :: int
  sy_deletedLabelsTrimmingInterval :: int

record databaseConfig =
  db_processDatabaseURL :: string
  db_transportBridgeDatabaseURL :: string

record transportCommonConfig =
  tc_transportType :: string
  tc_msgCompressionType :: string
  tc_committerInterval :: int

record KafkaProducerConfig =
  pc_ProducerID :: string
  pc_ProducerTopic :: string
  pc_MsgSizeLimitKB :: int

record KafkaConsumerConfig =
  kc_ConsumerID :: string
  kc_ConsumerTopic :: string

record kafkaConfig =
  kf_bootstrapServer :: string
  kf_producerConfig :: KafkaProducerConfig
  kf_consumerConfig :: KafkaConsumerConfig

record SyncServiceConfig =
  sv_Protocol :: string
  sv_CSSHost :: string
  sv_CSSPort :: int
  sv_PollingInterval :: int

record hohManagerConfig =
  hc_managerNamespace :: string
  hc_watchNamespace :: string
  hc_syncerConfig :: syncerConfig
  hc_databaseConfig :: databaseConfig
  hc_transportCommonConfig :: transportCommonConfig
  hc_kafkaConfig :: kafkaConfig
  hc_syncServiceConfig :: SyncServiceConfig
  hc_LogInterval :: int
  hc_nonK8sAPIServerConfig :: api_config

definition seconds :: "int \<Rightarrow> int" where "seconds n = n * 1000000000"

text \<open>The values of the flags when none is given.\<close>

definition flag_defaults :: hohManagerConfig where
  "flag_defaults =
     \<lparr> hc_managerNamespace = ''open-cluster-management'', hc_watchNamespace = [],
       hc_syncerConfig = \<lparr> sy_specSyncInterval = seconds 5, sy_statusSyncInterval = seconds 5,
         sy_deletedLabelsTrimmingInterval = seconds 5 \<rparr>,
       hc_databaseConfig = \<lparr> db_processDatabaseURL = [], db_transportBridgeDatabaseURL = [] \<rparr>,
       hc_transportCommonConfig = \<lparr> tc_transportType = ''kafka'', tc_msgCompressionType = ''gzip'',
         tc_committerInterval = seconds 40 \<rparr>,
       hc_kafkaConfig = \<lparr> kf_bootstrapServer = ''kafka-brokers-cluster-kafka-bootstrap.kafka.svc:9092'',
         kf_producerConfig = \<lparr> pc_ProducerID = ''hub-of-hubs'', pc_ProducerTopic = ''spec'', pc_MsgSizeLimitKB = 940 \<rparr>,
         kf_consumerConfig = \<lparr> kc_ConsumerID = ''hub-of-hubs'', kc_ConsumerTopic = ''status'' \<rparr> \<rparr>,
       hc_syncServiceConfig = \<lparr> sv_Protocol = ''http'', sv_CSSHost = ''sync-service-css.sync-service.svc.cluster.local'',
         sv_CSSPort = 9689, sv_PollingInterval = 5 \<rparr>,
       hc_LogInterval = seconds 0,
       hc_nonK8sAPIServerConfig = \<lparr> cfg_ClusterAPIURL = ''https://kubernetes.default.svc:443'',
         cfg_ClusterAPICABundlePath = ''/var/run/secrets/kubernetes.io/serviceaccount/ca.crt'',
         cfg_AuthorizationURL = ''https://hub-of-hubs-rbac.open-cluster-management.svc:8181'',
         cfg_AuthorizationCABundlePath = ''/hub-of-hubs-rbac-ca/service-ca.crt'', cfg_ServerCertificatePath = ''/certs/tls.crt'',
         cfg_ServerKeyPath = ''/certs/tls.key'', cfg_ServerBasePath = ''/multicloud/hub-of-hubs-nonk8s-api'' \<rparr> \<rparr>"

datatype setup_error = ErrFlagParameterEmpty | ErrFlagParameterIllegalValue | ErrCompressor | ErrCreateTransport

text \<open>\<open>pflag.Parse\<close> overwrites the defaults by the flags that are given.\<close>

definition parseFlags :: "(hohManagerConfig \<Rightarrow> hohManagerConfig) \<Rightarrow> setup_error + hohManagerConfig" where
  "parseFlags pflag_Parse =
     (let managerConfig = pflag_Parse flag_defaults in
      if db_processDatabaseURL (hc_databaseConfig managerConfig) = [] then Inl ErrFlagParameterEmpty
      else if db_transportBridgeDatabaseURL (hc_databaseConfig managerConfig) = [] then Inl ErrFlagParameterEmpty
      else if pc_MsgSizeLimitKB (kf_producerConfig (hc_kafkaConfig managerConfig)) > MaxMessageSizeLimit
      then Inl ErrFlagParameterIllegalValue
      else Inr managerConfig)"

section \<open>Transports\<close>

definition requireInitialDependencyChecks :: "string \<Rightarrow> bool" where
  "requireInitialDependencyChecks transportType = (if transportType = kafkaTransportTypeName then False else True)"

text \<open>The manager options; a list of namespaces is watched through a cache of its own.\<close>

record manager_options =
  op_Namespace :: string
  op_MetricsBindAddress :: string
  op_LeaderElection :: bool
  op_LeaderElectionNamespace :: string
  op_LeaderElectionID :: string
  op_NewCache :: "string list option"

datatype setup_step =
    AddToScheme
  | AddNonK8sApiServer api_config
  | StepSpec2DBControllers
  | StepDB2TransportSyncers int
  | StepStatusDBWatchers int
  | StepDBSyncers int
  | StepStatusControllers
  | StepTransport2DBSyncers

text \<open>What the calls answer: whether each succeeds.\<close>

record main_env =
  me_Parse :: "hohManagerConfig \<Rightarrow> hohManagerConfig"
  me_NewPostgreSQL :: "string \<Rightarrow> bool"
  me_NewDBWorkerPool :: "string \<Rightarrow> bool"
  me_NewProducer :: "compressor_impl \<Rightarrow> string \<Rightarrow> KafkaProducerConfig \<Rightarrow> bool"
  me_NewSpecSyncService :: "compressor_impl \<Rightarrow> SyncServiceConfig \<Rightarrow> bool"
  me_NewConsumer :: "int \<Rightarrow> string \<Rightarrow> KafkaConsumerConfig \<Rightarrow> bool"
  me_NewStatusSyncService :: "int \<Rightarrow> SyncServiceConfig \<Rightarrow> bool"
  me_NewManager :: "manager_options \<Rightarrow> bool"
  me_Add :: "setup_step \<Rightarrow> bool"
  me_Start :: bool

datatype transport_kind = KafkaTransport | SyncServiceTransport

definition getSpecTransport ::
  "main_env \<Rightarrow> transportCommonConfig \<Rightarrow> string \<Rightarrow> KafkaProducerConfig \<Rightarrow> SyncServiceConfig \<Rightarrow> setup_error + transport_kind" where
  "getSpecTransport env transportCommonConfig kafkaBootstrapServer kafkaProducerConfig syncServiceConfig =
     (case NewCompressor (tc_msgCompressionType transportCommonConfig) of
        Inl err \<Rightarrow> Inl ErrCompressor
      | Inr msgCompressor \<Rightarrow>
          (if tc_transportType transportCommonConfig = kafkaTransportTypeName
           then if me_NewProducer env msgCompressor kafkaBootstrapServer kafkaProducerConfig then Inr KafkaTransport
                else Inl ErrCreateTransport
           else if tc_transportType transportCommonConfig = syncServiceTransportTypeName
           then if me_NewSpecSyncService env msgCompressor syncServiceConfig then Inr SyncServiceTransport
                else Inl ErrCreateTransport
           else Inl ErrFlagParameterIllegalValue))"

definition getStatusTransport ::
  "main_env \<Rightarrow> transportCommonConfig \<Rightarrow> string \<Rightarrow> KafkaConsumerConfig \<Rightarrow> SyncServiceConfig \<Rightarrow> setup_error + transport_kind" where
  "getStatusTransport env transportCommonConfig kafkaBootstrapServer kafkaConsumerConfig syncServiceConfig =
     (if tc_transportType transportCommonConfig = kafkaTransportTypeName
      then if me_NewConsumer env (tc_committerInterval transportCommonConfig) kafkaBootstrapServer kafkaConsumerConfig
           then Inr KafkaTransport else Inl ErrCreateTransport
      else if tc_transportType transportCommonConfig = syncServiceTransportTypeName
      then if me_NewStatusSyncService env (tc_committerInterval transportCommonConfig) syncServiceConfig
           then Inr SyncServiceTransport else Inl ErrCreateTransport
      else Inl ErrFlagParameterIllegalValue)"

section \<open>The manager\<close>

definition manager_options_of :: "hohManagerConfig \<Rightarrow> manager_options" where
  "manager_options_of managerConfig =
     (let options = \<lparr> op_Namespace = hc_watchNamespace managerConfig,
            op_MetricsBindAddress = metricsHost @ '':'' @ digits metricsPort, op_LeaderElection = True,
            op_LeaderElectionNamespace = hc_managerNamespace managerConfig, op_LeaderElectionID = leaderElectionLockName,
            op_NewCache = None \<rparr>
      in if CHR '','' \<in> set (hc_watchNamespace managerConfig)
         then options\<lparr>op_Namespace := [], op_NewCache := Some (split_on (CHR '','') (hc_watchNamespace managerConfig))\<rparr>
         else options)"

definition setup_steps :: "hohManagerConfig \<Rightarrow> setup_step list" where
  "setup_steps managerConfig =
     [AddToScheme, AddNonK8sApiServer (hc_nonK8sAPIServerConfig managerConfig), StepSpec2DBControllers,
      StepDB2TransportSyncers (sy_specSyncInterval (hc_syncerConfig managerConfig)),
      StepStatusDBWatchers (sy_deletedLabelsTrimmingInterval (hc_syncerConfig managerConfig)),
      StepDBSyncers (sy_statusSyncInterval (hc_syncerConfig managerConfig)), StepStatusControllers, StepTransport2DBSyncers]"

text \<open>The steps that were taken, and whether all were.\<close>

fun run_steps :: "main_env \<Rightarrow> setup_step list \<Rightarrow> bool \<times> setup_step list" where
  "run_steps env [] = (True, [])"
| "run_steps env (s # ss) =
     (if me_Add env s then (case run_steps env ss of (ok, done) \<Rightarrow> (ok, s # done)) else (False, []))"

definition createManager :: "main_env \<Rightarrow> hohManagerConfig \<Rightarrow> bool \<times> setup_step list" where
  "createManager env managerConfig =
     (if me_NewManager env (manager_options_of managerConfig) then run_steps env (setup_steps managerConfig) else (False, []))"

section \<open>The process\<close>

datatype main_component =
  ProcessDatabase | TransportBridgeDatabase | DBWorkers | StatusTransport transport_kind | SpecTransport transport_kind

datatype main_event =
  Started main_component | Stopped main_component | ConflationManagerWith bool | Added setup_step | ManagerRan

text \<open>The rest of the function after a component is started and its stop deferred: the deferred call runs when the function
  returns, whichever way.\<close>

definition with_deferred_stop :: "main_component \<Rightarrow> int \<times> main_event list \<Rightarrow> int \<times> main_event list" where
  "with_deferred_stop c rest = (fst rest, Started c # snd rest @ [Stopped c])"

definition run_manager :: "main_env \<Rightarrow> hohManagerConfig \<Rightarrow> int \<times> main_event list" where
  "run_manager env managerConfig =
     (case createManager env managerConfig of
        (False, added) \<Rightarrow> (1, map Added added)
      | (True, added) \<Rightarrow> (if me_Start env then 0 else 1, map Added added @ [ManagerRan]))"

definition run_transports :: "main_env \<Rightarrow> hohManagerConfig \<Rightarrow> int \<times> main_event list" where
  "run_transports env managerConfig =
     (let common = hc_transportCommonConfig managerConfig; kafka = hc_kafkaConfig managerConfig in
      case getStatusTransport env common (kf_bootstrapServer kafka) (kf_consumerConfig kafka) (hc_syncServiceConfig managerConfig) of
        Inl err \<Rightarrow> (1, [])
      | Inr statusTransport \<Rightarrow> with_deferred_stop (StatusTransport statusTransport)
          (case getSpecTransport env common (kf_bootstrapServer kafka) (kf_producerConfig kafka) (hc_syncServiceConfig managerConfig) of
             Inl err \<Rightarrow> (1, [])
           | Inr specTransport \<Rightarrow> with_deferred_stop (SpecTransport specTransport) (run_manager env managerConfig)))"

text \<open>\<open>NewStatistics\<close> and the start of the worker pool have no failing path.\<close>

definition doMain :: "main_env \<Rightarrow> int \<times> main_event list" where
  "doMain env =
     (case parseFlags (me_Parse env) of
        Inl err \<Rightarrow> (1, [])
      | Inr managerConfig \<Rightarrow>
          (let database = hc_databaseConfig managerConfig in
           if \<not> me_NewPostgreSQL env (db_processDatabaseURL database) then (1, [])
           else with_deferred_stop ProcessDatabase
             (if \<not> me_NewPostgreSQL env (db_transportBridgeDatabaseURL database) then (1, [])
              else with_deferred_stop TransportBridgeDatabase
                (if \<not> me_NewDBWorkerPool env (db_transportBridgeDatabaseURL database) then (1, [])
                 else with_deferred_stop DBWorkers
                   (let rest = run_transports env managerConfig
                    in (fst rest,
                        ConflationManagerWith
                          (requireInitialDependencyChecks (tc_transportType (hc_transportCommonConfig managerConfig))) # snd rest))))))"

section \<open>Every run\<close>

fun started :: "main_event list \<Rightarrow> main_component list" where
  "started [] = []"
| "started (Started c # es) = c # started es"
| "started (_ # es) = started es"

fun stopped :: "main_event list \<Rightarrow> main_component list" where
  "stopped [] = []"
| "stopped (Stopped c # es) = c # stopped es"
| "stopped (_ # es) = stopped es"

lemma started_append [simp]: "started (xs @ ys) = started xs @ started ys"
  by (induction xs rule: started.induct) auto

lemma stopped_append [simp]: "stopped (xs @ ys) = stopped xs @ stopped ys"
  by (induction xs rule: stopped.induct) auto

lemma no_components [simp]: "started (map Added ss) = []" "stopped (map Added ss) = []"
  by (induction ss) auto

text \<open>A run of a part of the process: its exit code, and that it stops what it starts.\<close>

definition bracketed :: "int \<times> main_event list \<Rightarrow> bool" where
  "bracketed r \<longleftrightarrow> fst r \<in> {0, 1} \<and> stopped (snd r) = rev (started (snd r))"

lemma bracketed_failed [simp]: "bracketed (1, [])"
  by (simp add: bracketed_def)

lemma bracketed_deferred [simp]: "bracketed (with_deferred_stop c r) \<longleftrightarrow> bracketed r"
  by (simp add: bracketed_def with_deferred_stop_def)

lemma bracketed_run_manager: "bracketed (run_manager env cfg)"
  by (auto simp: bracketed_def run_manager_def split: prod.splits bool.splits)

lemma bracketed_run_transports: "bracketed (run_transports env cfg)"
  by (auto simp: run_transports_def Let_def bracketed_run_manager split: sum.splits)

lemma bracketed_doMain: "bracketed (doMain env)"
proof -
  have "bracketed (fst r, ConflationManagerWith b # snd r)" if "bracketed r" for r b
    using that by (simp add: bracketed_def)
  then show ?thesis by (auto simp: doMain_def Let_def bracketed_run_transports split: sum.splits)
qed

lemma run_steps_all: "run_steps env ss = (True, added) \<Longrightarrow> added = ss"
  by (induction ss arbitrary: added) (auto split: if_splits prod.splits)

text \<open>A run in which the manager was started.\<close>

lemma run_manager_ran:
  "ManagerRan \<in> set (snd (run_manager env cfg)) \<Longrightarrow>
   snd (run_manager env cfg) = map Added (setup_steps cfg) @ [ManagerRan]"
  by (auto simp: run_manager_def createManager_def split: prod.splits bool.splits if_splits dest: run_steps_all)

lemma ran_deferred [simp]: "ManagerRan \<in> set (snd (with_deferred_stop c r)) \<longleftrightarrow> ManagerRan \<in> set (snd r)"
  by (auto simp: with_deferred_stop_def)

definition transports_chosen :: "hohManagerConfig \<Rightarrow> transport_kind \<Rightarrow> bool" where
  "transports_chosen cfg t \<longleftrightarrow>
     tc_transportType (hc_transportCommonConfig cfg) =
       (case t of KafkaTransport \<Rightarrow> kafkaTransportTypeName | SyncServiceTransport \<Rightarrow> syncServiceTransportTypeName)"

lemma getStatusTransport_kind:
  "getStatusTransport env (hc_transportCommonConfig cfg) b c s = Inr t \<Longrightarrow> transports_chosen cfg t"
  by (auto simp: getStatusTransport_def transports_chosen_def split: if_splits)

lemma getSpecTransport_kind:
  "getSpecTransport env (hc_transportCommonConfig cfg) b c s = Inr t \<Longrightarrow>
   transports_chosen cfg t \<and> tc_msgCompressionType (hc_transportCommonConfig cfg) \<in> {NoOpType, GZipType}"
  by (auto simp: getSpecTransport_def transports_chosen_def NewCompressor_def split: if_splits sum.splits)

lemma transports_chosen_unique: "transports_chosen cfg t \<Longrightarrow> transports_chosen cfg u \<Longrightarrow> t = u"
  by (cases t; cases u) (simp_all add: transports_chosen_def kafkaTransportTypeName_def syncServiceTransportTypeName_def)

lemma run_transports_ran:
  assumes "ManagerRan \<in> set (snd (run_transports env cfg))"
  shows "\<exists>t. transports_chosen cfg t \<and> tc_msgCompressionType (hc_transportCommonConfig cfg) \<in> {NoOpType, GZipType} \<and>
    snd (run_transports env cfg) = [Started (StatusTransport t), Started (SpecTransport t)] @
      map Added (setup_steps cfg) @ [ManagerRan, Stopped (SpecTransport t), Stopped (StatusTransport t)]"
proof -
  let ?common = "hc_transportCommonConfig cfg" and ?kafka = "hc_kafkaConfig cfg"
  obtain t where t: "getStatusTransport env ?common (kf_bootstrapServer ?kafka) (kf_consumerConfig ?kafka) (hc_syncServiceConfig cfg) = Inr t"
    using assms by (cases "getStatusTransport env ?common (kf_bootstrapServer ?kafka) (kf_consumerConfig ?kafka) (hc_syncServiceConfig cfg)")
      (auto simp: run_transports_def)
  obtain u where u: "getSpecTransport env ?common (kf_bootstrapServer ?kafka) (kf_producerConfig ?kafka) (hc_syncServiceConfig cfg) = Inr u"
    using assms t by (cases "getSpecTransport env ?common (kf_bootstrapServer ?kafka) (kf_producerConfig ?kafka) (hc_syncServiceConfig cfg)")
      (auto simp: run_transports_def)
  have "u = t" using getStatusTransport_kind [OF t] getSpecTransport_kind [OF u] transports_chosen_unique by blast
  moreover have "ManagerRan \<in> set (snd (run_manager env cfg))" using assms t u by (simp add: run_transports_def)
  ultimately show ?thesis using t u run_manager_ran getSpecTransport_kind [OF u]
    by (auto simp: run_transports_def with_deferred_stop_def)
qed

text \<open>The events of a run that reaches the manager.\<close>

definition full_run :: "hohManagerConfig \<Rightarrow> transport_kind \<Rightarrow> main_event list" where
  "full_run cfg t =
     [Started ProcessDatabase, Started TransportBridgeDatabase, Started DBWorkers, ConflationManagerWith (t \<noteq> KafkaTransport),
      Started (StatusTransport t), Started (SpecTransport t)] @
     map Added (setup_steps cfg) @
     [ManagerRan, Stopped (SpecTransport t), Stopped (StatusTransport t), Stopped DBWorkers, Stopped TransportBridgeDatabase,
      Stopped ProcessDatabase]"

definition valid_config :: "hohManagerConfig \<Rightarrow> bool" where
  "valid_config cfg \<longleftrightarrow>
     db_processDatabaseURL (hc_databaseConfig cfg) \<noteq> [] \<and> db_transportBridgeDatabaseURL (hc_databaseConfig cfg) \<noteq> [] \<and>
     pc_MsgSizeLimitKB (kf_producerConfig (hc_kafkaConfig cfg)) \<le> MaxMessageSizeLimit \<and>
     tc_msgCompressionType (hc_transportCommonConfig cfg) \<in> {NoOpType, GZipType}"

lemma doMain_ran:
  assumes ran: "ManagerRan \<in> set (snd (doMain env))"
  shows "\<exists>cfg t. parseFlags (me_Parse env) = Inr cfg \<and> valid_config cfg \<and> transports_chosen cfg t \<and>
    snd (doMain env) = full_run cfg t"
proof -
  obtain cfg where cfg: "parseFlags (me_Parse env) = Inr cfg"
    using ran by (cases "parseFlags (me_Parse env)") (auto simp: doMain_def)
  have dbs: "me_NewPostgreSQL env (db_processDatabaseURL (hc_databaseConfig cfg))"
      "me_NewPostgreSQL env (db_transportBridgeDatabaseURL (hc_databaseConfig cfg))"
      "me_NewDBWorkerPool env (db_transportBridgeDatabaseURL (hc_databaseConfig cfg))"
    using ran cfg by (auto simp: doMain_def Let_def split: if_splits)
  have "ManagerRan \<in> set (snd (run_transports env cfg))" using ran cfg dbs by (simp add: doMain_def Let_def)
  from run_transports_ran [OF this] obtain t where t: "transports_chosen cfg t"
      "tc_msgCompressionType (hc_transportCommonConfig cfg) \<in> {NoOpType, GZipType}"
      "snd (run_transports env cfg) = [Started (StatusTransport t), Started (SpecTransport t)] @
        map Added (setup_steps cfg) @ [ManagerRan, Stopped (SpecTransport t), Stopped (StatusTransport t)]" by blast
  have "requireInitialDependencyChecks (tc_transportType (hc_transportCommonConfig cfg)) = (t \<noteq> KafkaTransport)"
    using t(1) by (cases t) (simp_all add: transports_chosen_def requireInitialDependencyChecks_def
        kafkaTransportTypeName_def syncServiceTransportTypeName_def)
  then have "snd (doMain env) = full_run cfg t"
    using cfg dbs t(3) by (simp add: doMain_def with_deferred_stop_def full_run_def Let_def)
  moreover have "valid_config cfg" using cfg t(2) by (auto simp: valid_config_def parseFlags_def Let_def split: if_splits)
  ultimately show ?thesis using cfg t(1) by blast
qed

end
