(* ===== verification/Placement_Binding.thy ===== *)
theory Placement_Binding
  imports Status_Effects Spec_Reconciler
begin

text \<open>
  \<open>src/pkg/statussyncer/status\<close>: the controller that records in the status of a policy which placement rules are bound
  to it, and what a run of it does to the hub. The API group and kind of policies are constants of the policy API; they
  are arguments here.
\<close>

section \<open>The controller\<close>

record binding_subject =
  bs_APIGroup :: string
  bs_Kind :: string
  bs_Name :: string

record placement_binding = meta_object +
  pb_PlacementRef :: string
  pb_Subjects :: "binding_subject list"

definition zero_placement_binding :: placement_binding where
  "zero_placement_binding = \<lparr> mo_Name = [], mo_Namespace = [], mo_ResourceVersion = [], mo_Annotations = Map.empty,
     mo_Labels = Map.empty, mo_OwnerReferences = [], pb_PlacementRef = [], pb_Subjects = [] \<rparr>"

text \<open>Both kinds of objects live in the state of one API server. The error of \<open>Get\<close> is returned as it is.\<close>

record 'k placementBindingController =
  pbc_bindings :: "('k, placement_binding) k8s_client"
  pbc_policies :: "('k, policy_object) k8s_client"
  pbc_policyGroup :: string
  pbc_policyKind :: string

datatype binding_error = ErrGetBinding client_error | ErrGetPolicy | ErrPatchPolicy

definition has_rule :: "string \<Rightarrow> policy_object \<Rightarrow> bool" where
  "has_rule placementRule policy \<longleftrightarrow> (\<exists>placement \<in> set (po_Placement policy). pp_PlacementRule placement = placementRule)"

definition updatePolicyStatus ::
  "'k placementBindingController \<Rightarrow> string \<Rightarrow> string \<Rightarrow> string \<Rightarrow> string \<Rightarrow> 'k \<Rightarrow> binding_error option \<times> 'k" where
  "updatePolicyStatus c name namespace placementRule placementBinding k =
     (case kc_Get (pbc_policies c) k (name, namespace) zero_policy of
        Inl e \<Rightarrow> (Some ErrGetPolicy, k)
      | Inr policy \<Rightarrow>
          (if has_rule placementRule policy then (None, k)
           else let originalPolicy = policy;
                    policy = policy\<lparr>po_Placement := po_Placement policy @
                      [\<lparr> pp_PlacementBinding = placementBinding, pp_PlacementRule = placementRule \<rparr>]\<rparr>
                in case kc_StatusPatch (pbc_policies c) k policy originalPolicy of
                     (e, k') \<Rightarrow> (if e = None then None else Some ErrPatchPolicy, k')))"

fun update_subjects ::
  "'k placementBindingController \<Rightarrow> string \<Rightarrow> placement_binding \<Rightarrow> binding_subject list \<Rightarrow> 'k \<Rightarrow> binding_error option \<times> 'k" where
  "update_subjects c namespace instance [] k = (None, k)"
| "update_subjects c namespace instance (subject # subjects) k =
     (if bs_APIGroup subject = pbc_policyGroup c \<and> bs_Kind subject = pbc_policyKind c
      then case updatePolicyStatus c (bs_Name subject) namespace (pb_PlacementRef instance) (mo_Name instance) k of
             (Some e, k') \<Rightarrow> (Some e, k')
           | (None, k') \<Rightarrow> update_subjects c namespace instance subjects k'
      else update_subjects c namespace instance subjects k)"

definition binding_Reconcile ::
  "'k placementBindingController \<Rightarrow> string \<times> string \<Rightarrow> 'k \<Rightarrow> (ctrl_result \<times> binding_error option) \<times> 'k" where
  "binding_Reconcile c request k =
     (case kc_Get (pbc_bindings c) k request zero_placement_binding of
        Inl e \<Rightarrow> ((EmptyResult, Some (ErrGetBinding e)), k)
      | Inr instance \<Rightarrow>
          (case update_subjects c (snd request) instance (pb_Subjects instance) k of
             (e, k') \<Rightarrow> ((EmptyResult, e), k')))"

text \<open>The controller as it is added to the manager, and the list of the status controllers.\<close>

record 'k binding_registration =
  br_EventFilter :: event_filter
  br_Controller :: "'k placementBindingController"

definition AddPlacementBindingStatusController :: "'k placementBindingController \<Rightarrow> 'k binding_registration" where
  "AddPlacementBindingStatusController c =
     \<lparr> br_EventFilter = LabelDoesNotExist HubOfHubsLocalResource, br_Controller = c \<rparr>"

fun add_status_controllers ::
  "('m \<Rightarrow> 'k binding_registration \<Rightarrow> 'm option) \<Rightarrow> 'k binding_registration list \<Rightarrow> 'm \<Rightarrow> bool \<times> 'm" where
  "add_status_controllers complete [] mgr = (True, mgr)"
| "add_status_controllers complete (r # rs) mgr =
     (case complete mgr r of None \<Rightarrow> (False, mgr) | Some mgr' \<Rightarrow> add_status_controllers complete rs mgr')"

definition AddStatusControllers ::
  "('m \<Rightarrow> 'k binding_registration \<Rightarrow> 'm option) \<Rightarrow> 'k placementBindingController \<Rightarrow> 'm \<Rightarrow> bool \<times> 'm" where
  "AddStatusControllers complete c mgr = add_status_controllers complete [AddPlacementBindingStatusController c] mgr"

section \<open>What a run does\<close>

text \<open>The hub after a run: every policy is as it was, or has the binding appended to its placements.\<close>

definition with_binding :: "placement_binding \<Rightarrow> policy_object \<Rightarrow> policy_object" where
  "with_binding b p = p\<lparr>po_Placement := po_Placement p @
     [\<lparr> pp_PlacementBinding = mo_Name b, pp_PlacementRule = pb_PlacementRef b \<rparr>]\<rparr>"

definition bindings_between :: "placement_binding \<Rightarrow> policy_object hub \<Rightarrow> policy_object hub \<Rightarrow> bool" where
  "bindings_between b before h \<longleftrightarrow>
     (\<forall>key. h key = before key \<or>
        (\<exists>p. before key = Some p \<and> \<not> has_rule (pb_PlacementRef b) p \<and> h key = Some (with_binding b p)))"

lemma has_rule_with_binding [simp]: "has_rule (pb_PlacementRef b) (with_binding b p)"
  by (simp add: has_rule_def with_binding_def)

lemma meta_key_with_binding [simp]: "meta_key (with_binding b p) = meta_key p"
  by (simp add: meta_key_def with_binding_def)

lemma policy_patched_binding: "policy_patched p (with_binding b p) p = with_binding b p"
  by (simp add: policy_patched_def with_binding_def merge_field_def)

lemma updatePolicyStatus_effect:
  assumes laws: "policy_hub_laws (pbc_policies c) hub"
    and run: "updatePolicyStatus c name namespace (pb_PlacementRef b) (mo_Name b) k = (e, k')"
  shows "hub k' = hub k \<and> (e = None \<longrightarrow> (\<exists>p. hub k (name, namespace) = Some p \<and> has_rule (pb_PlacementRef b) p)) \<or>
    (\<exists>p. hub k (name, namespace) = Some p \<and> \<not> has_rule (pb_PlacementRef b) p \<and>
       hub k' = (hub k)((name, namespace) \<mapsto> with_binding b p))"
proof (cases "kc_Get (pbc_policies c) k (name, namespace) zero_policy")
  case (Inl x)
  then show ?thesis using run by (auto simp: updatePolicyStatus_def)
next
  case (Inr p)
  have hub: "hub k (name, namespace) = Some p" by (rule get_lawD(1) [OF policy_hub_lawsD(1) [OF laws] Inr])
  then have key: "meta_key p = (name, namespace)" by (rule policy_hub_lawsD(3) [OF laws])
  obtain pe k1 where patch: "kc_StatusPatch (pbc_policies c) k (with_binding b p) p = (pe, k1)" by fastforce
  note patched = patch_lawD [OF policy_hub_lawsD(2) [OF laws] patch, unfolded meta_key_with_binding key]
  show ?thesis
  proof (cases "has_rule (pb_PlacementRef b) p")
    case True
    then show ?thesis using run Inr hub by (simp add: updatePolicyStatus_def)
  next
    case False
    then have eq: "k' = k1" "e = None \<longleftrightarrow> pe = None"
      using run Inr patch [unfolded with_binding_def] by (auto simp: updatePolicyStatus_def Let_def split: if_splits)
    show ?thesis
    proof (cases pe)
      case None
      then show ?thesis using patched(1) hub eq False by (auto simp: policy_patched_binding)
    next
      case (Some x)
      then show ?thesis using patched(2,3) eq by (cases x) auto
    qed
  qed
qed

lemma bindings_between_step:
  assumes "bindings_between b before h"
    and "h' = h \<or> (\<exists>p. h key = Some p \<and> \<not> has_rule (pb_PlacementRef b) p \<and> h' = h(key \<mapsto> with_binding b p))"
  shows "bindings_between b before h'"
  using assms(2)
proof
  assume "\<exists>p. h key = Some p \<and> \<not> has_rule (pb_PlacementRef b) p \<and> h' = h(key \<mapsto> with_binding b p)"
  then obtain p where p: "h key = Some p" "\<not> has_rule (pb_PlacementRef b) p" "h' = h(key \<mapsto> with_binding b p)" by blast
  have "before key = Some p"
    using assms(1) [unfolded bindings_between_def, rule_format, of key] p(1,2) by auto
  then show ?thesis using assms(1) p by (auto simp: bindings_between_def)
qed (simp add: assms(1))

lemma bindings_keep_rule:
  assumes "h' = h \<or> (\<exists>p. h key' = Some p \<and> \<not> has_rule (pb_PlacementRef b) p \<and> h' = h(key' \<mapsto> with_binding b p))"
    and "h key = Some q" and "has_rule (pb_PlacementRef b) q"
  shows "\<exists>q'. h' key = Some q' \<and> has_rule (pb_PlacementRef b) q'"
  using assms by auto

definition is_policy :: "'k placementBindingController \<Rightarrow> binding_subject \<Rightarrow> bool" where
  "is_policy c subject \<longleftrightarrow> bs_APIGroup subject = pbc_policyGroup c \<and> bs_Kind subject = pbc_policyKind c"

definition bound :: "string \<Rightarrow> policy_object hub \<Rightarrow> string \<times> string \<Rightarrow> bool" where
  "bound rule h key \<longleftrightarrow> (\<exists>p. h key = Some p \<and> has_rule rule p)"

lemma update_subjects_effect:
  assumes laws: "policy_hub_laws (pbc_policies c) hub"
  shows "update_subjects c namespace b subjects k = (e, k') \<Longrightarrow> bindings_between b before (hub k) \<Longrightarrow>
    bindings_between b before (hub k') \<and>
    (\<forall>key. bound (pb_PlacementRef b) (hub k) key \<longrightarrow> bound (pb_PlacementRef b) (hub k') key) \<and>
    (e = None \<longrightarrow> (\<forall>s \<in> set subjects. is_policy c s \<longrightarrow> bound (pb_PlacementRef b) (hub k') (bs_Name s, namespace)))"
proof (induction subjects arbitrary: k)
  case (Cons s subjects)
  show ?case
  proof (cases "is_policy c s")
    case False
    then have "update_subjects c namespace b subjects k = (e, k')"
      using Cons.prems(1) unfolding is_policy_def update_subjects.simps by (simp only: if_False)
    from Cons.IH [OF this Cons.prems(2)] False show ?thesis by simp
  next
    case True
    obtain e1 k1 where upd: "updatePolicyStatus c (bs_Name s) namespace (pb_PlacementRef b) (mo_Name b) k = (e1, k1)"
      by fastforce
    note effect = updatePolicyStatus_effect [OF laws upd]
    then have step: "hub k1 = hub k \<or> (\<exists>p. hub k (bs_Name s, namespace) = Some p \<and> \<not> has_rule (pb_PlacementRef b) p \<and>
        hub k1 = (hub k)((bs_Name s, namespace) \<mapsto> with_binding b p))" by blast
    have between: "bindings_between b before (hub k1)" by (rule bindings_between_step [OF Cons.prems(2) step])
    have keep: "bound (pb_PlacementRef b) (hub k) key \<longrightarrow> bound (pb_PlacementRef b) (hub k1) key" for key
      using bindings_keep_rule [OF step, of key] unfolding bound_def by blast
    show ?thesis
    proof (cases e1)
      case (Some x)
      then show ?thesis using Cons.prems True upd between keep by (auto simp: is_policy_def)
    next
      case None
      then have "bound (pb_PlacementRef b) (hub k1) (bs_Name s, namespace)" using effect by (auto simp: bound_def)
      moreover have "update_subjects c namespace b subjects k1 = (e, k')"
        using Cons.prems(1) True upd None by (simp add: is_policy_def)
      ultimately show ?thesis using Cons.IH [OF _ between] keep by auto
    qed
  qed
qed simp

end
