(* ===== verification/Setup_Properties.thy ===== *)
theory Setup_Properties
  imports Process_Setup Placement_Binding Sample_Policies
begin

text \<open>The properties of the process set-up and of the placement binding controller.\<close>

section \<open>The life of the process\<close>




section \<open>Placement bindings\<close>




end
