(* ===== verification/Transport_Lifecycle.thy ===== *)
theory Transport_Lifecycle
  imports Hoh_Prelude
begin

text \<open>
  Starting and stopping the four transports: the kafka consumer and the sync service of \<open>transport2db/transport\<close>, the kafka
  producer and the sync service of \<open>db2transport/transport\<close>. Each guards both operations by a \<open>sync.Once\<close>. The state says
  which of the two has run, which goroutines were started and which channels are closed. Closing a channel twice panics
  (\<^const>\<open>None\<close>); sending on an unbuffered channel waits for a receiver.
\<close>

section \<open>State\<close>

datatype goroutine =
  CommitterLoop | HandleKafkaMessages | HandleBundles | DeliveryReportHandler | DistributeMessages

datatype go_channel = MsgChan | ObjectsMetaDataChan | DeliveryChan | StopChan

record lifecycle =
  lc_startOnce :: bool
  lc_stopOnce :: bool
  lc_goroutines :: "goroutine list"
  lc_cancelled :: bool
  lc_clientClosed :: bool
  lc_closed :: "go_channel list"

definition new_lifecycle :: lifecycle where
  "new_lifecycle = \<lparr> lc_startOnce = False, lc_stopOnce = False, lc_goroutines = [], lc_cancelled = False,
     lc_clientClosed = False, lc_closed = [] \<rparr>"

definition close_channel :: "go_channel \<Rightarrow> lifecycle \<Rightarrow> lifecycle option" where
  "close_channel ch s = (if ch \<in> set (lc_closed s) then None else Some (s\<lparr>lc_closed := lc_closed s @ [ch]\<rparr>))"

text \<open>\<open>startOnce.Do\<close> with a function that starts goroutines, \<open>stopOnce.Do\<close> with one that may panic.\<close>

definition start_once :: "goroutine list \<Rightarrow> lifecycle \<Rightarrow> lifecycle" where
  "start_once gs s = (if lc_startOnce s then s else s\<lparr>lc_startOnce := True, lc_goroutines := lc_goroutines s @ gs\<rparr>)"

definition stop_once :: "(lifecycle \<Rightarrow> lifecycle option) \<Rightarrow> lifecycle \<Rightarrow> lifecycle option" where
  "stop_once f s = (if lc_stopOnce s then Some s else f (s\<lparr>lc_stopOnce := True\<rparr>))"

section \<open>The transports\<close>

definition consumer_Start :: "lifecycle \<Rightarrow> lifecycle" where
  "consumer_Start = start_once [CommitterLoop, HandleKafkaMessages]"

definition consumer_Stop :: "lifecycle \<Rightarrow> lifecycle option" where
  "consumer_Stop = stop_once (\<lambda>s. close_channel MsgChan (s\<lparr>lc_cancelled := True, lc_clientClosed := True\<rparr>))"

definition status_sync_Start :: "lifecycle \<Rightarrow> lifecycle" where
  "status_sync_Start = start_once [CommitterLoop, HandleBundles]"

definition status_sync_Stop :: "lifecycle \<Rightarrow> lifecycle option" where
  "status_sync_Stop = stop_once (\<lambda>s. close_channel ObjectsMetaDataChan (s\<lparr>lc_cancelled := True\<rparr>))"

definition producer_Start :: "lifecycle \<Rightarrow> lifecycle" where
  "producer_Start = start_once [DeliveryReportHandler]"

text \<open>\<open>stopChan\<close> is unbuffered: without the goroutine that receives from it, \<open>Stop\<close> waits for ever, which is
  \<^const>\<open>None\<close> as well.\<close>

definition producer_Stop :: "lifecycle \<Rightarrow> lifecycle option" where
  "producer_Stop = stop_once (\<lambda>s. do {
     s1 \<leftarrow> (if DeliveryReportHandler \<in> set (lc_goroutines s)
           then Some (s\<lparr>lc_goroutines := remove1 DeliveryReportHandler (lc_goroutines s)\<rparr>) else None);
     s2 \<leftarrow> close_channel DeliveryChan (s1\<lparr>lc_clientClosed := True\<rparr>);
     close_channel StopChan s2 })"

definition spec_sync_Start :: "lifecycle \<Rightarrow> lifecycle" where
  "spec_sync_Start = start_once [DistributeMessages]"

text \<open>Here \<open>stopChan\<close> has room for one value, so the send returns at once.\<close>

definition spec_sync_Stop :: "lifecycle \<Rightarrow> lifecycle option" where
  "spec_sync_Stop = stop_once (\<lambda>s. do { s1 \<leftarrow> close_channel StopChan s; close_channel MsgChan s1 })"

section \<open>The contract\<close>

text \<open>A transport that may be started and stopped in any order and any number of times: what \<open>doMain\<close> relies on.\<close>

datatype call = CallStart | CallStop

lemma count_distinct_le: "distinct xs \<Longrightarrow> count_list xs g \<le> 1"
  by (induction xs) (auto simp: count_notin)

locale restartable =
  fixes start :: "lifecycle \<Rightarrow> lifecycle" and stop :: "lifecycle \<Rightarrow> lifecycle option"
    and routines :: "goroutine list" and channels :: "go_channel list"
  assumes start_first: "\<not> lc_startOnce s \<Longrightarrow> start s = s\<lparr>lc_startOnce := True, lc_goroutines := lc_goroutines s @ routines\<rparr>"
    and start_again: "lc_startOnce s \<Longrightarrow> start s = s"
    and stop_first: "\<not> lc_stopOnce s \<Longrightarrow> lc_startOnce s \<Longrightarrow> lc_closed s = [] \<Longrightarrow> set routines \<subseteq> set (lc_goroutines s) \<Longrightarrow>
      \<exists>s'. stop s = Some s' \<and> lc_stopOnce s' \<and> lc_startOnce s' \<and> lc_closed s' = channels \<and>
        (\<forall>g. count_list (lc_goroutines s') g \<le> count_list (lc_goroutines s) g)"
    and stop_again: "lc_stopOnce s \<Longrightarrow> stop s = Some s"
    and routines_distinct: "distinct routines" and channels_distinct: "distinct channels"
begin

fun run_call :: "call \<Rightarrow> lifecycle \<Rightarrow> lifecycle option" where
  "run_call CallStart s = Some (start s)"
| "run_call CallStop s = stop s"

fun run_calls :: "call list \<Rightarrow> lifecycle \<Rightarrow> lifecycle option" where
  "run_calls [] s = Some s"
| "run_calls (c # cs) s = Option.bind (run_call c s) (run_calls cs)"

text \<open>The state after a first start: the goroutines were started once, the channels are open or all closed once.\<close>

definition settled :: "lifecycle \<Rightarrow> bool" where
  "settled s \<longleftrightarrow> lc_startOnce s \<and> (\<forall>g. count_list (lc_goroutines s) g \<le> 1) \<and>
     (if lc_stopOnce s then lc_closed s = channels else lc_closed s = [] \<and> set routines \<subseteq> set (lc_goroutines s))"

lemma settled_start: "settled (start new_lifecycle)"
proof -
  have "count_list routines g \<le> 1" for g using routines_distinct by (rule count_distinct_le)
  then show ?thesis by (simp add: settled_def start_first new_lifecycle_def)
qed

lemma settled_call: "settled s \<Longrightarrow> \<exists>s'. run_call c s = Some s' \<and> settled s'"
proof (cases c)
  case CallStart
  assume "settled s"
  then show ?thesis using CallStart by (simp add: settled_def start_again)
next
  case CallStop
  assume s: "settled s"
  show ?thesis
  proof (cases "lc_stopOnce s")
    case True
    then show ?thesis using CallStop s stop_again by simp
  next
    case False
    then obtain s' where s': "stop s = Some s'" "lc_stopOnce s'" "lc_startOnce s'" "lc_closed s' = channels"
        "\<forall>g. count_list (lc_goroutines s') g \<le> count_list (lc_goroutines s) g"
      using s stop_first [of s] by (auto simp: settled_def)
    have "count_list (lc_goroutines s') g \<le> 1" for g
      using s'(5) s order_trans [of "count_list (lc_goroutines s') g" "count_list (lc_goroutines s) g" 1]
      by (simp add: settled_def)
    then show ?thesis using CallStop s' by (simp add: settled_def)
  qed
qed

text \<open>After a first start every sequence of calls returns without a panic, no goroutine is started twice, and no channel is
  closed twice.\<close>

lemma calls_return: "settled s \<Longrightarrow> \<exists>s'. run_calls cs s = Some s' \<and> settled s'"
proof (induction cs arbitrary: s)
  case (Cons c cs)
  from settled_call [OF Cons.prems, of c] obtain s1 where "run_call c s = Some s1" "settled s1" by blast
  with Cons.IH show ?case by simp
qed simp

end

lemmas lifecycle_defs = start_once_def stop_once_def close_channel_def

interpretation kafka_consumer_life: restartable consumer_Start consumer_Stop "[CommitterLoop, HandleKafkaMessages]" "[MsgChan]"
  by unfold_locales (auto simp: consumer_Start_def consumer_Stop_def lifecycle_defs)

interpretation status_sync_life: restartable status_sync_Start status_sync_Stop "[CommitterLoop, HandleBundles]" "[ObjectsMetaDataChan]"
  by unfold_locales (auto simp: status_sync_Start_def status_sync_Stop_def lifecycle_defs)

lemma count_remove1_le: "count_list (remove1 x xs) g \<le> count_list xs g"
  by (induction xs) auto

interpretation kafka_producer_life: restartable producer_Start producer_Stop "[DeliveryReportHandler]" "[DeliveryChan, StopChan]"
  by unfold_locales (auto simp: producer_Start_def producer_Stop_def lifecycle_defs count_remove1_le)

interpretation spec_sync_life: restartable spec_sync_Start spec_sync_Stop "[DistributeMessages]" "[StopChan, MsgChan]"
  by unfold_locales (auto simp: spec_sync_Start_def spec_sync_Stop_def lifecycle_defs)

text \<open>A producer that was never started cannot be stopped.\<close>

lemma producer_stop_needs_start: "producer_Stop new_lifecycle = None"
  by (simp add: producer_Stop_def stop_once_def new_lifecycle_def)

lemma transports_restartable:
  "\<exists>s. kafka_consumer_life.run_calls cs (consumer_Start new_lifecycle) = Some s"
  "\<exists>s. status_sync_life.run_calls cs (status_sync_Start new_lifecycle) = Some s"
  "\<exists>s. kafka_producer_life.run_calls cs (producer_Start new_lifecycle) = Some s"
  "\<exists>s. spec_sync_life.run_calls cs (spec_sync_Start new_lifecycle) = Some s"
  using kafka_consumer_life.calls_return [OF kafka_consumer_life.settled_start]
    status_sync_life.calls_return [OF status_sync_life.settled_start]
    kafka_producer_life.calls_return [OF kafka_producer_life.settled_start]
    spec_sync_life.calls_return [OF spec_sync_life.settled_start] by blast+

section \<open>The loops that receive\<close>

text \<open>
  Each goroutine waits in a \<open>select\<close> for the signal to stop and for a value of its channel. If both are ready the runtime picks
  one (\<open>pick_stop\<close>). A closed channel without values is always ready and delivers nil, which \<open>processMessage\<close>, \<open>handleBundles\<close>
  and \<open>distributeMessages\<close> dereference. \<open>offered\<close> is the value that a sender has ready.
\<close>

datatype 'm turn = TurnWaits | TurnReturns | TurnPanics | TurnHandles 'm

definition loop_turn :: "bool \<Rightarrow> bool \<Rightarrow> go_channel \<Rightarrow> lifecycle \<Rightarrow> 'm option \<Rightarrow> 'm turn" where
  "loop_turn stop_ready pick_stop ch s offered =
     (let nil_ready = (offered = None \<and> ch \<in> set (lc_closed s)) in
      if stop_ready \<and> (pick_stop \<or> (offered = None \<and> \<not> nil_ready)) then TurnReturns
      else case offered of Some m \<Rightarrow> TurnHandles m | None \<Rightarrow> if nil_ready then TurnPanics else TurnWaits)"

definition handleKafkaMessages_turn :: "bool \<Rightarrow> lifecycle \<Rightarrow> 'm option \<Rightarrow> 'm turn" where
  "handleKafkaMessages_turn pick_stop s = loop_turn (lc_cancelled s) pick_stop MsgChan s"

definition handleBundles_turn :: "bool \<Rightarrow> lifecycle \<Rightarrow> 'm option \<Rightarrow> 'm turn" where
  "handleBundles_turn pick_stop s = loop_turn (lc_cancelled s) pick_stop ObjectsMetaDataChan s"

definition distributeMessages_turn :: "bool \<Rightarrow> lifecycle \<Rightarrow> 'm option \<Rightarrow> 'm turn" where
  "distributeMessages_turn pick_stop s = loop_turn (StopChan \<in> set (lc_closed s)) pick_stop MsgChan s"

lemmas loop_turns = handleKafkaMessages_turn_def handleBundles_turn_def distributeMessages_turn_def loop_turn_def

text \<open>Before \<open>Stop\<close> a loop handles what it is offered and never panics.\<close>

lemma running_turn:
  assumes "lc_closed s = []" "\<not> lc_cancelled s"
  shows "handleKafkaMessages_turn b s (Some m) = TurnHandles m" "handleKafkaMessages_turn b s (None :: 'm option) = TurnWaits"
    "handleBundles_turn b s (Some m) = TurnHandles m" "handleBundles_turn b s (None :: 'm option) = TurnWaits"
    "distributeMessages_turn b s (Some m) = TurnHandles m" "distributeMessages_turn b s (None :: 'm option) = TurnWaits"
  using assms by (simp_all add: loop_turns)

text \<open>After it the loop returns or panics on nil, as the runtime picks.\<close>

lemma stopped_consumer_turn:
  assumes "consumer_Stop s = Some s'" "\<not> lc_stopOnce s"
  shows "handleKafkaMessages_turn b s' (None :: 'm option) = (if b then TurnReturns else TurnPanics)"
  using assms by (auto simp: consumer_Stop_def lifecycle_defs loop_turns split: if_splits)

lemma stopped_status_sync_turn:
  assumes "status_sync_Stop s = Some s'" "\<not> lc_stopOnce s"
  shows "handleBundles_turn b s' (None :: 'm option) = (if b then TurnReturns else TurnPanics)"
  using assms by (auto simp: status_sync_Stop_def lifecycle_defs loop_turns split: if_splits)

lemma stopped_spec_sync_turn:
  assumes "spec_sync_Stop s = Some s'" "\<not> lc_stopOnce s"
  shows "distributeMessages_turn b s' (None :: 'm option) = (if b then TurnReturns else TurnPanics)"
  using assms by (auto simp: spec_sync_Stop_def lifecycle_defs loop_turns bind_Some_iff split: if_splits)

text \<open>The producer sends to its goroutine before it closes the channel, so the goroutine has returned by then.\<close>

lemma stopped_producer_has_no_loop:
  assumes "producer_Stop (producer_Start new_lifecycle) = Some s'"
  shows "DeliveryChan \<in> set (lc_closed s') \<and> DeliveryReportHandler \<notin> set (lc_goroutines s')"
  using assms by (auto simp: producer_Start_def producer_Stop_def lifecycle_defs new_lifecycle_def)

end
