(* ===== verification/Worker_Pool.thy ===== *)
theory Worker_Pool
  imports Hoh_Prelude
begin

text \<open>
  \<open>transport2db/db/workerpool\<close> with its channels: the pool channel that the workers put themselves into, one job queue
  of capacity one for each worker, the context that \<open>Stop\<close> cancels. Every operation waits, panics or is done. While the pool is
  not stopped, neither a worker that returns nor the dispatcher that hands over a job ever waits or panics, which is why the
  queues have the capacities that they have. \<open>Stop\<close> closes the pool channel while a worker may still be busy with a job; such a
  worker panics when it returns.
\<close>

section \<open>State\<close>

datatype pool_worker = Entering | Selecting | Handling | Exited

datatype 'a outcome = Waits | Panics | Done 'a

text \<open>The dispatcher holds the worker it acquired until it hands it a job. A job queue is empty (\<open>False\<close>) or full.\<close>

record worker_pool =
  wp_size :: nat
  wp_dbWorkers :: "nat list"
  wp_closed :: bool
  wp_cancelled :: bool
  wp_workers :: "pool_worker list"
  wp_jobsQueue :: "bool list"
  wp_held :: "nat option"

text \<open>\<open>NewDBWorkerPool\<close> and \<open>Start\<close>: a worker per connection of the pool, each about to enter the channel.\<close>

definition pool_Start :: "nat \<Rightarrow> worker_pool" where
  "pool_Start n =
     \<lparr> wp_size = n, wp_dbWorkers = [], wp_closed = False, wp_cancelled = False, wp_workers = replicate n Entering,
       wp_jobsQueue = replicate n False, wp_held = None \<rparr>"

text \<open>\<open>worker.dbWorkersPool <- worker\<close>: sending on a closed channel panics, on a full one waits.\<close>

definition worker_enter :: "nat \<Rightarrow> worker_pool \<Rightarrow> worker_pool outcome" where
  "worker_enter w s =
     (if wp_closed s then Panics
      else if wp_size s \<le> length (wp_dbWorkers s) then Waits
      else Done (s\<lparr>wp_dbWorkers := wp_dbWorkers s @ [w], wp_workers := (wp_workers s)[w := Selecting]\<rparr>))"

text \<open>The two branches of the \<open>select\<close>: the context is done, or a job arrived.\<close>

definition worker_done :: "nat \<Rightarrow> worker_pool \<Rightarrow> worker_pool outcome" where
  "worker_done w s = (if wp_cancelled s then Done (s\<lparr>wp_workers := (wp_workers s)[w := Exited]\<rparr>) else Waits)"

definition worker_take_job :: "nat \<Rightarrow> worker_pool \<Rightarrow> worker_pool outcome" where
  "worker_take_job w s =
     (if wp_jobsQueue s ! w
      then Done (s\<lparr>wp_workers := (wp_workers s)[w := Handling], wp_jobsQueue := (wp_jobsQueue s)[w := False]\<rparr>)
      else Waits)"

text \<open>The handler returned and the result was reported: the loop starts again.\<close>

definition worker_handled :: "nat \<Rightarrow> worker_pool \<Rightarrow> worker_pool outcome" where
  "worker_handled w s = Done (s\<lparr>wp_workers := (wp_workers s)[w := Entering]\<rparr>)"

text \<open>\<open>Acquire\<close>: a receive from a closed channel that is empty returns a nil worker, which the caller dereferences.\<close>

definition pool_Acquire :: "worker_pool \<Rightarrow> worker_pool outcome" where
  "pool_Acquire s =
     (case wp_dbWorkers s of
        w # ws \<Rightarrow> Done (s\<lparr>wp_dbWorkers := ws, wp_held := Some w\<rparr>)
      | [] \<Rightarrow> if wp_closed s then Panics else Waits)"

text \<open>\<open>RunAsync\<close>: a worker that exited has closed its job queue.\<close>

definition RunAsync :: "nat \<Rightarrow> worker_pool \<Rightarrow> worker_pool outcome" where
  "RunAsync w s =
     (if wp_workers s ! w = Exited then Panics
      else if wp_jobsQueue s ! w then Waits
      else Done (s\<lparr>wp_jobsQueue := (wp_jobsQueue s)[w := True], wp_held := None\<rparr>))"

text \<open>\<open>Stop\<close>: cancel, close the connections, close the pool channel.\<close>

definition pool_Stop :: "worker_pool \<Rightarrow> worker_pool outcome" where
  "pool_Stop s = (if wp_closed s then Panics else Done (s\<lparr>wp_cancelled := True, wp_closed := True\<rparr>))"

section \<open>Interleavings\<close>

text \<open>Who moves next: a worker at its place in the loop, the dispatcher, or the process that stops the pool.\<close>

datatype pool_action = WorkerMoves nat | WorkerStops nat | DispatcherMoves | DispatcherSkips | ProcessStops

definition worker_move :: "nat \<Rightarrow> worker_pool \<Rightarrow> worker_pool outcome" where
  "worker_move w s =
     (if w < length (wp_workers s)
      then (case wp_workers s ! w of
              Entering \<Rightarrow> worker_enter w s
            | Selecting \<Rightarrow> worker_take_job w s
            | Handling \<Rightarrow> worker_handled w s
            | Exited \<Rightarrow> Waits)
      else Waits)"

definition dispatcher_move :: "worker_pool \<Rightarrow> worker_pool outcome" where
  "dispatcher_move s = (case wp_held s of None \<Rightarrow> pool_Acquire s | Some w \<Rightarrow> RunAsync w s)"

text \<open>When \<open>GetNext\<close> returns an error, the dispatcher goes on to the next unit and the worker it acquired gets no job.\<close>

definition dispatcher_skip :: "worker_pool \<Rightarrow> worker_pool outcome" where
  "dispatcher_skip s = (case wp_held s of None \<Rightarrow> Waits | Some w \<Rightarrow> Done (s\<lparr>wp_held := None\<rparr>))"

fun pool_act :: "pool_action \<Rightarrow> worker_pool \<Rightarrow> worker_pool outcome" where
  "pool_act (WorkerMoves w) s = worker_move w s"
| "pool_act (WorkerStops w) s =
     (if w < length (wp_workers s) \<and> wp_workers s ! w = Selecting then worker_done w s else Waits)"
| "pool_act DispatcherMoves s = dispatcher_move s"
| "pool_act DispatcherSkips s = dispatcher_skip s"
| "pool_act ProcessStops s = pool_Stop s"

inductive pool_reachable :: "nat \<Rightarrow> worker_pool \<Rightarrow> bool" for n where
  pool_start: "pool_reachable n (pool_Start n)"
| pool_action: "pool_reachable n s \<Longrightarrow> pool_act a s = Done s' \<Longrightarrow> pool_reachable n s'"

section \<open>The invariant\<close>

text \<open>A full job queue belongs to a worker that waits for it and is neither in the channel nor held: each worker is in one
  place. Before \<open>Stop\<close> no worker has exited.\<close>

definition parked :: "worker_pool \<Rightarrow> nat \<Rightarrow> bool" where
  "parked s w \<longleftrightarrow> w < wp_size s \<and> wp_workers s ! w \<in> {Selecting, Exited} \<and> \<not> wp_jobsQueue s ! w"

definition pool_wf :: "worker_pool \<Rightarrow> bool" where
  "pool_wf s \<longleftrightarrow>
     length (wp_workers s) = wp_size s \<and> length (wp_jobsQueue s) = wp_size s \<and> wp_closed s = wp_cancelled s \<and>
     distinct (wp_dbWorkers s) \<and> (\<forall>w \<in> set (wp_dbWorkers s). parked s w) \<and>
     (\<forall>w. wp_held s = Some w \<longrightarrow> parked s w \<and> w \<notin> set (wp_dbWorkers s)) \<and>
     (\<forall>w < wp_size s. wp_workers s ! w = Exited \<longrightarrow> wp_cancelled s) \<and>
     (\<forall>w < wp_size s. wp_jobsQueue s ! w \<longrightarrow> wp_workers s ! w \<in> {Selecting, Exited})"

lemma pool_wf_Start: "pool_wf (pool_Start n)"
  by (auto simp: pool_wf_def pool_Start_def)

text \<open>A worker that is not parked is in no other place.\<close>

lemma not_parked: "pool_wf s \<Longrightarrow> \<not> parked s w \<Longrightarrow> w \<notin> set (wp_dbWorkers s) \<and> wp_held s \<noteq> Some w"
  by (auto simp: pool_wf_def)

lemma parked_phase: "v \<noteq> w \<Longrightarrow> parked (s\<lparr>wp_workers := (wp_workers s)[w := x]\<rparr>) v = parked s v"
  by (simp add: parked_def)

lemma pool_wf_phase:
  assumes "pool_wf s" "w \<notin> set (wp_dbWorkers s) \<and> wp_held s \<noteq> Some w" "\<not> wp_jobsQueue s ! w" "x \<noteq> Exited"
  shows "pool_wf (s\<lparr>wp_workers := (wp_workers s)[w := x]\<rparr>)" (is "pool_wf ?s")
proof -
  have "parked ?s v" if "v \<in> set (wp_dbWorkers s)" for v
    using that assms(1,2) parked_phase [of v w s x] by (auto simp: pool_wf_def)
  moreover have "parked ?s v" if "wp_held s = Some v" for v
    using that assms(1,2) parked_phase [of v w s x] by (auto simp: pool_wf_def)
  moreover have "wp_cancelled s" if "v < wp_size s" "(wp_workers s)[w := x] ! v = Exited" for v
    using that assms(1,4) by (cases "v = w") (auto simp: pool_wf_def)
  moreover have "(wp_workers s)[w := x] ! v \<in> {Selecting, Exited}" if "v < wp_size s" "wp_jobsQueue s ! v" for v
    using that assms(1,3) by (cases "v = w") (auto simp: pool_wf_def)
  ultimately show ?thesis using assms(1) by (auto simp: pool_wf_def)
qed

lemma pool_wf_enter:
  assumes "pool_wf s" "w < wp_size s" "wp_workers s ! w = Entering" "worker_enter w s = Done s'"
  shows "pool_wf s'"
proof -
  have "w \<notin> set (wp_dbWorkers s) \<and> wp_held s \<noteq> Some w"
    using assms(3) by (intro not_parked [OF assms(1)]) (simp add: parked_def)
  with assms show ?thesis
    by (auto simp: pool_wf_def parked_def worker_enter_def nth_list_update split: if_splits)
qed

lemma pool_wf_done:
  assumes "pool_wf s" "w < wp_size s" "wp_workers s ! w = Selecting" "worker_done w s = Done s'"
  shows "pool_wf s'"
  using assms by (auto simp: pool_wf_def parked_def worker_done_def nth_list_update split: if_splits)

lemma pool_wf_job:
  assumes "pool_wf s" "w < wp_size s" "wp_workers s ! w = Selecting" "worker_take_job w s = Done s'"
  shows "pool_wf s'"
proof -
  have "w \<notin> set (wp_dbWorkers s) \<and> wp_held s \<noteq> Some w"
    using assms(4) by (intro not_parked [OF assms(1)]) (auto simp: parked_def worker_take_job_def split: if_splits)
  with assms show ?thesis
    by (auto simp: pool_wf_def parked_def worker_take_job_def nth_list_update split: if_splits)
qed

lemma pool_wf_handled:
  assumes "pool_wf s" "w < wp_size s" "wp_workers s ! w = Handling" "worker_handled w s = Done s'"
  shows "pool_wf s'"
proof -
  have "w \<notin> set (wp_dbWorkers s) \<and> wp_held s \<noteq> Some w"
    using assms(3) by (intro not_parked [OF assms(1)]) (simp add: parked_def)
  moreover have "\<not> wp_jobsQueue s ! w" using assms(1-3) by (auto simp: pool_wf_def)
  moreover have "s' = s\<lparr>wp_workers := (wp_workers s)[w := Entering]\<rparr>" using assms(4) by (simp add: worker_handled_def)
  ultimately show ?thesis using pool_wf_phase [OF assms(1)] by simp
qed

lemma pool_wf_Acquire: "pool_wf s \<Longrightarrow> pool_Acquire s = Done s' \<Longrightarrow> pool_wf s'"
  by (auto simp: pool_wf_def parked_def pool_Acquire_def split: list.splits if_splits)

lemma pool_wf_RunAsync: "pool_wf s \<Longrightarrow> wp_held s = Some w \<Longrightarrow> RunAsync w s = Done s' \<Longrightarrow> pool_wf s'"
  by (auto simp: pool_wf_def parked_def RunAsync_def nth_list_update split: if_splits)

lemma pool_wf_dispatcher: "pool_wf s \<Longrightarrow> dispatcher_move s = Done s' \<Longrightarrow> pool_wf s'"
  by (auto simp: dispatcher_move_def intro: pool_wf_Acquire pool_wf_RunAsync split: option.splits)

lemma pool_wf_act:
  assumes "pool_wf s" "pool_act a s = Done s'"
  shows "pool_wf s'"
proof (cases a)
  case (WorkerMoves w)
  with assms have "w < wp_size s" by (auto simp: pool_wf_def worker_move_def split: if_splits)
  with WorkerMoves assms show ?thesis
    using pool_wf_enter [of s w s'] pool_wf_job [of s w s'] pool_wf_handled [of s w s']
    by (auto simp: worker_move_def split: if_splits pool_worker.splits)
next
  case (WorkerStops w)
  with assms show ?thesis using pool_wf_done [of s w s'] by (auto simp: pool_wf_def parked_def split: if_splits)
next
  case DispatcherMoves
  with assms show ?thesis using pool_wf_dispatcher by simp
next
  case DispatcherSkips
  with assms show ?thesis by (auto simp: pool_wf_def parked_def dispatcher_skip_def split: option.splits)
next
  case ProcessStops
  with assms show ?thesis by (auto simp: pool_wf_def parked_def pool_Stop_def split: if_splits)
qed

lemma pool_reachable_wf: "pool_reachable n s \<Longrightarrow> pool_wf s \<and> wp_size s = n"
proof (induction rule: pool_reachable.induct)
  case pool_start
  then show ?case using pool_wf_Start by (simp add: pool_Start_def)
next
  case (pool_action s a s')
  have "wp_size s' = wp_size s" using pool_action.hyps(2)
    by (cases a) (auto simp: worker_move_def dispatcher_move_def worker_enter_def worker_done_def worker_take_job_def
      worker_handled_def pool_Acquire_def RunAsync_def pool_Stop_def dispatcher_skip_def
      split: if_splits option.splits list.splits pool_worker.splits)
  with pool_action pool_wf_act show ?case by metis
qed

section \<open>No waiting, no panic\<close>

text \<open>The workers in the channel and one that is not there are distinct workers of the pool.\<close>

lemma channel_has_room:
  assumes "pool_wf s" "w < wp_size s" "w \<notin> set (wp_dbWorkers s)"
  shows "length (wp_dbWorkers s) < wp_size s"
proof -
  from assms have sub: "set (w # wp_dbWorkers s) \<subseteq> {..<wp_size s}" and "distinct (w # wp_dbWorkers s)"
    by (auto simp: pool_wf_def parked_def)
  then have "length (w # wp_dbWorkers s) \<le> card {..<wp_size s}"
    using card_mono [OF finite_lessThan sub] distinct_card [of "w # wp_dbWorkers s"] by simp
  then show ?thesis by simp
qed

lemma returning_worker_enters:
  assumes "pool_reachable n s" "\<not> wp_closed s" "w < n" "wp_workers s ! w = Entering"
  shows "\<exists>s'. worker_enter w s = Done s'"
proof -
  have wf: "pool_wf s" and n: "wp_size s = n" using pool_reachable_wf [OF assms(1)] by auto
  have "w \<notin> set (wp_dbWorkers s)" using not_parked [OF wf, of w] assms(4) by (simp add: parked_def)
  from channel_has_room [OF wf _ this] assms(3) n have "length (wp_dbWorkers s) < wp_size s" by simp
  with assms(2) show ?thesis by (simp add: worker_enter_def)
qed

lemma dispatcher_is_not_blocked:
  assumes "pool_reachable n s" "\<not> wp_closed s" "wp_held s = Some w"
  shows "\<exists>s'. RunAsync w s = Done s'"
  using pool_reachable_wf [OF assms(1)] assms(2,3) by (auto simp: pool_wf_def parked_def RunAsync_def)

lemma running_pool_never_panics:
  assumes "pool_reachable n s" "\<not> wp_closed s"
  shows "pool_act a s \<noteq> Panics"
proof (cases a)
  case (WorkerMoves w)
  then show ?thesis using assms(2)
    by (auto simp: worker_move_def worker_enter_def worker_take_job_def worker_handled_def split: pool_worker.splits)
next
  case (WorkerStops w)
  then show ?thesis by (auto simp: worker_done_def)
next
  case DispatcherMoves
  then show ?thesis using assms(2) dispatcher_is_not_blocked [OF assms]
    by (auto simp: dispatcher_move_def pool_Acquire_def split: option.splits list.splits)
next
  case DispatcherSkips
  then show ?thesis by (auto simp: dispatcher_skip_def split: option.splits)
next
  case ProcessStops
  then show ?thesis using assms(2) by (simp add: pool_Stop_def)
qed

lemma waiting_job_is_taken:
  assumes "pool_reachable n s" "\<not> wp_closed s" "w < n" "wp_jobsQueue s ! w"
  shows "\<exists>s'. worker_move w s = Done s'"
  using pool_reachable_wf [OF assms(1)] assms(2-4) by (auto simp: pool_wf_def worker_move_def worker_take_job_def)

section \<open>Stopping\<close>

fun pool_run :: "pool_action list \<Rightarrow> worker_pool \<Rightarrow> worker_pool outcome" where
  "pool_run [] s = Done s"
| "pool_run (a # as) s = (case pool_act a s of Done s' \<Rightarrow> pool_run as s' | r \<Rightarrow> r)"

lemmas pool_operations =
  pool_Start_def worker_move_def dispatcher_move_def worker_enter_def worker_done_def worker_take_job_def worker_handled_def
  pool_Acquire_def RunAsync_def pool_Stop_def dispatcher_skip_def

text \<open>A worker takes a job, the process stops the pool, the job ends: the worker sends on a closed channel.\<close>

definition stop_while_busy :: "pool_action list" where
  "stop_while_busy =
     [WorkerMoves 0, DispatcherMoves, DispatcherMoves, WorkerMoves 0, ProcessStops, WorkerMoves 0, WorkerMoves 0]"

lemma stop_while_busy_panics: "pool_run stop_while_busy (pool_Start 1) = Panics"
  by (simp add: stop_while_busy_def pool_operations)

text \<open>If no worker is busy and the dispatcher has stopped, every worker can exit.\<close>

lemma idle_workers_exit:
  assumes "wp_cancelled s" "w < length (wp_workers s)" "wp_workers s ! w = Selecting"
  shows "pool_act (WorkerStops w) s = Done (s\<lparr>wp_workers := (wp_workers s)[w := Exited]\<rparr>)"
  using assms by (simp add: worker_done_def)

lemma pool_run_reachable: "pool_run as s = Done s' \<Longrightarrow> pool_reachable n s \<Longrightarrow> pool_reachable n s'"
  by (induction as arbitrary: s) (auto intro: pool_action split: outcome.split_asm)

text \<open>C27: as long as the worker pool is not stopped, in every interleaving of the workers and the dispatcher: a worker that returns
  enters the pool at once, the dispatcher hands a job to the worker it holds without waiting, a job that was handed over is
  taken by its worker, and no move of anyone panics. The channels' capacities (one slot per worker, one job per worker)
  are enough.\<close>

theorem running_pool_is_not_blocked:
  assumes "pool_reachable n s" and "\<not> wp_closed s"
  shows "(\<forall>w < n. wp_workers s ! w = Entering \<longrightarrow> (\<exists>s'. worker_enter w s = Done s')) \<and>
    (\<forall>w. wp_held s = Some w \<longrightarrow> (\<exists>s'. RunAsync w s = Done s')) \<and>
    (\<forall>w < n. wp_jobsQueue s ! w \<longrightarrow> (\<exists>s'. worker_move w s = Done s')) \<and> (\<forall>a. pool_act a s \<noteq> Panics)"
  using returning_worker_enters [OF assms] dispatcher_is_not_blocked [OF assms] waiting_job_is_taken [OF assms]
    running_pool_never_panics [OF assms] by blast

text \<open>Two workers: one has a job in its queue, the dispatcher holds the other.\<close>

definition busy_pool :: "pool_action list" where
  "busy_pool = [WorkerMoves 1, WorkerMoves 0, DispatcherMoves, DispatcherMoves, DispatcherMoves]"

theorem running_pool_is_not_blocked_witness:
  "\<exists>s s1 s2. pool_run busy_pool (pool_Start 2) = Done s \<and> wp_held s = Some 0 \<and> wp_jobsQueue s ! 1 \<and>
     RunAsync 0 s = Done s1 \<and> worker_move 1 s = Done s2 \<and> (\<forall>a. pool_act a s \<noteq> Panics)"
proof -
  obtain s where s: "pool_run busy_pool (pool_Start 2) = Done s" "wp_held s = Some 0" "wp_jobsQueue s ! 1" "\<not> wp_closed s"
    by (simp add: busy_pool_def pool_operations numeral_2_eq_2)
  from running_pool_is_not_blocked [OF pool_run_reachable [OF s(1) pool_start] s(4)] s show ?thesis by fastforce
qed

end
