(* ===== verification/Statistics_Log.thy ===== *)
theory Statistics_Log
  imports Statistics
begin

text \<open>
  The periodic log of \<open>pkg/statistics\<close> (\<open>run\<close>, \<open>toString\<close>, \<open>toStringUnsafe\<close>) and what the numbers in it are: the
  measurements of a list of durations against their count, sum and maximum. The average is a quotient of 64-bit
  integers that is converted to a float64 afterwards, so it is a whole number and its two decimals are zeros.
\<close>

section \<open>Floating point\<close>

text \<open>\<open>float64(x)\<close> of an integer: the nearest number with 53 significant bits, ties to even.\<close>

fun bit_len :: "nat \<Rightarrow> nat" where
  "bit_len n = (if n = 0 then 0 else Suc (bit_len (n div 2)))"

declare bit_len.simps [simp del]

definition float64_of :: "int \<Rightarrow> int" where
  "float64_of x =
     (let a = nat \<bar>x\<bar>; k = bit_len a - 53; q = a div 2 ^ k; r = a mod 2 ^ k;
          q' = (if 2 ^ k < 2 * r \<or> (2 * r = 2 ^ k \<and> odd q) then q + 1 else q)
      in sgn x * int (q' * 2 ^ k))"

text \<open>\<open>%.2f\<close> of a whole number.\<close>

definition format_2f :: "int \<Rightarrow> string" where
  "format_2f x = itoa x @ ''.00''"

lemma bit_len_le: "n < 2 ^ k \<Longrightarrow> bit_len n \<le> k"
proof (induction k arbitrary: n)
  case 0
  then show ?case by (simp add: bit_len.simps)
next
  case (Suc k)
  then have "bit_len (n div 2) \<le> k" by (metis less_mult_imp_div_less mult.commute power_Suc)
  then show ?case by (simp add: bit_len.simps [of n])
qed

lemma float64_of_small: "\<bar>x\<bar> < 2 ^ 53 \<Longrightarrow> float64_of x = x"
proof -
  assume "\<bar>x\<bar> < 2 ^ 53"
  then have "bit_len (nat \<bar>x\<bar>) \<le> 53" by (intro bit_len_le) (simp add: nat_less_iff)
  then have "bit_len (nat \<bar>x\<bar>) - 53 = 0" by simp
  then show ?thesis by (simp add: float64_of_def Let_def sgn_if)
qed

section \<open>The log line\<close>

definition toStringUnsafe :: "'a time_measurement_scheme \<Rightarrow> string" where
  "toStringUnsafe tm =
     (let average = (if successes tm \<noteq> 0 then float64_of (wrap64 (go_quot (totalDuration tm) (successes tm))) else 0)
      in ''failures='' @ itoa (failures tm) @ '', successes='' @ itoa (successes tm) @
         '', average time='' @ format_2f average @ '' ms, max time='' @ itoa (maxDuration tm) @ '' ms'')"

definition cum_toString :: "conflation_unit_measurement \<Rightarrow> string" where
  "cum_toString cum = toStringUnsafe cum @ '', num of conflations='' @ itoa (numOfConflations cum)"

definition metrics_text :: "string \<Rightarrow> bundle_metrics \<Rightarrow> string" where
  "metrics_text bundleType m =
     ''['' @ bundleType @ '', (transport {total received='' @ itoa (bm_totalReceived m) @ ''}), (cu {'' @
     cum_toString (bm_conflationUnit m) @ ''}), (db process {'' @ toStringUnsafe (bm_database m) @ ''})], ''"

definition trim_suffix :: "string \<Rightarrow> string \<Rightarrow> string" where
  "trim_suffix s suffix = rev (trim_prefix (rev s) (rev suffix))"

text \<open>One tick, with the order in which Go ranges over the map as an argument.\<close>

definition statistics_dump :: "(string set \<Rightarrow> string list) \<Rightarrow> statistics \<Rightarrow> int \<times> int \<times> string" where
  "statistics_dump enum s =
     (st_conflationReadyQueueSize s, st_numOfAvailableDBWorkers s,
      trim_suffix (concat (map (\<lambda>t. case st_bundleMetrics s t of None \<Rightarrow> [] | Some m \<Rightarrow> metrics_text t m)
                             (enum (dom (st_bundleMetrics s))))) '', '')"

text \<open>\<open>run\<close>: the statistics at each tick until the context is done give one line each, unless the log is disabled.\<close>

definition statistics_run :: "int \<Rightarrow> (string set \<Rightarrow> string list) \<Rightarrow> statistics list \<Rightarrow> (int \<times> int \<times> string) list" where
  "statistics_run logInterval enum at_ticks = (if logInterval \<le> 0 then [] else map (statistics_dump enum) at_ticks)"

lemma trim_suffix_append [simp]: "trim_suffix (s @ t) t = s"
  by (simp add: trim_suffix_def)

lemma dump_text:
  assumes "enumerates enum" "finite (dom (st_bundleMetrics s))" "dom (st_bundleMetrics s) \<noteq> {}"
  shows "snd (snd (statistics_dump enum s)) @ '', '' =
    concat (map (\<lambda>t. metrics_text t (the (st_bundleMetrics s t))) (enum (dom (st_bundleMetrics s))))"
proof -
  let ?ts = "enum (dom (st_bundleMetrics s))" and ?f = "\<lambda>t. metrics_text t (the (st_bundleMetrics s t))"
  have set: "set ?ts = dom (st_bundleMetrics s)" using assms by simp
  then have eq: "map (\<lambda>t. case st_bundleMetrics s t of None \<Rightarrow> [] | Some m \<Rightarrow> metrics_text t m) ?ts = map ?f ?ts"
    by (intro map_cong) (auto split: option.splits)
  from set assms(3) have "?ts \<noteq> []" by (metis set_empty)
  then obtain ts t where ts: "?ts = ts @ [t]" by (metis rev_exhaust)
  have "\<exists>u. concat (map ?f ?ts) = u @ '', ''" by (simp add: ts metrics_text_def)
  then obtain u where "concat (map ?f ?ts) = u @ '', ''" ..
  then show ?thesis unfolding statistics_dump_def by (simp add: eq)
qed

section \<open>What the numbers mean\<close>

definition record_durations :: "time_measurement \<Rightarrow> (int \<times> bool) list \<Rightarrow> time_measurement" where
  "record_durations = foldl (\<lambda>tm (duration, failed). tm_add tm duration failed)"

definition ok_millis :: "(int \<times> bool) list \<Rightarrow> int list" where
  "ok_millis ds = map (\<lambda>(d, _). Milliseconds d) (filter (\<lambda>(_, failed). \<not> failed) ds)"

definition summary :: "(int \<times> bool) list \<Rightarrow> time_measurement" where
  "summary ds =
     \<lparr> failures = int (length (filter snd ds)), successes = int (length (ok_millis ds)),
       totalDuration = sum_list (ok_millis ds), maxDuration = foldl max 0 (ok_millis ds) \<rparr>"

definition durations_fit :: "(int \<times> bool) list \<Rightarrow> bool" where
  "durations_fit ds \<longleftrightarrow> (\<forall>d \<in> set ds. 0 \<le> fst d) \<and> sum_list (ok_millis ds) < 2 ^ 63 \<and> int (length ds) < 2 ^ 63"

lemma Milliseconds_nonneg: "0 \<le> d \<Longrightarrow> 0 \<le> Milliseconds d"
  by (simp add: Milliseconds_def go_quot_def pos_imp_zdiv_nonneg_iff)

lemma ok_millis_snoc: "ok_millis (ds @ [(d, failed)]) = ok_millis ds @ (if failed then [] else [Milliseconds d])"
  by (simp add: ok_millis_def)

lemma ok_millis_nonneg: "\<forall>d \<in> set ds. 0 \<le> fst d \<Longrightarrow> 0 \<le> sum_list (ok_millis ds)"
  by (rule sum_list_nonneg) (auto simp: ok_millis_def Milliseconds_nonneg)

lemma length_filters: "length (filter snd ds) + length (ok_millis ds) = length ds"
  using sum_length_filter_compl [of snd ds] by (simp add: ok_millis_def case_prod_beta')

lemma durations_fit_snoc:
  assumes "durations_fit (ds @ [(d, failed)])"
  shows "durations_fit ds" and "0 \<le> d" and "\<not> failed \<Longrightarrow> sum_list (ok_millis ds) + Milliseconds d < 2 ^ 63"
    and "int (length ds) + 1 < 2 ^ 63"
  using assms Milliseconds_nonneg [of d] by (auto simp: durations_fit_def ok_millis_snoc split: if_splits)

lemma summary_Nil: "bm_database newBundleMetrics = summary []"
  by (simp add: newBundleMetrics_def summary_def ok_millis_def)

text \<open>As long as nothing overflows, the measurement is the summary of what was recorded.\<close>

lemma measurement_is_summary: "durations_fit ds \<Longrightarrow> record_durations (summary []) ds = summary ds"
proof (induction ds rule: rev_induct)
  case (snoc x ds)
  obtain d failed where x: "x = (d, failed)" by (cases x)
  note fit = durations_fit_snoc [OF snoc.prems [unfolded x]]
  have ih: "record_durations (summary []) ds = summary ds" using snoc.IH fit(1) by simp
  have nn: "0 \<le> sum_list (ok_millis ds)" using fit(1) by (intro ok_millis_nonneg) (simp add: durations_fit_def)
  have lens: "int (length (filter snd ds)) + int (length (ok_millis ds)) = int (length ds)"
    using length_filters [of ds] by linarith
  have ints: "in_int64 (int (length (filter snd ds)) + 1)" "in_int64 (int (length (ok_millis ds)) + 1)"
    using fit(4) lens by (auto simp: in_int64_def)
  have sums: "in_int64 (sum_list (ok_millis ds) + Milliseconds d)" if "\<not> failed"
    using fit(3) [OF that] nn Milliseconds_nonneg [OF fit(2)] by (simp add: in_int64_def)
  show ?case
  proof (cases failed)
    case True
    then show ?thesis using ih ints
      by (simp add: x record_durations_def tm_add_def addUnsafe_def summary_def ok_millis_snoc)
  next
    case False
    then show ?thesis using ih ints sums
      by (simp add: x record_durations_def tm_add_def addUnsafe_def summary_def ok_millis_snoc Let_def max_def)
  qed
qed (simp add: record_durations_def)

lemma sum_le_max: "sum_list xs \<le> int (length xs) * foldl max 0 xs" for xs :: "int list"
proof (induction xs rule: rev_induct)
  case (snoc x xs)
  have "int (length xs) * foldl max 0 xs \<le> int (length xs) * max (foldl max 0 xs) x"
    by (rule mult_left_mono) simp_all
  then show ?case using snoc.IH by (simp add: algebra_simps)
qed simp

text \<open>The average that the log shows does not exceed the maximum.\<close>

lemma average_le_max:
  assumes "durations_fit ds"
  shows "totalDuration (summary ds) div successes (summary ds) \<le> maxDuration (summary ds)"
proof (cases "ok_millis ds = []")
  case False
  then have n: "0 < int (length (ok_millis ds))" by simp
  from zdiv_mono1 [OF sum_le_max [of "ok_millis ds"] n] n show ?thesis by (simp add: summary_def)
qed (simp add: summary_def)

lemma logged_average:
  assumes "durations_fit ds" and "ok_millis ds \<noteq> []" and "sum_list (ok_millis ds) < 2 ^ 53"
  shows "toStringUnsafe (record_durations (summary []) ds) =
    ''failures='' @ itoa (int (length (filter snd ds))) @ '', successes='' @ itoa (int (length (ok_millis ds))) @
    '', average time='' @ itoa (sum_list (ok_millis ds) div int (length (ok_millis ds))) @ ''.00 ms, max time='' @
    itoa (foldl max 0 (ok_millis ds)) @ '' ms''"
proof -
  let ?t = "sum_list (ok_millis ds)" and ?n = "int (length (ok_millis ds))"
  have nn: "0 \<le> ?t" using assms(1) by (intro ok_millis_nonneg) (simp add: durations_fit_def)
  have n: "0 < ?n" using assms(2) by simp
  have q: "go_quot ?t ?n = ?t div ?n" using nn n by (simp add: go_quot_def)
  have le: "0 \<le> ?t div ?n" "?t div ?n \<le> ?t"
    using nn n zdiv_mono2 [of ?t 1 ?n] by (simp_all add: pos_imp_zdiv_nonneg_iff Suc_le_eq)
  have "in_int64 (?t div ?n)" using le assms(3) by (simp add: in_int64_def)
  moreover have "\<bar>?t div ?n\<bar> < 2 ^ 53" using le assms(3) by simp
  ultimately show ?thesis using n assms(2) q measurement_is_summary [OF assms(1)]
    by (simp add: toStringUnsafe_def summary_def float64_of_small format_2f_def Let_def)
qed

end
