(* ===== verification/Label_Watcher_Loop.thy ===== *)
theory Label_Watcher_Loop
  imports Label_Watcher
begin

text \<open>
  \<open>updateDeletedLabelsPeriodically\<close>, the loop of the labels status watcher: two tickers, of which the one for trimming follows
  the interval policy. A run is the list of the ticks that the loop received; before each, other processes may have written to
  the database.
\<close>

section \<open>The loop\<close>

definition tempLeafHubNameFillInterval :: int where "tempLeafHubNameFillInterval = 10 * 1000000000"

record managedClusterLabelsStatusWatcher =
  lw_labelsSpecTableName :: string
  lw_labelsStatusTableName :: string

record ('b, 'db) watcher_state =
  ws_policy :: "'b backoff_policy"
  ws_labelsTrimmerTicker :: int
  ws_hubNameFillTicker :: int
  ws_db :: 'db

definition AddManagedClusterLabelsStatusWatcher ::
    "'b backoff_lib \<Rightarrow> int \<Rightarrow> managedClusterLabelsStatusWatcher \<times> 'b backoff_policy" where
  "AddManagedClusterLabelsStatusWatcher bo deletedLabelsTrimmingInterval =
     (\<lparr> lw_labelsSpecTableName = managedClusterLabelsSpecDBTableName,
        lw_labelsStatusTableName = managedClusterLabelsStatusDBTableName \<rparr>,
      NewExponentialBackoffPolicy bo deletedLabelsTrimmingInterval)"

text \<open>The tickers are made when the loop starts.\<close>

definition watcher_init :: "'b backoff_policy \<Rightarrow> 'db \<Rightarrow> ('b, 'db) watcher_state" where
  "watcher_init p db =
     \<lparr> ws_policy = p, ws_labelsTrimmerTicker = GetInterval p, ws_hubNameFillTicker = tempLeafHubNameFillInterval,
       ws_db = db \<rparr>"

datatype watcher_tick = TrimTick | FillTick

text \<open>One turn of the loop, with whether the pass was reported as performed.\<close>

definition trim_tick ::
    "'b backoff_lib \<Rightarrow> 'db label_lib \<Rightarrow> (string set \<Rightarrow> string list) \<Rightarrow> managedClusterLabelsStatusWatcher \<Rightarrow>
     ('b, 'db) watcher_state \<Rightarrow> bool \<times> ('b, 'db) watcher_state" where
  "trim_tick bo lib enum watcher s =
     (let (performed, db) = trimDeletedLabelsByStatus lib enum (lw_labelsSpecTableName watcher) (lw_labelsStatusTableName watcher) (ws_db s);
          (p, ticker) = sync_tick bo performed (ws_policy s, ws_labelsTrimmerTicker s)
      in (performed, s\<lparr>ws_policy := p, ws_labelsTrimmerTicker := ticker, ws_db := db\<rparr>))"

definition fill_tick ::
    "'db label_lib \<Rightarrow> managedClusterLabelsStatusWatcher \<Rightarrow> ('b, 'db) watcher_state \<Rightarrow> ('b, 'db) watcher_state" where
  "fill_tick lib watcher s =
     s\<lparr>ws_db := fillMissingLeafHubNames lib (lw_labelsSpecTableName watcher) (lw_labelsStatusTableName watcher) (ws_db s)\<rparr>"

text \<open>The loop until the context is done: what each trimming pass reported, in order, and the last state.\<close>

fun updateDeletedLabelsPeriodically ::
    "'b backoff_lib \<Rightarrow> 'db label_lib \<Rightarrow> (string set \<Rightarrow> string list) \<Rightarrow> managedClusterLabelsStatusWatcher \<Rightarrow>
     (('db \<Rightarrow> 'db) \<times> watcher_tick) list \<Rightarrow> ('b, 'db) watcher_state \<Rightarrow> bool list \<times> ('b, 'db) watcher_state" where
  "updateDeletedLabelsPeriodically bo lib enum watcher [] s = ([], s)"
| "updateDeletedLabelsPeriodically bo lib enum watcher ((others, TrimTick) # ticks) s =
     (let (performed, s1) = trim_tick bo lib enum watcher (s\<lparr>ws_db := others (ws_db s)\<rparr>);
          (bs, s2) = updateDeletedLabelsPeriodically bo lib enum watcher ticks s1
      in (performed # bs, s2))"
| "updateDeletedLabelsPeriodically bo lib enum watcher ((others, FillTick) # ticks) s =
     updateDeletedLabelsPeriodically bo lib enum watcher ticks (fill_tick lib watcher (s\<lparr>ws_db := others (ws_db s)\<rparr>))"

section \<open>The ticker\<close>

lemma loop_ticker:
  "updateDeletedLabelsPeriodically bo lib enum watcher ticks s = (bs, s') \<Longrightarrow>
     (ws_policy s', ws_labelsTrimmerTicker s') = foldl (\<lambda>st b. sync_tick bo b st) (ws_policy s, ws_labelsTrimmerTicker s) bs \<and>
     ws_hubNameFillTicker s' = ws_hubNameFillTicker s"
proof (induction bo lib enum watcher ticks s arbitrary: bs rule: updateDeletedLabelsPeriodically.induct)
  case (2 bo lib enum watcher others ticks s)
  obtain performed s1 where t: "trim_tick bo lib enum watcher (s\<lparr>ws_db := others (ws_db s)\<rparr>) = (performed, s1)" by fastforce
  obtain bs1 where r: "updateDeletedLabelsPeriodically bo lib enum watcher ticks s1 = (bs1, s')" "bs = performed # bs1"
    using 2(2) t by (auto simp: Let_def split: prod.splits)
  have "(ws_policy s1, ws_labelsTrimmerTicker s1) = sync_tick bo performed (ws_policy s, ws_labelsTrimmerTicker s) \<and>
      ws_hubNameFillTicker s1 = ws_hubNameFillTicker s"
    using t by (auto simp: trim_tick_def Let_def split: prod.splits)
  with 2(1) [OF t [symmetric] refl r(1)] r(2) show ?case by simp
next
  case (3 bo lib enum watcher others ticks s)
  then show ?case by (simp add: fill_tick_def)
qed simp

text \<open>Whatever other processes write, and however the two tickers interleave: the time until the next trimming pass is the
  initial interval, doubled for every three passes that were performed since the last one that failed, at most a minute.\<close>

lemma trimming_interval:
  assumes "doubling bo initial after"
    and "AddManagedClusterLabelsStatusWatcher bo initial = (watcher, p)"
    and "updateDeletedLabelsPeriodically bo lib enum watcher ticks (watcher_init p db) = (bs, s')"
  shows "ws_labelsTrimmerTicker s' = backoff_interval initial (length (takeWhile id (rev bs)) div 3)"
    and "ws_hubNameFillTicker s' = 10 * 1000000000"
proof -
  have p: "p = NewExponentialBackoffPolicy bo initial" using assms(2) by (simp add: AddManagedClusterLabelsStatusWatcher_def)
  from loop_ticker [OF assms(3)] have "(ws_policy s', ws_labelsTrimmerTicker s') = run_ticks bo initial bs"
    by (simp add: run_ticks_def start_ticker_def p watcher_init_def Let_def)
  with ticker_after [OF assms(1), of bs]
  show "ws_labelsTrimmerTicker s' = backoff_interval initial (length (takeWhile id (rev bs)) div 3)" by (metis snd_conv)
  from loop_ticker [OF assms(3)] show "ws_hubNameFillTicker s' = 10 * 1000000000"
    by (simp add: watcher_init_def tempLeafHubNameFillInterval_def)
qed

section \<open>The table\<close>

lemma trimmed_idem: "trimmed hub m (trimmed hub m r) = trimmed hub m r"
  by (auto simp: trimmed_def Let_def split: option.splits)

definition trim_by_status :: "(string \<times> string \<rightharpoonup> labels) \<Rightarrow> label_table \<Rightarrow> label_table" where
  "trim_by_status status t = (\<lambda>k. map_option (trimmed (snd k) (status k)) (t k))"

lemma trim_by_status_idem: "trim_by_status status (trim_by_status status t) = trim_by_status status t"
  by (auto simp: trim_by_status_def fun_eq_iff trimmed_idem map_option.compositionality o_def)

definition versions_room :: "nat \<Rightarrow> label_table \<Rightarrow> bool" where
  "versions_room n t \<longleftrightarrow> (\<forall>k r. t k = Some r \<longrightarrow> in_int64 (lr_version r) \<and> lr_version r + int n < 2 ^ 63)"

lemma versions_room_trim: "versions_room 2 t \<Longrightarrow> versions_room 1 (trim_by_status status t)"
  by (fastforce simp: versions_room_def trim_by_status_def trimmed_def Let_def in_int64_def split: option.splits if_splits)

lemma versions_room_mono: "versions_room 2 t \<Longrightarrow> versions_room 1 t"
  by (fastforce simp: versions_room_def)

lemma trim_tick_table:
  assumes "table_laws lib tbl" "status_law lib status" "entries_law lib tbl (ws_db s)" "enumerates enum"
    "versions_room 1 (tbl (ws_db s))"
    and "trim_tick bo lib enum (fst (AddManagedClusterLabelsStatusWatcher bo initial)) s = (performed, s')"
  shows "tbl (ws_db s') = trim_by_status status (tbl (ws_db s))"
proof -
  obtain ok db' where run: "trimDeletedLabelsByStatus lib enum managedClusterLabelsSpecDBTableName
      managedClusterLabelsStatusDBTableName (ws_db s) = (ok, db')" by fastforce
  have room: "in_int64 (lr_version r + 1)" if "tbl (ws_db s) k = Some r" for k r
    using that assms(5) [unfolded versions_room_def, rule_format, of k r] by (simp add: in_int64_def)
  have "ws_db s' = db'" using assms(6) run
    by (auto simp: trim_tick_def AddManagedClusterLabelsStatusWatcher_def Let_def split: prod.splits)
  with trim_pass(1) [OF assms(1-4) room run] show ?thesis by (simp add: trim_by_status_def)
qed

text \<open>Without other writers the table is stable after the first pass.\<close>

lemma trimming_stable:
  assumes laws: "table_laws lib tbl" "status_law lib status" "\<And>db. entries_law lib tbl db" "enumerates enum"
    and room: "versions_room 1 (tbl (ws_db s))" and stable: "trim_by_status status (tbl (ws_db s)) = tbl (ws_db s)"
    and run: "updateDeletedLabelsPeriodically bo lib enum (fst (AddManagedClusterLabelsStatusWatcher bo initial))
      (replicate n (id, TrimTick)) s = (bs, s')"
  shows "tbl (ws_db s') = tbl (ws_db s)"
  using room stable run
proof (induction n arbitrary: s bs)
  case (Suc n)
  obtain performed s1 where t: "trim_tick bo lib enum (fst (AddManagedClusterLabelsStatusWatcher bo initial)) s = (performed, s1)"
    by fastforce
  have tb: "tbl (ws_db s1) = tbl (ws_db s)"
    using trim_tick_table [OF laws(1,2,3,4) Suc.prems(1) t] Suc.prems(2) by simp
  obtain bs1 where "updateDeletedLabelsPeriodically bo lib enum (fst (AddManagedClusterLabelsStatusWatcher bo initial))
      (replicate n (id, TrimTick)) s1 = (bs1, s')"
    using Suc.prems(3) t by (auto simp: Let_def id_def split: prod.splits)
  from Suc.IH [OF _ _ this] Suc.prems(1,2) tb show ?case by simp
qed simp

lemma trimming_converges:
  assumes laws: "table_laws lib tbl" "status_law lib status" "\<And>db. entries_law lib tbl db" "enumerates enum"
    and room: "versions_room 2 (tbl (ws_db s))"
    and run: "updateDeletedLabelsPeriodically bo lib enum (fst (AddManagedClusterLabelsStatusWatcher bo initial))
      (replicate (Suc n) (id, TrimTick)) s = (bs, s')"
  shows "tbl (ws_db s') = trim_by_status status (tbl (ws_db s))"
proof -
  obtain performed s1 where t: "trim_tick bo lib enum (fst (AddManagedClusterLabelsStatusWatcher bo initial)) s = (performed, s1)"
    by fastforce
  have tb: "tbl (ws_db s1) = trim_by_status status (tbl (ws_db s))"
    using trim_tick_table [OF laws(1,2,3,4) versions_room_mono [OF room] t] .
  obtain bs1 where "updateDeletedLabelsPeriodically bo lib enum (fst (AddManagedClusterLabelsStatusWatcher bo initial))
      (replicate n (id, TrimTick)) s1 = (bs1, s')"
    using run t by (auto simp: Let_def id_def split: prod.splits)
  with trimming_stable [OF laws, of s1] tb versions_room_trim [OF room] show ?thesis by (simp add: trim_by_status_idem)
qed

end
