(* ===== verification/Api_Columns.thy ===== *)
theory Api_Columns
  imports Rest_Lib
begin

text \<open>
  \<open>nonk8sapi/util/crd.go\<close>, the columns of the table that the list handlers answer with, and \<open>pkg/scheme/scheme.go\<close>, the
  order in which the API types are registered; and \<open>Start\<close> of the server in \<open>non_k8s_api.go\<close>. The API server's client and the conversions between versions of the API are
  libraries: arguments that return the left side of a sum on an error.
\<close>

section \<open>Columns of a custom resource\<close>

record column_definition =
  cd_Name :: string
  cd_Type :: string
  cd_JSONPath :: string

definition defaultColumns :: "column_definition list" where
  "defaultColumns = [\<lparr> cd_Name = ''Age'', cd_Type = ''date'', cd_JSONPath = ''.metadata.creationTimestamp'' \<rparr>]"

text \<open>\<open>'k\<close> is the client's configuration, \<open>'s\<close> the client set, \<open>'v\<close> a CRD as it is stored, \<open>'r\<close> the internal one, \<open>'i\<close> an
  internal column.\<close>

record ('e, 'k, 's, 'v, 'r, 'i) crd_lib =
  crd_InClusterConfig :: "'e + 'k"
  crd_NewForConfig :: "'k \<Rightarrow> 'e + 's"
  crd_Get :: "'s \<Rightarrow> string \<Rightarrow> 'e + 'v"
  crd_Convert :: "'v \<Rightarrow> 'e + 'r"
  crd_GetColumnsForVersion :: "'r \<Rightarrow> string \<Rightarrow> 'e + 'i list"
  crd_ConvertColumn :: "'i \<Rightarrow> 'e + column_definition"

fun convertColumnsToColumnsV1 :: "('i \<Rightarrow> 'e + column_definition) \<Rightarrow> 'i list \<Rightarrow> 'e + column_definition list" where
  "convertColumnsToColumnsV1 convert [] = Inr []"
| "convertColumnsToColumnsV1 convert (column # columns) =
     andThen (convert column) (\<lambda>columnv1.
       andThen (convertColumnsToColumnsV1 convert columns) (\<lambda>columnsv1. Inr (columnv1 # columnsv1)))"

text \<open>The columns that the resource defines, with every early return as an error.\<close>

definition defined_columns ::
    "('e, 'k, 's, 'v, 'r, 'i) crd_lib \<Rightarrow> string \<Rightarrow> string \<Rightarrow> 'e + 'i list" where
  "defined_columns lib name version =
     andThen (crd_InClusterConfig lib) (\<lambda>config.
       andThen (crd_NewForConfig lib config) (\<lambda>theClientSet.
         andThen (crd_Get lib theClientSet name) (\<lambda>crdv1.
           andThen (crd_Convert lib crdv1) (\<lambda>crd. crd_GetColumnsForVersion lib crd version))))"

definition GetCustomResourceColumnDefinitions ::
    "('e, 'k, 's, 'v, 'r, 'i) crd_lib \<Rightarrow> string \<Rightarrow> string \<Rightarrow> column_definition list" where
  "GetCustomResourceColumnDefinitions lib name version =
     (case defined_columns lib name version of
        Inl err \<Rightarrow> defaultColumns
      | Inr columns \<Rightarrow>
          if length columns < 1 then defaultColumns
          else (case convertColumnsToColumnsV1 (crd_ConvertColumn lib) columns of
                  Inl err \<Rightarrow> defaultColumns
                | Inr columnsv1 \<Rightarrow> columnsv1))"

text \<open>The conversion is all or nothing and keeps the order.\<close>

lemma convertColumns_Inr:
  "convertColumnsToColumnsV1 convert columns = Inr cs \<longleftrightarrow> list_all2 (\<lambda>c d. convert c = Inr d) columns cs"
proof (induction columns arbitrary: cs)
  case (Cons c columns)
  show ?case
  proof
    assume "convertColumnsToColumnsV1 convert (c # columns) = Inr cs"
    with Cons.IH show "list_all2 (\<lambda>c d. convert c = Inr d) (c # columns) cs" by (auto simp: andThen_Inr_iff)
  next
    assume "list_all2 (\<lambda>c d. convert c = Inr d) (c # columns) cs"
    then obtain d ds where "cs = d # ds" "convert c = Inr d" "list_all2 (\<lambda>c d. convert c = Inr d) columns ds"
      by (auto simp: list_all2_Cons1)
    with Cons.IH [of ds] show "convertColumnsToColumnsV1 convert (c # columns) = Inr cs" by simp
  qed
qed auto

text \<open>A table always has columns: the ones that the resource defines, each converted, or the age.\<close>

lemma columns_never_empty: "GetCustomResourceColumnDefinitions lib name version \<noteq> []"
  by (auto simp: GetCustomResourceColumnDefinitions_def defaultColumns_def convertColumns_Inr
      split: sum.splits if_splits)

lemma columns_defined_or_default:
  "GetCustomResourceColumnDefinitions lib name version = defaultColumns \<or>
   (\<exists>columns. defined_columns lib name version = Inr columns \<and>
      list_all2 (\<lambda>c d. crd_ConvertColumn lib c = Inr d) columns (GetCustomResourceColumnDefinitions lib name version))"
  by (auto simp: GetCustomResourceColumnDefinitions_def simp flip: convertColumns_Inr split: sum.splits if_splits)

section \<open>The scheme\<close>

datatype api_group =
    ClusterV1alpha1 | ClusterV1beta1 | ConfigV1 | PolicyV1 | PlacementruleV1 | AppsV1 | AppsV1alpha1 | ChannelV1
  | SubscriptionV1 | ApplicationV1beta1

definition getSchemeBuilders :: "api_group list" where
  "getSchemeBuilders =
     [ConfigV1, PolicyV1, PlacementruleV1, AppsV1, AppsV1alpha1, ChannelV1, SubscriptionV1, ApplicationV1beta1]"

text \<open>The groups that \<open>AddToScheme\<close> registers: two are registered before the builders and once more after them.\<close>

definition scheme_order :: "api_group list" where
  "scheme_order = [ClusterV1alpha1, ClusterV1beta1] @ getSchemeBuilders @ [ClusterV1alpha1, ClusterV1beta1]"

fun register_groups :: "('m \<Rightarrow> api_group \<Rightarrow> 'm option) \<Rightarrow> api_group list \<Rightarrow> 'm \<Rightarrow> 'm option" where
  "register_groups install [] scheme = Some scheme"
| "register_groups install (g # gs) scheme = Option.bind (install scheme g) (register_groups install gs)"

definition scheme_AddToScheme :: "('m \<Rightarrow> api_group \<Rightarrow> 'm option) \<Rightarrow> 'm \<Rightarrow> 'm option" where
  "scheme_AddToScheme install scheme = register_groups install scheme_order scheme"

text \<open>With a scheme that is the set of registered groups, success means that all of them are known.\<close>

lemma register_groups_all:
  "(\<And>s g t. install s g = Some t \<Longrightarrow> t = insert g s) \<Longrightarrow> register_groups install gs s = Some t \<Longrightarrow> t = set gs \<union> s"
proof (induction gs arbitrary: s)
  case (Cons g gs)
  from Cons.prems(2) obtain u where "install s g = Some u" "register_groups install gs u = Some t"
    by (auto simp: bind_Some_iff)
  with Cons.IH [OF Cons.prems(1)] Cons.prems(1) show ?case by auto
qed simp

lemma scheme_knows_all:
  assumes "\<And>s g t. install s g = Some t \<Longrightarrow> t = insert g s" and "scheme_AddToScheme install {} = Some t"
  shows "t = UNIV"
proof -
  have "g \<in> set scheme_order" for g by (cases g) (simp_all add: scheme_order_def getSchemeBuilders_def)
  then have "set scheme_order = UNIV" by blast
  with register_groups_all [OF assms(1) assms(2) [unfolded scheme_AddToScheme_def]] show ?thesis by simp
qed

section \<open>Running the server\<close>

text \<open>\<open>Start\<close> of \<open>nonK8sApiServer\<close>: what \<open>ListenAndServeTLS\<close> returned (\<^const>\<open>None\<close> while it serves), and whether the goroutine
  that waits for the context has shut the server down. The call waits, or returns an error or nil.\<close>

datatype serve_error = ErrServerClosed | ErrListen string

datatype start_state = StartWaits | StartReturns "serve_error option"

definition api_server_Start :: "serve_error option \<Rightarrow> bool \<Rightarrow> start_state" where
  "api_server_Start served idleConnsClosed =
     (case served of
        None \<Rightarrow> StartWaits
      | Some err \<Rightarrow>
          if err = ErrServerClosed then StartReturns (Some err)
          else if idleConnsClosed then StartReturns None else StartWaits)"

text \<open>A server that cannot listen is never reported, and one that was shut down as intended always is.\<close>

lemma failed_listen_is_silent:
  "api_server_Start (Some (ErrListen m)) closed \<noteq> StartReturns (Some e)"
  "api_server_Start (Some (ErrListen m)) False = StartWaits"
  "api_server_Start (Some ErrServerClosed) closed = StartReturns (Some ErrServerClosed)"
  by (simp_all add: api_server_Start_def)

end
