(* ===== verification/Spec2Isabelle.thy ===== *)
theory Spec2Isabelle
  imports Pipeline_Properties Delivery_Properties Database_Properties Transport_Properties Spec_Properties Reconcile_Properties
    Status_Properties Setup_Properties Transport_Lifecycle Worker_Pool Statistics_Log Label_Watcher_Loop Api_Columns
begin

text \<open>
  A model of the hub-of-hubs manager (Go, under \<open>src/\<close>) and the theorems about it.

  \<^bold>\<open>The program.\<close> A hub of hubs manages leaf hubs, which manage clusters. One process moves data in four directions around a
  PostgreSQL database:

  \<^item> \<open>specsyncer/spec2db\<close>: reconcilers copy the custom resources of the hub of hubs into the \<open>spec\<close> tables;
  \<^item> \<open>specsyncer/db2transport\<close>: periodic syncers send the \<open>spec\<close> tables to the leaf hubs, over Kafka or a sync service;
  \<^item> \<open>statussyncer/transport2db\<close>: bundles from the leaf hubs are received, conflated (a newer bundle of a type replaces an older
    one that waits), dispatched to database workers and written to the \<open>status\<close> tables; what was processed is committed to the
    broker;
  \<^item> \<open>statussyncer/db2status\<close>: periodic syncers aggregate the \<open>status\<close> tables into the status of the resources on the hub.

  Beside them runs a REST API (\<open>nonk8sapi\<close>) that lists managed clusters and patches their labels under a policy agent's
  authorization. \<open>cmd/manager/main.go\<close> starts all of it.

  \<^bold>\<open>How Go is written in HOL.\<close> See \<open>Hoh_Prelude\<close>: a panic is \<^const>\<open>None\<close>, an error is the left side of a sum, integers that can
  overflow are wrapped, the iteration order of a map is an argument, memory shared by pointer is a list of cells. Goroutines
  are step relations or lists of actions in any order, with one step for each operation that is atomic in the code (under a
  mutex, or on a channel). A definition has the name of the Go function it translates, with a prefix where several types have
  a method of that name.

  \<^bold>\<open>Theories.\<close>

  Status path, \<open>statussyncer/transport2db\<close>:
  \<^item> \<open>Bundle_Version\<close>, \<open>Bundles\<close>, \<open>Delta_Bundle\<close>: \<open>bundle/status\<close> and \<open>bundle\<close>, with the merge of delta bundles;
  \<^item> \<open>Transport_Metadata\<close>, \<open>Bundle_Info\<close>, \<open>Ready_Queue\<close>, \<open>Conflation_Unit\<close>, \<open>Conflation_Manager\<close>: \<open>conflator\<close>. The locales \<open>bundle_info\<close>
    and \<open>fifo\<close> are the interfaces of its parts. \<open>Conflation_Invariant\<close> holds the invariant of a unit and that every operation
    keeps it;
  \<^item> \<open>Status_Pipeline\<close>: the interleaving of consumer, dispatcher and workers, with its invariant; \<open>Status_Delivery\<close>: the invariant that
    ties waiting bundles to the transport metadata the committer reads; \<open>Worker_Pool\<close>: the pool's channels, their
    capacities and its shutdown; \<open>Statistics\<close>, \<open>Statistics_Log\<close>: the counters and the log line;
  \<^item> \<open>Compressor\<close>, \<open>Consumers\<close>, \<open>Committers\<close>, \<open>Transport_Lifecycle\<close>: the two transports; the locale \<open>restartable\<close> is what the process
    relies on when it starts and stops them;
  \<^item> \<open>Db_Consts\<close>, \<open>Batch_Builder\<close>, \<open>Table_Builders\<close>, \<open>Postgres\<close>: \<open>db\<close>, the statements as text with their arguments; the locale
    \<open>table_builder\<close> is shared by the four builders;
  \<^item> \<open>Policies_Db_Syncer\<close>, \<open>Resource_Db_Syncers\<close>, \<open>Db_Syncers\<close>: \<open>syncer\<close>, the handlers and their registration; \<open>Compliance_Table\<close> and
    \<open>Compliance_Sync\<close> give the statements their meaning on a table.

  Spec path:
  \<^item> \<open>K8s_Client\<close>, \<open>Spec_Objects\<close>, \<open>Spec_Reconciler\<close>, \<open>Reconciler_Invariant\<close>: \<open>spec2db\<close>;
  \<^item> \<open>Interval_Policy\<close>, \<open>Spec_Transport\<close>, \<open>Spec_Sync\<close>, \<open>Spec_Syncers\<close>, \<open>Spec_Delivery\<close>: \<open>db2transport\<close>; the locales \<open>interval_policy\<close> and
    \<open>spec_transport\<close> are its interfaces;
  \<^item> \<open>Label_Table\<close>, \<open>Label_Watcher\<close>, \<open>Label_Watcher_Loop\<close>: the watcher that trims the table of label changes.

  Status of resources: \<open>Status_Aggregation\<close>, \<open>Placement_Aggregation\<close>, \<open>Subscription_Aggregation\<close> translate \<open>db2status/dbsyncer\<close>,
  \<open>Status_Effects\<close> shows what the syncers compute, \<open>Placement_Binding\<close> is the controller of \<open>db2status\<close> for bindings.

  REST API: \<open>Rest_Lib\<close>, \<open>Authentication\<close>, \<open>Authorization\<close>, \<open>Authorization_Filter\<close> (the meaning of the SQL condition), \<open>Cluster_List\<close>,
  \<open>Label_Patch\<close>, \<open>Rest_Api\<close>, \<open>Api_Columns\<close> (table columns, running the server; also \<open>scheme/scheme.go\<close>).

  Process: \<open>Process_Setup\<close>.

  The theories named \<open>Sample_\<close> hold the small inputs of the witnesses, and the ones that end in \<open>_Properties\<close> the properties.

  \<^bold>\<open>What is shown.\<close>
  \<^item> \<open>Pipeline_Properties\<close> (C1 to C6): in every reachable state at most one job of a leaf hub runs, nothing panics and every walk
    over dependencies ends, no bundle that is ready is forgotten, a dispatched bundle is the due one, processed versions only
    grow; and the one case in which a unit is lost.
  \<^item> \<open>Delivery_Properties\<close> (C21): a bundle of a complete-state type that was handed over is processed, or superseded by a newer
    one, or its message is not passed by the offset that is committed; a run shows that a delta pack in process is passed.
  \<^item> \<open>Worker_Pool\<close> (C27): neither the workers nor the dispatcher wait for a channel of the pool, and nothing panics before the shutdown.
  \<^item> \<open>Database_Properties\<close> (C7 to C11): handling a bundle makes the rows of the leaf hub what the bundle reports; a conflated delta
    has the effect of its parts; statements and arguments match, except when a statement is split.
  \<^item> \<open>Transport_Properties\<close> (C12 to C16, C18): committed offsets are safe and only grow, payloads are restored, the registrations
    fit together once all are made, and a bundle that comes earlier can panic.
  \<^item> \<open>Setup_Properties\<close> (C17, C32): what the process starts it stops, in reverse order; a placement binding is recorded once.
  \<^item> \<open>Rest_Properties\<close> (C19, C20, C22 to C26): the filter selects what the policy allows, listings are restricted by it, a patch is
    applied exactly once; and where the authorization of a patch goes wrong. Lemmas show what malformed answers of the policy
    agent and the configured certificates lead to.
  \<^item> \<open>Spec_Properties\<close> (C28 to C31, C33): the interval of a syncer, that a syncer which has nothing to do has delivered the table,
    the messages of a labels sync, what a trimming pass changes, that messages do not collide.
  \<^item> \<open>Reconcile_Properties\<close> (C34 to C36): rows and finalizers under any history of failing calls, convergence of a reconcile, and
    the change that is never stored.
  \<^item> \<open>Status_Properties\<close> (C37 to C40): the aggregated status of policies, reports, placements and decisions.

  The component theories hold further results of their own: \<open>stop_while_busy_panics\<close> (a pool that is stopped while a worker has a
  job), \<open>transports_restartable\<close>, \<open>measurement_is_summary\<close> (a measurement is count,
  sum and maximum of its durations), \<open>trimming_interval\<close> and \<open>trimming_converges\<close> (the watcher's loop), \<open>columns_never_empty\<close>.

  \<^bold>\<open>Libraries.\<close> Code outside \<open>src/\<close> is an argument: the database (\<open>pg_lib\<close>, \<open>label_lib\<close>, \<open>spec_lib\<close>), the API server (\<open>k8s_client\<close>), the
  broker clients, JSON and gzip (\<open>codec\<close>, \<open>gzip_lib\<close>), the backoff, the HTTP clients (\<open>rest_lib\<close>). What a theorem needs of one is a
  named hypothesis on it: that a statement of the form the code sends has its SQL meaning on the table (\<open>pg_compliance\<close>,
  \<open>table_laws\<close>, \<open>entries_law\<close>, \<open>status_law\<close>), that a get reads the current object and a failed call may or may not have been applied
  (\<open>get_law\<close>, \<open>patch_law\<close> and the laws of \<open>Reconciler_Invariant\<close>), that decompressing undoes compressing, that the backoff doubles
  (\<open>doubling\<close>), that an accepted message is delivered (\<open>kafka_reliable\<close>, \<open>sync_reliable\<close>). Each is met by the instance that the
  property's witness uses.

  \<^bold>\<open>Bounds and fuel.\<close> The walk over the dependencies of a bundle in \<open>Conflation_Unit\<close> is a \<open>partial_function\<close> into option, since the
  code bounds it by nothing; C2 shows that it returns, because the registrations form no cycle. The retries of a label
  patch count down from the constant in the code. Other loops are recursions over the data they visit; loops that run for
  the life of the process are step relations, or recursions over the list of the events they received.

  \<^bold>\<open>Not modelled.\<close> Log output other than the statistics line; the generated deep copies and the boilerplate of the
  configuration API; opening database connections, broker clients and the listening socket; encoding of HTTP response
  bodies; the interface declarations without code (\<open>db.go\<close>, \<open>batch_builder.go\<close>, \<open>transport.go\<close>), which the records of library
  functions and the locales replace; test code.
\<close>

end
